(* ===== verification/GDS_Prelude.thy ===== *)
theory GDS_Prelude
  imports Main "HOL-Library.AList" "HOL-Library.List_Lexorder" "HOL-Library.Char_ord"
    "HOL-Library.Product_Lexorder"
begin

text \<open>
  Shared vocabulary of the development: Python values and dictionaries, the string
  operations of the Python standard library that the sources call, exceptions, the
  state-and-exception monad in which the effectful operations are written, and the
  generic lemmas on ordered selection and association lists.

  Strings are lists of characters; the texts the service handles (URIs, PEM blocks,
  tokens, hexadecimal digests) are ASCII, and case conversion is modelled on ASCII
  letters. Points in time are integers counting microseconds since the epoch, which is
  the resolution of Python's \<open>datetime\<close>.
\<close>

named_theorems evolves_rules
  \<open>rules that push a state relation through the combinators and the operations\<close>

section \<open>Python values\<close>

text \<open>
  The values that occur in JSON documents, in database rows read as dictionaries and in
  audit details. A dictionary is an association list in insertion order.
\<close>

datatype pyval =
    PNone
  | PBool bool
  | PInt int
  | PStr string
  | PBytes string
  | PTime int
  | PDate int
  | PList "pyval list"
  | PDict "(string \<times> pyval) list"

type_synonym pydict = "(string \<times> pyval) list"

lemma size_pair_list_mem [termination_simp]:
  "(k, v) \<in> set kvs \<Longrightarrow> size v < Suc (size_list (size_prod (\<lambda>_. 0) size) kvs)"
  by (induction kvs) auto

lemma size_pval_list_mem [termination_simp]:
  "v \<in> set vs \<Longrightarrow> size v < Suc (size_list size vs)"
  by (induction vs) auto

fun truthy :: "pyval \<Rightarrow> bool" where
  "truthy PNone = False"
| "truthy (PBool b) = b"
| "truthy (PInt i) = (i \<noteq> 0)"
| "truthy (PStr s) = (s \<noteq> [])"
| "truthy (PBytes s) = (s \<noteq> [])"
| "truthy (PTime _) = True"
| "truthy (PDate _) = True"
| "truthy (PList vs) = (vs \<noteq> [])"
| "truthy (PDict kvs) = (kvs \<noteq> [])"

text \<open>\<open>a or b\<close> on values, and on strings, where the empty string is false.\<close>

definition py_or :: "pyval \<Rightarrow> pyval \<Rightarrow> pyval" where
  "py_or a b = (if truthy a then a else b)"

definition str_or :: "string \<Rightarrow> string \<Rightarrow> string" where
  "str_or a b = (if a \<noteq> [] then a else b)"

text \<open>\<open>d.get(k)\<close>, \<open>d.get(k, default)\<close>, \<open>k in d\<close> and \<open>d[k] = v\<close>, which keeps the
  position of an existing key and appends a new one.\<close>

definition dget :: "pydict \<Rightarrow> string \<Rightarrow> pyval" where
  "dget d k = (case map_of d k of None \<Rightarrow> PNone | Some v \<Rightarrow> v)"

definition dget_or :: "pydict \<Rightarrow> string \<Rightarrow> pyval \<Rightarrow> pyval" where
  "dget_or d k dflt = (case map_of d k of None \<Rightarrow> dflt | Some v \<Rightarrow> v)"

definition dmem :: "string \<Rightarrow> pydict \<Rightarrow> bool" where
  "dmem k d \<longleftrightarrow> map_of d k \<noteq> None"

definition dput :: "string \<Rightarrow> pyval \<Rightarrow> pydict \<Rightarrow> pydict" where
  "dput k v d = AList.update k v d"

definition ddel :: "string \<Rightarrow> pydict \<Rightarrow> pydict" where
  "ddel k d = filter (\<lambda>(k', _). k' \<noteq> k) d"

definition dmerge :: "pydict \<Rightarrow> pydict \<Rightarrow> pydict" where
  "dmerge d e = fold (\<lambda>(k, v) acc. dput k v acc) e d"

definition is_dict :: "pyval \<Rightarrow> bool" where
  "is_dict v = (case v of PDict _ \<Rightarrow> True | _ \<Rightarrow> False)"

definition is_str :: "pyval \<Rightarrow> bool" where
  "is_str v = (case v of PStr _ \<Rightarrow> True | _ \<Rightarrow> False)"

definition as_dict :: "pyval \<Rightarrow> pydict" where
  \<comment> \<open>\<open>value if isinstance(value, dict) else {}\<close>\<close>
  "as_dict v = (case v of PDict d \<Rightarrow> d | _ \<Rightarrow> [])"

definition opt_str :: "string option \<Rightarrow> pyval" where
  "opt_str x = (case x of None \<Rightarrow> PNone | Some s \<Rightarrow> PStr s)"

definition opt_int :: "int option \<Rightarrow> pyval" where
  "opt_int x = (case x of None \<Rightarrow> PNone | Some i \<Rightarrow> PInt i)"

definition opt_time :: "int option \<Rightarrow> pyval" where
  "opt_time x = (case x of None \<Rightarrow> PNone | Some t \<Rightarrow> PTime t)"

lemma dget_dput: "dget (dput k v d) k' = (if k' = k then v else dget d k')"
  by (simp add: dget_def dput_def update_conv)

lemma dmem_dput: "dmem k' (dput k v d) \<longleftrightarrow> k' = k \<or> dmem k' d"
  by (simp add: dmem_def dput_def update_conv)

lemma map_of_ddel: "map_of (ddel k d) k' = (if k' = k then None else map_of d k')"
  by (induction d) (auto simp: ddel_def)

lemma distinct_dput: "distinct (map fst d) \<Longrightarrow> distinct (map fst (dput k v d))"
  by (simp add: dput_def distinct_update)

section \<open>Strings\<close>

definition is_space :: "char \<Rightarrow> bool" where
  "is_space c \<longleftrightarrow> c \<in> {CHR 0x09, CHR 0x0A, CHR 0x0B, CHR 0x0C, CHR 0x0D,
     CHR 0x1C, CHR 0x1D, CHR 0x1E, CHR 0x1F, CHR 0x20, CHR 0x85, CHR 0xA0}"

definition lstrip :: "string \<Rightarrow> string" where
  "lstrip s = dropWhile is_space s"

definition rstrip :: "string \<Rightarrow> string" where
  "rstrip s = rev (dropWhile is_space (rev s))"

definition strip :: "string \<Rightarrow> string" where
  "strip s = rstrip (lstrip s)"

definition lower_char :: "char \<Rightarrow> char" where
  "lower_char c = (let n = (of_char c :: nat) in
     if 65 \<le> n \<and> n \<le> 90 then char_of (n + 32) else c)"

definition upper_char :: "char \<Rightarrow> char" where
  "upper_char c = (let n = (of_char c :: nat) in
     if 97 \<le> n \<and> n \<le> 122 then char_of (n - 32) else c)"

definition lower :: "string \<Rightarrow> string" where
  "lower s = map lower_char s"

definition upper :: "string \<Rightarrow> string" where
  "upper s = map upper_char s"

definition replace_char :: "char \<Rightarrow> char \<Rightarrow> string \<Rightarrow> string" where
  "replace_char a b s = map (\<lambda>c. if c = a then b else c) s"

text \<open>\<open>s.split(c)\<close> for a one-character separator: never empty.\<close>

fun split_on :: "char \<Rightarrow> string \<Rightarrow> string list" where
  "split_on c [] = [[]]"
| "split_on c (x # xs) =
     (if x = c then [] # split_on c xs
      else case split_on c xs of [] \<Rightarrow> [[x]] | w # ws \<Rightarrow> (x # w) # ws)"

fun str_join :: "string \<Rightarrow> string list \<Rightarrow> string" where
  "str_join sep [] = []"
| "str_join sep [w] = w"
| "str_join sep (w # ws) = w @ sep @ str_join sep ws"

definition starts_with :: "string \<Rightarrow> string \<Rightarrow> bool" where
  "starts_with s p \<longleftrightarrow> take (length p) s = p"

text \<open>\<open>p in s\<close> for strings.\<close>

fun str_contains :: "string \<Rightarrow> string \<Rightarrow> bool" where
  "str_contains p [] = (p = [])"
| "str_contains p (x # xs) = (take (length p) (x # xs) = p \<or> str_contains p xs)"

definition is_digit :: "char \<Rightarrow> bool" where
  "is_digit c \<longleftrightarrow> CHR ''0'' \<le> c \<and> c \<le> CHR ''9''"

definition digit_char :: "nat \<Rightarrow> char" where
  "digit_char d = char_of (48 + d)"

fun nat_str :: "nat \<Rightarrow> string" where
  "nat_str n = (if n < 10 then [digit_char n] else nat_str (n div 10) @ [digit_char (n mod 10)])"

declare nat_str.simps [simp del]

definition int_str :: "int \<Rightarrow> string" where
  "int_str i = (if i < 0 then CHR ''-'' # nat_str (nat (- i)) else nat_str (nat i))"

text \<open>Decimal value of a digit string, most significant digit first.\<close>

definition digits_val :: "string \<Rightarrow> int" where
  "digits_val s = foldl (\<lambda>acc c. acc * 10 + int (of_char c) - 48) 0 s"

lemma is_space_strip_hd: "strip s = x # xs \<Longrightarrow> \<not> is_space x"
proof -
  assume h: "strip s = x # xs"
  have *: "dropWhile is_space (rev (lstrip s)) = rev (x # xs)"
    using h by (simp add: strip_def rstrip_def rev_swap)
  obtain pre where "rev (lstrip s) = pre @ rev (x # xs)"
    by (metis * takeWhile_dropWhile_id)
  then have "lstrip s = x # xs @ rev pre"
    by (metis append_Cons rev_append rev_rev_ident)
  then show ?thesis
    unfolding lstrip_def by (metis hd_dropWhile list.distinct(1) list.sel(1))
qed

lemma strip_subset: "set (strip s) \<subseteq> set s"
  unfolding strip_def rstrip_def lstrip_def by (auto dest!: set_dropWhileD)

lemma split_on_nonempty [simp]: "split_on c s \<noteq> []"
  by (cases s) (auto split: list.splits)

lemma str_join_Cons: "ws \<noteq> [] \<Longrightarrow> str_join sep (w # ws) = w @ sep @ str_join sep ws"
  by (cases ws) auto

lemma join_split_on: "str_join [c] (split_on c s) = s"
proof (induction s)
  case (Cons x xs)
  show ?case
  proof (cases "split_on c xs")
    case (Cons w ws)
    with Cons.IH show ?thesis by (cases ws) auto
  qed (use Cons.IH in auto)
qed simp

lemma split_on_no_sep: "w \<in> set (split_on c s) \<Longrightarrow> c \<notin> set w"
proof (induction s arbitrary: w)
  case (Cons x xs)
  then show ?case
    by (cases "split_on c xs") (auto split: if_splits)
qed simp

lemma nat_str_nonempty [simp]: "nat_str n \<noteq> []"
  by (subst nat_str.simps) simp

lemma is_digit_digit_char: "d < 10 \<Longrightarrow> is_digit (digit_char d)"
proof -
  assume "d < 10"
  then have "d = 0 \<or> d = 1 \<or> d = 2 \<or> d = 3 \<or> d = 4 \<or> d = 5 \<or> d = 6 \<or> d = 7 \<or> d = 8 \<or> d = 9"
    by auto
  then show ?thesis by (auto simp: is_digit_def digit_char_def less_eq_char_def)
qed

lemma nat_str_digits: "list_all is_digit (nat_str n)"
proof (induction n rule: nat_str.induct)
  case (1 n)
  show ?case
  proof (cases "n < 10")
    case True
    then show ?thesis by (subst nat_str.simps) (simp add: is_digit_digit_char)
  next
    case False
    with "1.IH" show ?thesis by (subst nat_str.simps) (simp add: is_digit_digit_char)
  qed
qed

section \<open>Ordered selection, as in \<open>ORDER BY ... DESC LIMIT n\<close> and \<open>sort(reverse=True)\<close>\<close>

definition order_asc :: "('a \<Rightarrow> 'k::linorder) \<Rightarrow> 'a list \<Rightarrow> 'a list" where
  "order_asc key xs = sort_key key xs"

definition order_desc :: "('a \<Rightarrow> 'k::linorder) \<Rightarrow> 'a list \<Rightarrow> 'a list" where
  \<comment> \<open>stable: rows with equal keys keep their order\<close>
  "order_desc key xs = rev (sort_key key (rev xs))"

definition fetch_one :: "'a list \<Rightarrow> 'a option" where
  "fetch_one rows = (case rows of [] \<Rightarrow> None | r # _ \<Rightarrow> Some r)"

text \<open>Ordering of a nullable column: a null sorts after every value (so first under
  \<open>DESC\<close>).\<close>

definition null_key :: "int option \<Rightarrow> int \<times> int" where
  "null_key x = (case x of None \<Rightarrow> (1, 0) | Some v \<Rightarrow> (0, v))"

lemma set_order_asc [simp]: "set (order_asc key xs) = set xs"
  by (simp add: order_asc_def)

lemma set_order_desc [simp]: "set (order_desc key xs) = set xs"
  by (simp add: order_desc_def)

lemma order_desc_Nil [simp]: "order_desc key [] = []"
  by (simp add: order_desc_def)

lemma fetch_one_simps [simp]: "fetch_one [] = None" "fetch_one (x # xs) = Some x"
  by (simp_all add: fetch_one_def)

lemma fetch_one_None [simp]: "fetch_one xs = None \<longleftrightarrow> xs = []"
  by (cases xs) (auto simp: fetch_one_def)

lemma fetch_one_mem: "fetch_one xs = Some x \<Longrightarrow> x \<in> set xs"
  by (cases xs) (auto simp: fetch_one_def)

lemma order_desc_eq_Nil [simp]: "order_desc key xs = [] \<longleftrightarrow> xs = []"
  by (metis set_empty set_order_desc)

lemma order_desc_hd_max:
  assumes "fetch_one (order_desc key xs) = Some x" and "y \<in> set xs"
  shows "key y \<le> key x"
proof -
  obtain ys where ys: "order_desc key xs = x # ys"
    using assms(1) by (cases "order_desc key xs") (auto simp: fetch_one_def)
  then have eq: "sort_key key (rev xs) = rev ys @ [x]"
    by (simp add: order_desc_def rev_swap)
  have sorted: "sorted (map key (rev ys @ [x]))"
    using sorted_sort_key [of key "rev xs"] eq by simp
  have "set (rev ys @ [x]) = set xs"
    using eq by (metis set_rev set_sort)
  with assms(2) have "y \<in> set (rev ys @ [x])" by blast
  with sorted show ?thesis by (auto simp: sorted_append)
qed

lemma fetch_desc_mem: "fetch_one (order_desc key xs) = Some x \<Longrightarrow> x \<in> set xs"
  using fetch_one_mem by fastforce

text \<open>With distinct keys the row fetched is the one of greatest key.\<close>

lemma fetch_desc_unique:
  assumes "inj_on key (set xs)" and "x \<in> set xs" and "\<And>y. y \<in> set xs \<Longrightarrow> key y \<le> key x"
  shows "fetch_one (order_desc key xs) = Some x"
proof -
  obtain z where z: "fetch_one (order_desc key xs) = Some z"
    using assms(2) by (cases "fetch_one (order_desc key xs)") auto
  from order_desc_hd_max [OF z assms(2)] assms(3) [OF fetch_desc_mem [OF z]]
  have "key z = key x" by simp
  with assms(1,2) fetch_desc_mem [OF z] have "z = x" by (auto simp: inj_on_def)
  with z show ?thesis by simp
qed

section \<open>Exceptions\<close>

datatype exn =
    ValueError string
  | TypeError string
  | KeyError string
  | AttributeError string
  | RuntimeError string
  | JSONDecodeError
  | OSError string
  | OperationalError
  | UniqueViolation string
  | ForeignKeyViolation string
  | VaultSealedError
  | HTTPStatusError int
  | TransportError string
  | ParseError string
  | DataError string
  | LifecycleError string string int pydict
  | ArtifactVerificationError string string

text \<open>\<open>exc.__class__.__name__\<close>\<close>

fun exc_class :: "exn \<Rightarrow> string" where
  "exc_class (ValueError _) = ''ValueError''"
| "exc_class (TypeError _) = ''TypeError''"
| "exc_class (KeyError _) = ''KeyError''"
| "exc_class (AttributeError _) = ''AttributeError''"
| "exc_class (RuntimeError _) = ''RuntimeError''"
| "exc_class JSONDecodeError = ''JSONDecodeError''"
| "exc_class (OSError _) = ''OSError''"
| "exc_class OperationalError = ''OperationalError''"
| "exc_class (UniqueViolation _) = ''UniqueViolation''"
| "exc_class (ForeignKeyViolation _) = ''ForeignKeyViolation''"
| "exc_class VaultSealedError = ''VaultSealedError''"
| "exc_class (HTTPStatusError _) = ''HTTPStatusError''"
| "exc_class (TransportError _) = ''TransportError''"
| "exc_class (ParseError _) = ''ParseError''"
| "exc_class (DataError _) = ''DataError''"
| "exc_class (LifecycleError _ _ _ _) = ''LifecycleError''"
| "exc_class (ArtifactVerificationError _ _) = ''ArtifactVerificationError''"

section \<open>State and exceptions\<close>

text \<open>
  An effectful operation maps the state to its outcome (\<open>Inl\<close> of an exception or
  \<open>Inr\<close> of the returned value) and the state it leaves; the state is kept when an
  exception is raised, as Python keeps the mutations made so far.
\<close>

type_synonym ('s, 'a) eff = "'s \<Rightarrow> (exn + 'a) \<times> 's"

definition ret :: "'a \<Rightarrow> ('s, 'a) eff" where
  "ret x s = (Inr x, s)"

definition raise :: "exn \<Rightarrow> ('s, 'a) eff" where
  "raise e s = (Inl e, s)"

definition bindE :: "('s, 'a) eff \<Rightarrow> ('a \<Rightarrow> ('s, 'b) eff) \<Rightarrow> ('s, 'b) eff" where
  "bindE m f s = (case m s of (Inl e, s') \<Rightarrow> (Inl e, s') | (Inr x, s') \<Rightarrow> f x s')"

text \<open>\<open>try: m except exc: h(exc)\<close>; the handler decides which exceptions to pass on.\<close>

definition catchE :: "('s, 'a) eff \<Rightarrow> (exn \<Rightarrow> ('s, 'a) eff) \<Rightarrow> ('s, 'a) eff" where
  "catchE m h s = (case m s of (Inl e, s') \<Rightarrow> h e s' | (Inr x, s') \<Rightarrow> (Inr x, s'))"

text \<open>\<open>try: m except: h else: k(x)\<close>: the exceptions of \<open>k\<close> are not handled by \<open>h\<close>.\<close>

definition tryE :: "('s, 'a) eff \<Rightarrow> (exn \<Rightarrow> ('s, 'b) eff) \<Rightarrow> ('a \<Rightarrow> ('s, 'b) eff) \<Rightarrow> ('s, 'b) eff" where
  "tryE m h k s = (case m s of (Inl e, s') \<Rightarrow> h e s' | (Inr x, s') \<Rightarrow> k x s')"

definition getE :: "('s \<Rightarrow> 'a) \<Rightarrow> ('s, 'a) eff" where
  "getE f s = (Inr (f s), s)"

definition updE :: "('s \<Rightarrow> 's) \<Rightarrow> ('s, unit) eff" where
  "updE f s = (Inr (), f s)"

fun forE :: "'a list \<Rightarrow> ('a \<Rightarrow> ('s, unit) eff) \<Rightarrow> ('s, unit) eff" where
  "forE [] f = ret ()"
| "forE (x # xs) f = bindE (f x) (\<lambda>_. forE xs f)"

fun mapE :: "('a \<Rightarrow> ('s, 'b) eff) \<Rightarrow> 'a list \<Rightarrow> ('s, 'b list) eff" where
  "mapE f [] = ret []"
| "mapE f (x # xs) = bindE (f x) (\<lambda>y. bindE (mapE f xs) (\<lambda>ys. ret (y # ys)))"

lemmas eff_defs = ret_def raise_def bindE_def catchE_def tryE_def getE_def updE_def

lemma bindE_ret [simp]: "bindE (ret x) f = f x"
  by (simp add: eff_defs fun_eq_iff)

lemma bindE_raise [simp]: "bindE (raise e) f = raise e"
  by (simp add: eff_defs fun_eq_iff)

lemma bindE_assoc: "bindE (bindE m f) g = bindE m (\<lambda>x. bindE (f x) g)"
  by (auto simp: eff_defs fun_eq_iff split: prod.splits sum.splits)

lemma bindE_Inr:
  "bindE m f s = (Inr y, t) \<longleftrightarrow> (\<exists>x s'. m s = (Inr x, s') \<and> f x s' = (Inr y, t))"
  by (auto simp: bindE_def split: prod.splits sum.splits)

lemma forE_append: "forE (xs @ ys) f = bindE (forE xs f) (\<lambda>_. forE ys f)"
  by (induction xs) (auto simp: bindE_assoc)

section \<open>Relations between the states before and after\<close>

text \<open>
  A property of what operations may do to the state (ids never reused, a revoked
  certificate stays revoked, the audit log only grows) is a reflexive and transitive
  relation that every operation respects. The rules are proved once for any such
  relation and collected in \<open>evolves_rules\<close>.
\<close>

definition evolves :: "('s \<Rightarrow> 's \<Rightarrow> bool) \<Rightarrow> ('s, 'a) eff \<Rightarrow> bool" where
  "evolves R m \<longleftrightarrow> (\<forall>s. R s (snd (m s)))"

locale evolution =
  fixes R :: "'s \<Rightarrow> 's \<Rightarrow> bool"
  assumes evo_refl: "R s s"
    and evo_trans: "R s t \<Longrightarrow> R t u \<Longrightarrow> R s u"
begin

lemma ret_evolves: "evolves R (ret x)"
  by (simp add: evolves_def ret_def evo_refl)

lemma raise_evolves: "evolves R (raise e)"
  by (simp add: evolves_def raise_def evo_refl)

lemma getE_evolves: "evolves R (getE f)"
  by (simp add: evolves_def getE_def evo_refl)

lemma bindE_evolves:
  "evolves R m \<Longrightarrow> (\<And>x. evolves R (f x)) \<Longrightarrow> evolves R (bindE m f)"
  unfolding evolves_def bindE_def
  by (auto split: prod.splits sum.splits) (metis evo_trans snd_conv)+

lemma catchE_evolves:
  "evolves R m \<Longrightarrow> (\<And>e. evolves R (h e)) \<Longrightarrow> evolves R (catchE m h)"
  unfolding evolves_def catchE_def
  by (auto split: prod.splits sum.splits) (metis evo_trans snd_conv)+

lemma tryE_evolves:
  "evolves R m \<Longrightarrow> (\<And>e. evolves R (h e)) \<Longrightarrow> (\<And>x. evolves R (k x)) \<Longrightarrow> evolves R (tryE m h k)"
  unfolding evolves_def tryE_def
  by (auto split: prod.splits sum.splits) (metis evo_trans snd_conv)+

lemma if_evolves:
  "evolves R m \<Longrightarrow> evolves R n \<Longrightarrow> evolves R (if b then m else n)"
  by simp

lemma option_evolves:
  "evolves R m \<Longrightarrow> (\<And>x. evolves R (f x)) \<Longrightarrow> evolves R (case_option m f y)"
  by (cases y) auto

lemma list_evolves:
  "evolves R m \<Longrightarrow> (\<And>x xs. evolves R (f x xs)) \<Longrightarrow> evolves R (case_list m f ys)"
  by (cases ys) auto

lemma prod_evolves: "(\<And>a b. evolves R (f a b)) \<Longrightarrow> evolves R (case_prod f p)"
  by (cases p) auto

lemma sum_evolves:
  "(\<And>a. evolves R (f a)) \<Longrightarrow> (\<And>b. evolves R (g b)) \<Longrightarrow> evolves R (case_sum f g x)"
  by (cases x) auto

lemma forE_evolves: "(\<And>x. evolves R (f x)) \<Longrightarrow> evolves R (forE xs f)"
  by (induction xs) (auto intro: ret_evolves bindE_evolves)

lemma mapE_evolves: "(\<And>x. evolves R (f x)) \<Longrightarrow> evolves R (mapE f xs)"
  by (induction xs) (auto intro: ret_evolves bindE_evolves)

lemma Let_evolves: "evolves R (f x) \<Longrightarrow> evolves R (Let x f)"
  by simp

lemmas combinators = ret_evolves raise_evolves getE_evolves bindE_evolves
  catchE_evolves tryE_evolves if_evolves option_evolves list_evolves prod_evolves
  sum_evolves forE_evolves mapE_evolves Let_evolves

text \<open>A run of operations, whatever they return, is related too.\<close>

lemma run_evolves:
  "list_all (evolves R) ms \<Longrightarrow> R s (fold (\<lambda>m t. snd (m t)) ms s)"
proof (induction ms arbitrary: s)
  case Nil
  then show ?case by (simp add: evo_refl)
next
  case (Cons m ms)
  then have "R s (snd (m s))" and "R (snd (m s)) (fold (\<lambda>m t. snd (m t)) ms (snd (m s)))"
    by (auto simp: evolves_def)
  then show ?case by (simp add: evo_trans)
qed

end

text \<open>An invariant is the relation that says it is kept.\<close>

definition keeps :: "('s \<Rightarrow> bool) \<Rightarrow> 's \<Rightarrow> 's \<Rightarrow> bool" where
  "keeps I s t \<longleftrightarrow> (I s \<longrightarrow> I t)"

interpretation kept: evolution "keeps I" for I
  by unfold_locales (auto simp: keeps_def)

end
