(* ===== verification/Py_Text.thy ===== *)
theory Py_Text
  imports GDS_Prelude
begin

text \<open>
  The textual conversions of the Python standard library that the sources rely on:
  \<open>str\<close> and \<open>repr\<close> of values, \<open>int(text)\<close>, ISO 8601 timestamps of aware UTC
  datetimes, and \<open>json.dumps\<close> with ASCII output.
\<close>

section \<open>Timestamps\<close>

definition usec :: int where
  "usec = 1000000"

definition day_usec :: int where
  "day_usec = 86400 * 1000000"

text \<open>Civil date of a day number counted from 1970-01-01 (proleptic Gregorian).\<close>

definition civil_of_days :: "int \<Rightarrow> int \<times> int \<times> int" where
  "civil_of_days z0 = (let z = z0 + 719468; era = z div 146097; doe = z mod 146097;
     yoe = (doe - doe div 1460 + doe div 36524 - doe div 146096) div 365;
     doy = doe - (365 * yoe + yoe div 4 - yoe div 100);
     mp = (5 * doy + 2) div 153;
     d = doy - (153 * mp + 2) div 5 + 1;
     m = (if mp < 10 then mp + 3 else mp - 9);
     y = yoe + era * 400
     in (if m \<le> 2 then y + 1 else y, m, d))"

definition pad :: "nat \<Rightarrow> int \<Rightarrow> string" where
  "pad w n = (let s = int_str n in replicate (w - length s) (CHR ''0'') @ s)"

text \<open>\<open>datetime.isoformat(sep)\<close> of an aware datetime in UTC.\<close>

definition iso_utc_sep :: "char \<Rightarrow> int \<Rightarrow> string" where
  "iso_utc_sep sep t = (case civil_of_days (t div day_usec) of (y, m, d) \<Rightarrow>
     let r = t mod day_usec; s = r div usec; us = r mod usec
     in pad 4 y @ ''-'' @ pad 2 m @ ''-'' @ pad 2 d @ [sep] @
        pad 2 (s div 3600) @ '':'' @ pad 2 (s div 60 mod 60) @ '':'' @ pad 2 (s mod 60) @
        (if us = 0 then [] else ''.'' @ pad 6 us) @ ''+00:00'')"

definition isoformat :: "int \<Rightarrow> string" where
  "isoformat t = iso_utc_sep (CHR ''T'') t"

text \<open>\<open>s.replace("+00:00", "Z")\<close>: every occurrence, left to right.\<close>

fun replace_all :: "string \<Rightarrow> string \<Rightarrow> string \<Rightarrow> string" where
  "replace_all old new [] = []"
| "replace_all old new (c # s) =
     (if old \<noteq> [] \<and> take (length old) (c # s) = old
      then new @ replace_all old new (drop (length old - 1) s)
      else c # replace_all old new s)"

definition iso_z :: "int \<Rightarrow> string" where
  "iso_z t = replace_all ''+00:00'' ''Z'' (isoformat t)"

text \<open>Whole days between two times, as \<open>int(delta.total_seconds() // 86400)\<close>.\<close>

definition days_between :: "int \<Rightarrow> int \<Rightarrow> int" where
  "days_between later now = (later - now) div day_usec"

lemma days_between_nonneg_iff: "0 \<le> days_between later now \<longleftrightarrow> now \<le> later"
  by (simp add: days_between_def day_usec_def pos_imp_zdiv_nonneg_iff)

lemma days_between_mono: "a \<le> b \<Longrightarrow> days_between a now \<le> days_between b now"
  by (simp add: days_between_def day_usec_def zdiv_mono1)

lemma int_div_le_iff: "0 < q \<Longrightarrow> (m::int) div q \<le> n \<longleftrightarrow> m < (n + 1) * q"
proof
  assume "0 < q" and "m div q \<le> n"
  then have "m div q * q \<le> n * q" by (simp add: mult_right_mono)
  moreover have "m - m div q * q < q" using pos_mod_bound [OF \<open>0 < q\<close>, of m]
    by (simp add: minus_div_mult_eq_mod)
  ultimately show "m < (n + 1) * q" by (simp add: distrib_right)
next
  assume q: "0 < q" and m: "m < (n + 1) * q"
  have "m div q * q \<le> m" using pos_mod_sign [OF q, of m] div_mult_mod_eq [of m q] by linarith
  with m have "m div q * q < (n + 1) * q" by linarith
  with q have "m div q < n + 1" by (simp add: mult_less_cancel_right)
  then show "m div q \<le> n" by simp
qed

lemma days_between_le_iff: "days_between later now \<le> n \<longleftrightarrow> later - now < (n + 1) * day_usec"
  unfolding days_between_def by (rule int_div_le_iff) (simp add: day_usec_def)

section \<open>\<open>str\<close> and \<open>repr\<close>\<close>

definition hex_char :: "nat \<Rightarrow> char" where
  "hex_char d = (if d < 10 then char_of (48 + d) else char_of (87 + d))"

definition hex2 :: "nat \<Rightarrow> string" where
  "hex2 n = [hex_char (n div 16), hex_char (n mod 16)]"

definition repr_char :: "char \<Rightarrow> char \<Rightarrow> string" where
  "repr_char q c = (let n = (of_char c :: nat) in
     if c = q \<or> c = CHR 0x5C then [CHR 0x5C, c]
     else if c = CHR 0x0A then CHR 0x5C # ''n''
     else if c = CHR 0x0D then CHR 0x5C # ''r''
     else if c = CHR 0x09 then CHR 0x5C # ''t''
     else if n < 32 \<or> (127 \<le> n \<and> n \<le> 160) \<or> n = 173 then CHR 0x5C # CHR ''x'' # hex2 n
     else [c])"

definition repr_str :: "string \<Rightarrow> string" where
  "repr_str s = (let q = (if CHR 0x27 \<in> set s \<and> CHR 0x22 \<notin> set s then CHR 0x22 else CHR 0x27)
     in q # concat (map (repr_char q) s) @ [q])"

fun py_repr :: "pyval \<Rightarrow> string" where
  "py_repr PNone = ''None''"
| "py_repr (PBool b) = (if b then ''True'' else ''False'')"
| "py_repr (PInt i) = int_str i"
| "py_repr (PStr s) = repr_str s"
| "py_repr (PBytes s) = CHR ''b'' # repr_str s"
| "py_repr (PTime t) = iso_utc_sep (CHR '' '') t"
| "py_repr (PDate d) = take 10 (iso_utc_sep (CHR '' '') (d * day_usec))"
| "py_repr (PList vs) = ''['' @ str_join '', '' (map py_repr vs) @ '']''"
| "py_repr (PDict kvs) =
     ''{'' @ str_join '', '' (map (\<lambda>(k, v). repr_str k @ '': '' @ py_repr v) kvs) @ ''}''"

definition py_str :: "pyval \<Rightarrow> string" where
  "py_str v = (case v of PStr s \<Rightarrow> s | _ \<Rightarrow> py_repr v)"

lemma py_str_PStr [simp]: "py_str (PStr s) = s"
  by (simp add: py_str_def)

text \<open>\<open>str(d.get(k, ""))\<close> and \<open>str(d.get(k) or "")\<close>.\<close>

definition get_str :: "pydict \<Rightarrow> string \<Rightarrow> string" where
  "get_str d k = py_str (dget_or d k (PStr []))"

definition get_or_empty :: "pydict \<Rightarrow> string \<Rightarrow> string" where
  "get_or_empty d k = py_str (py_or (dget d k) (PStr []))"

section \<open>\<open>int(text)\<close>\<close>

text \<open>Decimal digits with single underscores between digits, an optional sign, and
  surrounding white space.\<close>

fun underscored_digits :: "bool \<Rightarrow> string \<Rightarrow> bool" where
  \<comment> \<open>the flag says that the previous character was a digit\<close>
  "underscored_digits prev [] = prev"
| "underscored_digits prev (c # s) =
     (if is_digit c then underscored_digits True s
      else c = CHR ''_'' \<and> prev \<and> underscored_digits False s)"

definition parse_int :: "string \<Rightarrow> int option" where
  "parse_int raw = (let s = strip raw;
     neg = (starts_with s ''-'');
     body = (if neg \<or> starts_with s ''+'' then drop 1 s else s)
     in if underscored_digits False body
        then Some ((if neg then -1 else 1) * digits_val (filter is_digit body))
        else None)"

definition all_digits :: "string \<Rightarrow> bool" where
  \<comment> \<open>\<open>s.isdigit()\<close> on ASCII text\<close>
  "all_digits s \<longleftrightarrow> s \<noteq> [] \<and> list_all is_digit s"

lemma underscored_digits_all: "list_all is_digit s \<Longrightarrow> underscored_digits p s \<longleftrightarrow> p \<or> s \<noteq> []"
  by (induction p s rule: underscored_digits.induct) auto

lemma not_space_digit: "is_digit c \<Longrightarrow> \<not> is_space c"
  by (auto simp: is_digit_def is_space_def less_eq_char_def)

section \<open>\<open>json.dumps\<close>\<close>

text \<open>Output is ASCII: every character outside the printable range is escaped.\<close>

definition json_char :: "char \<Rightarrow> string" where
  "json_char c = (let n = (of_char c :: nat) in
     if c = CHR 0x22 \<or> c = CHR 0x5C then [CHR 0x5C, c]
     else if c = CHR 0x0A then CHR 0x5C # ''n''
     else if c = CHR 0x0D then CHR 0x5C # ''r''
     else if c = CHR 0x09 then CHR 0x5C # ''t''
     else if c = CHR 0x08 then CHR 0x5C # ''b''
     else if c = CHR 0x0C then CHR 0x5C # ''f''
     else if n < 32 \<or> 126 < n then CHR 0x5C # ''u00'' @ hex2 n
     else [c])"

definition json_str :: "string \<Rightarrow> string" where
  "json_str s = CHR 0x22 # concat (map json_char s) @ [CHR 0x22]"

text \<open>The encoder with \<open>separators=(",", ":")\<close>, keys in dictionary order. Values the
  encoder rejects have no text of their own; \<open>json_ok\<close> says where it raises.\<close>

fun json_enc :: "pyval \<Rightarrow> string" where
  "json_enc PNone = ''null''"
| "json_enc (PBool b) = (if b then ''true'' else ''false'')"
| "json_enc (PInt i) = int_str i"
| "json_enc (PStr s) = json_str s"
| "json_enc (PBytes s) = []"
| "json_enc (PTime t) = []"
| "json_enc (PDate d) = []"
| "json_enc (PList vs) = ''['' @ str_join '','' (map json_enc vs) @ '']''"
| "json_enc (PDict kvs) =
     ''{'' @ str_join '','' (map (\<lambda>(k, v). json_str k @ '':'' @ json_enc v) kvs) @ ''}''"

fun json_ok :: "pyval \<Rightarrow> bool" where
  "json_ok (PBytes _) = False"
| "json_ok (PTime _) = False"
| "json_ok (PDate _) = False"
| "json_ok (PList vs) = (\<forall>v \<in> set vs. json_ok v)"
| "json_ok (PDict kvs) = (\<forall>(k, v) \<in> set kvs. json_ok v)"
| "json_ok _ = True"

text \<open>\<open>default=str\<close> replaces what the encoder rejects by its \<open>str\<close>.\<close>

fun default_str :: "pyval \<Rightarrow> pyval" where
  "default_str (PBytes s) = PStr (py_str (PBytes s))"
| "default_str (PTime t) = PStr (py_str (PTime t))"
| "default_str (PDate d) = PStr (py_str (PDate d))"
| "default_str (PList vs) = PList (map default_str vs)"
| "default_str (PDict kvs) = PDict (map (\<lambda>(k, v). (k, default_str v)) kvs)"
| "default_str v = v"

lemma json_ok_default_str: "json_ok (default_str v)"
  by (induction v rule: default_str.induct) (auto simp: split_beta)

lemma default_str_ok: "json_ok v \<Longrightarrow> default_str v = v"
proof (induction v rule: default_str.induct)
  case (4 vs)
  then show ?case by (auto intro: map_idI)
next
  case (5 kvs)
  then show ?case by (fastforce intro!: map_idI)
qed auto

text \<open>\<open>json.dumps(details)\<close> as the database functions use it: the stored document is the
  value itself, or a \<open>TypeError\<close>.\<close>

definition json_dumps :: "pyval \<Rightarrow> exn + pyval" where
  "json_dumps v = (if json_ok v then Inr v else Inl (TypeError ''not JSON serializable''))"

lemma json_ok_dict_iff: "json_ok (PDict kvs) \<longleftrightarrow> list_all (\<lambda>p. json_ok (snd p)) kvs"
  by (auto simp: list_all_iff)

end
