(* ===== verification/Db_Schema.thy ===== *)
theory Db_Schema
  imports Py_Text
begin

text \<open>
  The relational schema that \<open>gds/app/db.py\<close> creates (\<open>migrate\<close>): one record per
  table, the database as the list of rows of each table in insertion order with the
  serial counters, and the constraints of the schema as the invariant \<open>db_inv\<close>.
  Columns of type \<open>JSONB\<close> hold the Python value that was serialised. A serial counter
  advances on every attempted insert, also one that a conflict or a violated
  constraint suppresses, as in PostgreSQL.
\<close>

section \<open>Tables\<close>

record app_row =
  a_id :: int
  a_uri :: string
  a_common_name :: string
  a_zone :: string
  a_role :: string
  a_runtime :: "string option"
  a_component :: "string option"
  a_host :: "string option"
  a_port :: "int option"
  a_status :: string
  a_created :: int
  a_updated :: int
  a_last_seen :: "int option"

record cert_row =
  c_id :: int
  c_app :: int
  c_fpr :: string
  c_serial :: "string option"
  c_subject :: "string option"
  c_issuer :: "string option"
  c_not_before :: "int option"
  c_not_after :: "int option"
  c_pem :: string
  c_status :: string
  c_created :: int
  c_revoked :: "int option"

record list_row =
  tl_id :: int
  tl_zone :: string
  tl_role :: string
  tl_version :: int
  tl_status :: string
  tl_created :: int
  tl_published :: "int option"

record member_row =
  tm_id :: int
  tm_list :: int
  tm_cert :: int
  tm_type :: string

record audit_row =
  ev_id :: int
  ev_type :: string
  ev_actor :: string
  ev_target :: string
  ev_details :: pydict
  ev_created :: int

record artifact_row =
  ta_id :: int
  ta_zone :: string
  ta_role :: string
  ta_version :: int
  ta_revision :: int
  ta_json :: pydict
  ta_sha256 :: string
  ta_signature :: string
  ta_key_id :: string
  ta_fingerprint :: string
  ta_generated :: int
  ta_expires :: int
  ta_reason :: string
  ta_created :: int

record profile_row =
  pf_id :: int
  pf_name :: string
  pf_family :: string
  pf_component :: string
  pf_format :: string
  pf_layout :: pyval
  pf_semantics :: pyval
  pf_rules :: pyval
  pf_policy :: pyval
  pf_status :: string
  pf_created :: int
  pf_updated :: int

record request_row =
  rq_id :: int
  rq_request :: string
  rq_app :: int
  rq_runtime :: "string option"
  rq_profile :: string
  rq_source :: string
  rq_csr :: string
  rq_fpr :: string
  rq_subject :: "string option"
  rq_uri_sans :: "string list"
  rq_dns_sans :: "string list"
  rq_ip_sans :: "string list"
  rq_validation :: pydict
  rq_by :: string
  rq_status :: string
  rq_created :: int
  rq_updated :: int

record package_row =
  pk_id :: int
  pk_package :: string
  pk_app :: int
  pk_runtime :: "string option"
  pk_request :: string
  pk_cert :: "int option"
  pk_generation :: int
  pk_profile :: string
  pk_prev_package :: "string option"
  pk_prev_generation :: "int option"
  pk_manifest :: pydict
  pk_manifest_sha :: string
  pk_signature :: string
  pk_compat :: string
  pk_lifecycle :: string
  pk_status :: string
  pk_created :: int

record package_event_row =
  pe_id :: int
  pe_package :: string
  pe_type :: string
  pe_actor :: string
  pe_details :: pydict
  pe_created :: int

text \<open>The nullable columns of a component status report are kept by name.\<close>

record status_row =
  cs_uri :: string
  cs_columns :: pydict
  cs_crl_fresh :: bool
  cs_key_exported :: bool
  cs_key_touched :: bool
  cs_runtime_write :: bool
  cs_json :: pydict
  cs_reported :: pyval
  cs_updated :: int

record component_event_row =
  ce_id :: int
  ce_uri :: string
  ce_name :: pyval
  ce_target :: pyval
  ce_type :: pyval
  ce_status :: pyval
  ce_message :: pyval
  ce_details :: pyval
  ce_created :: int

datatype table =
    Applications | Certificates | TrustLists | TrustListMembers | AuditEvents
  | TrustArtifacts | ComponentProfiles | CertificateRequests | CertificatePackages
  | PackageEvents | ComponentEvents

record db =
  d_apps :: "app_row list"
  d_certs :: "cert_row list"
  d_lists :: "list_row list"
  d_members :: "member_row list"
  d_audit :: "audit_row list"
  d_artifacts :: "artifact_row list"
  d_profiles :: "profile_row list"
  d_requests :: "request_row list"
  d_packages :: "package_row list"
  d_pevents :: "package_event_row list"
  d_status :: "status_row list"
  d_cevents :: "component_event_row list"
  d_seq :: "table \<Rightarrow> int"

definition empty_db :: db where
  \<comment> \<open>the schema just created, every serial counter at its start\<close>
  "empty_db = \<lparr>d_apps = [], d_certs = [], d_lists = [], d_members = [], d_audit = [],
     d_artifacts = [], d_profiles = [], d_requests = [], d_packages = [], d_pevents = [],
     d_status = [], d_cevents = [], d_seq = (\<lambda>_. 0)\<rparr>"

definition next_id :: "table \<Rightarrow> db \<Rightarrow> int" where
  "next_id tab d = d_seq d tab + 1"

definition bump :: "table \<Rightarrow> db \<Rightarrow> db" where
  "bump tab d = d\<lparr>d_seq := (d_seq d)(tab := next_id tab d)\<rparr>"

type_synonym 'a dbop = "(db, 'a) eff"

section \<open>Constraints\<close>

text \<open>Primary keys: ids are distinct and have been issued by the table's counter.\<close>

definition serial_ok :: "('r \<Rightarrow> int) \<Rightarrow> 'r list \<Rightarrow> int \<Rightarrow> bool" where
  "serial_ok key rows n \<longleftrightarrow> distinct (map key rows) \<and> (\<forall>r \<in> set rows. 0 < key r \<and> key r \<le> n) \<and> 0 \<le> n"

definition unique_on :: "('r \<Rightarrow> 'k) \<Rightarrow> 'r list \<Rightarrow> bool" where
  "unique_on key rows \<longleftrightarrow> distinct (map key rows)"

definition refers :: "'k set \<Rightarrow> ('r \<Rightarrow> 'k) \<Rightarrow> 'r list \<Rightarrow> bool" where
  "refers keys col rows \<longleftrightarrow> (\<forall>r \<in> set rows. col r \<in> keys)"

definition app_ids :: "db \<Rightarrow> int set" where
  "app_ids d = a_id ` set (d_apps d)"

definition cert_ids :: "db \<Rightarrow> int set" where
  "cert_ids d = c_id ` set (d_certs d)"

definition apps_inv :: "db \<Rightarrow> bool" where
  "apps_inv d \<longleftrightarrow> serial_ok a_id (d_apps d) (d_seq d Applications) \<and> unique_on a_uri (d_apps d)"

definition certs_inv :: "db \<Rightarrow> bool" where
  "certs_inv d \<longleftrightarrow> serial_ok c_id (d_certs d) (d_seq d Certificates) \<and> unique_on c_fpr (d_certs d)
     \<and> refers (app_ids d) c_app (d_certs d)"

definition lists_inv :: "db \<Rightarrow> bool" where
  "lists_inv d \<longleftrightarrow> serial_ok tl_id (d_lists d) (d_seq d TrustLists)
     \<and> unique_on (\<lambda>l. (tl_zone l, tl_role l, tl_version l)) (d_lists d)"

definition members_inv :: "db \<Rightarrow> bool" where
  "members_inv d \<longleftrightarrow> serial_ok tm_id (d_members d) (d_seq d TrustListMembers)
     \<and> unique_on (\<lambda>m. (tm_list m, tm_cert m, tm_type m)) (d_members d)
     \<and> refers (tl_id ` set (d_lists d)) tm_list (d_members d)
     \<and> refers (cert_ids d) tm_cert (d_members d)"

definition audit_inv :: "db \<Rightarrow> bool" where
  "audit_inv d \<longleftrightarrow> serial_ok ev_id (d_audit d) (d_seq d AuditEvents)"

definition artifacts_inv :: "db \<Rightarrow> bool" where
  "artifacts_inv d \<longleftrightarrow> serial_ok ta_id (d_artifacts d) (d_seq d TrustArtifacts)
     \<and> unique_on (\<lambda>a. (ta_zone a, ta_role a, ta_revision a)) (d_artifacts d)"

definition profiles_inv :: "db \<Rightarrow> bool" where
  "profiles_inv d \<longleftrightarrow> serial_ok pf_id (d_profiles d) (d_seq d ComponentProfiles)
     \<and> unique_on pf_name (d_profiles d)"

definition requests_inv :: "db \<Rightarrow> bool" where
  "requests_inv d \<longleftrightarrow> serial_ok rq_id (d_requests d) (d_seq d CertificateRequests)
     \<and> unique_on rq_request (d_requests d)
     \<and> refers (app_ids d) rq_app (d_requests d)
     \<and> refers (pf_name ` set (d_profiles d)) rq_profile (d_requests d)"

definition packages_inv :: "db \<Rightarrow> bool" where
  "packages_inv d \<longleftrightarrow> serial_ok pk_id (d_packages d) (d_seq d CertificatePackages)
     \<and> unique_on pk_package (d_packages d)
     \<and> unique_on (\<lambda>p. (pk_app p, pk_profile p, pk_generation p)) (d_packages d)
     \<and> refers (app_ids d) pk_app (d_packages d)
     \<and> refers (rq_request ` set (d_requests d)) pk_request (d_packages d)
     \<and> refers (pf_name ` set (d_profiles d)) pk_profile (d_packages d)
     \<and> (\<forall>p \<in> set (d_packages d). \<forall>i. pk_cert p = Some i \<longrightarrow> i \<in> cert_ids d)"

definition events_inv :: "db \<Rightarrow> bool" where
  "events_inv d \<longleftrightarrow> serial_ok pe_id (d_pevents d) (d_seq d PackageEvents)
     \<and> serial_ok ce_id (d_cevents d) (d_seq d ComponentEvents)
     \<and> unique_on cs_uri (d_status d)"

definition db_inv :: "db \<Rightarrow> bool" where
  "db_inv d \<longleftrightarrow> apps_inv d \<and> certs_inv d \<and> lists_inv d \<and> members_inv d \<and> audit_inv d
     \<and> artifacts_inv d \<and> profiles_inv d \<and> requests_inv d \<and> packages_inv d \<and> events_inv d"

lemmas db_inv_defs = db_inv_def apps_inv_def certs_inv_def lists_inv_def members_inv_def
  audit_inv_def artifacts_inv_def profiles_inv_def requests_inv_def packages_inv_def
  events_inv_def app_ids_def cert_ids_def

lemma db_inv_empty: "db_inv empty_db"
  by (simp add: db_inv_defs empty_db_def serial_ok_def unique_on_def refers_def)

section \<open>Rows\<close>

definition update_where :: "('r \<Rightarrow> bool) \<Rightarrow> ('r \<Rightarrow> 'r) \<Rightarrow> 'r list \<Rightarrow> 'r list" where
  "update_where p f rows = map (\<lambda>r. if p r then f r else r) rows"

definition limit_rows :: "int \<Rightarrow> 'r list \<Rightarrow> 'r list dbop" where
  "limit_rows n rows = (if n < 0 then raise (DataError ''LIMIT must not be negative'')
     else ret (take (nat n) rows))"

lemma set_update_where: "set (update_where p f rows) = (\<lambda>r. if p r then f r else r) ` set rows"
  by (simp add: update_where_def)

lemma map_update_where:
  "(\<And>r. key (f r) = key r) \<Longrightarrow> map key (update_where p f rows) = map key rows"
  by (simp add: update_where_def)

lemma serial_ok_append:
  "serial_ok key rows n \<Longrightarrow> key r = n + 1 \<Longrightarrow> serial_ok key (rows @ [r]) (n + 1)"
  unfolding serial_ok_def by (auto; fastforce)

lemma serial_ok_bump: "serial_ok key rows n \<Longrightarrow> serial_ok key rows (n + 1)"
  unfolding serial_ok_def by fastforce

lemma serial_ok_update:
  "serial_ok key rows n \<Longrightarrow> (\<And>r. key (f r) = key r) \<Longrightarrow> serial_ok key (update_where p f rows) n"
  unfolding serial_ok_def by (auto simp: map_update_where set_update_where)

lemma unique_on_append:
  "unique_on key rows \<Longrightarrow> key r \<notin> key ` set rows \<Longrightarrow> unique_on key (rows @ [r])"
  by (simp add: unique_on_def)

lemma unique_on_update:
  "unique_on key rows \<Longrightarrow> (\<And>r. key (f r) = key r) \<Longrightarrow> unique_on key (update_where p f rows)"
  by (simp add: unique_on_def map_update_where)

lemma refers_append: "refers keys col rows \<Longrightarrow> col r \<in> keys \<Longrightarrow> refers keys col (rows @ [r])"
  by (auto simp: refers_def)

lemma refers_mono: "refers keys col rows \<Longrightarrow> keys \<subseteq> keys' \<Longrightarrow> refers keys' col rows"
  by (auto simp: refers_def)

lemma refers_update:
  "refers keys col rows \<Longrightarrow> (\<And>r. col (f r) = col r) \<Longrightarrow> refers keys col (update_where p f rows)"
  by (auto simp: refers_def set_update_where)

lemma image_update_where:
  "(\<And>r. key (f r) = key r) \<Longrightarrow> key ` set (update_where p f rows) = key ` set rows"
  by (metis list.set_map map_update_where)

lemma bump_simps [simp]:
  "d_apps (bump tab d) = d_apps d" "d_certs (bump tab d) = d_certs d"
  "d_lists (bump tab d) = d_lists d" "d_members (bump tab d) = d_members d"
  "d_audit (bump tab d) = d_audit d" "d_artifacts (bump tab d) = d_artifacts d"
  "d_profiles (bump tab d) = d_profiles d" "d_requests (bump tab d) = d_requests d"
  "d_packages (bump tab d) = d_packages d" "d_pevents (bump tab d) = d_pevents d"
  "d_status (bump tab d) = d_status d" "d_cevents (bump tab d) = d_cevents d"
  "d_seq (bump tab d) = (d_seq d)(tab := d_seq d tab + 1)"
  by (simp_all add: bump_def next_id_def)

lemmas row_intros = serial_ok_append serial_ok_bump serial_ok_update unique_on_append
  unique_on_update refers_append refers_update

lemma serial_ok_inj: "serial_ok key rows n \<Longrightarrow> inj_on key (set rows)"
  by (simp add: serial_ok_def distinct_map)

lemma unique_on_inj: "unique_on key rows \<Longrightarrow> inj_on key (set rows)"
  by (simp add: unique_on_def distinct_map)

lemma find_unique:
  assumes "unique_on key rows" and "r \<in> set rows"
  shows "find (\<lambda>x. key x = key r) rows = Some r"
  using assms by (induction rows) (auto simp: unique_on_def)

lemma find_SomeD: "find p rows = Some r \<Longrightarrow> r \<in> set rows \<and> p r"
  by (auto simp: find_Some_iff)

end
