(* ===== verification/Db_Inventory.thy ===== *)
theory Db_Inventory
  imports Db_Schema
begin

text \<open>
  The inventory half of \<open>gds/app/db.py\<close>: audit events, component status and events,
  applications and certificates. Each function is one transaction on the database;
  \<open>t\<close> is the transaction's \<open>now()\<close>. A function that raises leaves the rows as they
  were, since its transaction is rolled back.
\<close>

section \<open>Audit events\<close>

definition audit :: "string \<Rightarrow> string \<Rightarrow> string \<Rightarrow> pydict \<Rightarrow> int \<Rightarrow> unit dbop" where
  "audit event_type actor target details t d =
     (case json_dumps (PDict details) of
        Inl e \<Rightarrow> (Inl e, d)
      | Inr _ \<Rightarrow>
         (Inr (), (bump AuditEvents d)\<lparr>d_audit := d_audit d @
            [\<lparr>ev_id = next_id AuditEvents d, ev_type = event_type, ev_actor = actor,
              ev_target = target, ev_details = details, ev_created = t\<rparr>]\<rparr>))"

definition list_audit_events :: "int \<Rightarrow> audit_row list dbop" where
  "list_audit_events limit d = limit_rows limit (order_desc ev_id (d_audit d)) d"

definition list_audit_events_after_id :: "int \<Rightarrow> int \<Rightarrow> audit_row list dbop" where
  "list_audit_events_after_id after_id limit d =
     limit_rows limit (order_asc ev_id (filter (\<lambda>e. after_id < ev_id e) (d_audit d))) d"

definition list_audit_events_by_type :: "string list \<Rightarrow> int \<Rightarrow> audit_row list dbop" where
  "list_audit_events_by_type event_types limit d =
     limit_rows limit (order_desc ev_id (filter (\<lambda>e. ev_type e \<in> set event_types) (d_audit d))) d"

text \<open>\<open>details_json->>'reason'\<close>: the text of a scalar, null for a missing key or a null.\<close>

definition json_text :: "pyval \<Rightarrow> string option" where
  "json_text v = (case v of PNone \<Rightarrow> None | PStr s \<Rightarrow> Some s | _ \<Rightarrow> Some (json_enc v))"

definition audit_reason :: "audit_row \<Rightarrow> string" where
  "audit_reason e = (case json_text (dget (ev_details e) ''reason'') of
     None \<Rightarrow> ''unknown'' | Some s \<Rightarrow> s)"

definition count_audit_events_by_reason :: "string \<Rightarrow> (string \<times> int) list dbop" where
  "count_audit_events_by_reason event_type d =
     (let reasons = map audit_reason (filter (\<lambda>e. ev_type e = event_type) (d_audit d));
          groups = map (\<lambda>r. (r, int (count_list reasons r))) (remdups reasons)
      in ret (order_asc (\<lambda>(r, n). (- n, r)) groups) d)"

section \<open>Component status and events\<close>

definition status_columns :: "string list" where
  "status_columns = [''component_name'', ''runtime_instance_id'', ''zone'', ''role'', ''target'',
     ''certificate_fingerprint_sha256'', ''certificate_not_before'', ''certificate_not_after'',
     ''days_until_expiry'', ''trust_artifact_version'', ''trust_artifact_revision'',
     ''trust_artifact_sha256'', ''last_pull_status'', ''last_apply_status'', ''last_renewal_status'']"

definition upsert_component_status :: "pydict \<Rightarrow> int \<Rightarrow> int \<Rightarrow> status_row dbop" where
  \<comment> \<open>\<open>utc_now\<close> is the service's clock, \<open>t\<close> the database's\<close>
  "upsert_component_status payload utc_now t d =
     (let uri = strip (get_or_empty payload ''application_uri'') in
      if uri = [] then (Inl (ValueError ''application_uri required''), d)
      else let row = \<lparr>cs_uri = uri, cs_columns = map (\<lambda>k. (k, dget payload k)) status_columns,
              cs_crl_fresh = truthy (dget_or payload ''crl_freshness_verified'' (PBool False)),
              cs_key_exported = truthy (dget_or payload ''private_key_exported'' (PBool False)),
              cs_key_touched = truthy (dget_or payload ''private_key_touched'' (PBool False)),
              cs_runtime_write = truthy (dget_or payload ''runtime_write_enabled'' (PBool False)),
              cs_json = as_dict (default_str (PDict payload)),
              cs_reported = py_or (dget payload ''timestamp'') (PTime utc_now),
              cs_updated = t\<rparr>
      in if uri \<in> cs_uri ` set (d_status d)
         then (Inr row, d\<lparr>d_status := update_where (\<lambda>r. cs_uri r = uri) (\<lambda>_. row) (d_status d)\<rparr>)
         else (Inr row, d\<lparr>d_status := d_status d @ [row]\<rparr>))"

definition get_component_status :: "string \<Rightarrow> status_row option dbop" where
  "get_component_status uri d = ret (find (\<lambda>r. cs_uri r = uri) (d_status d)) d"

definition list_component_statuses :: "int \<Rightarrow> status_row list dbop" where
  "list_component_statuses limit d = limit_rows limit (order_desc cs_updated (d_status d)) d"

definition insert_component_event :: "pydict \<Rightarrow> int \<Rightarrow> component_event_row dbop" where
  "insert_component_event payload t d =
     (let uri = strip (get_or_empty payload ''application_uri'') in
      if uri = [] then (Inl (ValueError ''application_uri required''), d)
      else if dget payload ''event_type'' = PNone
      then (Inl (DataError ''event_type is null''), bump ComponentEvents d)
      else let row = \<lparr>ce_id = next_id ComponentEvents d, ce_uri = uri,
              ce_name = dget payload ''component_name'', ce_target = dget payload ''target'',
              ce_type = dget payload ''event_type'', ce_status = dget payload ''status'',
              ce_message = dget payload ''message'',
              ce_details = default_str (py_or (dget payload ''details'') (PDict [])),
              ce_created = t\<rparr>
      in (Inr row, (bump ComponentEvents d)\<lparr>d_cevents := d_cevents d @ [row]\<rparr>))"

definition list_component_events :: "string option \<Rightarrow> int \<Rightarrow> component_event_row list dbop" where
  "list_component_events uri limit d =
     (case uri of
        Some u \<Rightarrow> if u \<noteq> []
          then limit_rows limit (order_desc ce_id (filter (\<lambda>e. ce_uri e = u) (d_cevents d))) d
          else limit_rows limit (order_desc ce_id (d_cevents d)) d
      | None \<Rightarrow> limit_rows limit (order_desc ce_id (d_cevents d)) d)"

section \<open>Applications\<close>

definition coalesce :: "'a option \<Rightarrow> 'a option \<Rightarrow> 'a option" where
  "coalesce x y = (case x of None \<Rightarrow> y | Some v \<Rightarrow> Some v)"

definition opt_or :: "string option \<Rightarrow> string \<Rightarrow> string" where
  \<comment> \<open>\<open>x or default\<close> for an optional string: the empty string also gives the default\<close>
  "opt_or x dflt = (case x of None \<Rightarrow> dflt | Some s \<Rightarrow> if s = [] then dflt else s)"

text \<open>\<open>ON CONFLICT (application_uri) DO UPDATE SET ...\<close>: the runtime instance and the
  component type of a registered application are kept.\<close>

definition app_conflict_update ::
  "string \<Rightarrow> string \<Rightarrow> string \<Rightarrow> string option \<Rightarrow> int option \<Rightarrow> string \<Rightarrow> string \<Rightarrow> string \<Rightarrow> int \<Rightarrow>
   app_row \<Rightarrow> app_row" where
  "app_conflict_update common_name zone role host port status runtime component t old =
     old\<lparr>a_common_name := common_name, a_zone := zone, a_role := role,
       a_runtime := coalesce (a_runtime old) (Some runtime),
       a_component := coalesce (a_component old) (Some component),
       a_host := host, a_port := port, a_status := status, a_updated := t\<rparr>"

definition upsert_application ::
  "string \<Rightarrow> string \<Rightarrow> string \<Rightarrow> string \<Rightarrow> string option \<Rightarrow> int option \<Rightarrow> string \<Rightarrow>
   string option \<Rightarrow> string option \<Rightarrow> int \<Rightarrow> app_row dbop" where
  "upsert_application uri common_name zone role host port status runtime component t d =
     (let runtime' = opt_or runtime uri;
          component' = opt_or component (if str_contains ''server'' role then ''server'' else ''client'')
      in case find (\<lambda>a. a_uri a = uri) (d_apps d) of
        None \<Rightarrow>
         (let row = \<lparr>a_id = next_id Applications d, a_uri = uri, a_common_name = common_name,
                a_zone = zone, a_role = role, a_runtime = Some runtime', a_component = Some component',
                a_host = host, a_port = port, a_status = status, a_created = t, a_updated = t,
                a_last_seen = Some t\<rparr>
          in (Inr row, (bump Applications d)\<lparr>d_apps := d_apps d @ [row]\<rparr>))
      | Some old \<Rightarrow>
         (let upd = app_conflict_update common_name zone role host port status runtime' component' t
          in (Inr (upd old), (bump Applications d)\<lparr>d_apps :=
                update_where (\<lambda>a. a_uri a = uri) upd (d_apps d)\<rparr>)))"

definition list_applications :: "app_row list dbop" where
  "list_applications d = ret (order_asc a_id (d_apps d)) d"

definition get_application :: "int \<Rightarrow> app_row option dbop" where
  "get_application app_id d = ret (find (\<lambda>a. a_id a = app_id) (d_apps d)) d"

definition get_application_by_uri :: "string \<Rightarrow> app_row option dbop" where
  "get_application_by_uri uri d = ret (find (\<lambda>a. a_uri a = uri) (d_apps d)) d"

definition heartbeat_application :: "int \<Rightarrow> int \<Rightarrow> app_row option dbop" where
  "heartbeat_application app_id t d =
     (let apps = update_where (\<lambda>a. a_id a = app_id)
            (\<lambda>a. a\<lparr>a_last_seen := Some t, a_updated := t, a_status := ''active''\<rparr>) (d_apps d)
      in (Inr (find (\<lambda>a. a_id a = app_id) apps), d\<lparr>d_apps := apps\<rparr>))"

section \<open>Certificates\<close>

text \<open>\<open>ON CONFLICT (fingerprint_sha256) DO NOTHING RETURNING *\<close> returns no row on a
  conflict.\<close>

definition insert_certificate ::
  "int \<Rightarrow> string \<Rightarrow> string option \<Rightarrow> string option \<Rightarrow> string option \<Rightarrow> int option \<Rightarrow> int option \<Rightarrow>
   string \<Rightarrow> string \<Rightarrow> int \<Rightarrow> cert_row option dbop" where
  "insert_certificate app_id fpr serial subject issuer nb na pem status t d =
     (if fpr \<in> c_fpr ` set (d_certs d) then (Inr None, bump Certificates d)
      else if app_id \<notin> app_ids d
      then (Inl (ForeignKeyViolation ''certificates.application_id''), bump Certificates d)
      else let row = \<lparr>c_id = next_id Certificates d, c_app = app_id, c_fpr = fpr, c_serial = serial,
              c_subject = subject, c_issuer = issuer, c_not_before = nb, c_not_after = na,
              c_pem = pem, c_status = status, c_created = t, c_revoked = None\<rparr>
      in (Inr (Some row), (bump Certificates d)\<lparr>d_certs := d_certs d @ [row]\<rparr>))"

text \<open>A certificate joined with its application, as \<open>c.*, a.application_uri, ...\<close>.\<close>

type_synonym cert_view = "cert_row \<times> app_row"

definition join_apps :: "('r \<Rightarrow> int) \<Rightarrow> 'r list \<Rightarrow> app_row list \<Rightarrow> ('r \<times> app_row) list" where
  "join_apps app_of rows apps = [(r, a). r \<leftarrow> rows, a \<leftarrow> apps, a_id a = app_of r]"

definition list_certificates :: "cert_view list dbop" where
  "list_certificates d = ret (order_asc (c_id \<circ> fst) (join_apps c_app (d_certs d) (d_apps d))) d"

definition get_certificate :: "int \<Rightarrow> cert_view option dbop" where
  "get_certificate cert_id d =
     ret (find (\<lambda>(c, a). c_id c = cert_id) (join_apps c_app (d_certs d) (d_apps d))) d"

definition get_certificate_by_fingerprint :: "string \<Rightarrow> cert_view option dbop" where
  "get_certificate_by_fingerprint fpr d =
     ret (find (\<lambda>(c, a). c_fpr c = fpr) (join_apps c_app (d_certs d) (d_apps d))) d"

definition revoke_row :: "int \<Rightarrow> cert_row \<Rightarrow> cert_row" where
  "revoke_row t c = c\<lparr>c_status := ''revoked'', c_revoked := coalesce (c_revoked c) (Some t)\<rparr>"

definition mark_certificate_revoked :: "int \<Rightarrow> int \<Rightarrow> cert_row option dbop" where
  "mark_certificate_revoked cert_id t d =
     (let certs = update_where (\<lambda>c. c_id c = cert_id) (revoke_row t) (d_certs d)
      in (Inr (find (\<lambda>c. c_id c = cert_id) certs), d\<lparr>d_certs := certs\<rparr>))"

definition expired_active :: "int \<Rightarrow> cert_row \<Rightarrow> bool" where
  "expired_active t c \<longleftrightarrow> c_status c = ''active'' \<and> c_revoked c = None
     \<and> (case c_not_after c of None \<Rightarrow> False | Some na \<Rightarrow> na < t)"

definition mark_expired_active_certificates :: "int \<Rightarrow> cert_row list dbop" where
  "mark_expired_active_certificates t d =
     (Inr (map (\<lambda>c. c\<lparr>c_status := ''expired''\<rparr>) (filter (expired_active t) (d_certs d))),
      d\<lparr>d_certs := update_where (expired_active t) (\<lambda>c. c\<lparr>c_status := ''expired''\<rparr>) (d_certs d)\<rparr>)"

section \<open>Telemetry snapshot\<close>

definition max_opt :: "int list \<Rightarrow> int option" where
  "max_opt xs = (case xs of [] \<Rightarrow> None | x # ys \<Rightarrow> Some (foldl max x ys))"

text \<open>Row count, largest id and largest timestamp of each table; \<open>fails\<close> gives the
  exception of a table whose statement cannot be executed.\<close>

definition table_columns :: "db \<Rightarrow> (string \<times> int list \<times> int list) list" where
  "table_columns d = [
     (''audit_events'', map ev_id (d_audit d), map ev_created (d_audit d)),
     (''applications'', map a_id (d_apps d), map a_created (d_apps d)),
     (''certificates'', map c_id (d_certs d), map c_created (d_certs d)),
     (''certificate_requests'', map rq_id (d_requests d), map rq_created (d_requests d)),
     (''certificate_packages'', map pk_id (d_packages d), map pk_created (d_packages d)),
     (''package_events'', map pe_id (d_pevents d), map pe_created (d_pevents d)),
     (''component_events'', map ce_id (d_cevents d), map ce_created (d_cevents d)),
     (''trust_lists'', map tl_id (d_lists d), map tl_created (d_lists d)),
     (''trust_artifacts'', map ta_id (d_artifacts d), map ta_created (d_artifacts d))]"

definition gds_db_telemetry_snapshot ::
  "(string \<Rightarrow> exn option) \<Rightarrow> string \<Rightarrow> string \<Rightarrow> int \<Rightarrow> int \<Rightarrow> pydict dbop" where
  "gds_db_telemetry_snapshot fails pg_db pg_host pg_port utc_now d =
     (let entry = (\<lambda>(name, ids, times). case fails name of
            Some e \<Rightarrow> (name, PDict [(''ok'', PBool False), (''error_class'', PStr (exc_class e))])
          | None \<Rightarrow> (name, PDict [(''ok'', PBool True), (''row_count'', PInt (int (length ids))),
               (''latest_id'', opt_int (max_opt ids)), (''latest_timestamp'', opt_time (max_opt times))]))
      in ret [(''ok'', PBool (list_all (\<lambda>(name, _). fails name = None) (table_columns d))),
           (''checked_at'', PStr (isoformat utc_now)), (''database'', PStr pg_db),
           (''host'', PStr pg_host), (''port'', PInt pg_port),
           (''tables'', PDict (map entry (table_columns d)))] d)"

lemmas inventory_query_defs = list_audit_events_def list_audit_events_after_id_def
  list_audit_events_by_type_def count_audit_events_by_reason_def get_component_status_def
  list_component_statuses_def list_component_events_def list_applications_def
  get_application_def get_application_by_uri_def list_certificates_def get_certificate_def
  get_certificate_by_fingerprint_def gds_db_telemetry_snapshot_def

text \<open>Queries leave the database as it is.\<close>

lemma limit_rows_db [simp]: "snd (limit_rows n rows d) = d"
  by (simp add: limit_rows_def eff_defs)

lemma inventory_queries_pure [simp]:
  "snd (list_audit_events n d) = d" "snd (list_audit_events_after_id i n d) = d"
  "snd (list_audit_events_by_type tys n d) = d" "snd (count_audit_events_by_reason ty d) = d"
  "snd (get_component_status uri d) = d" "snd (list_component_statuses n d) = d"
  "snd (list_component_events u n d) = d" "snd (list_applications d) = d"
  "snd (get_application i d) = d" "snd (get_application_by_uri uri d) = d"
  "snd (list_certificates d) = d" "snd (get_certificate i d) = d"
  "snd (get_certificate_by_fingerprint fpr d) = d"
  "snd (gds_db_telemetry_snapshot fails pdb ph pp utc d) = d"
  by (simp_all add: inventory_query_defs ret_def Let_def split: option.splits)

section \<open>The constraints are kept\<close>

lemma app_conflict_update_keys [simp]:
  "a_id (app_conflict_update cn z ro h po st rt ct t a) = a_id a"
  "a_uri (app_conflict_update cn z ro h po st rt ct t a) = a_uri a"
  by (simp_all add: app_conflict_update_def)

lemma revoke_row_keys [simp]:
  "c_id (revoke_row t c) = c_id c" "c_fpr (revoke_row t c) = c_fpr c" "c_app (revoke_row t c) = c_app c"
  by (simp_all add: revoke_row_def)

lemma bump_keeps_db_inv: "db_inv d \<Longrightarrow> db_inv (bump tab d)"
  by (cases tab) (simp_all add: db_inv_defs serial_ok_bump)

lemma audit_keeps: "evolves (keeps db_inv) (audit ty ac tg det t)"
  unfolding evolves_def keeps_def
  by (auto simp: audit_def json_dumps_def db_inv_defs next_id_def simp: serial_ok_append)

lemma find_cs_same: "unique_on cs_uri rows \<Longrightarrow> cs_uri row = uri \<Longrightarrow>
  unique_on cs_uri (update_where (\<lambda>r. cs_uri r = uri) (\<lambda>_. row) rows)"
proof -
  assume "unique_on cs_uri rows" and "cs_uri row = uri"
  moreover from this have "map cs_uri (update_where (\<lambda>r. cs_uri r = uri) (\<lambda>_. row) rows) = map cs_uri rows"
    by (auto simp: update_where_def)
  ultimately show ?thesis by (simp add: unique_on_def)
qed

lemma upsert_component_status_keeps:
  "evolves (keeps db_inv) (upsert_component_status payload u t)"
  unfolding evolves_def keeps_def upsert_component_status_def Let_def
  by (auto simp: db_inv_defs intro!: find_cs_same unique_on_append)

lemma insert_component_event_keeps:
  "evolves (keeps db_inv) (insert_component_event payload t)"
  unfolding evolves_def keeps_def insert_component_event_def Let_def
  by (auto simp: db_inv_defs next_id_def serial_ok_append serial_ok_bump)

lemma upsert_application_keeps:
  "evolves (keeps db_inv) (upsert_application uri cn z ro h po st rt ct t)"
  unfolding evolves_def keeps_def upsert_application_def Let_def
  by (auto simp: db_inv_defs next_id_def find_None_iff image_update_where
      serial_ok_append serial_ok_update serial_ok_bump
      intro!: unique_on_append unique_on_update
      elim!: refers_mono split: option.splits)

lemma heartbeat_application_keeps:
  "evolves (keeps db_inv) (heartbeat_application i t)"
  unfolding evolves_def keeps_def heartbeat_application_def Let_def
  by (auto simp: db_inv_defs image_update_where intro!: serial_ok_update unique_on_update)

lemma insert_certificate_keeps:
  "evolves (keeps db_inv) (insert_certificate app fpr se su iss nb na pem st t)"
  unfolding evolves_def keeps_def insert_certificate_def Let_def
  by (auto simp: db_inv_defs next_id_def serial_ok_append serial_ok_bump
      intro!: unique_on_append refers_append elim!: refers_mono)

lemma mark_certificate_revoked_keeps:
  "evolves (keeps db_inv) (mark_certificate_revoked i t)"
  unfolding evolves_def keeps_def mark_certificate_revoked_def Let_def
  by (auto simp: db_inv_defs image_update_where
      intro!: serial_ok_update unique_on_update refers_update)

lemma mark_expired_active_certificates_keeps:
  "evolves (keeps db_inv) (mark_expired_active_certificates t)"
  unfolding evolves_def keeps_def mark_expired_active_certificates_def
  by (auto simp: db_inv_defs image_update_where
      intro!: serial_ok_update unique_on_update refers_update)

lemma pure_evolves: "(\<And>d. snd (m d) = d) \<Longrightarrow> (\<And>d. R d d) \<Longrightarrow> evolves R m"
  by (simp add: evolves_def)

end
