(* ===== verification/Db_Trust.thy ===== *)
theory Db_Trust
  imports Db_Inventory
begin

text \<open>
  The trust half of \<open>gds/app/db.py\<close>: which certificates a consumer's trust list has to
  contain, the versioned trust lists, and the revisions of the signed trust artifacts.
\<close>

section \<open>The desired members of a trust list\<close>

text \<open>The applications whose certificates the consumer \<open>(zone, role)\<close> has to trust. The
  OT server trusts its clients; every other consumer the applications of its own kind.\<close>

definition trustlist_application_filter :: "string \<Rightarrow> string \<Rightarrow> app_row \<Rightarrow> bool" where
  "trustlist_application_filter zone role a =
     (if zone = ''OT'' \<and> role = ''server''
      then (a_zone a = ''DMZ'' \<and> a_role a = ''southbound-client'')
         \<or> (a_zone a = ''OT'' \<and> a_role a = ''scada-client'')
      else a_zone a = zone \<and> a_role a = role)"

definition cert_live :: "cert_row \<Rightarrow> bool" where
  "cert_live c \<longleftrightarrow> c_status c = ''active'' \<and> c_revoked c = None"

definition package_live :: "package_row \<Rightarrow> bool" where
  "package_live p \<longleftrightarrow> pk_lifecycle p = ''ACTIVATED'' \<and> pk_status p = ''active''"

text \<open>The certificate of the most recently activated package of the application, or else
  its most recent live certificate.\<close>

definition activated_certificates :: "db \<Rightarrow> int \<Rightarrow> (package_row \<times> cert_row) list" where
  "activated_certificates d app_id =
     [(p, c). p \<leftarrow> d_packages d, c \<leftarrow> d_certs d,
       pk_cert p = Some (c_id c) \<and> pk_app p = app_id \<and> package_live p \<and> cert_live c]"

definition active_certificate_id_for_application :: "db \<Rightarrow> int \<Rightarrow> int option" where
  "active_certificate_id_for_application d app_id =
     (case fetch_one (order_desc (\<lambda>(p, c). (pk_created p, pk_generation p, c_id c))
             (activated_certificates d app_id)) of
        Some (p, c) \<Rightarrow> Some (c_id c)
      | None \<Rightarrow> map_option c_id
          (fetch_one (order_desc (\<lambda>c. (c_created c, null_key (c_not_before c), c_id c))
             (filter (\<lambda>c. c_app c = app_id \<and> cert_live c) (d_certs d)))))"

definition desired_applications :: "db \<Rightarrow> string \<Rightarrow> string \<Rightarrow> app_row list" where
  "desired_applications d zone role = order_asc a_uri
     (filter (\<lambda>a. a_status a = ''active'' \<and> trustlist_application_filter zone role a) (d_apps d))"

definition desired_trustlist_certificate_ids :: "db \<Rightarrow> string \<Rightarrow> string \<Rightarrow> int list" where
  "desired_trustlist_certificate_ids d zone role =
     List.map_filter (\<lambda>a. active_certificate_id_for_application d (a_id a))
       (desired_applications d zone role)"

section \<open>Trust lists\<close>

definition lists_for :: "db \<Rightarrow> string \<Rightarrow> string \<Rightarrow> list_row list" where
  "lists_for d zone role = filter (\<lambda>l. tl_zone l = zone \<and> tl_role l = role) (d_lists d)"

definition latest_list :: "db \<Rightarrow> string \<Rightarrow> string \<Rightarrow> list_row option" where
  "latest_list d zone role = fetch_one (order_desc tl_version (lists_for d zone role))"

definition max_version :: "db \<Rightarrow> string \<Rightarrow> string \<Rightarrow> int" where
  \<comment> \<open>\<open>COALESCE(MAX(version), 0)\<close>\<close>
  "max_version d zone role = (case max_opt (map tl_version (lists_for d zone role)) of
     None \<Rightarrow> 0 | Some v \<Rightarrow> v)"

text \<open>\<open>INSERT ... ON CONFLICT DO NOTHING\<close> of one application member.\<close>

definition add_member :: "int \<Rightarrow> int \<Rightarrow> db \<Rightarrow> db" where
  "add_member list_id cert_id d =
     (if (list_id, cert_id, ''application'') \<in> (\<lambda>m. (tm_list m, tm_cert m, tm_type m)) ` set (d_members d)
      then bump TrustListMembers d
      else (bump TrustListMembers d)\<lparr>d_members := d_members d @
        [\<lparr>tm_id = next_id TrustListMembers d, tm_list = list_id, tm_cert = cert_id,
          tm_type = ''application''\<rparr>]\<rparr>)"

definition build_trust_list :: "string \<Rightarrow> string \<Rightarrow> int \<Rightarrow> list_row dbop" where
  "build_trust_list zone role t d =
     (let row = \<lparr>tl_id = next_id TrustLists d, tl_zone = zone, tl_role = role,
            tl_version = max_version d zone role + 1, tl_status = ''active'', tl_created = t,
            tl_published = Some t\<rparr>;
          d1 = (bump TrustLists d)\<lparr>d_lists := d_lists d @ [row]\<rparr>
      in (Inr row, fold (add_member (tl_id row)) (desired_trustlist_certificate_ids d1 zone role) d1))"

definition members_of :: "db \<Rightarrow> int \<Rightarrow> int list" where
  \<comment> \<open>the certificate ids of the application members of a list, in the order of their rows\<close>
  "members_of d list_id = map tm_cert
     (filter (\<lambda>m. tm_list m = list_id \<and> tm_type m = ''application'') (d_members d))"

definition ensure_trust_list_current :: "string \<Rightarrow> string \<Rightarrow> int \<Rightarrow> list_row dbop" where
  "ensure_trust_list_current zone role t d =
     (case latest_list d zone role of
        Some l \<Rightarrow> if sort (members_of d (tl_id l)) = sort (desired_trustlist_certificate_ids d zone role)
          then (Inr l, d) else build_trust_list zone role t d
      | None \<Rightarrow> build_trust_list zone role t d)"

definition get_latest_trust_list_with_certs ::
  "string \<Rightarrow> string \<Rightarrow> (list_row option \<times> cert_view list) dbop" where
  "get_latest_trust_list_with_certs zone role d =
     (case latest_list d zone role of
        None \<Rightarrow> (Inr (None, []), d)
      | Some l \<Rightarrow> (Inr (Some l, order_asc (a_uri \<circ> snd)
          [(c, a). m \<leftarrow> d_members d, tm_list m = tl_id l, c \<leftarrow> d_certs d, c_id c = tm_cert m,
            a \<leftarrow> d_apps d, a_id a = c_app c]), d))"

text \<open>\<open>SELECT DISTINCT zone, role ... ORDER BY zone, role\<close>; each row is a dictionary with
  the two columns.\<close>

definition list_trustlist_targets :: "(string \<times> string) list dbop" where
  "list_trustlist_targets d =
     ret (order_asc id (remdups (map (\<lambda>l. (tl_zone l, tl_role l)) (d_lists d)))) d"

section \<open>Trust artifacts\<close>

definition artifacts_for :: "db \<Rightarrow> string \<Rightarrow> string \<Rightarrow> artifact_row list" where
  "artifacts_for d zone role = filter (\<lambda>a. ta_zone a = zone \<and> ta_role a = role) (d_artifacts d)"

definition latest_artifact :: "db \<Rightarrow> string \<Rightarrow> string \<Rightarrow> artifact_row option" where
  "latest_artifact d zone role = fetch_one (order_desc ta_revision (artifacts_for d zone role))"

definition get_latest_trust_artifact :: "string \<Rightarrow> string \<Rightarrow> artifact_row option dbop" where
  "get_latest_trust_artifact zone role d = ret (latest_artifact d zone role) d"

definition max_revision :: "db \<Rightarrow> string \<Rightarrow> string \<Rightarrow> int" where
  "max_revision d zone role = (case max_opt (map ta_revision (artifacts_for d zone role)) of
     None \<Rightarrow> 0 | Some v \<Rightarrow> v)"

definition insert_trust_artifact ::
  "string \<Rightarrow> string \<Rightarrow> int \<Rightarrow> pydict \<Rightarrow> string \<Rightarrow> string \<Rightarrow> string \<Rightarrow> string \<Rightarrow> int \<Rightarrow> int \<Rightarrow> string \<Rightarrow>
   int \<Rightarrow> artifact_row dbop" where
  "insert_trust_artifact zone role version artifact sha sig key_id fpr generated expires reason t d =
     (case json_dumps (PDict artifact) of
        Inl e \<Rightarrow> (Inl e, d)
      | Inr _ \<Rightarrow>
         (let row = \<lparr>ta_id = next_id TrustArtifacts d, ta_zone = zone, ta_role = role,
                ta_version = version, ta_revision = max_revision d zone role + 1,
                ta_json = artifact, ta_sha256 = sha, ta_signature = sig, ta_key_id = key_id,
                ta_fingerprint = fpr, ta_generated = generated, ta_expires = expires,
                ta_reason = reason, ta_created = t\<rparr>
          in (Inr row, (bump TrustArtifacts d)\<lparr>d_artifacts := d_artifacts d @ [row]\<rparr>)))"

definition list_trust_artifact_history :: "string \<Rightarrow> string \<Rightarrow> int \<Rightarrow> artifact_row list dbop" where
  "list_trust_artifact_history zone role limit d =
     limit_rows limit (order_desc ta_revision (artifacts_for d zone role)) d"

lemma trust_queries_pure [simp]:
  "snd (get_latest_trust_list_with_certs zone role d) = d" "snd (list_trustlist_targets d) = d"
  "snd (get_latest_trust_artifact zone role d) = d" "snd (list_trust_artifact_history zone role n d) = d"
  by (simp_all add: get_latest_trust_list_with_certs_def list_trustlist_targets_def ret_def
      get_latest_trust_artifact_def list_trust_artifact_history_def split: option.splits)

section \<open>Largest values\<close>

lemma foldl_max_ge: "(x::int) \<le> foldl max x ys \<and> (\<forall>y \<in> set ys. y \<le> foldl max x ys)"
proof (induction ys arbitrary: x)
  case (Cons y ys)
  from Cons [of "max x y"] show ?case by auto
qed simp

lemma foldl_max_mem: "foldl max (x::int) ys \<in> insert x (set ys)"
proof (induction ys arbitrary: x)
  case (Cons y ys)
  from Cons [of "max x y"] show ?case by (auto simp: max_def split: if_splits)
qed simp

lemma max_opt_ge: "max_opt xs = Some m \<Longrightarrow> x \<in> set xs \<Longrightarrow> x \<le> m"
  using foldl_max_ge by (cases xs) (auto simp: max_opt_def)

lemma max_opt_mem: "max_opt xs = Some m \<Longrightarrow> m \<in> set xs"
  using foldl_max_mem by (cases xs) (auto simp: max_opt_def)

lemma max_opt_None [simp]: "max_opt xs = None \<longleftrightarrow> xs = []"
  by (cases xs) (auto simp: max_opt_def)

lemma max_version_ge: "l \<in> set (lists_for d zone role) \<Longrightarrow> tl_version l \<le> max_version d zone role"
  unfolding max_version_def by (auto split: option.splits dest: max_opt_ge [where x = "tl_version l"])

lemma max_revision_ge: "a \<in> set (artifacts_for d zone role) \<Longrightarrow> ta_revision a \<le> max_revision d zone role"
  unfolding max_revision_def by (auto split: option.splits dest: max_opt_ge [where x = "ta_revision a"])

lemma revision_le_max: "a \<in> set (d_artifacts d) \<Longrightarrow> ta_revision a \<le> max_revision d (ta_zone a) (ta_role a)"
  by (rule max_revision_ge) (simp add: artifacts_for_def)

section \<open>The constraints are kept\<close>

text \<open>What adding members leaves alone.\<close>

lemma add_member_frame [simp]:
  "d_apps (add_member l c d) = d_apps d" "d_certs (add_member l c d) = d_certs d"
  "d_lists (add_member l c d) = d_lists d" "d_audit (add_member l c d) = d_audit d"
  "d_artifacts (add_member l c d) = d_artifacts d" "d_profiles (add_member l c d) = d_profiles d"
  "d_requests (add_member l c d) = d_requests d" "d_packages (add_member l c d) = d_packages d"
  "d_pevents (add_member l c d) = d_pevents d" "d_status (add_member l c d) = d_status d"
  "d_cevents (add_member l c d) = d_cevents d"
  by (simp_all add: add_member_def)

lemma fold_add_member_frame [simp]:
  "d_apps (fold (add_member l) cs d) = d_apps d" "d_certs (fold (add_member l) cs d) = d_certs d"
  "d_lists (fold (add_member l) cs d) = d_lists d" "d_audit (fold (add_member l) cs d) = d_audit d"
  "d_artifacts (fold (add_member l) cs d) = d_artifacts d"
  "d_profiles (fold (add_member l) cs d) = d_profiles d"
  "d_requests (fold (add_member l) cs d) = d_requests d"
  "d_packages (fold (add_member l) cs d) = d_packages d"
  "d_pevents (fold (add_member l) cs d) = d_pevents d"
  "d_status (fold (add_member l) cs d) = d_status d"
  "d_cevents (fold (add_member l) cs d) = d_cevents d"
  by (induction cs arbitrary: d) simp_all

lemma add_member_keeps:
  assumes "db_inv d" and "l \<in> tl_id ` set (d_lists d)" and "c \<in> cert_ids d"
  shows "db_inv (add_member l c d)"
  using assms unfolding add_member_def
  by (auto simp: bump_keeps_db_inv)
     (auto simp: db_inv_defs next_id_def serial_ok_append intro!: unique_on_append refers_append)

lemma fold_add_member_keeps:
  "db_inv d \<Longrightarrow> l \<in> tl_id ` set (d_lists d) \<Longrightarrow> set cs \<subseteq> cert_ids d \<Longrightarrow>
   db_inv (fold (add_member l) cs d)"
proof (induction cs arbitrary: d)
  case (Cons c cs)
  then show ?case by (simp add: add_member_keeps cert_ids_def)
qed simp

text \<open>Every desired certificate exists, is live and belongs to an application that
  matches the filter.\<close>

lemma activated_certificates_mem:
  "(p, c) \<in> set (activated_certificates d i) \<longleftrightarrow>
   p \<in> set (d_packages d) \<and> c \<in> set (d_certs d) \<and> pk_cert p = Some (c_id c) \<and> pk_app p = i
   \<and> package_live p \<and> cert_live c"
  by (auto simp: activated_certificates_def)

lemma active_certificate_id_cases:
  assumes "active_certificate_id_for_application d i = Some k"
  obtains (package) p c where "(p, c) \<in> set (activated_certificates d i)" "c_id c = k"
  | (plain) c where "activated_certificates d i = []" "c \<in> set (d_certs d)" "c_app c = i"
      "cert_live c" "c_id c = k"
proof (cases "fetch_one (order_desc (\<lambda>(p, c). (pk_created p, pk_generation p, c_id c))
    (activated_certificates d i))")
  case (Some pc)
  obtain p c where pc: "pc = (p, c)" by (cases pc)
  have "(p, c) \<in> set (activated_certificates d i)"
    using fetch_desc_mem [OF Some] pc by simp
  moreover have "c_id c = k"
    using assms Some pc by (simp add: active_certificate_id_for_application_def)
  ultimately show thesis by (rule package)
next
  case None
  then have empty: "activated_certificates d i = []" by simp
  with assms None obtain c where
    c: "fetch_one (order_desc (\<lambda>c. (c_created c, null_key (c_not_before c), c_id c))
        (filter (\<lambda>c. c_app c = i \<and> cert_live c) (d_certs d))) = Some c" and k: "c_id c = k"
    by (auto simp: active_certificate_id_for_application_def)
  from fetch_desc_mem [OF c] show thesis by (intro plain [OF empty _ _ _ k]) auto
qed

lemma active_certificate_live:
  assumes "active_certificate_id_for_application d i = Some k"
  shows "\<exists>c \<in> set (d_certs d). c_id c = k \<and> cert_live c"
  using assms by (rule active_certificate_id_cases) (auto simp: activated_certificates_mem)

lemma desired_mem:
  assumes "k \<in> set (desired_trustlist_certificate_ids d zone role)"
  obtains a where "a \<in> set (d_apps d)" "a_status a = ''active''"
    "trustlist_application_filter zone role a" "active_certificate_id_for_application d (a_id a) = Some k"
  using assms unfolding desired_trustlist_certificate_ids_def desired_applications_def
  by (auto simp: List.map_filter_def)

lemma desired_exist: "set (desired_trustlist_certificate_ids d zone role) \<subseteq> cert_ids d"
proof
  fix k
  assume "k \<in> set (desired_trustlist_certificate_ids d zone role)"
  then show "k \<in> cert_ids d"
  proof (rule desired_mem)
    fix a
    assume "active_certificate_id_for_application d (a_id a) = Some k"
    from active_certificate_live [OF this] show ?thesis by (auto simp: cert_ids_def)
  qed
qed

text \<open>The desired members depend on applications, certificates and packages only.\<close>

lemma desired_cong:
  assumes "d_apps d = d_apps e" "d_certs d = d_certs e" "d_packages d = d_packages e"
  shows "desired_trustlist_certificate_ids d zone role = desired_trustlist_certificate_ids e zone role"
  unfolding desired_trustlist_certificate_ids_def desired_applications_def
    active_certificate_id_for_application_def activated_certificates_def assms ..

lemma build_trust_list_keeps: "evolves (keeps db_inv) (build_trust_list zone role t)"
  unfolding evolves_def keeps_def
proof (intro allI impI)
  fix d
  assume inv: "db_inv d"
  let ?row = "\<lparr>tl_id = next_id TrustLists d, tl_zone = zone, tl_role = role,
    tl_version = max_version d zone role + 1, tl_status = ''active'', tl_created = t,
    tl_published = Some t\<rparr>"
  let ?d = "(bump TrustLists d)\<lparr>d_lists := d_lists d @ [?row]\<rparr>"
  have fresh: "(zone, role, max_version d zone role + 1)
      \<notin> (\<lambda>l. (tl_zone l, tl_role l, tl_version l)) ` set (d_lists d)"
    using max_version_ge [of _ d zone role] by (force simp: lists_for_def)
  have "db_inv ?d"
    using inv fresh by (auto simp: db_inv_defs next_id_def serial_ok_append
        intro!: unique_on_append elim!: refers_mono)
  moreover have "set (desired_trustlist_certificate_ids ?d zone role) \<subseteq> cert_ids ?d"
    by (rule desired_exist)
  ultimately have "db_inv (fold (add_member (tl_id ?row))
      (desired_trustlist_certificate_ids ?d zone role) ?d)"
    by (intro fold_add_member_keeps) auto
  then show "db_inv (snd (build_trust_list zone role t d))"
    by (simp add: build_trust_list_def Let_def)
qed

lemma ensure_trust_list_current_keeps:
  "evolves (keeps db_inv) (ensure_trust_list_current zone role t)"
  using build_trust_list_keeps [of zone role t]
  unfolding evolves_def keeps_def ensure_trust_list_current_def
  by (auto split: option.splits)

lemma insert_trust_artifact_keeps:
  "evolves (keeps db_inv) (insert_trust_artifact zone role v art sha sig kid fpr g e r t)"
  unfolding evolves_def keeps_def insert_trust_artifact_def Let_def json_dumps_def
  by (auto simp: db_inv_defs next_id_def serial_ok_append intro!: unique_on_append
      dest: revision_le_max)

end
