(* ===== verification/Db_Packages.thy ===== *)
theory Db_Packages
  imports Db_Trust
begin

text \<open>
  The certificate lifecycle half of \<open>gds/app/db.py\<close>: component profiles, certificate
  requests, certificate packages with their generations and lifecycle states, and the
  package events.
\<close>

section \<open>Component profiles\<close>

definition req_str :: "pydict \<Rightarrow> string \<Rightarrow> exn + string" where
  \<comment> \<open>\<open>d[k]\<close> for a text column\<close>
  "req_str d k = (case map_of d k of None \<Rightarrow> Inl (KeyError k) | Some v \<Rightarrow> Inr (py_str v))"

fun all_ok :: "(exn + 'a) list \<Rightarrow> exn + 'a list" where
  "all_ok [] = Inr []"
| "all_ok (Inl e # xs) = Inl e"
| "all_ok (Inr x # xs) = (case all_ok xs of Inl e \<Rightarrow> Inl e | Inr ys \<Rightarrow> Inr (x # ys))"

definition upsert_component_profile :: "pydict \<Rightarrow> int \<Rightarrow> profile_row dbop" where
  "upsert_component_profile profile t d =
     (let texts = all_ok (map (req_str profile)
            [''profile_name'', ''runtime_family'', ''component_type'', ''certificate_format'']);
          jsons = all_ok (map (\<lambda>k. json_dumps (dget_or profile k (PDict [])))
            [''trust_store_layout_json'', ''runtime_semantics_json'', ''compatibility_rules_json'',
             ''enrollment_policy_json'']);
          status = py_str (dget_or profile ''status'' (PStr ''active''))
      in case texts of Inl e \<Rightarrow> (Inl e, d) | Inr [name, family, component, format] \<Rightarrow>
        (case jsons of Inl e \<Rightarrow> (Inl e, d) | Inr [layout, semantics, rules, policy] \<Rightarrow>
          (case find (\<lambda>p. pf_name p = name) (d_profiles d) of
             None \<Rightarrow>
              (let row = \<lparr>pf_id = next_id ComponentProfiles d, pf_name = name, pf_family = family,
                     pf_component = component, pf_format = format, pf_layout = layout,
                     pf_semantics = semantics, pf_rules = rules, pf_policy = policy,
                     pf_status = status, pf_created = t, pf_updated = t\<rparr>
               in (Inr row, (bump ComponentProfiles d)\<lparr>d_profiles := d_profiles d @ [row]\<rparr>))
           | Some old \<Rightarrow>
              (let upd = (\<lambda>p. p\<lparr>pf_family := family, pf_component := component, pf_format := format,
                     pf_layout := layout, pf_semantics := semantics, pf_rules := rules,
                     pf_policy := policy, pf_status := status, pf_updated := t\<rparr>)
               in (Inr (upd old), (bump ComponentProfiles d)\<lparr>d_profiles :=
                     update_where (\<lambda>p. pf_name p = name) upd (d_profiles d)\<rparr>)))
         | Inr _ \<Rightarrow> (Inl (KeyError []), d))
      | Inr _ \<Rightarrow> (Inl (KeyError []), d))"

definition seed_component_profiles :: "pydict list \<Rightarrow> int \<Rightarrow> unit dbop" where
  "seed_component_profiles profiles t =
     forE profiles (\<lambda>p. bindE (upsert_component_profile p t) (\<lambda>_. ret ()))"

definition get_component_profile :: "string \<Rightarrow> profile_row option dbop" where
  "get_component_profile name d = ret (find (\<lambda>p. pf_name p = name) (d_profiles d)) d"

definition list_component_profiles :: "profile_row list dbop" where
  "list_component_profiles d = ret (order_asc pf_name (d_profiles d)) d"

section \<open>Certificate requests\<close>

definition profile_names :: "db \<Rightarrow> string set" where
  "profile_names d = pf_name ` set (d_profiles d)"

definition insert_certificate_request ::
  "string \<Rightarrow> int \<Rightarrow> string option \<Rightarrow> string \<Rightarrow> string \<Rightarrow> string \<Rightarrow> string \<Rightarrow> string option \<Rightarrow>
   string list \<Rightarrow> string list \<Rightarrow> string list \<Rightarrow> pydict \<Rightarrow> string \<Rightarrow> string \<Rightarrow> int \<Rightarrow>
   request_row dbop" where
  "insert_certificate_request request_id app_id runtime profile source csr fpr subject uris dns ips
       validation requested_by status t d =
     (case json_dumps (PDict validation) of
        Inl e \<Rightarrow> (Inl e, d)
      | Inr _ \<Rightarrow>
        if request_id \<in> rq_request ` set (d_requests d)
        then (Inl (UniqueViolation ''certificate_requests.request_id''), bump CertificateRequests d)
        else if app_id \<notin> app_ids d
        then (Inl (ForeignKeyViolation ''certificate_requests.application_id''), bump CertificateRequests d)
        else if profile \<notin> profile_names d
        then (Inl (ForeignKeyViolation ''certificate_requests.profile_name''), bump CertificateRequests d)
        else let row = \<lparr>rq_id = next_id CertificateRequests d, rq_request = request_id,
               rq_app = app_id, rq_runtime = runtime, rq_profile = profile, rq_source = source,
               rq_csr = csr, rq_fpr = fpr, rq_subject = subject, rq_uri_sans = uris,
               rq_dns_sans = dns, rq_ip_sans = ips, rq_validation = validation,
               rq_by = requested_by, rq_status = status, rq_created = t, rq_updated = t\<rparr>
        in (Inr row, (bump CertificateRequests d)\<lparr>d_requests := d_requests d @ [row]\<rparr>))"

definition update_certificate_request_status ::
  "string \<Rightarrow> string \<Rightarrow> pydict option \<Rightarrow> int \<Rightarrow> request_row option dbop" where
  "update_certificate_request_status request_id status validation t d =
     (case validation of
        None \<Rightarrow>
         (let rows = update_where (\<lambda>r. rq_request r = request_id)
                (\<lambda>r. r\<lparr>rq_status := status, rq_updated := t\<rparr>) (d_requests d)
          in (Inr (find (\<lambda>r. rq_request r = request_id) rows), d\<lparr>d_requests := rows\<rparr>))
      | Some v \<Rightarrow>
         (case json_dumps (PDict v) of
            Inl e \<Rightarrow> (Inl e, d)
          | Inr _ \<Rightarrow>
             (let rows = update_where (\<lambda>r. rq_request r = request_id)
                    (\<lambda>r. r\<lparr>rq_status := status, rq_validation := v, rq_updated := t\<rparr>) (d_requests d)
              in (Inr (find (\<lambda>r. rq_request r = request_id) rows), d\<lparr>d_requests := rows\<rparr>))))"

definition get_certificate_request :: "string \<Rightarrow> (request_row \<times> app_row) option dbop" where
  "get_certificate_request request_id d =
     ret (find (\<lambda>(r, a). rq_request r = request_id) (join_apps rq_app (d_requests d) (d_apps d))) d"

definition closed_statuses :: "string list" where
  "closed_statuses = [''FAILED'', ''REJECTED'', ''DRY_RUN_VALIDATED'', ''DRY_RUN_REJECTED'']"

definition get_certificate_request_by_csr :: "string \<Rightarrow> request_row option dbop" where
  "get_certificate_request_by_csr fpr d =
     ret (fetch_one (order_desc rq_id
       (filter (\<lambda>r. rq_fpr r = fpr \<and> rq_status r \<notin> set closed_statuses) (d_requests d)))) d"

section \<open>Certificate packages\<close>

definition packages_for :: "db \<Rightarrow> int \<Rightarrow> string \<Rightarrow> package_row list" where
  "packages_for d app_id profile = filter (\<lambda>p. pk_app p = app_id \<and> pk_profile p = profile) (d_packages d)"

definition latest_package :: "db \<Rightarrow> int \<Rightarrow> string \<Rightarrow> package_row option" where
  "latest_package d app_id profile = fetch_one (order_desc pk_generation (packages_for d app_id profile))"

definition get_latest_certificate_package_for_application :: "int \<Rightarrow> string \<Rightarrow> package_row option dbop" where
  "get_latest_certificate_package_for_application app_id profile d =
     ret (latest_package d app_id profile) d"

definition next_lineage :: "package_row option \<Rightarrow> int \<times> string option \<times> int option" where
  \<comment> \<open>generation, superseded package and superseded generation of the next package\<close>
  "next_lineage previous = (case previous of
     None \<Rightarrow> (1, None, None)
   | Some p \<Rightarrow> (pk_generation p + 1, Some (pk_package p), Some (pk_generation p)))"

definition insert_certificate_package ::
  "string \<Rightarrow> int \<Rightarrow> string option \<Rightarrow> string \<Rightarrow> int option \<Rightarrow> string \<Rightarrow> pydict \<Rightarrow> string \<Rightarrow> string \<Rightarrow>
   string \<Rightarrow> string \<Rightarrow> int option \<Rightarrow> string option \<Rightarrow> int option \<Rightarrow> int \<Rightarrow> package_row dbop" where
  "insert_certificate_package package_id app_id runtime request_id cert_id profile manifest sha
       sig compatibility lifecycle generation prev_package prev_generation t d =
     (let (gen, prev_p, prev_g) = (case generation of
            None \<Rightarrow> next_lineage (latest_package d app_id profile)
          | Some g \<Rightarrow> (g, prev_package, prev_generation))
      in case json_dumps (PDict manifest) of
        Inl e \<Rightarrow> (Inl e, d)
      | Inr _ \<Rightarrow>
        if package_id \<in> pk_package ` set (d_packages d)
        then (Inl (UniqueViolation ''certificate_packages.package_id''), bump CertificatePackages d)
        else if (app_id, profile, gen) \<in> (\<lambda>p. (pk_app p, pk_profile p, pk_generation p)) ` set (d_packages d)
        then (Inl (UniqueViolation ''certificate_packages.generation''), bump CertificatePackages d)
        else if app_id \<notin> app_ids d
        then (Inl (ForeignKeyViolation ''certificate_packages.application_id''), bump CertificatePackages d)
        else if request_id \<notin> rq_request ` set (d_requests d)
        then (Inl (ForeignKeyViolation ''certificate_packages.request_id''), bump CertificatePackages d)
        else if (case cert_id of None \<Rightarrow> False | Some i \<Rightarrow> i \<notin> cert_ids d)
        then (Inl (ForeignKeyViolation ''certificate_packages.certificate_id''), bump CertificatePackages d)
        else if profile \<notin> profile_names d
        then (Inl (ForeignKeyViolation ''certificate_packages.profile_name''), bump CertificatePackages d)
        else let row = \<lparr>pk_id = next_id CertificatePackages d, pk_package = package_id,
               pk_app = app_id, pk_runtime = runtime, pk_request = request_id, pk_cert = cert_id,
               pk_generation = gen, pk_profile = profile, pk_prev_package = prev_p,
               pk_prev_generation = prev_g, pk_manifest = manifest, pk_manifest_sha = sha,
               pk_signature = sig, pk_compat = compatibility, pk_lifecycle = lifecycle,
               pk_status = ''active'', pk_created = t\<rparr>
        in (Inr row, (bump CertificatePackages d)\<lparr>d_packages := d_packages d @ [row]\<rparr>))"

type_synonym package_view = "package_row \<times> app_row"

definition package_views :: "db \<Rightarrow> package_view list" where
  "package_views d = join_apps pk_app (d_packages d) (d_apps d)"

definition get_certificate_package :: "string \<Rightarrow> package_view option dbop" where
  "get_certificate_package package_id d =
     ret (find (\<lambda>(p, a). pk_package p = package_id) (package_views d)) d"

definition list_certificate_packages_for_certificate :: "int \<Rightarrow> package_view list dbop" where
  "list_certificate_packages_for_certificate cert_id d =
     ret (order_desc (pk_generation \<circ> fst) (filter (\<lambda>(p, a). pk_cert p = Some cert_id) (package_views d))) d"

definition wants :: "string option \<Rightarrow> string \<Rightarrow> bool" where
  \<comment> \<open>an optional filter applies when it is given and not empty\<close>
  "wants x s = (case x of None \<Rightarrow> True | Some v \<Rightarrow> v = [] \<or> s = v)"

definition list_certificate_packages ::
  "string option \<Rightarrow> string option \<Rightarrow> string option \<Rightarrow> string option \<Rightarrow> int \<Rightarrow> package_view list dbop" where
  "list_certificate_packages uri runtime profile lifecycle limit d =
     limit_rows limit (order_asc (\<lambda>(p, a). (a_uri a, pk_profile p, - pk_generation p))
       (filter (\<lambda>(p, a). wants uri (a_uri a)
          \<and> (case runtime of None \<Rightarrow> True | Some r \<Rightarrow> r = [] \<or> pk_runtime p = Some r)
          \<and> wants profile (pk_profile p) \<and> wants lifecycle (pk_lifecycle p)) (package_views d))) d"

definition list_certificate_packages_for_lineage :: "int \<Rightarrow> string \<Rightarrow> package_view list dbop" where
  "list_certificate_packages_for_lineage app_id profile d =
     ret (order_desc (pk_generation \<circ> fst)
       (filter (\<lambda>(p, a). pk_app p = app_id \<and> pk_profile p = profile) (package_views d))) d"

definition list_package_events :: "string \<Rightarrow> int \<Rightarrow> package_event_row list dbop" where
  "list_package_events package_id limit d =
     limit_rows limit (order_desc (\<lambda>e. (pe_created e, pe_id e))
       (filter (\<lambda>e. pe_package e = package_id) (d_pevents d))) d"

section \<open>Package lifecycle\<close>

definition PACKAGE_LIFECYCLE_ORDER :: "(string \<times> int) list" where
  "PACKAGE_LIFECYCLE_ORDER = [(''ISSUED'', 10), (''PACKAGED'', 20), (''PULLED'', 30),
     (''VERIFIED'', 40), (''STAGED'', 50), (''APPROVED'', 60), (''ACTIVATED'', 70),
     (''ROLLED_BACK'', 80), (''REVOKED'', 90), (''EXPIRED'', 100)]"

definition lifecycle_rank :: "string \<Rightarrow> int" where
  \<comment> \<open>\<open>PACKAGE_LIFECYCLE_ORDER.get(state, -1)\<close>\<close>
  "lifecycle_rank s = (case map_of PACKAGE_LIFECYCLE_ORDER s of None \<Rightarrow> -1 | Some r \<Rightarrow> r)"

definition set_lifecycle :: "string \<Rightarrow> package_row \<Rightarrow> package_row" where
  "set_lifecycle target p = p\<lparr>pk_lifecycle := target,
     pk_status := (if target = ''REVOKED'' then ''revoked'' else pk_status p)\<rparr>"

definition insert_package_event :: "string \<Rightarrow> string \<Rightarrow> string \<Rightarrow> pydict \<Rightarrow> int \<Rightarrow> unit dbop" where
  "insert_package_event package_id event_type actor details t d =
     (case json_dumps (PDict details) of
        Inl e \<Rightarrow> (Inl e, d)
      | Inr _ \<Rightarrow>
         (Inr (), (bump PackageEvents d)\<lparr>d_pevents := d_pevents d @
            [\<lparr>pe_id = next_id PackageEvents d, pe_package = package_id, pe_type = event_type,
              pe_actor = actor, pe_details = details, pe_created = t\<rparr>]\<rparr>))"

definition update_certificate_package_lifecycle ::
  "string \<Rightarrow> string \<Rightarrow> string \<Rightarrow> pydict \<Rightarrow> int \<Rightarrow> package_row option dbop" where
  "update_certificate_package_lifecycle package_id state actor details t d =
     (let requested = upper state in
      if requested \<notin> set (map fst PACKAGE_LIFECYCLE_ORDER)
      then (Inl (ValueError (''unsupported package lifecycle state: '' @ requested)), d)
      else case find (\<lambda>p. pk_package p = package_id) (d_packages d) of
        None \<Rightarrow> (Inr None, d)
      | Some current \<Rightarrow>
         (let current_state = upper (pk_lifecycle current);
              ignored = lifecycle_rank requested < lifecycle_rank current_state;
              target = (if ignored then current_state else requested);
              details' = (if ignored
                then dput ''transition_ignored'' (PStr ''non_regressive_lifecycle_state'')
                       (dput ''requested_lifecycle_state'' (PStr requested) details)
                else details);
              d1 = d\<lparr>d_packages := update_where (\<lambda>p. pk_package p = package_id)
                       (set_lifecycle target) (d_packages d)\<rparr>
          in case insert_package_event package_id (''package_'' @ lower requested) actor details' t d1 of
               (Inl e, _) \<Rightarrow> (Inl e, d)
             | (Inr _, d2) \<Rightarrow> (Inr (find (\<lambda>p. pk_package p = package_id) (d_packages d2)), d2)))"

section \<open>Lifecycle telemetry\<close>

definition counts_by :: "('r \<Rightarrow> 'k::linorder) \<Rightarrow> 'r list \<Rightarrow> ('k \<times> int) list" where
  \<comment> \<open>\<open>SELECT k, COUNT(*) ... GROUP BY k ORDER BY k\<close>\<close>
  "counts_by key rows = map (\<lambda>k. (k, int (count_list (map key rows) k))) (sort (remdups (map key rows)))"

record lifecycle_telemetry =
  lt_by_state :: "(string \<times> int) list"
  lt_by_compat :: "(string \<times> int) list"
  lt_lineages :: "((string \<times> string) \<times> int \<times> int) list"
  lt_latest :: "(package_view \<times> (cert_row \<times> int option) option) list"

text \<open>Every lineage with its latest generation and its number of packages; the 25 latest
  packages with their certificate and its remaining lifetime in microseconds (the report
  divides it by the length of a day).\<close>

definition package_lifecycle_telemetry :: "int \<Rightarrow> lifecycle_telemetry dbop" where
  "package_lifecycle_telemetry t d =
     (let views = package_views d;
          key = (\<lambda>(p, a). (a_uri a, pk_profile p));
          lineage = (\<lambda>(k, n). (k, foldl max 0
             (map (pk_generation \<circ> fst) (filter (\<lambda>v. key v = k) views)), n));
          cert = (\<lambda>p. case pk_cert p of None \<Rightarrow> None | Some i \<Rightarrow> find (\<lambda>c. c_id c = i) (d_certs d))
      in ret \<lparr>lt_by_state = counts_by pk_lifecycle (d_packages d),
           lt_by_compat = counts_by pk_compat (d_packages d),
           lt_lineages = map lineage (counts_by key views),
           lt_latest = map (\<lambda>v. (v, map_option (\<lambda>c. (c, map_option (\<lambda>na. na - t) (c_not_after c)))
              (cert (fst v)))) (take 25 (order_desc (pk_created \<circ> fst) views))\<rparr> d)"

lemma package_queries_pure [simp]:
  "snd (get_component_profile nm d) = d" "snd (list_component_profiles d) = d"
  "snd (get_certificate_request r d) = d" "snd (get_certificate_request_by_csr f d) = d"
  "snd (get_latest_certificate_package_for_application i p d) = d"
  "snd (get_certificate_package q d) = d" "snd (list_certificate_packages_for_certificate i d) = d"
  "snd (list_certificate_packages u ru pr li n d) = d"
  "snd (list_certificate_packages_for_lineage i p d) = d" "snd (list_package_events q n d) = d"
  "snd (package_lifecycle_telemetry t d) = d"
  by (simp_all add: ret_def Let_def get_component_profile_def list_component_profiles_def
      get_certificate_request_def get_certificate_request_by_csr_def
      get_latest_certificate_package_for_application_def get_certificate_package_def
      list_certificate_packages_for_certificate_def list_certificate_packages_def
      list_certificate_packages_for_lineage_def list_package_events_def
      package_lifecycle_telemetry_def)

section \<open>The constraints are kept\<close>

lemma set_lifecycle_keys [simp]:
  "pk_id (set_lifecycle s p) = pk_id p" "pk_package (set_lifecycle s p) = pk_package p"
  "pk_app (set_lifecycle s p) = pk_app p" "pk_profile (set_lifecycle s p) = pk_profile p"
  "pk_generation (set_lifecycle s p) = pk_generation p" "pk_request (set_lifecycle s p) = pk_request p"
  "pk_cert (set_lifecycle s p) = pk_cert p" "pk_created (set_lifecycle s p) = pk_created p"
  by (simp_all add: set_lifecycle_def)

lemma upsert_component_profile_keeps:
  "evolves (keeps db_inv) (upsert_component_profile profile t)"
  unfolding evolves_def keeps_def upsert_component_profile_def Let_def
  by (auto simp: db_inv_defs next_id_def find_None_iff image_update_where
      serial_ok_append serial_ok_update serial_ok_bump
      intro!: unique_on_append unique_on_update elim!: refers_mono
      split: sum.splits list.splits option.splits)

lemma insert_certificate_request_keeps:
  "evolves (keeps db_inv) (insert_certificate_request r a ru p so csr f su us ds ips v b st t)"
  unfolding evolves_def keeps_def insert_certificate_request_def Let_def json_dumps_def
  by (auto simp: bump_keeps_db_inv)
     (auto simp: db_inv_defs next_id_def profile_names_def serial_ok_append
      intro!: unique_on_append refers_append elim!: refers_mono)

lemma update_certificate_request_status_keeps:
  "evolves (keeps db_inv) (update_certificate_request_status r st v t)"
  unfolding evolves_def keeps_def update_certificate_request_status_def Let_def json_dumps_def
  by (auto simp: db_inv_defs image_update_where serial_ok_update
      intro!: unique_on_update refers_update split: option.splits)

lemma insert_certificate_package_keeps:
  "evolves (keeps db_inv) (insert_certificate_package p a ru r c pr m sha sig co li g pp pg t)"
  unfolding evolves_def keeps_def insert_certificate_package_def Let_def json_dumps_def
  by (auto simp: bump_keeps_db_inv split: prod.splits option.splits)
     (auto simp: db_inv_defs next_id_def profile_names_def serial_ok_append
      intro!: unique_on_append refers_append elim!: refers_mono)

lemma insert_package_event_keeps:
  "evolves (keeps db_inv) (insert_package_event p ty ac det t)"
  unfolding evolves_def keeps_def insert_package_event_def json_dumps_def
  by (auto simp: db_inv_defs next_id_def serial_ok_append)

lemma update_certificate_package_lifecycle_keeps:
  "evolves (keeps db_inv) (update_certificate_package_lifecycle p st ac det t)"
proof -
  have step: "db_inv d \<Longrightarrow> db_inv (d\<lparr>d_packages := update_where q (set_lifecycle s) (d_packages d)\<rparr>)"
    for d q s
    by (auto simp: db_inv_defs serial_ok_update set_update_where
        intro!: unique_on_update refers_update)
  show ?thesis
    unfolding evolves_def keeps_def
  proof (intro allI impI)
    fix d
    assume "db_inv d"
    then show "db_inv (snd (update_certificate_package_lifecycle p st ac det t d))"
      using step insert_package_event_keeps
      by (auto simp: update_certificate_package_lifecycle_def Let_def evolves_def keeps_def
          split: option.splits prod.splits sum.splits) (metis snd_conv)+
  qed
qed

end
