(* ===== verification/Db_Facts.thy ===== *)
theory Db_Facts
  imports Db_Packages
begin

text \<open>
  What the database functions guarantee beyond the schema's constraints: the three
  numbered logs of the database (trust list versions, artifact revisions, package
  generations) share one interface, the members of a freshly built trust list, and what
  no operation ever undoes (a revocation, a lifecycle rank, an audit event).
\<close>

section \<open>Numbered logs\<close>

locale versioned_log =
  fixes rows :: "'s \<Rightarrow> 'r list"
    and num :: "'r \<Rightarrow> int"
    and appends :: "'s \<Rightarrow> 'r \<Rightarrow> 's \<Rightarrow> bool"
  assumes appends_rows: "appends s r s' \<Longrightarrow> rows s' = rows s @ [r]"
    and appends_above: "appends s r s' \<Longrightarrow> x \<in> set (rows s) \<Longrightarrow> num x < num r"
begin

lemma latest_appended:
  assumes "appends s r s'"
  shows "fetch_one (order_desc num (rows s')) = Some r"
proof -
  obtain z where z: "fetch_one (order_desc num (rows s')) = Some z"
    using appends_rows [OF assms] by (cases "fetch_one (order_desc num (rows s'))") auto
  have le: "num r \<le> num z"
    using order_desc_hd_max [OF z] appends_rows [OF assms] by simp
  have "z \<in> set (rows s @ [r])"
    using fetch_desc_mem [OF z] appends_rows [OF assms] by simp
  then have "z = r" using appends_above [OF assms, of z] le by auto
  with z show ?thesis by simp
qed

lemma previous_latest_below:
  assumes "appends s r s'" and "fetch_one (order_desc num (rows s)) = Some q"
  shows "num q < num r"
  using appends_above [OF assms(1)] fetch_desc_mem [OF assms(2)] by blast

lemma numbers_stay_distinct:
  assumes "appends s r s'" and "distinct (map num (rows s))"
  shows "distinct (map num (rows s'))"
  using assms appends_rows [OF assms(1)] appends_above [OF assms(1)] by (auto; fastforce)

end

lemma lists_for_fold [simp]:
  "lists_for (fold (add_member l) cs d) zone role = lists_for d zone role"
  by (simp add: lists_for_def)

interpretation list_log: versioned_log
  "\<lambda>d. lists_for d zone role" tl_version
  "\<lambda>d r d'. \<exists>t. build_trust_list zone role t d = (Inr r, d')"
  for zone role
proof
  fix d r d' x
  assume "\<exists>t. build_trust_list zone role t d = (Inr r, d')"
  then obtain t where b: "build_trust_list zone role t d = (Inr r, d')" ..
  then show "lists_for d' zone role = lists_for d zone role @ [r]"
    by (auto simp: build_trust_list_def Let_def lists_for_def)
  assume "x \<in> set (lists_for d zone role)"
  with b show "tl_version x < tl_version r"
    by (auto simp: build_trust_list_def Let_def dest: max_version_ge)
qed

interpretation artifact_log: versioned_log
  "\<lambda>d. artifacts_for d zone role" ta_revision
  "\<lambda>d r d'. \<exists>v art sha sig kid fpr g e why t.
     insert_trust_artifact zone role v art sha sig kid fpr g e why t d = (Inr r, d')"
  for zone role
  by unfold_locales
    (auto simp: insert_trust_artifact_def Let_def artifacts_for_def json_dumps_def
      split: if_splits dest: revision_le_max)

lemma latest_package_ge:
  assumes "p \<in> set (packages_for d a pr)"
  shows "\<exists>q. latest_package d a pr = Some q \<and> pk_generation p \<le> pk_generation q"
proof -
  have "latest_package d a pr \<noteq> None"
    using assms by (auto simp: latest_package_def)
  then obtain q where q: "latest_package d a pr = Some q" by auto
  then show ?thesis
    using order_desc_hd_max [of pk_generation "packages_for d a pr" q p] assms
    by (auto simp: latest_package_def)
qed

lemma next_lineage_above:
  "p \<in> set (packages_for d a pr) \<Longrightarrow> pk_generation p < fst (next_lineage (latest_package d a pr))"
  using latest_package_ge [of p d a pr] by (auto simp: next_lineage_def)

interpretation package_log: versioned_log
  "\<lambda>d. packages_for d app_id profile" pk_generation
  "\<lambda>d r d'. \<exists>p ru rq c m sha sig co li pp pg t.
     insert_certificate_package p app_id ru rq c profile m sha sig co li None pp pg t d = (Inr r, d')"
  for app_id profile
proof
  fix d r d' x
  assume "\<exists>p ru rq c m sha sig co li pp pg t.
     insert_certificate_package p app_id ru rq c profile m sha sig co li None pp pg t d = (Inr r, d')"
  then obtain p ru rq c m sha sig co li pp pg t where
    ins: "insert_certificate_package p app_id ru rq c profile m sha sig co li None pp pg t d = (Inr r, d')"
    by blast
  then show "packages_for d' app_id profile = packages_for d app_id profile @ [r]"
    by (auto simp: insert_certificate_package_def Let_def packages_for_def
        split: prod.splits sum.splits if_splits)
  assume x: "x \<in> set (packages_for d app_id profile)"
  from ins have "pk_generation r = fst (next_lineage (latest_package d app_id profile))"
    by (auto simp: insert_certificate_package_def Let_def split: prod.splits sum.splits if_splits)
  then show "pk_generation x < pk_generation r" using next_lineage_above [OF x] by simp
qed

section \<open>The members of a built trust list\<close>

lemma members_of_add_member:
  "members_of (add_member l c d) k =
   (if k = l \<and> c \<notin> set (members_of d l) then members_of d k @ [c] else members_of d k)"
proof -
  have "(l, c, ''application'') \<in> (\<lambda>m. (tm_list m, tm_cert m, tm_type m)) ` set (d_members d)
      \<longleftrightarrow> c \<in> set (members_of d l)"
    by (force simp: members_of_def)
  then show ?thesis by (auto simp: add_member_def members_of_def)
qed

lemma members_of_fold:
  "set (members_of (fold (add_member l) cs d) l) = set (members_of d l) \<union> set cs
   \<and> (distinct (members_of d l) \<longrightarrow> distinct (members_of (fold (add_member l) cs d) l))"
proof (induction cs arbitrary: d)
  case (Cons c cs)
  from Cons [of "add_member l c d"] show ?case
    by (auto simp: members_of_add_member)
qed simp

lemma members_of_fold_other: "k \<noteq> l \<Longrightarrow> members_of (fold (add_member l) cs d) k = members_of d k"
  by (induction cs arbitrary: d) (simp_all add: members_of_add_member)

lemma members_of_fresh:
  assumes "db_inv d" and "d_seq d TrustLists < k"
  shows "members_of d k = []"
  using assms by (fastforce simp: members_of_def db_inv_defs refers_def serial_ok_def filter_empty_conv)

lemma build_trust_list_result:
  assumes inv: "db_inv d" and b: "build_trust_list zone role t d = (Inr l, d')"
  shows "latest_list d' zone role = Some l"
    and "tl_version l = max_version d zone role + 1"
    and "set (members_of d' (tl_id l)) = set (desired_trustlist_certificate_ids d' zone role)"
    and "distinct (members_of d' (tl_id l))"
    and "desired_trustlist_certificate_ids d' zone role = desired_trustlist_certificate_ids d zone role"
    and "d_apps d' = d_apps d" and "d_certs d' = d_certs d" and "d_packages d' = d_packages d"
proof -
  let ?d1 = "(bump TrustLists d)\<lparr>d_lists := d_lists d @ [l]\<rparr>"
  have l: "tl_version l = max_version d zone role + 1" "tl_id l = d_seq d TrustLists + 1"
    and d': "d' = fold (add_member (tl_id l)) (desired_trustlist_certificate_ids ?d1 zone role) ?d1"
    using b by (auto simp: build_trust_list_def Let_def next_id_def)
  show frame: "d_apps d' = d_apps d" "d_certs d' = d_certs d" "d_packages d' = d_packages d"
    by (simp_all add: d')
  have des: "desired_trustlist_certificate_ids ?d1 zone role = desired_trustlist_certificate_ids d zone role"
    by (rule desired_cong) simp_all
  show des': "desired_trustlist_certificate_ids d' zone role = desired_trustlist_certificate_ids d zone role"
    by (rule desired_cong) (simp_all add: frame)
  show "latest_list d' zone role = Some l"
    unfolding latest_list_def using b by (intro list_log.latest_appended) blast
  show "tl_version l = max_version d zone role + 1" by (rule l)
  have "members_of ?d1 (tl_id l) = []"
    using members_of_fresh [OF inv, of "tl_id l"] l by (simp add: members_of_def)
  then show "set (members_of d' (tl_id l)) = set (desired_trustlist_certificate_ids d' zone role)"
    and "distinct (members_of d' (tl_id l))"
    using members_of_fold [of "tl_id l" "desired_trustlist_certificate_ids ?d1 zone role" ?d1]
    unfolding des' by (simp_all add: d' des)
qed

text \<open>\<open>ensure_trust_list_current\<close> either finds the latest list current or builds one.\<close>

lemma ensure_cases:
  assumes "ensure_trust_list_current zone role t d = (Inr l, d')"
  obtains (current) "latest_list d zone role = Some l" "d' = d"
      "sort (members_of d (tl_id l)) = sort (desired_trustlist_certificate_ids d zone role)"
  | (built) "build_trust_list zone role t d = (Inr l, d')"
  using assms by (auto simp: ensure_trust_list_current_def split: option.splits if_splits)

lemma ensure_never_raises: "\<exists>l d'. ensure_trust_list_current zone role t d = (Inr l, d')"
  by (auto simp: ensure_trust_list_current_def build_trust_list_def Let_def split: option.splits)

section \<open>What is never undone\<close>

text \<open>Certificates: a row keeps its identity, and once revoked it stays revoked with the
  time of the first revocation.\<close>

definition cert_kept :: "cert_row \<Rightarrow> cert_row \<Rightarrow> bool" where
  "cert_kept c c' \<longleftrightarrow> c_id c' = c_id c \<and> c_fpr c' = c_fpr c \<and> c_app c' = c_app c \<and> c_pem c' = c_pem c
     \<and> (c_revoked c \<noteq> None \<longrightarrow> c_revoked c' = c_revoked c)
     \<and> (c_status c = ''revoked'' \<and> c_revoked c \<noteq> None \<longrightarrow> c_status c' = ''revoked'')"

definition certs_forward :: "db \<Rightarrow> db \<Rightarrow> bool" where
  "certs_forward d e \<longleftrightarrow> (\<forall>c \<in> set (d_certs d). \<exists>c' \<in> set (d_certs e). cert_kept c c')"

text \<open>Packages: identity, lineage and content are fixed, the lifecycle rank never
  decreases, and a revoked package stays revoked.\<close>

definition package_kept :: "package_row \<Rightarrow> package_row \<Rightarrow> bool" where
  "package_kept p q \<longleftrightarrow> pk_package q = pk_package p \<and> pk_app q = pk_app p \<and> pk_profile q = pk_profile p
     \<and> pk_generation q = pk_generation p \<and> pk_manifest q = pk_manifest p \<and> pk_cert q = pk_cert p
     \<and> lifecycle_rank (upper (pk_lifecycle p)) \<le> lifecycle_rank (upper (pk_lifecycle q))
     \<and> (pk_status p = ''revoked'' \<longrightarrow> pk_status q = ''revoked'')"

definition packages_forward :: "db \<Rightarrow> db \<Rightarrow> bool" where
  "packages_forward d e \<longleftrightarrow> (\<forall>p \<in> set (d_packages d). \<exists>q \<in> set (d_packages e). package_kept p q)"

text \<open>Audit: the log only grows at its end. A stored trust artifact is never changed or
  removed.\<close>

definition audit_forward :: "db \<Rightarrow> db \<Rightarrow> bool" where
  "audit_forward d e \<longleftrightarrow> (\<exists>more. d_audit e = d_audit d @ more)"

definition db_forward :: "db \<Rightarrow> db \<Rightarrow> bool" where
  "db_forward d e \<longleftrightarrow> certs_forward d e \<and> packages_forward d e \<and> audit_forward d e
     \<and> set (d_artifacts d) \<subseteq> set (d_artifacts e)
     \<and> (\<forall>tab. d_seq d tab \<le> d_seq e tab)"

lemmas db_forward_defs = db_forward_def certs_forward_def packages_forward_def audit_forward_def

lemma cert_kept_refl [simp]: "cert_kept c c"
  by (simp add: cert_kept_def)

lemma package_kept_refl [simp]: "package_kept p p"
  by (simp add: package_kept_def)

lemma cert_kept_trans: "cert_kept c c' \<Longrightarrow> cert_kept c' c'' \<Longrightarrow> cert_kept c c''"
  by (auto simp: cert_kept_def)

lemma package_kept_trans: "package_kept p q \<Longrightarrow> package_kept q r \<Longrightarrow> package_kept p r"
  by (auto simp: package_kept_def)

interpretation forward: evolution db_forward
proof
  show "db_forward d d" for d
    by (auto simp: db_forward_defs intro: cert_kept_refl package_kept_refl)
  show "db_forward d e \<Longrightarrow> db_forward e f \<Longrightarrow> db_forward d f" for d e f
    unfolding db_forward_defs
    by (intro conjI ballI allI) (meson cert_kept_trans package_kept_trans order_trans append_assoc | force)+
qed

lemma kept_update:
  assumes "\<And>r. r \<in> set rows \<Longrightarrow> p r \<Longrightarrow> K r (f r)" and "\<And>r. K r r"
  shows "\<forall>r \<in> set rows. \<exists>r' \<in> set (update_where p f rows). K r r'"
proof
  fix r
  assume "r \<in> set rows"
  then have "(if p r then f r else r) \<in> set (update_where p f rows)"
    and "K r (if p r then f r else r)"
    using assms by (auto simp: update_where_def)
  then show "\<exists>r' \<in> set (update_where p f rows). K r r'" by blast
qed

text \<open>An operation that leaves certificates and packages alone, or only adds to them,
  moves forward when the audit log and the counters do.\<close>

lemma db_forwardI:
  assumes "\<forall>c \<in> set (d_certs d). \<exists>c' \<in> set (d_certs e). cert_kept c c'"
    and "\<forall>p \<in> set (d_packages d). \<exists>q \<in> set (d_packages e). package_kept p q"
    and "\<exists>more. d_audit e = d_audit d @ more" and "set (d_artifacts d) \<subseteq> set (d_artifacts e)"
    and "\<And>tab. d_seq d tab \<le> d_seq e tab"
  shows "db_forward d e"
  using assms by (simp add: db_forward_defs)

lemma rows_kept [simp]:
  "\<forall>c \<in> set cs. \<exists>c' \<in> set cs. cert_kept c c'"
  "\<forall>p \<in> set ps. \<exists>q \<in> set ps. package_kept p q"
  by (auto intro: cert_kept_refl package_kept_refl)

lemma rows_kept_append [simp]:
  "\<forall>c \<in> set cs. \<exists>c' \<in> insert x (set cs). cert_kept c c'"
  "\<forall>p \<in> set ps. \<exists>q \<in> insert y (set ps). package_kept p q"
  by (auto intro: cert_kept_refl package_kept_refl)

lemma seq_add_member: "d_seq d tab \<le> d_seq (add_member l c d) tab"
  by (simp add: add_member_def)

lemma seq_fold_add_member: "d_seq d tab \<le> d_seq (fold (add_member l) cs d) tab"
  by (induction cs arbitrary: d) (auto intro: order_trans seq_add_member)

lemma audit_forward_op: "evolves db_forward (audit ty ac tg det t)"
  unfolding evolves_def
  by (auto simp: audit_def json_dumps_def intro!: db_forwardI)

lemma status_forward_op:
  "evolves db_forward (upsert_component_status payload u t)"
  "evolves db_forward (insert_component_event payload t)"
  unfolding evolves_def
  by (auto simp: upsert_component_status_def insert_component_event_def Let_def intro!: db_forwardI)

lemma application_forward_op:
  "evolves db_forward (upsert_application uri cn z ro h po st rt ct t)"
  "evolves db_forward (heartbeat_application i t)"
  unfolding evolves_def
  by (auto simp: upsert_application_def heartbeat_application_def Let_def intro!: db_forwardI
      split: option.splits)

lemma revoke_row_kept: "cert_kept c (revoke_row t c)"
  by (auto simp: cert_kept_def revoke_row_def coalesce_def)

lemma expired_kept: "expired_active t c \<Longrightarrow> cert_kept c (c\<lparr>c_status := ''expired''\<rparr>)"
  by (auto simp: cert_kept_def expired_active_def)

lemma certificate_forward_op:
  "evolves db_forward (insert_certificate app fpr se su iss nb na pem st t)"
  "evolves db_forward (mark_certificate_revoked i t)"
  "evolves db_forward (mark_expired_active_certificates t)"
proof -
  show "evolves db_forward (insert_certificate app fpr se su iss nb na pem st t)"
    unfolding evolves_def insert_certificate_def Let_def by (auto intro!: db_forwardI)
  show "evolves db_forward (mark_certificate_revoked i t)"
    unfolding evolves_def mark_certificate_revoked_def Let_def
    by (intro allI db_forwardI) (simp_all add: kept_update revoke_row_kept)
  show "evolves db_forward (mark_expired_active_certificates t)"
    unfolding evolves_def mark_expired_active_certificates_def
    by (intro allI db_forwardI) (simp_all add: kept_update expired_kept)
qed

lemma trust_forward_op:
  "evolves db_forward (build_trust_list zone role t)"
  "evolves db_forward (insert_trust_artifact zone role v art sha sig kid fpr g e r t)"
proof -
  show "evolves db_forward (build_trust_list zone role t)"
    unfolding evolves_def build_trust_list_def Let_def
    by (auto intro!: db_forwardI order_trans [OF _ seq_fold_add_member])
  show "evolves db_forward (insert_trust_artifact zone role v art sha sig kid fpr g e r t)"
    unfolding evolves_def insert_trust_artifact_def Let_def json_dumps_def
    by (auto intro!: db_forwardI)
qed

lemma ensure_forward_op: "evolves db_forward (ensure_trust_list_current zone role t)"
  using trust_forward_op(1) [of zone role t] forward.evo_refl
  by (auto simp: evolves_def ensure_trust_list_current_def split: option.splits)

lemma profile_forward_op: "evolves db_forward (upsert_component_profile profile t)"
  unfolding evolves_def upsert_component_profile_def Let_def
  by (auto intro!: db_forwardI split: sum.splits list.splits option.splits)

lemma request_forward_op:
  "evolves db_forward (insert_certificate_request r a ru p so csr f su us ds ips v b st t)"
  unfolding evolves_def insert_certificate_request_def Let_def json_dumps_def
  by (auto intro!: db_forwardI)

lemma request_status_forward_op: "evolves db_forward (update_certificate_request_status r st ov t)"
  unfolding evolves_def update_certificate_request_status_def Let_def json_dumps_def
  by (auto intro!: db_forwardI split: option.splits)

lemma package_event_forward_op: "evolves db_forward (insert_package_event q ty ac det t)"
  unfolding evolves_def insert_package_event_def json_dumps_def
  by (auto intro!: db_forwardI)

lemma insert_package_forward_op:
  "evolves db_forward (insert_certificate_package p a ru r c pr m sha sig co li g pp pg t)"
  unfolding evolves_def insert_certificate_package_def Let_def json_dumps_def
  by (auto intro!: db_forwardI split: prod.splits option.splits)

text \<open>The lifecycle update: upper case is idempotent, so the rank written is the larger
  of the two.\<close>

lemma upper_char_idem: "upper_char (upper_char c) = upper_char c"
proof (cases "97 \<le> (of_char c :: nat) \<and> (of_char c :: nat) \<le> 122")
  case True
  then have "(of_char c - 32 :: nat) < 256" by linarith
  then have "(of_char (char_of (of_char c - 32 :: nat) :: char) :: nat) = of_char c - 32"
    by (simp only: of_char_of mod_less)
  moreover have "\<not> 97 \<le> (of_char c - 32 :: nat)" using True by linarith
  ultimately show ?thesis using True by (simp add: upper_char_def Let_def)
qed (auto simp: upper_char_def Let_def)

lemma upper_idem [simp]: "upper (upper s) = upper s"
  by (simp add: upper_def upper_char_idem comp_def)

lemma unique_on_eq: "unique_on key rows \<Longrightarrow> r \<in> set rows \<Longrightarrow> s \<in> set rows \<Longrightarrow> key r = key s \<Longrightarrow> r = s"
  using unique_on_inj by (fastforce dest: inj_onD)

lemma set_lifecycle_kept:
  "lifecycle_rank (upper (pk_lifecycle p)) \<le> lifecycle_rank (upper s) \<Longrightarrow> package_kept p (set_lifecycle s p)"
  by (auto simp: package_kept_def set_lifecycle_def)

lemma lifecycle_forward:
  assumes "unique_on pk_package (d_packages d)"
  shows "db_forward d (snd (update_certificate_package_lifecycle q st ac det t d))"
proof -
  have step: "db_forward d (d\<lparr>d_packages := update_where (\<lambda>p. pk_package p = q) (set_lifecycle s) (d_packages d)\<rparr>)"
    if f: "find (\<lambda>p. pk_package p = q) (d_packages d) = Some cur"
      and le: "lifecycle_rank (upper (pk_lifecycle cur)) \<le> lifecycle_rank (upper s)" for cur s
  proof (intro db_forwardI)
    have "package_kept p (set_lifecycle s p)" if "p \<in> set (d_packages d)" "pk_package p = q" for p
    proof -
      have "p = cur" using that find_SomeD [OF f] assms by (auto dest: unique_on_eq)
      with le show ?thesis by (simp add: set_lifecycle_kept)
    qed
    then show "\<forall>p \<in> set (d_packages d). \<exists>p' \<in> set (d_packages (d\<lparr>d_packages :=
        update_where (\<lambda>p. pk_package p = q) (set_lifecycle s) (d_packages d)\<rparr>)). package_kept p p'"
      by (simp add: kept_update)
  qed simp_all
  show ?thesis
  proof (cases "find (\<lambda>p. pk_package p = q) (d_packages d)")
    case None
    then show ?thesis by (simp add: update_certificate_package_lifecycle_def Let_def forward.evo_refl)
  next
    case (Some cur)
    define target where "target = (if lifecycle_rank (upper st) < lifecycle_rank (upper (pk_lifecycle cur))
      then upper (pk_lifecycle cur) else upper st)"
    let ?d1 = "d\<lparr>d_packages := update_where (\<lambda>p. pk_package p = q) (set_lifecycle target) (d_packages d)\<rparr>"
    have "db_forward d ?d1"
      by (rule step [OF Some]) (simp add: target_def)
    moreover have "db_forward ?d1 (snd (insert_package_event q ty ac det' t ?d1))" for ty det'
      using package_event_forward_op by (simp add: evolves_def)
    ultimately have "db_forward d (snd (insert_package_event q ty ac det' t ?d1))" for ty det'
      by (rule forward.evo_trans)
    then show ?thesis
      using Some forward.evo_refl
      by (auto simp: update_certificate_package_lifecycle_def Let_def target_def
          split: prod.splits sum.splits) (metis snd_conv)+
  qed
qed

section \<open>Constraints and history together\<close>

text \<open>The relation every mutating function of the database respects: from a database that
  satisfies the constraints it reaches one that satisfies them, and undoes nothing.\<close>

definition db_sound :: "db \<Rightarrow> db \<Rightarrow> bool" where
  "db_sound d e \<longleftrightarrow> (db_inv d \<longrightarrow> db_inv e \<and> db_forward d e)"

interpretation sound: evolution db_sound
  by unfold_locales (auto simp: db_sound_def intro: forward.evo_refl forward.evo_trans)

lemma soundI: "evolves (keeps db_inv) m \<Longrightarrow> evolves db_forward m \<Longrightarrow> evolves db_sound m"
  by (simp add: evolves_def keeps_def db_sound_def)

lemma lifecycle_sound [evolves_rules]:
  "evolves db_sound (update_certificate_package_lifecycle q st ac det t)"
  using update_certificate_package_lifecycle_keeps [of q st ac det t] lifecycle_forward
  by (auto simp: evolves_def keeps_def db_sound_def db_inv_def packages_inv_def)

lemmas sound_ops [evolves_rules] =
  soundI [OF audit_keeps audit_forward_op]
  soundI [OF upsert_component_status_keeps status_forward_op(1)]
  soundI [OF insert_component_event_keeps status_forward_op(2)]
  soundI [OF upsert_application_keeps application_forward_op(1)]
  soundI [OF heartbeat_application_keeps application_forward_op(2)]
  soundI [OF insert_certificate_keeps certificate_forward_op(1)]
  soundI [OF mark_certificate_revoked_keeps certificate_forward_op(2)]
  soundI [OF mark_expired_active_certificates_keeps certificate_forward_op(3)]
  soundI [OF build_trust_list_keeps trust_forward_op(1)]
  soundI [OF insert_trust_artifact_keeps trust_forward_op(2)]
  soundI [OF ensure_trust_list_current_keeps ensure_forward_op]
  soundI [OF upsert_component_profile_keeps profile_forward_op]
  soundI [OF insert_certificate_request_keeps request_forward_op]
  soundI [OF update_certificate_request_status_keeps request_status_forward_op]
  soundI [OF insert_certificate_package_keeps insert_package_forward_op]
  soundI [OF insert_package_event_keeps package_event_forward_op]

lemma seed_component_profiles_sound [evolves_rules]:
  "evolves db_sound (seed_component_profiles profiles t)"
  unfolding seed_component_profiles_def
  by (intro sound.combinators evolves_rules)

lemma pure_sound: "(\<And>d. snd (m d) = d) \<Longrightarrow> evolves db_sound m"
  by (rule pure_evolves) (auto intro: sound.evo_refl)

end
