(* ===== verification/Settings.thy ===== *)
theory Settings
  imports Py_Text
begin

text \<open>
  \<open>gds/app/config.py\<close>: the immutable settings, grouped by the component that reads
  them, and their loading from the process environment. \<open>env\<close> is \<open>os.getenv\<close> and
  \<open>read_file\<close> the content of a readable text file.
\<close>

section \<open>Reading the environment\<close>

type_synonym environ = "string \<Rightarrow> string option"

definition env_text :: "environ \<Rightarrow> string \<Rightarrow> string \<Rightarrow> string" where
  "env_text env name dflt = (case env name of None \<Rightarrow> dflt | Some v \<Rightarrow> if v = [] then dflt else v)"

definition env_bool :: "environ \<Rightarrow> string \<Rightarrow> bool \<Rightarrow> bool" where
  "env_bool env name dflt = (case env name of None \<Rightarrow> dflt
     | Some raw \<Rightarrow> lower (strip raw) \<in> {''1'', ''true'', ''yes'', ''on''})"

definition env_int :: "environ \<Rightarrow> string \<Rightarrow> int \<Rightarrow> exn + int" where
  "env_int env name dflt = (case env name of None \<Rightarrow> Inr dflt
     | Some raw \<Rightarrow> if raw = [] then Inr dflt
         else case parse_int raw of None \<Rightarrow> Inl (ValueError name) | Some i \<Rightarrow> Inr i)"

definition env_file_text :: "environ \<Rightarrow> (string \<Rightarrow> string option) \<Rightarrow> string \<Rightarrow> string \<Rightarrow> string" where
  "env_file_text env read_file name dflt =
     (let path = env_text env name dflt in
      if path = [] then [] else case read_file path of None \<Rightarrow> [] | Some s \<Rightarrow> strip s)"

definition bindS :: "'e + 'a \<Rightarrow> ('a \<Rightarrow> 'e + 'b) \<Rightarrow> 'e + 'b" where
  "bindS m f = (case m of Inl e \<Rightarrow> Inl e | Inr x \<Rightarrow> f x)"

lemma bindS_simps [simp]: "bindS (Inl e) f = Inl e" "bindS (Inr x) f = f x"
  by (simp_all add: bindS_def)

lemma bindS_Inr: "bindS m f = Inr y \<longleftrightarrow> (\<exists>x. m = Inr x \<and> f x = Inr y)"
  by (cases m) auto

section \<open>The settings\<close>

record service_settings =
  service_name :: string
  service_version :: string
  http_port :: int
  health_path :: string
  startup_retries :: int
  startup_retry_seconds :: int
  data_dir :: string
  fallback_shared_pki_root :: string

record pg_settings =
  pg_host :: string
  pg_port :: int
  pg_db :: string
  pg_user :: string
  pg_password :: string
  pg_connect_timeout :: int

record vault_settings =
  vault_addr :: string
  vault_health_path :: string
  vault_timeout_seconds :: int
  vault_tls_ca_file :: string
  vault_tls_client_cert :: string
  vault_tls_client_key :: string
  vault_tls_verify :: bool
  vault_role_id_file :: string
  vault_secret_id_file :: string
  vault_approle_login_path :: string
  vault_token_lookup_path :: string
  vault_token_renew_path :: string
  vault_pki_mount :: string
  vault_root_pki_mount :: string
  vault_intermediate_pki_mount :: string
  vault_root_issuer_id :: string
  vault_intermediate_issuer_id :: string
  vault_root_crl_mode :: string
  vault_intermediate_crl_mode :: string
  vault_strict_crl_freshness :: bool
  vault_token_renew_margin_seconds :: int
  vault_allow_unauthenticated_pki_read :: bool
  vault_sign_role :: string

record facade_settings =
  facade_enabled :: bool
  facade_host :: string
  facade_port :: int
  facade_mode :: string
  facade_allow_signing :: bool
  facade_max_csr_bytes :: int
  facade_session_request_limit :: int
  facade_client_enrollment_limit :: int

record artifact_settings =
  signing_key_path :: string
  signing_key_id :: string
  artifact_ttl_seconds :: int
  regen_threshold_percent :: int
  scan_interval_seconds :: int
  regen_min_interval_seconds :: int
  sign_debug :: bool

record auth_settings =
  agent_auth_enabled :: bool
  agent_tokens_file :: string
  mtls_mode :: string
  trusted_proxy_ips :: "string list"
  internal_proxy_secret :: string
  internal_proxy_secret_file :: string
  tls_client_crl_file :: string

record expiry_settings =
  cert_expiry_warning_days :: int
  cert_expiry_critical_days :: int
  renewal_threshold_days :: int
  cert_default_ttl :: string

record collector_settings =
  dmz_enabled :: bool
  dmz_url :: string
  dmz_token_file :: string
  dmz_poll_interval :: int
  dmz_health_interval :: int
  dmz_db_summary_interval :: int
  dmz_batch_size :: int
  dmz_timeout :: int
  dmz_max_message_len :: int
  dmz_max_raw_len :: int
  dmz_max_payload_bytes :: int

record settings =
  s_service :: service_settings
  s_pg :: pg_settings
  s_vault :: vault_settings
  s_facade :: facade_settings
  s_artifact :: artifact_settings
  s_auth :: auth_settings
  s_expiry :: expiry_settings
  s_collector :: collector_settings

definition pg_dsn :: "pg_settings \<Rightarrow> string" where
  "pg_dsn s = ''host='' @ pg_host s @ '' port='' @ int_str (pg_port s) @ '' dbname='' @ pg_db s
     @ '' user='' @ pg_user s @ '' password='' @ pg_password s
     @ '' connect_timeout='' @ int_str (pg_connect_timeout s)"

definition load_service :: "environ \<Rightarrow> exn + service_settings" where
  "load_service env =
     bindS (env_int env ''GDS_HTTP_PORT'' 8081) (\<lambda>port.
     bindS (env_int env ''GDS_STARTUP_RETRIES'' 20) (\<lambda>retries.
     bindS (env_int env ''GDS_STARTUP_RETRY_SECONDS'' 3) (\<lambda>seconds.
     Inr \<lparr>service_name = env_text env ''GDS_SERVICE_NAME'' ''labshock-gds-bootstrap'',
       service_version = env_text env ''GDS_SERVICE_VERSION'' ''0.1.0-phase1'',
       http_port = port,
       health_path = env_text env ''GDS_HEALTH_PATH'' ''/health'',
       startup_retries = retries, startup_retry_seconds = seconds,
       data_dir = env_text env ''GDS_DATA_DIR'' ''/var/lib/labshock-gds'',
       fallback_shared_pki_root = env_text env ''GDS_FALLBACK_SHARED_PKI_ROOT'' ''/shared-pki/source/issued''\<rparr>)))"

definition load_pg :: "environ \<Rightarrow> exn + pg_settings" where
  "load_pg env =
     bindS (env_int env ''GDS__DB__PORT'' 5432) (\<lambda>port.
     bindS (env_int env ''GDS_DB_CONNECT_TIMEOUT'' 3) (\<lambda>timeout.
     Inr \<lparr>pg_host = env_text env ''GDS__DB__HOST'' ''192.168.10.31'', pg_port = port,
       pg_db = env_text env ''GDS__DB__NAME'' ''labshock_gds'',
       pg_user = env_text env ''GDS__DB__USER'' ''gds'',
       pg_password = env_text env ''GDS__DB__PASSWORD'' ''ChangeMe_GDS_DB!'',
       pg_connect_timeout = timeout\<rparr>))"

definition load_vault :: "environ \<Rightarrow> exn + vault_settings" where
  "load_vault env =
     bindS (env_int env ''GDS_VAULT_TIMEOUT_SECONDS'' 3) (\<lambda>timeout.
     bindS (env_int env ''GDS__VAULT__TOKEN_RENEW_MARGIN_SECONDS'' 300) (\<lambda>margin.
     Inr \<lparr>vault_addr = env_text env ''GDS__VAULT__ADDR'' ''https://192.168.10.10:8200'',
       vault_health_path = env_text env ''GDS_VAULT_HEALTH_PATH'' ''/v1/sys/health'',
       vault_timeout_seconds = timeout,
       vault_tls_ca_file = env_text env ''GDS__VAULT__TLS_CA_FILE'' ''/etc/labshock-vault-tls/ca.crt'',
       vault_tls_client_cert = env_text env ''GDS__VAULT__TLS_CLIENT_CERT'' ''/etc/labshock-vault-tls/client.crt'',
       vault_tls_client_key = env_text env ''GDS__VAULT__TLS_CLIENT_KEY'' ''/etc/labshock-vault-tls/client.key'',
       vault_tls_verify = env_bool env ''GDS__VAULT__TLS_VERIFY'' True,
       vault_role_id_file = env_text env ''GDS__VAULT__ROLE_ID_FILE'' ''/run/secrets/role_id'',
       vault_secret_id_file = env_text env ''GDS__VAULT__SECRET_ID_FILE'' ''/run/secrets/secret_id'',
       vault_approle_login_path = env_text env ''GDS__VAULT__APPROLE_LOGIN_PATH'' ''/v1/auth/approle/login'',
       vault_token_lookup_path = env_text env ''GDS__VAULT__TOKEN_LOOKUP_PATH'' ''/v1/auth/token/lookup-self'',
       vault_token_renew_path = env_text env ''GDS__VAULT__TOKEN_RENEW_PATH'' ''/v1/auth/token/renew-self'',
       vault_pki_mount = env_text env ''GDS__VAULT__PKI_MOUNT'' ''pki-int'',
       vault_root_pki_mount = env_text env ''GDS__VAULT__ROOT_PKI_MOUNT'' ''pki-root'',
       vault_intermediate_pki_mount = env_text env ''GDS__VAULT__INTERMEDIATE_PKI_MOUNT''
         (env_text env ''GDS__VAULT__PKI_MOUNT'' ''pki-int''),
       vault_root_issuer_id = env_text env ''GDS__VAULT__ROOT_ISSUER_ID'' ''f4e8cc06-e50b-dd54-6fbf-752dd4180352'',
       vault_intermediate_issuer_id = env_text env ''GDS__VAULT__INTERMEDIATE_ISSUER_ID'' [],
       vault_root_crl_mode = env_text env ''GDS__VAULT__ROOT_CRL_MODE'' ''issuer_specific'',
       vault_intermediate_crl_mode = env_text env ''GDS__VAULT__INTERMEDIATE_CRL_MODE'' ''mount_or_issuer'',
       vault_strict_crl_freshness = env_bool env ''GDS__VAULT__STRICT_CRL_FRESHNESS'' True,
       vault_token_renew_margin_seconds = margin,
       vault_allow_unauthenticated_pki_read = env_bool env ''GDS__VAULT__ALLOW_UNAUTHENTICATED_PKI_READ'' False,
       vault_sign_role = env_text env ''GDS_VAULT_SIGN_ROLE'' ''opcua-application''\<rparr>))"

definition load_facade :: "environ \<Rightarrow> exn + facade_settings" where
  "load_facade env =
     bindS (env_int env ''GDS_OPCUA_PLACEHOLDER_PORT'' 4841) (\<lambda>port0.
     bindS (env_int env ''GDS_OPCUA_FACADE_PORT'' port0) (\<lambda>port.
     bindS (env_int env ''GDS_OPCUA_FACADE_MAX_CSR_BYTES'' 8192) (\<lambda>csr.
     bindS (env_int env ''GDS_OPCUA_FACADE_SESSION_REQUEST_LIMIT'' 60) (\<lambda>session.
     bindS (env_int env ''GDS_OPCUA_FACADE_CLIENT_ENROLLMENT_LIMIT'' 10) (\<lambda>enroll.
     Inr \<lparr>facade_enabled = env_bool env ''GDS_OPCUA_FACADE_ENABLED''
         (env_bool env ''GDS_OPCUA_PLACEHOLDER_ENABLED'' True),
       facade_host = env_text env ''GDS_OPCUA_FACADE_HOST'' (env_text env ''GDS_OPCUA_PLACEHOLDER_HOST'' ''0.0.0.0''),
       facade_port = port,
       facade_mode = env_text env ''GDS_OPCUA_FACADE_MODE'' ''cyber_range'',
       facade_allow_signing = env_bool env ''GDS_OPCUA_FACADE_ALLOW_SIGNING'' False,
       facade_max_csr_bytes = csr, facade_session_request_limit = session,
       facade_client_enrollment_limit = enroll\<rparr>)))))"

definition load_artifact :: "environ \<Rightarrow> exn + artifact_settings" where
  "load_artifact env =
     bindS (env_int env ''GDS_TRUST_ARTIFACT_TTL_MINUTES'' 15) (\<lambda>minutes.
     bindS (env_int env ''GDS_TRUST_ARTIFACT_TTL_SECONDS'' (minutes * 60)) (\<lambda>ttl.
     bindS (env_int env ''GDS_TRUST_ARTIFACT_REGEN_THRESHOLD_PERCENT'' 20) (\<lambda>pct0.
     bindS (env_int env ''GDS_TRUST_ARTIFACT_REGEN_THRESHOLD_PCT'' pct0) (\<lambda>pct.
     bindS (env_int env ''GDS_TRUST_ARTIFACT_SCAN_INTERVAL_SECONDS'' 30) (\<lambda>scan.
     bindS (env_int env ''GDS_TRUST_ARTIFACT_REGEN_MIN_INTERVAL_SECONDS'' 30) (\<lambda>interval.
     Inr \<lparr>signing_key_path = env_text env ''GDS_TRUST_ARTIFACT_SIGNING_KEY_PATH''
         ''/var/lib/labshock-gds/signing/trust-artifact-ed25519.pem'',
       signing_key_id = env_text env ''GDS_TRUST_ARTIFACT_SIGNING_KEY_ID'' ''gds-trust-artifact-v1'',
       artifact_ttl_seconds = ttl, regen_threshold_percent = pct,
       scan_interval_seconds = scan, regen_min_interval_seconds = interval,
       sign_debug = env_bool env ''GDS_SIGN_DEBUG'' False\<rparr>))))))"

definition load_auth :: "environ \<Rightarrow> (string \<Rightarrow> string option) \<Rightarrow> auth_settings" where
  "load_auth env read_file =
     (let secret_file = env_text env ''GDS_INTERNAL_PROXY_SECRET_FILE'' ''/run/secrets/gds-internal-proxy/secret''
      in \<lparr>agent_auth_enabled = env_bool env ''GDS_AGENT_AUTH_ENABLED'' False,
       agent_tokens_file = env_text env ''GDS_AGENT_TOKENS_FILE''
         ''/etc/labshock-gds-agent-auth/gds-agent-tokens.json'',
       mtls_mode = lower (strip (env_text env ''GDS_MTLS_MODE'' ''optional'')),
       trusted_proxy_ips = filter (\<lambda>ip. ip \<noteq> []) (map strip
         (split_on (CHR '','') (env_text env ''GDS_TRUSTED_PROXY_IPS'' ''127.0.0.1,::1''))),
       internal_proxy_secret = str_or (env_text env ''GDS_INTERNAL_PROXY_SECRET'' [])
         (env_file_text env read_file ''GDS_INTERNAL_PROXY_SECRET_FILE'' secret_file),
       internal_proxy_secret_file = secret_file,
       tls_client_crl_file = env_text env ''GDS_TLS_CLIENT_CRL_FILE''
         ''/etc/labshock-gds-tls/client-ca.crl.pem''\<rparr>)"

definition load_expiry :: "environ \<Rightarrow> exn + expiry_settings" where
  "load_expiry env =
     bindS (env_int env ''GDS_CERT_EXPIRY_WARNING_DAYS'' 30) (\<lambda>warning.
     bindS (env_int env ''GDS_CERT_EXPIRY_CRITICAL_DAYS'' 7) (\<lambda>critical.
     bindS (env_int env ''GDS_RENEWAL_THRESHOLD_DAYS'' 7) (\<lambda>renewal.
     Inr \<lparr>cert_expiry_warning_days = warning, cert_expiry_critical_days = critical,
       renewal_threshold_days = renewal,
       cert_default_ttl = env_text env ''GDS_CERT_DEFAULT_TTL'' ''720h''\<rparr>)))"

definition load_collector :: "environ \<Rightarrow> exn + collector_settings" where
  "load_collector env =
     bindS (env_int env ''GDS_DMZ_COLLECTOR_POLL_INTERVAL_SECONDS'' 5) (\<lambda>poll.
     bindS (env_int env ''GDS_DMZ_COLLECTOR_HEALTH_INTERVAL_SECONDS'' 300) (\<lambda>health.
     bindS (env_int env ''GDS_DMZ_COLLECTOR_DB_SUMMARY_INTERVAL_SECONDS'' 300) (\<lambda>summary.
     bindS (env_int env ''GDS_DMZ_COLLECTOR_BATCH_SIZE'' 100) (\<lambda>batch.
     bindS (env_int env ''GDS_DMZ_COLLECTOR_TIMEOUT_SECONDS'' 3) (\<lambda>timeout.
     bindS (env_int env ''GDS_DMZ_COLLECTOR_MAX_MESSAGE_LEN'' 512) (\<lambda>message_len.
     bindS (env_int env ''GDS_DMZ_COLLECTOR_MAX_RAW_LEN'' 4096) (\<lambda>raw_len.
     bindS (env_int env ''GDS_DMZ_COLLECTOR_MAX_PAYLOAD_BYTES'' 16384) (\<lambda>payload.
     Inr \<lparr>dmz_enabled = env_bool env ''GDS_DMZ_COLLECTOR_ENABLED'' False,
       dmz_url = env_text env ''GDS_DMZ_COLLECTOR_URL'' ''http://192.168.10.70:9000/gds/events'',
       dmz_token_file = env_text env ''GDS_DMZ_COLLECTOR_TOKEN_FILE''
         ''/etc/labshock-gds-agent-auth/dmz-collector-token'',
       dmz_poll_interval = poll, dmz_health_interval = health, dmz_db_summary_interval = summary,
       dmz_batch_size = batch, dmz_timeout = timeout, dmz_max_message_len = message_len,
       dmz_max_raw_len = raw_len, dmz_max_payload_bytes = payload\<rparr>))))))))"

text \<open>Loading stops at the first malformed number. The groups are read in the order of the
  record; which of several malformed numbers is reported is not observable by the service,
  which does not start.\<close>

definition load_settings :: "environ \<Rightarrow> (string \<Rightarrow> string option) \<Rightarrow> exn + settings" where
  "load_settings env read_file =
     bindS (load_artifact env) (\<lambda>artifact.
     bindS (load_service env) (\<lambda>service.
     bindS (load_pg env) (\<lambda>pg.
     bindS (load_vault env) (\<lambda>vault.
     bindS (load_facade env) (\<lambda>facade.
     bindS (load_expiry env) (\<lambda>expiry.
     bindS (load_collector env) (\<lambda>collector.
     Inr \<lparr>s_service = service, s_pg = pg, s_vault = vault, s_facade = facade,
       s_artifact = artifact, s_auth = load_auth env read_file, s_expiry = expiry,
       s_collector = collector\<rparr>)))))))"

lemma env_int_unset: "env name = None \<or> env name = Some [] \<Longrightarrow> env_int env name dflt = Inr dflt"
  by (auto simp: env_int_def)

lemma load_collector_defaults_payload:
  "load_collector (\<lambda>_. None) = Inr c \<Longrightarrow> dmz_max_payload_bytes c = 16384 \<and> dmz_batch_size c = 100"
  by (auto simp: load_collector_def env_int_def)

lemma trusted_proxies_clean:
  "ip \<in> set (trusted_proxy_ips (load_auth env read_file)) \<Longrightarrow> ip \<noteq> []"
  by (auto simp: load_auth_def Let_def)

end
