(* ===== verification/Agent_Auth.thy ===== *)
theory Agent_Auth
  imports Settings
begin

text \<open>
  \<open>gds/app/agent_auth.py\<close>: the policies of the pull agents, read from the token file and
  cached by its modification time, and the comparison of tokens.
\<close>

section \<open>Policies\<close>

record agent_policy =
  ag_token :: string
  ag_anchor :: bool
  ag_trustlists :: "(string \<times> string) set"
  ag_apps :: "string set"
  ag_owned :: "string set"

definition parse_trustlist_item :: "pyval \<Rightarrow> (string \<times> string) option" where
  "parse_trustlist_item item = (case item of
     PStr s \<Rightarrow> (case split_on (CHR '':'') s of [z, r] \<Rightarrow> Some (strip z, strip r) | _ \<Rightarrow> None)
   | PDict d \<Rightarrow> (let zone = strip (get_str d ''zone''); role = strip (get_str d ''role'')
       in if zone \<noteq> [] \<and> role \<noteq> [] then Some (zone, role) else None)
   | _ \<Rightarrow> None)"

definition parse_allowed_trustlists :: "pyval \<Rightarrow> (string \<times> string) set" where
  "parse_allowed_trustlists v = (case v of PList items \<Rightarrow> set (List.map_filter parse_trustlist_item items) | _ \<Rightarrow> {})"

definition parse_app_item :: "pyval \<Rightarrow> string option" where
  "parse_app_item item = (case item of PStr s \<Rightarrow> if strip s \<noteq> [] then Some (strip s) else None | _ \<Rightarrow> None)"

definition parse_allowed_applications :: "pyval \<Rightarrow> string set" where
  "parse_allowed_applications v = (case v of PList items \<Rightarrow> set (List.map_filter parse_app_item items) | _ \<Rightarrow> {})"

definition parse_single_policy :: "pyval \<Rightarrow> agent_policy option" where
  "parse_single_policy raw = (case raw of
     PStr s \<Rightarrow> if strip s = [] then None
       else Some \<lparr>ag_token = strip s, ag_anchor = True, ag_trustlists = {}, ag_apps = {}, ag_owned = {}\<rparr>
   | PDict d \<Rightarrow> (let token = strip (get_str d ''token'') in
       if token = [] then None
       else Some \<lparr>ag_token = token,
         ag_anchor = truthy (dget_or d ''allow_trust_anchor'' (PBool True)),
         ag_trustlists = parse_allowed_trustlists (dget_or d ''allowed_trustlists'' (PList [])),
         ag_apps = parse_allowed_applications (dget_or d ''allowed_applications'' (PList [])),
         ag_owned = parse_allowed_applications (dget_or d ''owned_applications'' (PList []))\<rparr>)
   | _ \<Rightarrow> None)"

type_synonym policies = "(string \<times> agent_policy) list"

definition add_policy :: "string \<times> pyval \<Rightarrow> policies \<Rightarrow> policies" where
  "add_policy kv out =
     (if strip (fst kv) = [] then out
      else case parse_single_policy (snd kv) of
        None \<Rightarrow> out | Some p \<Rightarrow> AList.update (strip (fst kv)) p out)"

definition parse_policies :: "pyval \<Rightarrow> policies" where
  "parse_policies payload = (case payload of
     PDict d \<Rightarrow> fold add_policy (case dget d ''agents'' of PDict agents \<Rightarrow> agents | _ \<Rightarrow> d) []
   | _ \<Rightarrow> [])"

section \<open>The store\<close>

text \<open>The token file: absent, or its modification time and its parsed content.\<close>

type_synonym tokens_file = "(int \<times> (exn + pyval)) option"

record auth_store =
  au_mtime :: "int option"
  au_policies :: policies

definition empty_store :: auth_store where
  "empty_store = \<lparr>au_mtime = None, au_policies = []\<rparr>"

definition load_policies :: "tokens_file \<Rightarrow> (auth_store, policies) eff" where
  "load_policies file s = (case file of
     None \<Rightarrow> (Inr [], empty_store)
   | Some (mtime, content) \<Rightarrow>
       if au_mtime s = Some mtime then (Inr (au_policies s), s)
       else case content of
         Inl e \<Rightarrow> (Inl e, s)
       | Inr raw \<Rightarrow> (let p = parse_policies raw in (Inr p, \<lparr>au_mtime = Some mtime, au_policies = p\<rparr>)))"

definition get_policy :: "tokens_file \<Rightarrow> string \<Rightarrow> (auth_store, agent_policy option) eff" where
  "get_policy file agent_id = bindE (load_policies file) (\<lambda>ps. ret (map_of ps agent_id))"

definition is_ascii :: "string \<Rightarrow> bool" where
  "is_ascii s \<longleftrightarrow> list_all (\<lambda>c. (of_char c :: nat) < 128) s"

definition verify_token :: "agent_policy \<Rightarrow> string \<Rightarrow> exn + bool" where
  \<comment> \<open>\<open>hmac.compare_digest\<close> accepts ASCII texts only\<close>
  "verify_token p provided = (if is_ascii (ag_token p) \<and> is_ascii provided
     then Inr (ag_token p = provided)
     else Inl (TypeError ''comparing strings with non-ASCII characters is not supported''))"

section \<open>Facts\<close>

text \<open>A policy that the parser accepts has a non-empty token without surrounding space.\<close>

definition policy_ok :: "agent_policy \<Rightarrow> bool" where
  "policy_ok p \<longleftrightarrow> ag_token p \<noteq> [] \<and> strip (ag_token p) = ag_token p \<and> [] \<notin> ag_apps p \<and> [] \<notin> ag_owned p"

lemma dropWhile_idem_hd: "\<not> P (hd xs) \<Longrightarrow> dropWhile P xs = xs"
  by (cases xs) auto

lemma strip_strip [simp]: "strip (strip s) = strip s"
proof (cases "strip s")
  case (Cons c cs)
  then have "\<not> is_space c" by (rule is_space_strip_hd)
  then have l: "lstrip (strip s) = strip s" by (simp add: Cons lstrip_def)
  have "rstrip (strip s) = strip s"
    unfolding strip_def rstrip_def by (metis dropWhile_idem rev_rev_ident)
  with l show ?thesis by (simp add: strip_def [of "strip s"])
next
  case Nil
  show ?thesis unfolding Nil by (simp add: strip_def lstrip_def rstrip_def)
qed

lemma parse_allowed_applications_nonempty: "[] \<notin> parse_allowed_applications v"
  by (auto simp: parse_allowed_applications_def parse_app_item_def map_filter_def
      split: pyval.splits if_splits)

lemma parse_single_policy_ok: "parse_single_policy raw = Some p \<Longrightarrow> policy_ok p"
  by (auto simp: parse_single_policy_def policy_ok_def Let_def parse_allowed_applications_nonempty
      split: pyval.splits if_splits)

definition policies_ok :: "policies \<Rightarrow> bool" where
  "policies_ok ps \<longleftrightarrow> distinct (map fst ps) \<and>
     (\<forall>(k, p) \<in> set ps. k \<noteq> [] \<and> strip k = k \<and> policy_ok p)"

lemma mem_update: "(k', q) \<in> set (AList.update k p ps) \<Longrightarrow> (k' = k \<and> q = p) \<or> (k', q) \<in> set ps"
  by (induction ps) (auto split: if_splits)

lemma update_ok: "policies_ok ps \<Longrightarrow> k \<noteq> [] \<Longrightarrow> strip k = k \<Longrightarrow> policy_ok p \<Longrightarrow> policies_ok (AList.update k p ps)"
  unfolding policies_ok_def by (auto simp: distinct_update dest!: mem_update)

lemma add_policy_ok: "policies_ok ps \<Longrightarrow> policies_ok (add_policy kv ps)"
  by (auto simp: add_policy_def update_ok dest: parse_single_policy_ok split: option.splits)

lemma fold_add_policy_ok: "policies_ok ps \<Longrightarrow> policies_ok (fold add_policy kvs ps)"
  by (induction kvs arbitrary: ps) (auto simp: add_policy_ok)

lemma parse_policies_ok: "policies_ok (parse_policies raw)"
proof -
  have "policies_ok []" by (simp add: policies_ok_def)
  then show ?thesis by (cases raw) (simp_all add: parse_policies_def fold_add_policy_ok)
qed

definition store_ok :: "auth_store \<Rightarrow> bool" where
  "store_ok s \<longleftrightarrow> policies_ok (au_policies s)"

lemma load_policies_keeps: "evolves (keeps store_ok) (load_policies file)"
  unfolding evolves_def keeps_def load_policies_def
  by (auto simp: store_ok_def empty_store_def parse_policies_ok Let_def policies_ok_def [of "[]"]
      split: option.splits sum.splits)

lemma get_policy_ok:
  assumes "store_ok s" "get_policy file agent_id s = (Inr (Some p), s')"
  shows "policy_ok p \<and> store_ok s'"
proof -
  obtain ps where l: "load_policies file s = (Inr ps, s')" and m: "map_of ps agent_id = Some p"
    using assms(2) unfolding get_policy_def bindE_Inr by (auto simp: ret_def)
  have "policies_ok ps"
    using l assms(1) parse_policies_ok unfolding load_policies_def
    by (auto simp: store_ok_def Let_def policies_ok_def [of "[]"] split: option.splits sum.splits if_splits)
  moreover have "store_ok s'" using load_policies_keeps assms(1) l
    unfolding evolves_def keeps_def by (metis snd_conv)
  ultimately show ?thesis using m by (auto simp: policies_ok_def dest!: map_of_SomeD)
qed

text \<open>An unchanged file is answered from the cache as it would be parsed again.\<close>

definition cache_of :: "tokens_file \<Rightarrow> auth_store \<Rightarrow> bool" where
  "cache_of file s \<longleftrightarrow> (\<forall>m raw. file = Some (m, Inr raw) \<longrightarrow> au_mtime s = Some m \<longrightarrow>
     au_policies s = parse_policies raw)"

lemma load_policies_current:
  assumes "cache_of (Some (m, Inr raw)) s"
  shows "fst (load_policies (Some (m, Inr raw)) s) = Inr (parse_policies raw)"
    and "cache_of (Some (m, Inr raw)) (snd (load_policies (Some (m, Inr raw)) s))"
  using assms by (auto simp: load_policies_def cache_of_def Let_def)

end
