(* ===== verification/World.thy ===== *)
theory World
  imports Db_Facts Agent_Auth
begin

text \<open>
  The state in which the service's operations run: the database, the clock, the source of
  random identifiers, the HTTP client of Vault and the caches of the API process. Readings
  of the clock, fresh identifiers, Vault's answers and the availability of the database are
  streams indexed by a counter, so that a theorem about an operation holds for every
  behaviour of its environment.
\<close>

section \<open>HTTP\<close>

record reply =
  r_status :: int
  r_text :: string
  r_body :: string
  r_json :: "pyval option"
  r_ctype :: string

record request =
  q_method :: string
  q_path :: string
  q_token :: "string option"
  q_body :: "pydict option"

text \<open>A reply carries its status, its body as text and as bytes, the parsed body when it is
  JSON, and its content type. The token is what Vault's login returned, a text by its
  documentation. The token state of the Vault client (\<open>VaultTokenState\<close>).\<close>

record vault_state =
  v_token :: pyval
  v_renewable :: bool
  v_expire :: int
  v_last_error :: "string option"
  v_sealed :: bool

definition initial_vault_state :: vault_state where
  "initial_vault_state = \<lparr>v_token = PNone, v_renewable = False, v_expire = 0, v_last_error = None,
     v_sealed = False\<rparr>"

text \<open>An entry of the API's cache of signed artifacts.\<close>

record cache_entry =
  ca_row_id :: int
  ca_revision :: int
  ca_artifact :: pydict
  ca_cached_at :: string

text \<open>\<open>w_started\<close> says that the application's start-up has created the Vault client, the
  agent store and the signer; \<open>w_last_crl\<close> is the last intermediate revocation list that
  was valid when it was served.\<close>

record world =
  w_db :: db
  w_conn :: "nat \<Rightarrow> bool"
  w_calls :: nat
  w_clock :: "nat \<Rightarrow> int"
  w_ticks :: nat
  w_uuid :: "nat \<Rightarrow> string"
  w_uuids :: nat
  w_vault :: vault_state
  w_reply :: "nat \<Rightarrow> exn + reply"
  w_requests :: "request list"
  w_cache :: "string \<Rightarrow> cache_entry option"
  w_regen_at :: "string \<Rightarrow> int option"
  w_files :: "string \<Rightarrow> string option"
  w_auth :: auth_store
  w_token_files :: "nat \<Rightarrow> tokens_file"
  w_token_reads :: nat
  w_started :: bool
  w_last_crl :: "pydict option"

type_synonym 'a op = "(world, 'a) eff"

section \<open>Primitive operations\<close>

definition now_us :: "int op" where
  \<comment> \<open>\<open>datetime.now(timezone.utc)\<close>, \<open>time.time()\<close> in microseconds\<close>
  "now_us w = (Inr (w_clock w (w_ticks w)), w\<lparr>w_ticks := Suc (w_ticks w)\<rparr>)"

definition now_s :: "int op" where
  \<comment> \<open>\<open>int(time.time())\<close>\<close>
  "now_s = bindE now_us (\<lambda>t. ret (t div usec))"

definition uuid4_hex :: "string op" where
  "uuid4_hex w = (Inr (w_uuid w (w_uuids w)), w\<lparr>w_uuids := Suc (w_uuids w)\<rparr>)"

text \<open>A database function: it may find the database unavailable, otherwise it runs with
  the time of its transaction.\<close>

definition on_db :: "(int \<Rightarrow> 'a dbop) \<Rightarrow> 'a op" where
  "on_db f w =
     (let w1 = w\<lparr>w_calls := Suc (w_calls w), w_ticks := Suc (w_ticks w)\<rparr> in
      if w_conn w (w_calls w)
      then case f (w_clock w (w_ticks w)) (w_db w) of (r, d) \<Rightarrow> (r, w1\<lparr>w_db := d\<rparr>)
      else (Inl OperationalError, w1))"

definition query :: "'a dbop \<Rightarrow> 'a op" where
  "query m = on_db (\<lambda>_. m)"

definition log_audit :: "string \<Rightarrow> string \<Rightarrow> string \<Rightarrow> pydict \<Rightarrow> unit op" where
  \<comment> \<open>\<open>audit(SETTINGS, event_type, actor, target, details)\<close>\<close>
  "log_audit event_type actor target details = on_db (audit event_type actor target details)"

text \<open>One HTTP exchange with Vault; the requests sent are recorded.\<close>

definition http :: "request \<Rightarrow> reply op" where
  "http q w = (w_reply w (length (w_requests w)), w\<lparr>w_requests := w_requests w @ [q]\<rparr>)"

definition read_text :: "string \<Rightarrow> string op" where
  \<comment> \<open>\<open>open(path).read().strip()\<close>\<close>
  "read_text path w = (case w_files w path of
     None \<Rightarrow> (Inl (OSError path), w) | Some s \<Rightarrow> (Inr (strip s), w))"

definition lift_sum :: "exn + 'a \<Rightarrow> 'a op" where
  "lift_sum r w = (r, w)"

text \<open>A look-up of an agent's policy: the token file as it is at that moment.\<close>

definition agent_policy_of :: "string \<Rightarrow> agent_policy option op" where
  "agent_policy_of agent_id w =
     (case get_policy (w_token_files w (w_token_reads w)) agent_id (w_auth w) of
        (r, st) \<Rightarrow> (r, w\<lparr>w_auth := st, w_token_reads := Suc (w_token_reads w)\<rparr>))"

definition upd_vault :: "(vault_state \<Rightarrow> vault_state) \<Rightarrow> unit op" where
  "upd_vault f = updE (\<lambda>w. w\<lparr>w_vault := f (w_vault w)\<rparr>)"

section \<open>What no operation breaks\<close>

text \<open>An entry of the artifact cache holds the document of a stored artifact.\<close>

definition cache_ok :: "world \<Rightarrow> bool" where
  "cache_ok w \<longleftrightarrow> (\<forall>k e. w_cache w k = Some e \<longrightarrow>
     (\<exists>row \<in> set (d_artifacts (w_db w)). ta_id row = ca_row_id e \<and> ta_json row = ca_artifact e))"

lemma cache_ok_cong:
  assumes "cache_ok w" "w_cache w' = w_cache w" "set (d_artifacts (w_db w)) \<subseteq> set (d_artifacts (w_db w'))"
  shows "cache_ok w'"
  using assms unfolding cache_ok_def by (metis subsetD)

text \<open>From a world whose database satisfies the constraints of the schema every operation
  reaches one that satisfies them, undoes nothing that is final, and keeps the cache
  consistent with the stored artifacts.\<close>

definition world_sound :: "world \<Rightarrow> world \<Rightarrow> bool" where
  "world_sound w w' \<longleftrightarrow> (db_inv (w_db w) \<longrightarrow>
     db_inv (w_db w') \<and> db_forward (w_db w) (w_db w') \<and> (cache_ok w \<longrightarrow> cache_ok w'))"

interpretation wsound: evolution world_sound
  by unfold_locales (auto simp: world_sound_def intro: forward.evo_refl forward.evo_trans)

lemma on_db_db: "w_cache (snd (on_db f w)) = w_cache w"
  "w_db (snd (on_db f w)) = w_db w \<or> (\<exists>t. w_db (snd (on_db f w)) = snd (f t (w_db w)))"
  by (auto simp: on_db_def Let_def split: prod.splits) (metis snd_conv)

lemma on_db_sound [evolves_rules]:
  assumes "\<And>t. evolves db_sound (f t)"
  shows "evolves world_sound (on_db f)"
  unfolding evolves_def world_sound_def
proof (intro allI impI)
  fix w :: world assume inv: "db_inv (w_db w)"
  let ?w' = "snd (on_db f w)"
  have db: "db_inv (w_db ?w') \<and> db_forward (w_db w) (w_db ?w')"
    using on_db_db(2) [of f w] inv assms forward.evo_refl unfolding evolves_def db_sound_def by metis
  then have "cache_ok w \<longrightarrow> cache_ok ?w'"
    using cache_ok_cong [OF _ on_db_db(1)] unfolding db_forward_def by blast
  with db show "db_inv (w_db ?w') \<and> db_forward (w_db w) (w_db ?w') \<and> (cache_ok w \<longrightarrow> cache_ok ?w')" by blast
qed

lemma query_sound [evolves_rules]: "(\<And>d. snd (m d) = d) \<Longrightarrow> evolves world_sound (query m)"
  unfolding query_def by (intro on_db_sound pure_sound)

lemma log_audit_sound [evolves_rules]: "evolves world_sound (log_audit ty ac tg det)"
  unfolding log_audit_def by (intro on_db_sound evolves_rules)

lemma prim_sound [evolves_rules]:
  "evolves world_sound now_us" "evolves world_sound uuid4_hex"
  "evolves world_sound (http q)" "evolves world_sound (upd_vault f)"
  "evolves world_sound (read_text p)" "evolves world_sound (lift_sum r)" "evolves world_sound (agent_policy_of g)"
  by (simp_all add: evolves_def world_sound_def cache_ok_def now_us_def uuid4_hex_def http_def upd_vault_def
      updE_def read_text_def agent_policy_of_def lift_sum_def forward.evo_refl split: option.splits prod.splits)

text \<open>What else than the database an operation may touch, component by component.\<close>

definition same_db :: "world \<Rightarrow> world \<Rightarrow> bool" where
  "same_db w w' \<longleftrightarrow> w_db w' = w_db w"

interpretation undb: evolution same_db
  by unfold_locales (auto simp: same_db_def)

lemma now_s_sound [evolves_rules]: "evolves world_sound now_s"
  unfolding now_s_def by (intro wsound.combinators evolves_rules)

end
