(* ===== verification/Signing.thy ===== *)
theory Signing
  imports World
begin

text \<open>
  \<open>gds/app/artifact_signing.py\<close>, \<open>gds/app/package_signing.py\<close> and
  \<open>gds/app/cert_utils.py\<close>: canonical JSON, the canonical payload of a trust artifact and
  of a package manifest, their digests and signatures. The cryptographic primitives and
  the X.509 parser are third-party code and enter as the functions of the record
  \<open>ext\<close>.
\<close>

section \<open>Third-party functions\<close>

record x509_cert =
  x_der :: string
  x_serial :: nat
  x_subject :: string
  x_issuer :: string
  x_not_before :: int
  x_not_after :: int

text \<open>A parsed signing request: the subject alternative names (URIs, DNS names, IP
  addresses), the key usage flags (digital signature, key encipherment, certificate
  signing) and the dotted identifiers of the extended key usages, each absent when the
  request has no such extension.\<close>

record x509_csr =
  x_csr_der :: string
  x_csr_subject :: string
  x_csr_signature_valid :: bool
  x_csr_san :: "(string list \<times> string list \<times> string list) option"
  x_csr_key_usage :: "(bool \<times> bool \<times> bool) option"
  x_csr_eku :: "string list option"

text \<open>\<open>k_json_loads\<close> is the JSON decoder, \<open>k_parse_date\<close> and \<open>k_parse_iso\<close> read a time
  from the mail and the ISO format (a time without zone is taken as UTC), and \<open>k_exc_text\<close> the message of an
  exception. A revocation list: its \<open>nextUpdate\<close> field is optional in X.509.\<close>

record x509_crl =
  xl_der :: string
  xl_issuer :: string
  xl_last_update :: int
  xl_next_update :: "int option"

record ext =
  k_sha256 :: "string \<Rightarrow> string"
  k_b64 :: "string \<Rightarrow> string"
  k_b64decode :: "string \<Rightarrow> string option"
  k_sign :: "string \<Rightarrow> string \<Rightarrow> string"
  k_public_der :: "string \<Rightarrow> string"
  k_public_pem :: "string \<Rightarrow> string"
  k_private_pem :: "string \<Rightarrow> string"
  k_load_private :: "string \<Rightarrow> (string \<times> bool) option"
  k_load_cert :: "string \<Rightarrow> x509_cert option"
  k_load_csr :: "string \<Rightarrow> x509_csr option"
  k_load_crl_der :: "string \<Rightarrow> x509_crl option"
  k_load_crl_pem :: "string \<Rightarrow> x509_crl option"
  k_json_loads :: "string \<Rightarrow> pyval option"
  k_exc_text :: "exn \<Rightarrow> string"
  k_parse_date :: "string \<Rightarrow> int option"
  k_parse_iso :: "string \<Rightarrow> int option"
  k_ip_private :: "string \<Rightarrow> bool option"

section \<open>Certificates\<close>

record cert_info =
  ci_pem :: string
  ci_fpr :: string
  ci_serial :: string
  ci_subject :: string
  ci_issuer :: string
  ci_not_before :: int
  ci_not_after :: int

fun nat_hex :: "nat \<Rightarrow> string" where
  "nat_hex n = (if n < 16 then [hex_char n] else nat_hex (n div 16) @ [hex_char (n mod 16)])"

declare nat_hex.simps [simp del]

definition parse_pem_certificate :: "ext \<Rightarrow> string \<Rightarrow> exn + cert_info" where
  "parse_pem_certificate x pem_text = (case k_load_cert x pem_text of
     None \<Rightarrow> Inl (ParseError ''certificate'')
   | Some cert \<Rightarrow> Inr \<lparr>ci_pem = pem_text, ci_fpr = k_sha256 x (x_der cert),
       ci_serial = nat_hex (x_serial cert), ci_subject = x_subject cert,
       ci_issuer = x_issuer cert, ci_not_before = x_not_before cert,
       ci_not_after = x_not_after cert\<rparr>)"

section \<open>Canonical JSON\<close>

text \<open>\<open>sort_keys=True\<close>: the keys of every dictionary in ascending order.\<close>

fun sort_keys :: "pyval \<Rightarrow> pyval" where
  "sort_keys (PList vs) = PList (map sort_keys vs)"
| "sort_keys (PDict kvs) = PDict (sort_key fst (map (\<lambda>(k, v). (k, sort_keys v)) kvs))"
| "sort_keys v = v"

definition canonical_json_bytes :: "pyval \<Rightarrow> exn + string" where
  "canonical_json_bytes payload =
     (if json_ok payload then Inr (json_enc (sort_keys payload))
      else Inl (TypeError ''not JSON serializable''))"

definition sha256_hex :: "ext \<Rightarrow> string \<Rightarrow> string" where
  "sha256_hex x data = k_sha256 x data"

definition to_rfc3339_utc :: "int \<Rightarrow> string" where
  "to_rfc3339_utc t = iso_z t"

section \<open>Trust artifacts\<close>

text \<open>The canonical signed payload leaves out transport metadata.\<close>

definition signed_fields :: "string list" where
  "signed_fields = [''artifact_type'', ''schema_version'', ''zone'', ''role'', ''version'',
     ''artifact_revision'', ''artifact_reason'', ''generated_at'', ''expires_at'',
     ''ca_chain_pem'', ''crl_base64'']"

definition canonical_artifact_payload :: "pydict \<Rightarrow> pydict" where
  "canonical_artifact_payload artifact =
     (let payload = map (\<lambda>k. (k, dget artifact k)) signed_fields @
            [(''certificates'', dget_or artifact ''certificates'' (PList [])),
             (''signer'', dget_or artifact ''signer'' (PDict []))];
          payload1 = (if dmem ''crl_bundle'' artifact
            then dput ''crl_bundle'' (dget_or artifact ''crl_bundle'' (PDict [])) payload else payload)
      in if dmem ''crl_metadata'' artifact
         then dput ''crl_metadata'' (dget_or artifact ''crl_metadata'' (PDict [])) payload1 else payload1)"

record signed_artifact =
  sa_artifact :: pydict
  sa_bytes :: string
  sa_sha256 :: string
  sa_signature :: string
  sa_fingerprint :: string
  sa_key_id :: string
  sa_algorithm :: string
  sa_generated :: int
  sa_expires :: int
  sa_payload :: pydict

record signer =
  sg_key :: string
  sg_key_id :: string
  sg_ttl :: int
  sg_public_pem :: string
  sg_fingerprint :: string

definition signer_algorithm :: string where
  "signer_algorithm = ''ed25519''"

text \<open>The key file is loaded when it exists, otherwise a generated key is written to it;
  the second component is the text written.\<close>

definition load_or_create_private_key :: "ext \<Rightarrow> string option \<Rightarrow> string \<Rightarrow> exn + string \<times> string option" where
  "load_or_create_private_key x file generated = (case file of
     Some raw \<Rightarrow> (case k_load_private x raw of
         None \<Rightarrow> Inl (ParseError ''private key'')
       | Some (key, is_ed25519) \<Rightarrow> if is_ed25519 then Inr (key, None)
           else Inl (ValueError ''configured trust artifact signing key is not Ed25519''))
   | None \<Rightarrow> Inr (generated, Some (k_private_pem x generated)))"

definition trust_artifact_signer :: "ext \<Rightarrow> string option \<Rightarrow> string \<Rightarrow> string \<Rightarrow> int \<Rightarrow> exn + signer" where
  "trust_artifact_signer x file generated key_id ttl =
     bindS (load_or_create_private_key x file generated) (\<lambda>(key, _).
       Inr \<lparr>sg_key = key, sg_key_id = key_id, sg_ttl = ttl, sg_public_pem = k_public_pem x key,
         sg_fingerprint = sha256_hex x (k_public_der x key)\<rparr>)"

definition signer_identity :: "signer \<Rightarrow> pydict" where
  "signer_identity g = [(''key_id'', PStr (sg_key_id g)), (''algorithm'', PStr signer_algorithm),
     (''fingerprint_sha256'', PStr (sg_fingerprint g))]"

definition trust_anchor_payload :: "signer \<Rightarrow> pydict" where
  "trust_anchor_payload g = [(''key_id'', PStr (sg_key_id g)), (''algorithm'', PStr signer_algorithm),
     (''public_key_pem'', PStr (sg_public_pem g)), (''fingerprint_sha256'', PStr (sg_fingerprint g))]"

record payload_signature =
  ps_algorithm :: string
  ps_key_id :: string
  ps_fingerprint :: string
  ps_sha256 :: string
  ps_signature :: string

definition sign_canonical_payload :: "ext \<Rightarrow> signer \<Rightarrow> pydict \<Rightarrow> exn + payload_signature" where
  "sign_canonical_payload x g payload =
     bindS (canonical_json_bytes (PDict payload)) (\<lambda>canonical.
       Inr \<lparr>ps_algorithm = signer_algorithm, ps_key_id = sg_key_id g, ps_fingerprint = sg_fingerprint g,
         ps_sha256 = sha256_hex x canonical,
         ps_signature = k_b64 x (k_sign x (sg_key g) canonical)\<rparr>)"

definition artifact_document ::
  "signer \<Rightarrow> list_row \<Rightarrow> pyval \<Rightarrow> string \<Rightarrow> string \<Rightarrow> int \<Rightarrow> string \<Rightarrow> pydict \<Rightarrow> pydict \<Rightarrow> int \<Rightarrow> pydict" where
  "artifact_document g trust_list certs ca_chain crl revision reason crl_bundle crl_metadata generated =
     [(''artifact_type'', PStr ''opcua_trustlist''), (''schema_version'', PInt 1),
      (''zone'', PStr (tl_zone trust_list)), (''role'', PStr (tl_role trust_list)),
      (''version'', PInt (tl_version trust_list)), (''artifact_revision'', PInt revision),
      (''artifact_reason'', PStr reason), (''generated_at'', PStr (to_rfc3339_utc generated)),
      (''expires_at'', PStr (to_rfc3339_utc (generated + sg_ttl g * usec))),
      (''ca_chain_pem'', PStr ca_chain), (''crl_base64'', PStr crl),
      (''crl_bundle'', PDict crl_bundle), (''crl_metadata'', PDict crl_metadata),
      (''certificates'', certs), (''signer'', PDict (signer_identity g))]"

definition build_signed_artifact ::
  "ext \<Rightarrow> signer \<Rightarrow> list_row \<Rightarrow> pyval \<Rightarrow> string \<Rightarrow> string \<Rightarrow> int \<Rightarrow> string \<Rightarrow> pydict \<Rightarrow> pydict \<Rightarrow> int \<Rightarrow>
   exn + signed_artifact" where
  \<comment> \<open>\<open>generated\<close> is the current time, or the time given by the caller\<close>
  "build_signed_artifact x g trust_list certs ca_chain crl revision reason crl_bundle crl_metadata generated =
     (let artifact = artifact_document g trust_list certs ca_chain crl revision reason crl_bundle
            crl_metadata generated;
          payload = canonical_artifact_payload artifact
      in bindS (canonical_json_bytes (PDict payload)) (\<lambda>bytes.
        Inr \<lparr>sa_artifact = artifact, sa_bytes = bytes, sa_sha256 = sha256_hex x bytes,
          sa_signature = k_b64 x (k_sign x (sg_key g) bytes), sa_fingerprint = sg_fingerprint g,
          sa_key_id = sg_key_id g, sa_algorithm = signer_algorithm, sa_generated = generated,
          sa_expires = generated + sg_ttl g * usec, sa_payload = payload\<rparr>))"

section \<open>Package manifests\<close>

definition sha256_text :: "ext \<Rightarrow> string \<Rightarrow> string" where
  "sha256_text x value = k_sha256 x value"

text \<open>Digest of every file of a package layout, in ascending order of path.\<close>

definition package_files_sha256 :: "ext \<Rightarrow> pydict \<Rightarrow> pydict" where
  "package_files_sha256 x layout = (case dget_or layout ''files'' (PDict []) of
     PDict files \<Rightarrow> map (\<lambda>(path, content). (path, PStr (sha256_text x (py_str content)))) (sort_key fst files)
   | _ \<Rightarrow> [])"

definition package_payload_sha256 :: "ext \<Rightarrow> pydict \<Rightarrow> exn + string" where
  "package_payload_sha256 x files = bindS (canonical_json_bytes (PDict files)) (\<lambda>b. Inr (k_sha256 x b))"

definition canonical_package_manifest :: "pydict \<Rightarrow> pydict" where
  "canonical_package_manifest manifest = ddel ''signature'' (dput ''manifest_sha256'' (PStr []) manifest)"

definition manifest_sha256 :: "ext \<Rightarrow> pydict \<Rightarrow> exn + string" where
  "manifest_sha256 x manifest =
     bindS (canonical_json_bytes (PDict (canonical_package_manifest manifest))) (\<lambda>b. Inr (k_sha256 x b))"

section \<open>Facts\<close>

lemma json_ok_sort_keys [simp]: "json_ok (sort_keys v) = json_ok v"
  by (induction v rule: sort_keys.induct) (fastforce simp: image_iff split: prod.splits)+

lemma dput_dput [simp]: "dput k v (dput k v' d) = dput k v d"
  unfolding dput_def by (induction d) auto

lemma canonical_manifest_stamp:
  "canonical_package_manifest (dput ''manifest_sha256'' v m) = canonical_package_manifest m"
  by (simp add: canonical_package_manifest_def)

lemma ddel_dput_same: "ddel k (dput k v d) = ddel k d"
  unfolding ddel_def dput_def by (induction d) auto

lemma dput_ddel_commute: "k \<noteq> k' \<Longrightarrow> ddel k (dput k' v d) = dput k' v (ddel k d)"
  unfolding ddel_def dput_def by (induction d) auto

lemma canonical_manifest_signature:
  "canonical_package_manifest (dput ''signature'' v m) = canonical_package_manifest m"
  by (simp add: canonical_package_manifest_def dput_ddel_commute ddel_dput_same)

lemma dget_or_dput: "dget_or (dput k v d) k' x = (if k' = k then v else dget_or d k' x)"
  by (simp add: dget_or_def dput_def update_conv)

lemma canonical_artifact_ignores:
  assumes "k \<notin> set (signed_fields @ [''certificates'', ''signer'', ''crl_bundle'', ''crl_metadata''])"
  shows "canonical_artifact_payload (dput k v artifact) = canonical_artifact_payload artifact"
proof -
  have ne: "k \<notin> set signed_fields" "k \<noteq> ''certificates''" "k \<noteq> ''signer''" "k \<noteq> ''crl_bundle''"
    "k \<noteq> ''crl_metadata''"
    using assms by simp_all
  have fields: "map (\<lambda>f. (f, dget (dput k v artifact) f)) signed_fields
      = map (\<lambda>f. (f, dget artifact f)) signed_fields"
    using ne(1) by (intro map_cong) (auto simp: dget_dput)
  show ?thesis
    unfolding canonical_artifact_payload_def fields dget_or_dput dmem_dput
    by (simp only: not_sym [OF ne(2)] not_sym [OF ne(3)] not_sym [OF ne(4)] not_sym [OF ne(5)]
        if_False simp_thms)
qed

end
