(* ===== verification/Outcomes.thy ===== *)
theory Outcomes
  imports World
begin

text \<open>
  Reasoning about what operations return: pre- and postconditions of the successful
  outcome, operations that never raise, and the number of requests sent to Vault. The rules
  mirror the combinators in which the operations are written.
\<close>

section \<open>Postconditions\<close>

definition valid :: "('s \<Rightarrow> bool) \<Rightarrow> ('s, 'a) eff \<Rightarrow> ('a \<Rightarrow> 's \<Rightarrow> bool) \<Rightarrow> bool" where
  "valid P m Q \<longleftrightarrow> (\<forall>s x s'. P s \<longrightarrow> m s = (Inr x, s') \<longrightarrow> Q x s')"

lemma validI: "(\<And>s x s'. P s \<Longrightarrow> m s = (Inr x, s') \<Longrightarrow> Q x s') \<Longrightarrow> valid P m Q"
  unfolding valid_def by blast

lemma validD: "valid P m Q \<Longrightarrow> P s \<Longrightarrow> m s = (Inr x, s') \<Longrightarrow> Q x s'"
  unfolding valid_def by blast

lemma valid_bind:
  "valid P m R \<Longrightarrow> (\<And>x. valid (R x) (f x) Q) \<Longrightarrow> valid P (bindE m f) Q"
  unfolding valid_def bindE_Inr by blast

lemma valid_bind_weak: "(\<And>x. valid (\<lambda>_. True) (f x) Q) \<Longrightarrow> valid P (bindE m f) Q"
  unfolding valid_def bindE_Inr by blast

lemma valid_ret: "(\<And>s. P s \<Longrightarrow> Q x s) \<Longrightarrow> valid P (ret x) Q"
  unfolding valid_def ret_def by blast

lemma valid_getE: "(\<And>s. P s \<Longrightarrow> Q (f s) s) \<Longrightarrow> valid P (getE f) Q"
  unfolding valid_def getE_def by blast

lemma valid_raise [simp]: "valid P (raise e) Q"
  unfolding valid_def raise_def by simp

lemma valid_if: "(b \<Longrightarrow> valid P m Q) \<Longrightarrow> (\<not> b \<Longrightarrow> valid P n Q) \<Longrightarrow> valid P (if b then m else n) Q"
  by simp

lemma valid_conseq:
  "valid P m Q \<Longrightarrow> (\<And>s. P' s \<Longrightarrow> P s) \<Longrightarrow> (\<And>x s. Q x s \<Longrightarrow> Q' x s) \<Longrightarrow> valid P' m Q'"
  unfolding valid_def by blast

lemma valid_catch:
  assumes "valid P m Q" "evolves (keeps P) m" "\<And>e. valid P (h e) Q"
  shows "valid P (catchE m h) Q"
  unfolding valid_def
proof (intro allI impI)
  fix s x s' assume P: "P s" and run: "catchE m h s = (Inr x, s')"
  obtain r t where m: "m s = (r, t)" by fastforce
  have "P t" using assms(2) P m unfolding evolves_def keeps_def by (metis snd_conv)
  with assms P run m show "Q x s'"
    unfolding valid_def catchE_def by (cases r) auto
qed

lemma valid_try:
  assumes "valid P m R" "evolves (keeps P) m" "\<And>e. valid P (h e) Q" "\<And>x. valid (R x) (k x) Q"
  shows "valid P (tryE m h k) Q"
  unfolding valid_def
proof (intro allI impI)
  fix s x s' assume P: "P s" and run: "tryE m h k s = (Inr x, s')"
  obtain r t where m: "m s = (r, t)" by fastforce
  have "P t" using assms(2) P m unfolding evolves_def keeps_def by (metis snd_conv)
  with assms P run m show "Q x s'"
    unfolding valid_def tryE_def by (cases r) auto
qed

lemma valid_keeps: "evolves (keeps P) m \<Longrightarrow> valid P m (\<lambda>_. P)"
  unfolding valid_def evolves_def keeps_def by (metis snd_conv)

section \<open>Successful runs\<close>

text \<open>What a successful run of each combinator consists of.\<close>

lemma ret_run: "ret x s = (Inr y, t) \<longleftrightarrow> y = x \<and> t = s"
  by (auto simp: ret_def)

lemma raise_run: "raise e s = (Inr y, t) \<longleftrightarrow> False"
  by (simp add: raise_def)

lemma getE_run: "getE f s = (Inr y, t) \<longleftrightarrow> y = f s \<and> t = s"
  by (auto simp: getE_def)

lemma lift_sum_run: "lift_sum r s = (Inr y, t) \<longleftrightarrow> r = Inr y \<and> t = s"
  by (auto simp: lift_sum_def)

lemma if_run: "(if b then m else n) s = (Inr y, t) \<longleftrightarrow> (b \<and> m s = (Inr y, t)) \<or> (\<not> b \<and> n s = (Inr y, t))"
  by simp

lemma option_run:
  "(case v of None \<Rightarrow> m | Some a \<Rightarrow> f a) s = (Inr y, t) \<longleftrightarrow>
   (v = None \<and> m s = (Inr y, t)) \<or> (\<exists>a. v = Some a \<and> f a s = (Inr y, t))"
  by (cases v) simp_all

lemma prod_run: "(case p of (a, b) \<Rightarrow> f a b) s = (Inr y, t) \<longleftrightarrow> (\<exists>a b. p = (a, b) \<and> f a b s = (Inr y, t))"
  by (cases p) simp

lemma on_db_run:
  "on_db f w = (Inr y, w') \<longleftrightarrow> (\<exists>t. w_conn w (w_calls w) \<and> t = w_clock w (w_ticks w) \<and>
     (\<exists>d. f t (w_db w) = (Inr y, d) \<and>
        w' = w\<lparr>w_calls := Suc (w_calls w), w_ticks := Suc (w_ticks w), w_db := d\<rparr>))"
  by (auto simp: on_db_def Let_def split: prod.splits)

lemmas run_simps = bindE_Inr ret_run raise_run getE_run lift_sum_run if_run option_run prod_run

lemma query_run: "query m w = (Inr y, w') \<Longrightarrow> (\<And>d. snd (m d) = d) \<Longrightarrow> w_db w' = w_db w \<and> fst (m (w_db w)) = Inr y"
  unfolding query_def on_db_run by (auto; metis fst_conv snd_conv)

lemma same_db_run: "uuid4_hex w = (Inr u, w') \<Longrightarrow> w_db w' = w_db w" "now_us w = (Inr n, w') \<Longrightarrow> w_db w' = w_db w"
  by (auto simp: uuid4_hex_def now_us_def)

section \<open>Operations that never raise\<close>

definition never_raises :: "('s, 'a) eff \<Rightarrow> bool" where
  "never_raises m \<longleftrightarrow> (\<forall>s. \<exists>x. fst (m s) = Inr x)"

lemma never_raises_ret [simp]: "never_raises (ret x)"
  by (simp add: never_raises_def ret_def)

lemma never_raises_getE [simp]: "never_raises (getE f)"
  by (simp add: never_raises_def getE_def)

lemma never_raises_bind: "never_raises m \<Longrightarrow> (\<And>x. never_raises (f x)) \<Longrightarrow> never_raises (bindE m f)"
  unfolding never_raises_def bindE_def
  by (auto split: prod.splits sum.splits) (metis Inl_Inr_False fst_conv)+

lemma never_raises_catch: "(\<And>e. never_raises (h e)) \<Longrightarrow> never_raises (catchE m h)"
  unfolding never_raises_def catchE_def by (auto split: prod.splits sum.splits)

lemma never_raises_try:
  "(\<And>e. never_raises (h e)) \<Longrightarrow> (\<And>x. never_raises (k x)) \<Longrightarrow> never_raises (tryE m h k)"
  unfolding never_raises_def tryE_def by (auto split: prod.splits sum.splits)

lemma never_raises_if: "never_raises m \<Longrightarrow> never_raises n \<Longrightarrow> never_raises (if b then m else n)"
  by simp

lemma never_raises_prod: "(\<And>a b. never_raises (f a b)) \<Longrightarrow> never_raises (case_prod f p)"
  by (cases p) simp

lemma never_raises_Let: "never_raises (f x) \<Longrightarrow> never_raises (Let x f)"
  by simp

lemma never_raises_prims: "never_raises now_us" "never_raises uuid4_hex" "never_raises (upd_vault f)"
  by (simp_all add: never_raises_def now_us_def uuid4_hex_def upd_vault_def updE_def)

lemmas never_raises_intros = never_raises_ret never_raises_getE never_raises_bind never_raises_catch
  never_raises_try never_raises_if never_raises_prod never_raises_Let never_raises_prims

section \<open>Requests sent\<close>

definition sends :: "nat \<Rightarrow> 'a op \<Rightarrow> bool" where
  \<comment> \<open>at most so many requests\<close>
  "sends n m \<longleftrightarrow> (\<forall>w. length (w_requests (snd (m w))) \<le> length (w_requests w) + n)"

lemma sends_mono: "sends a m \<Longrightarrow> a \<le> b \<Longrightarrow> sends b m"
  unfolding sends_def by (meson add_left_mono order_trans)

lemma sends_bind: "sends a m \<Longrightarrow> (\<And>x. sends b (f x)) \<Longrightarrow> sends (a + b) (bindE m f)"
  unfolding sends_def bindE_def
  by (auto split: prod.splits sum.splits) (smt (verit, ccfv_threshold) add.assoc add_right_mono
      le_add1 le_trans snd_conv)+

lemma sends_catch: "sends a m \<Longrightarrow> (\<And>e. sends b (h e)) \<Longrightarrow> sends (a + b) (catchE m h)"
  unfolding sends_def catchE_def
  by (auto split: prod.splits sum.splits) (smt (verit, ccfv_threshold) add.assoc add_right_mono
      le_add1 le_trans snd_conv)+

lemma sends_try:
  "sends a m \<Longrightarrow> (\<And>e. sends b (h e)) \<Longrightarrow> (\<And>x. sends b (k x)) \<Longrightarrow> sends (a + b) (tryE m h k)"
  unfolding sends_def tryE_def
  by (auto split: prod.splits sum.splits) (smt (verit, ccfv_threshold) add.assoc add_right_mono
      le_add1 le_trans snd_conv)+

lemma sends_if: "sends a m \<Longrightarrow> sends a n \<Longrightarrow> sends a (if b then m else n)"
  by simp

lemma sends_none:
  "sends 0 (ret x)" "sends 0 (raise e)" "sends 0 (getE f)" "sends 0 now_us" "sends 0 (upd_vault g)"
  "sends 0 (read_text p)" "sends 0 (lift_sum r)" "sends 0 (on_db h)" "sends 0 uuid4_hex"
  by (simp_all add: sends_def ret_def raise_def getE_def now_us_def upd_vault_def updE_def read_text_def
      lift_sum_def on_db_def uuid4_hex_def Let_def split: option.splits prod.splits)

lemma sends_http: "sends 1 (http q)"
  by (simp add: sends_def http_def)

section \<open>Frames\<close>

text \<open>What an operation leaves alone.\<close>

definition same :: "('d \<Rightarrow> 'c) \<Rightarrow> 'd \<Rightarrow> 'd \<Rightarrow> bool" where
  "same f d e \<longleftrightarrow> f e = f d"

interpretation frame: evolution "same f" for f
  by unfold_locales (auto simp: same_def)

lemma same_run: "evolves (same f) m \<Longrightarrow> m w = (r, w') \<Longrightarrow> f w' = f w"
  by (metis evolves_def same_def snd_conv)

text \<open>The tables of the database but for the audit log, with the state of the API process
  that concerns artifacts: what no exchange with Vault touches.\<close>

definition tables where
  "tables (d :: db) = ((d_apps d, d_certs d, d_lists d, d_members d, d_artifacts d, d_profiles d),
     (d_requests d, d_packages d, d_pevents d, d_status d, d_cevents d), (d_seq d)(AuditEvents := (0::int)))"

definition core where
  "core (w :: world) = (tables (w_db w), w_cache w, w_regen_at w, w_started w, w_last_crl w)"

lemma tables_eqD:
  assumes "tables d = tables e"
  shows "d_apps d = d_apps e" "d_certs d = d_certs e" "d_lists d = d_lists e" "d_members d = d_members e"
    "d_artifacts d = d_artifacts e" "d_profiles d = d_profiles e" "d_requests d = d_requests e"
    "d_packages d = d_packages e" "d_pevents d = d_pevents e" "d_status d = d_status e" "d_cevents d = d_cevents e"
    "tab \<noteq> AuditEvents \<Longrightarrow> d_seq d tab = d_seq e tab"
  using assms by (simp_all add: tables_def fun_eq_iff split: if_splits) metis

lemma audit_tables: "tables (snd (audit ty ac tg det t d)) = tables d"
  by (auto simp: audit_def json_dumps_def tables_def split: sum.splits)

lemma core_on_db: "(\<And>t d. tables (snd (f t d)) = tables d) \<Longrightarrow> evolves (same core) (on_db f)"
  unfolding evolves_def same_def core_def on_db_def Let_def
  by (simp add: case_prod_beta)

lemma core_query [evolves_rules]: "(\<And>d. snd (m d) = d) \<Longrightarrow> evolves (same core) (query m)"
  unfolding query_def by (rule core_on_db) simp

lemma core_prims [evolves_rules]:
  "evolves (same core) now_us" "evolves (same core) uuid4_hex" "evolves (same core) (http q)"
  "evolves (same core) (read_text p)" "evolves (same core) (upd_vault f)" "evolves (same core) (lift_sum r)"
  "evolves (same core) (agent_policy_of a)" "evolves (same core) (log_audit ty ac tg det)"
proof -
  show "evolves (same core) (log_audit ty ac tg det)"
    unfolding log_audit_def by (rule core_on_db) (rule audit_tables)
qed (auto simp: evolves_def same_def core_def now_us_def uuid4_hex_def http_def read_text_def upd_vault_def updE_def
    lift_sum_def agent_policy_of_def split: option.splits prod.splits)

end
