(* ===== verification/Vault.thy ===== *)
theory Vault
  imports Signing Outcomes
begin

text \<open>
  \<open>gds/app/vault_client.py\<close>: the token state machine of the Vault client, detection of a
  sealed Vault, revocation lists with their freshness check, signing of requests and
  revocation. A request goes through \<open>http\<close>; the requests sent are recorded in the world.
\<close>

section \<open>Requests\<close>

abbreviation vset :: "settings \<Rightarrow> vault_settings" where
  "vset st \<equiv> s_vault st"

definition vault_url :: "settings \<Rightarrow> string \<Rightarrow> string" where
  "vault_url st path = rev (dropWhile (\<lambda>c. c = CHR ''/'') (rev (vault_addr (vset st)))) @ path"

definition mtls_enabled :: "settings \<Rightarrow> bool" where
  "mtls_enabled st \<longleftrightarrow> starts_with (lower (vault_addr (vset st))) ''https://''
     \<and> vault_tls_client_cert (vset st) \<noteq> [] \<and> vault_tls_client_key (vset st) \<noteq> []"

definition raw_request :: "settings \<Rightarrow> string \<Rightarrow> string \<Rightarrow> pyval \<Rightarrow> pydict option \<Rightarrow> reply op" where
  "raw_request st method path token body =
     (if truthy token
      then case token of
          PStr s \<Rightarrow> http \<lparr>q_method = method, q_path = vault_url st path, q_token = Some s, q_body = body\<rparr>
        | _ \<Rightarrow> raise (TypeError ''header value must be str or bytes'')
      else http \<lparr>q_method = method, q_path = vault_url st path, q_token = None, q_body = body\<rparr>)"

definition is_sealed_response :: "reply \<Rightarrow> bool" where
  "is_sealed_response res \<longleftrightarrow> r_status res = 503
     \<or> str_contains ''vault is sealed'' (lower (take 4096 (r_text res)))"

definition mark_sealed :: "unit op" where
  "mark_sealed = upd_vault (\<lambda>v. v\<lparr>v_sealed := True, v_last_error := Some ''vault_sealed''\<rparr>)"

definition mark_success :: "settings \<Rightarrow> unit op" where
  "mark_success st =
     bindE (getE (\<lambda>w. v_sealed (w_vault w))) (\<lambda>was_sealed.
     bindE (upd_vault (\<lambda>v. v\<lparr>v_sealed := False\<rparr>)) (\<lambda>_.
       if was_sealed
       then catchE (log_audit ''vault_unsealed_detected'' ''system'' ''vault''
              [(''vault_addr'', PStr (vault_addr (vset st)))]) (\<lambda>_. ret ())
       else ret ()))"

definition vault_request :: "settings \<Rightarrow> string \<Rightarrow> string \<Rightarrow> pyval \<Rightarrow> pydict option \<Rightarrow> reply op" where
  "vault_request st method path token body =
     bindE (raw_request st method path token body) (\<lambda>res.
       if is_sealed_response res then bindE mark_sealed (\<lambda>_. raise VaultSealedError)
       else bindE (mark_success st) (\<lambda>_. ret res))"

definition raise_for_status :: "reply \<Rightarrow> unit op" where
  "raise_for_status res = (if 200 \<le> r_status res \<and> r_status res \<le> 299 then ret ()
     else raise (HTTPStatusError (r_status res)))"

text \<open>\<open>res.json()\<close>, \<open>value.get(k, default)\<close> and \<open>int(value)\<close>.\<close>

definition res_json :: "reply \<Rightarrow> pyval op" where
  "res_json res = (case r_json res of None \<Rightarrow> raise JSONDecodeError | Some v \<Rightarrow> ret v)"

definition attr_get :: "pyval \<Rightarrow> string \<Rightarrow> pyval \<Rightarrow> pyval op" where
  "attr_get v k dflt = (case v of PDict d \<Rightarrow> ret (dget_or d k dflt)
     | _ \<Rightarrow> raise (AttributeError ''get''))"

definition py_int :: "pyval \<Rightarrow> exn + int" where
  "py_int v = (case v of PInt i \<Rightarrow> Inr i | PBool b \<Rightarrow> Inr (if b then 1 else 0)
     | PStr s \<Rightarrow> (case parse_int s of None \<Rightarrow> Inl (ValueError ''int'') | Some i \<Rightarrow> Inr i)
     | _ \<Rightarrow> Inl (TypeError ''int''))"

section \<open>The token\<close>

definition login_approle :: "settings \<Rightarrow> unit op" where
  "login_approle st =
     bindE (read_text (vault_role_id_file (vset st))) (\<lambda>role_id.
     bindE (read_text (vault_secret_id_file (vset st))) (\<lambda>secret_id.
     bindE (vault_request st ''POST'' (vault_approle_login_path (vset st)) PNone
       (Some [(''role_id'', PStr role_id), (''secret_id'', PStr secret_id)])) (\<lambda>res.
     bindE (raise_for_status res) (\<lambda>_.
     bindE (res_json res) (\<lambda>body.
     bindE (attr_get body ''auth'' (PDict [])) (\<lambda>auth.
     bindE (attr_get auth ''client_token'' PNone) (\<lambda>token.
       if \<not> truthy token then raise (RuntimeError ''Vault AppRole login returned no client_token'')
       else
     bindE (attr_get auth ''lease_duration'' (PInt 0)) (\<lambda>lease.
     bindE (lift_sum (py_int lease)) (\<lambda>lease_duration.
     bindE (attr_get auth ''renewable'' (PBool False)) (\<lambda>renewable.
     bindE now_s (\<lambda>now.
       upd_vault (\<lambda>v. v\<lparr>v_token := token, v_renewable := truthy renewable,
         v_expire := now + lease_duration, v_last_error := None\<rparr>))))))))))))"

definition lookup_self :: "settings \<Rightarrow> pyval \<Rightarrow> pyval op" where
  "lookup_self st token =
     bindE (vault_request st ''GET'' (vault_token_lookup_path (vset st)) token None) (\<lambda>res.
     bindE (raise_for_status res) (\<lambda>_.
     bindE (res_json res) (\<lambda>body. attr_get body ''data'' (PDict []))))"

definition renew_self :: "settings \<Rightarrow> pyval \<Rightarrow> unit op" where
  "renew_self st token =
     bindE (vault_request st ''POST'' (vault_token_renew_path (vset st)) token None) (\<lambda>res.
     bindE (raise_for_status res) (\<lambda>_.
     bindE (res_json res) (\<lambda>body.
     bindE (attr_get body ''auth'' (PDict [])) (\<lambda>auth.
     bindE (attr_get auth ''lease_duration'' (PInt 0)) (\<lambda>lease.
     bindE (lift_sum (py_int lease)) (\<lambda>lease_duration.
     bindE (getE (\<lambda>w. v_renewable (w_vault w))) (\<lambda>old.
     bindE (attr_get auth ''renewable'' (PBool old)) (\<lambda>renewable.
     bindE now_s (\<lambda>now.
       upd_vault (\<lambda>v. v\<lparr>v_renewable := truthy renewable, v_expire := now + lease_duration,
         v_last_error := None\<rparr>))))))))))"

definition current_token :: "pyval op" where
  \<comment> \<open>\<open>self._state.token or ""\<close>\<close>
  "current_token = getE (\<lambda>w. py_or (v_token (w_vault w)) (PStr []))"

definition set_last_error :: "string \<Rightarrow> unit op" where
  "set_last_error e = upd_vault (\<lambda>v. v\<lparr>v_last_error := Some e\<rparr>)"

definition refresh_token_state :: "settings \<Rightarrow> pyval \<Rightarrow> int \<Rightarrow> unit op" where
  \<comment> \<open>the body of the first \<open>try\<close> of \<open>ensure_token\<close>\<close>
  "refresh_token_state st token now =
     bindE (lookup_self st token) (\<lambda>lookup.
     bindE (attr_get lookup ''ttl'' (PInt 0)) (\<lambda>t.
     bindE (lift_sum (py_int t)) (\<lambda>ttl.
     bindE (getE (\<lambda>w. v_renewable (w_vault w))) (\<lambda>old.
     bindE (attr_get lookup ''renewable'' (PBool old)) (\<lambda>renewable.
       upd_vault (\<lambda>v. v\<lparr>v_renewable := truthy renewable, v_expire := now + ttl,
         v_last_error := None\<rparr>))))))"

definition relogin_unless_sealed :: "settings \<Rightarrow> string \<Rightarrow> exn \<Rightarrow> unit op" where
  "relogin_unless_sealed st err e =
     (if e = VaultSealedError then raise e
      else bindE (set_last_error err) (\<lambda>_. login_approle st))"

definition renew_or_login :: "settings \<Rightarrow> int \<Rightarrow> unit op" where
  "renew_or_login st now =
     bindE (getE w_vault) (\<lambda>v.
       if v_expire v - now \<le> vault_token_renew_margin_seconds (vset st)
       then catchE (if v_renewable v then renew_self st (v_token v) else login_approle st)
              (relogin_unless_sealed st ''token_renew_failed'')
       else ret ())"

definition ensure_token :: "settings \<Rightarrow> pyval op" where
  "ensure_token st =
     bindE now_s (\<lambda>now.
     bindE (getE (\<lambda>w. v_token (w_vault w))) (\<lambda>token.
       if \<not> truthy token then bindE (login_approle st) (\<lambda>_. current_token)
       else tryE (refresh_token_state st token now)
         (\<lambda>e. bindE (relogin_unless_sealed st ''token_lookup_failed'' e) (\<lambda>_. current_token))
         (\<lambda>_. bindE (renew_or_login st now) (\<lambda>_. current_token))))"

section \<open>Certificate authority chain and revocation lists\<close>

definition pki_read :: "settings \<Rightarrow> string \<Rightarrow> reply op" where
  \<comment> \<open>a PKI read, with a token unless unauthenticated reads are allowed\<close>
  "pki_read st path =
     bindE (if vault_allow_unauthenticated_pki_read (vset st) then ret PNone else ensure_token st) (\<lambda>token.
     bindE (vault_request st ''GET'' path token None) (\<lambda>res.
     bindE (raise_for_status res) (\<lambda>_. ret res)))"

definition get_ca_chain :: "settings \<Rightarrow> pydict op" where
  "get_ca_chain st =
     bindE (pki_read st (''/v1/'' @ vault_pki_mount (vset st) @ ''/ca_chain'')) (\<lambda>res.
       ret [(''mount'', PStr (vault_pki_mount (vset st))), (''content_type'', PStr (r_ctype res)),
            (''ca_chain_pem'', PStr (r_text res))])"

definition crl_of :: "x509_crl option \<Rightarrow> exn + string" where
  "crl_of c = (case c of None \<Rightarrow> Inl (ParseError ''crl'') | Some l \<Rightarrow> Inr (xl_der l))"

definition crl_response_to_der :: "ext \<Rightarrow> reply \<Rightarrow> exn + string" where
  "crl_response_to_der x res =
     (if str_contains ''-----BEGIN X509 CRL-----'' (r_body res) \<or> str_contains ''-----BEGIN CRL-----'' (r_body res)
         \<or> str_contains ''pem'' (lower (r_ctype res))
      then crl_of (k_load_crl_pem x (r_body res))
      else case k_load_crl_der x (r_body res) of
        Some l \<Rightarrow> Inr (xl_der l)
      | None \<Rightarrow> crl_of (k_load_crl_pem x (r_body res)))"

definition parse_crl_metadata ::
  "ext \<Rightarrow> settings \<Rightarrow> string \<Rightarrow> string \<Rightarrow> string \<Rightarrow> string option \<Rightarrow> pydict op" where
  "parse_crl_metadata x st der source endpoint issuer_id = (case k_load_crl_der x der of
     None \<Rightarrow> raise (RuntimeError (''unparsable CRL from '' @ endpoint))
   | Some crl \<Rightarrow> (case xl_next_update crl of
       None \<Rightarrow> raise (AttributeError ''replace'')
       \<comment> \<open>both \<open>next_update_utc\<close> and \<open>next_update\<close> are \<open>None\<close>: \<open>None.replace\<close>\<close>
     | Some next_update \<Rightarrow>
         bindE (if vault_strict_crl_freshness (vset st)
                then bindE now_us (\<lambda>now. if next_update \<le> now
                  then raise (RuntimeError (''CRL from '' @ endpoint @ '' expired at '' @ iso_z next_update))
                  else ret ())
                else ret ()) (\<lambda>_.
         ret [(''source'', PStr source), (''endpoint'', PStr endpoint), (''issuer_id'', opt_str issuer_id),
              (''issuer'', PStr (xl_issuer crl)), (''last_update'', PStr (iso_z (xl_last_update crl))),
              (''next_update'', PStr (iso_z next_update)), (''sha256'', PStr (k_sha256 x der)),
              (''freshness_verified'', PBool True)])))"

definition get_crl_from_endpoint ::
  "ext \<Rightarrow> settings \<Rightarrow> string \<Rightarrow> string \<Rightarrow> string \<Rightarrow> string option \<Rightarrow> pydict op" where
  "get_crl_from_endpoint x st mount path source issuer_id =
     bindE (pki_read st path) (\<lambda>res.
     bindE (lift_sum (crl_response_to_der x res)) (\<lambda>der.
     bindE (parse_crl_metadata x st der source path issuer_id) (\<lambda>meta.
       ret ([(''mount'', PStr mount), (''content_type'', PStr (r_ctype res)), (''encoding'', PStr ''base64''),
             (''crl_base64'', PStr (k_b64 x der))] @ meta))))"

definition issuer_path :: "string \<Rightarrow> string \<Rightarrow> string" where
  "issuer_path mount issuer_id = ''/v1/'' @ mount @ ''/issuer/'' @ issuer_id @ ''/crl/pem''"

definition mount_path :: "string \<Rightarrow> string" where
  "mount_path mount = ''/v1/'' @ mount @ ''/crl/pem''"

definition get_root_crl :: "ext \<Rightarrow> settings \<Rightarrow> pydict op" where
  "get_root_crl x st =
     (let mount = vault_root_pki_mount (vset st); mode = lower (vault_root_crl_mode (vset st));
          issuer_id = strip (vault_root_issuer_id (vset st))
      in if mode = ''issuer_specific''
         then if issuer_id = []
           then raise (RuntimeError ''GDS__VAULT__ROOT_ISSUER_ID is required for issuer_specific root CRL mode'')
           else get_crl_from_endpoint x st mount (issuer_path mount issuer_id) ''issuer_specific'' (Some issuer_id)
         else get_crl_from_endpoint x st mount (mount_path mount) ''mount'' None)"

definition get_intermediate_crl :: "ext \<Rightarrow> settings \<Rightarrow> pydict op" where
  "get_intermediate_crl x st =
     (let mount = vault_intermediate_pki_mount (vset st); mode = lower (vault_intermediate_crl_mode (vset st));
          issuer_id = strip (vault_intermediate_issuer_id (vset st))
      in if mode = ''issuer_specific'' \<and> issuer_id \<noteq> []
         then get_crl_from_endpoint x st mount (issuer_path mount issuer_id) ''issuer_specific'' (Some issuer_id)
         else get_crl_from_endpoint x st mount (mount_path mount) ''mount''
           (if issuer_id = [] then None else Some issuer_id))"

definition get_crl_bundle :: "ext \<Rightarrow> settings \<Rightarrow> pydict op" where
  "get_crl_bundle x st =
     bindE (get_root_crl x st) (\<lambda>root.
     bindE (get_intermediate_crl x st) (\<lambda>intermediate.
       ret [(''root'', PDict root), (''intermediate'', PDict intermediate),
         (''crl_freshness_verified'', PBool (truthy (dget root ''freshness_verified'')
            \<and> truthy (dget intermediate ''freshness_verified''))),
         (''root_crl_source'', dget root ''source''), (''root_pki_mount'', dget root ''mount''),
         (''root_issuer_id'', dget root ''issuer_id''), (''root_crl_issuer'', dget root ''issuer''),
         (''root_crl_next_update'', dget root ''next_update''), (''root_crl_sha256'', dget root ''sha256''),
         (''intermediate_pki_mount'', dget intermediate ''mount''),
         (''intermediate_crl_source'', dget intermediate ''source''),
         (''intermediate_crl_issuer'', dget intermediate ''issuer''),
         (''intermediate_crl_next_update'', dget intermediate ''next_update''),
         (''intermediate_crl_sha256'', dget intermediate ''sha256'')]))"

section \<open>Revocation and signing\<close>

fun pairs_of :: "string \<Rightarrow> string list" where
  \<comment> \<open>\<open>serial[i : i + 2] for i in range(0, len(serial), 2)\<close>\<close>
  "pairs_of [] = []"
| "pairs_of [c] = [[c]]"
| "pairs_of (a # b # s) = [a, b] # pairs_of s"

definition vault_serial_number :: "string \<Rightarrow> string" where
  "vault_serial_number raw =
     (let serial = replace_char (CHR ''-'') (CHR '':'') (lower (strip raw)) in
      if CHR '':'' \<in> set serial then serial
      else str_join '':'' (pairs_of (if odd (length serial) then CHR ''0'' # serial else serial)))"

definition revoke_certificate :: "settings \<Rightarrow> string \<Rightarrow> pydict op" where
  "revoke_certificate st serial_number =
     bindE (ensure_token st) (\<lambda>token.
     (let serial = vault_serial_number serial_number in
     bindE (vault_request st ''POST'' (''/v1/'' @ vault_pki_mount (vset st) @ ''/revoke'') token
       (Some [(''serial_number'', PStr serial)])) (\<lambda>res.
     bindE (raise_for_status res) (\<lambda>_.
     bindE (res_json res) (\<lambda>body.
     bindE (attr_get body ''data'' (PDict [])) (\<lambda>data.
     bindE (attr_get data ''revocation_time'' PNone) (\<lambda>revoked.
       ret [(''mount'', PStr (vault_pki_mount (vset st))), (''serial_number'', PStr serial),
            (''revocation_time'', revoked)])))))))"

definition chain_pem :: "pyval \<Rightarrow> pyval \<Rightarrow> string" where
  "chain_pem issuing_ca ca_chain = (case ca_chain of
     PList (c # cs) \<Rightarrow> strip (str_join [CHR 0x0A] (map (strip \<circ> py_str) (filter truthy (c # cs)))) @ [CHR 0x0A]
   | _ \<Rightarrow> if truthy issuing_ca then strip (py_str issuing_ca) @ [CHR 0x0A] else [])"

record signed_csr =
  sc_certificate :: string
  sc_issuing_ca :: string
  sc_chain :: string
  sc_serial :: pyval
  sc_expiration :: pyval

definition sign_body :: "settings \<Rightarrow> string \<Rightarrow> string \<Rightarrow> string \<Rightarrow> pydict" where
  "sign_body st csr_pem ttl common_name =
     [(''csr'', PStr csr_pem), (''ttl'', PStr (str_or ttl (cert_default_ttl (s_expiry st))))] @
     (if common_name \<noteq> [] then [(''common_name'', PStr common_name)] else [])"

definition read_signed :: "pyval \<Rightarrow> signed_csr op" where
  \<comment> \<open>the end of \<open>sign_csr\<close>: the certificate and the chain of Vault's answer\<close>
  "read_signed data =
     bindE (attr_get data ''certificate'' PNone) (\<lambda>certificate.
       if \<not> truthy certificate
       then raise (RuntimeError ''Vault CSR signing response did not include certificate'')
       else
     bindE (attr_get data ''issuing_ca'' (PStr [])) (\<lambda>issuing_ca.
     bindE (attr_get data ''ca_chain'' (PList [])) (\<lambda>ca_chain.
     (case certificate of
        PStr pem \<Rightarrow>
          bindE (attr_get data ''serial_number'' PNone) (\<lambda>serial.
          bindE (attr_get data ''expiration'' PNone) (\<lambda>expiration.
            ret \<lparr>sc_certificate = strip pem @ [CHR 0x0A],
              sc_issuing_ca = (if truthy issuing_ca then strip (py_str issuing_ca) @ [CHR 0x0A] else []),
              sc_chain = chain_pem issuing_ca ca_chain, sc_serial = serial, sc_expiration = expiration\<rparr>))
      | _ \<Rightarrow> raise (AttributeError ''strip'')))))"

definition sign_csr :: "settings \<Rightarrow> string \<Rightarrow> string \<Rightarrow> string \<Rightarrow> signed_csr op" where
  "sign_csr st csr_pem ttl common_name =
     bindE (ensure_token st) (\<lambda>token.
     bindE (vault_request st ''POST''
       (''/v1/'' @ vault_pki_mount (vset st) @ ''/sign/'' @ vault_sign_role (vset st)) token
       (Some (sign_body st csr_pem ttl common_name))) (\<lambda>res.
     bindE (raise_for_status res) (\<lambda>_.
     bindE (res_json res) (\<lambda>body.
     bindE (attr_get body ''data'' (PDict [])) read_signed))))"

section \<open>Status\<close>

record vault_status =
  vs_reachable :: bool
  vs_initialized :: bool
  vs_sealed :: bool
  vs_mtls :: bool
  vs_token_ok :: bool
  vs_root_ok :: bool
  vs_int_ok :: bool
  vs_crl :: string
  vs_checked_at :: string

definition probe_seal_status :: "settings \<Rightarrow> (bool \<times> bool \<times> bool) op" where
  \<comment> \<open>reachable, initialized and sealed; a failure keeps what was known before it\<close>
  "probe_seal_status st =
     tryE (raw_request st ''GET'' ''/v1/sys/seal-status'' PNone None)
       (\<lambda>_. bindE (set_last_error ''vault_status_unavailable'') (\<lambda>_. ret (False, False, True)))
       (\<lambda>res. catchE
          (bindE (if r_body res = [] then ret (PDict []) else res_json res) (\<lambda>data.
           bindE (attr_get data ''initialized'' (PBool False)) (\<lambda>initialized.
           bindE (attr_get data ''sealed'' (PBool True)) (\<lambda>sealed.
           bindE (if truthy sealed then mark_sealed else mark_success st) (\<lambda>_.
             ret (True, truthy initialized, truthy sealed))))))
          (\<lambda>_. bindE (set_last_error ''vault_status_unavailable'') (\<lambda>_. ret (True, False, True))))"

definition check_token :: "settings \<Rightarrow> (bool \<times> bool) op" where
  \<comment> \<open>token usable, and sealed\<close>
  "check_token st = tryE (ensure_token st)
     (\<lambda>e. if e = VaultSealedError then ret (False, True)
          else bindE (set_last_error ''token_check_failed'') (\<lambda>_. ret (False, False)))
     (\<lambda>token. ret (truthy token, False))"

definition crl_failure :: "bool \<Rightarrow> exn \<Rightarrow> (bool \<times> bool \<times> string \<times> bool) op" where
  "crl_failure root_ok e = (if e = VaultSealedError then ret (root_ok, False, ''unavailable'', True)
     else ret (root_ok, False, ''stale'', False))"

definition check_crls :: "ext \<Rightarrow> settings \<Rightarrow> (bool \<times> bool \<times> string \<times> bool) op" where
  \<comment> \<open>root fresh, intermediate fresh, the status text, and sealed\<close>
  "check_crls x st =
     tryE (get_root_crl x st) (crl_failure False)
       (\<lambda>root. let root_ok = truthy (dget root ''freshness_verified'') in
          tryE (get_intermediate_crl x st) (crl_failure root_ok)
            (\<lambda>intermediate. let int_ok = truthy (dget intermediate ''freshness_verified'')
               in ret (root_ok, int_ok, if root_ok \<and> int_ok then ''fresh'' else ''stale'', False)))"

definition get_status :: "ext \<Rightarrow> settings \<Rightarrow> vault_status op" where
  "get_status x st =
     bindE now_us (\<lambda>checked.
     bindE (probe_seal_status st) (\<lambda>(reachable, initialized, sealed).
     bindE (if reachable \<and> initialized \<and> \<not> sealed then check_token st else ret (False, False)) (\<lambda>(token_ok, sealed2).
     bindE (if token_ok then check_crls x st else ret (False, False, ''unavailable'', False))
       (\<lambda>(root_ok, int_ok, crl, sealed3).
       ret \<lparr>vs_reachable = reachable, vs_initialized = initialized, vs_sealed = (sealed \<or> sealed2 \<or> sealed3),
         vs_mtls = mtls_enabled st, vs_token_ok = token_ok, vs_root_ok = root_ok, vs_int_ok = int_ok,
         vs_crl = crl, vs_checked_at = iso_z checked\<rparr>))))"

section \<open>Facts\<close>

subsection \<open>The database\<close>

text \<open>Whatever the Vault client does, it touches the world through five primitives only: a
  relation on worlds that these respect is respected by every operation of the client. The
  operations declared here become rules for each such relation.\<close>

locale vault_neutral = evolution R for R :: "world \<Rightarrow> world \<Rightarrow> bool" +
  assumes neutral [evolves_rules]: "evolves R now_us" "evolves R (http q)" "evolves R (read_text p)"
    "evolves R (upd_vault f)" "evolves R (log_audit ty ac tg det)"
begin

lemma lift_sum_neutral [evolves_rules]: "evolves R (lift_sum r)"
  by (simp add: evolves_def lift_sum_def evo_refl)

lemma str_case_evolves:
  "(\<And>s. evolves R (f s)) \<Longrightarrow> evolves R g \<Longrightarrow> evolves R (case v of PStr s \<Rightarrow> f s | _ \<Rightarrow> g)"
  by (cases v) simp_all

lemma now_s_neutral [evolves_rules]: "evolves R now_s"
  unfolding now_s_def by (intro combinators evolves_rules)

lemma vault_basic_neutral [evolves_rules]:
  "evolves R (raw_request st m p tok body)"
  "evolves R mark_sealed" "evolves R (mark_success st)"
  "evolves R (raise_for_status res)" "evolves R (res_json res)"
  "evolves R (attr_get v k d)" "evolves R current_token"
  "evolves R (set_last_error e)"
  unfolding raw_request_def mark_sealed_def mark_success_def raise_for_status_def res_json_def
    attr_get_def current_token_def set_last_error_def
  by (auto intro!: combinators evolves_rules split: pyval.splits)

lemma vault_request_neutral [evolves_rules]: "evolves R (vault_request st m p tok body)"
  unfolding vault_request_def by (intro combinators evolves_rules)

lemma login_approle_neutral [evolves_rules]: "evolves R (login_approle st)"
  unfolding login_approle_def by (intro combinators evolves_rules)

lemma token_ops_neutral [evolves_rules]:
  "evolves R (lookup_self st tok)" "evolves R (renew_self st tok)"
  "evolves R (relogin_unless_sealed st err e)"
  unfolding lookup_self_def renew_self_def relogin_unless_sealed_def
  by (intro combinators evolves_rules)+

lemma ensure_token_neutral [evolves_rules]: "evolves R (ensure_token st)"
  unfolding ensure_token_def refresh_token_state_def renew_or_login_def
  by (intro combinators evolves_rules)

lemma pki_read_neutral [evolves_rules]: "evolves R (pki_read st path)"
  unfolding pki_read_def by (intro combinators evolves_rules)

lemma crl_neutral [evolves_rules]:
  "evolves R (get_ca_chain st)"
  "evolves R (parse_crl_metadata x st der source endpoint issuer)"
  "evolves R (get_crl_from_endpoint x st mount path source issuer)"
  "evolves R (get_root_crl x st)" "evolves R (get_intermediate_crl x st)"
  "evolves R (get_crl_bundle x st)"
  unfolding get_ca_chain_def parse_crl_metadata_def get_crl_from_endpoint_def get_root_crl_def
    get_intermediate_crl_def get_crl_bundle_def
  by (intro combinators evolves_rules)+

lemma read_signed_neutral [evolves_rules]: "evolves R (read_signed data)"
  unfolding read_signed_def by (intro combinators evolves_rules str_case_evolves)

lemma vault_writes_neutral [evolves_rules]:
  "evolves R (revoke_certificate st serial)"
  "evolves R (sign_csr st csr ttl cn)"
  unfolding revoke_certificate_def sign_csr_def
  by (intro combinators evolves_rules)+

lemma get_status_neutral [evolves_rules]: "evolves R (get_status x st)"
  unfolding get_status_def probe_seal_status_def check_token_def check_crls_def crl_failure_def
  by (intro combinators evolves_rules)

end

interpretation vault_sound: vault_neutral world_sound
  by unfold_locales (rule evolves_rules)+

interpretation vault_core: vault_neutral "same core"
  by unfold_locales (rule frame.evo_refl frame.evo_trans evolves_rules; assumption?)+

end
