(* ===== verification/Boundary.thy ===== *)
theory Boundary
  imports Signing Outcomes
begin

text \<open>
  The edge of \<open>gds/app/main.py\<close>: what a request says about its origin, the mTLS boundary
  middleware, the authorisation of pull agents and their exclusion from the administrative
  endpoints.
\<close>

section \<open>Requests and responses\<close>

text \<open>Header names are those the code asks for; look-up is by name, as the framework
  ignores their case.\<close>

record http_req =
  hr_client :: "string option"
  hr_path :: string
  hr_headers :: "string \<Rightarrow> string option"
  hr_correlation :: string

record response =
  rs_status :: int
  rs_body :: pydict
  rs_headers :: "(string \<times> string) list"

definition json_response :: "int \<Rightarrow> pydict \<Rightarrow> response" where
  "json_response status content = \<lparr>rs_status = status, rs_body = content, rs_headers = []\<rparr>"

definition header :: "http_req \<Rightarrow> string \<Rightarrow> string" where
  \<comment> \<open>\<open>str(request.headers.get(name, "")).strip()\<close>\<close>
  "header req name = (case hr_headers req name of None \<Rightarrow> [] | Some v \<Rightarrow> strip v)"

definition connection_ip :: "http_req \<Rightarrow> string" where
  "connection_ip req = (case hr_client req of None \<Rightarrow> ''unknown'' | Some host \<Rightarrow> str_or host ''unknown'')"

definition request_ip :: "settings \<Rightarrow> http_req \<Rightarrow> string" where
  "request_ip st req =
     (if connection_ip req \<in> set (trusted_proxy_ips (s_auth st)) \<and> header req ''X-Real-IP'' \<noteq> []
      then header req ''X-Real-IP'' else connection_ip req)"

definition correlation_id :: "http_req \<Rightarrow> (string \<times> http_req) op" where
  \<comment> \<open>the identifier, and the request whose state remembers it\<close>
  "correlation_id req =
     (if strip (hr_correlation req) \<noteq> [] then ret (strip (hr_correlation req), req)
      else bindE (if header req ''X-Correlation-ID'' \<noteq> [] then ret (header req ''X-Correlation-ID'') else uuid4_hex)
        (\<lambda>v. ret (v, req\<lparr>hr_correlation := v\<rparr>)))"

definition agent_id_from_request :: "http_req \<Rightarrow> string" where
  "agent_id_from_request req = str_or (header req ''X-GDS-Agent-ID'') ''unknown''"

section \<open>Client certificate headers\<close>

definition parse_tls_date :: "ext \<Rightarrow> string \<Rightarrow> int option" where
  "parse_tls_date x value = (if value = [] then None else k_parse_date x value)"

definition cert_days_remaining :: "ext \<Rightarrow> string \<Rightarrow> string \<Rightarrow> int option op" where
  "cert_days_remaining x not_after header_value =
     (if all_digits (dropWhile (\<lambda>c. c = CHR ''-'') (strip header_value))
      then (case parse_int (strip header_value) of None \<Rightarrow> raise (ValueError ''int'') | Some i \<Rightarrow> ret (Some i))
      else case parse_tls_date x not_after of
        None \<Rightarrow> ret None
      | Some t \<Rightarrow> bindE now_us (\<lambda>now. ret (Some (days_between t now))))"

record cert_details =
  cd_verify :: string
  cd_subject :: string
  cd_issuer :: string
  cd_serial :: string
  cd_fingerprint :: string
  cd_not_before :: string
  cd_not_after :: string
  cd_days :: "int option"

definition client_cert_header_details :: "ext \<Rightarrow> http_req \<Rightarrow> cert_details op" where
  "client_cert_header_details x req =
     (let not_after = header req ''X-Client-Cert-Not-After'' in
      bindE (cert_days_remaining x not_after (header req ''X-Client-Cert-Days-Remaining'')) (\<lambda>days.
        ret \<lparr>cd_verify = header req ''X-Client-Cert-Verify'', cd_subject = header req ''X-Client-Cert-Subject'',
          cd_issuer = header req ''X-Client-Cert-Issuer'', cd_serial = header req ''X-Client-Cert-Serial'',
          cd_fingerprint = header req ''X-Client-Cert-Fingerprint'',
          cd_not_before = header req ''X-Client-Cert-Not-Before'', cd_not_after = not_after, cd_days = days\<rparr>))"

definition cert_details_dict :: "cert_details \<Rightarrow> pydict" where
  "cert_details_dict d = [(''verify'', PStr (cd_verify d)), (''subject'', PStr (cd_subject d)),
     (''issuer'', PStr (cd_issuer d)), (''serial'', PStr (cd_serial d)), (''fingerprint'', PStr (cd_fingerprint d)),
     (''not_before'', PStr (cd_not_before d)), (''not_after'', PStr (cd_not_after d)),
     (''days_remaining'', opt_int (cd_days d))]"

definition details_present :: "cert_details \<Rightarrow> bool" where
  "details_present d \<longleftrightarrow> list_ex (\<lambda>kv. truthy (snd kv)) (cert_details_dict d)"

definition has_client_cert_headers :: "ext \<Rightarrow> http_req \<Rightarrow> bool op" where
  "has_client_cert_headers x req = bindE (client_cert_header_details x req) (\<lambda>d. ret (details_present d))"

definition internal_proxy_proof_ok :: "settings \<Rightarrow> http_req \<Rightarrow> bool" where
  "internal_proxy_proof_ok st req \<longleftrightarrow> internal_proxy_secret (s_auth st) \<noteq> []
     \<and> header req ''X-GDS-Internal-Proxy'' = internal_proxy_secret (s_auth st)"

definition is_https_edge :: "http_req \<Rightarrow> bool" where
  "is_https_edge req \<longleftrightarrow> lower (header req ''X-Forwarded-Proto'') = ''https''"

definition audit_mtls_identity ::
  "ext \<Rightarrow> settings \<Rightarrow> http_req \<Rightarrow> string \<Rightarrow> string \<Rightarrow> pydict \<Rightarrow> unit op" where
  "audit_mtls_identity x st req event_type reason details =
     bindE (correlation_id req) (\<lambda>(cid, _).
     bindE (client_cert_header_details x req) (\<lambda>d.
     (let payload = dmerge (dmerge [(''reason'', PStr reason), (''source_ip'', PStr (request_ip st req)),
            (''proxy_source_ip'', PStr (connection_ip req)), (''path'', PStr (hr_path req)),
            (''agent_id'', PStr (agent_id_from_request req)), (''correlation_id'', PStr cid)]
            (cert_details_dict d)) details
      in catchE (log_audit event_type (agent_id_from_request req) (''mtls:'' @ hr_path req) payload) (\<lambda>_. ret ()))))"

section \<open>The boundary\<close>

definition with_correlation :: "string \<Rightarrow> response \<Rightarrow> response" where
  "with_correlation cid r = r\<lparr>rs_headers := AList.update ''X-Correlation-ID'' cid (rs_headers r)\<rparr>"

definition boundary_error :: "int \<Rightarrow> string \<Rightarrow> string \<Rightarrow> pydict \<Rightarrow> string \<Rightarrow> response" where
  "boundary_error status message code extra cid = with_correlation cid (json_response status
     ([(''error'', PStr message), (''error_code'', PStr code)] @ extra @ [(''correlation_id'', PStr cid)]))"

definition verify_failure_reason :: "string \<Rightarrow> string" where
  "verify_failure_reason verify = (if verify \<in> {[], ''NONE''} then ''missing_client_certificate''
     else ''client_certificate_verify_failed'')"

definition https_edge ::
  "ext \<Rightarrow> settings \<Rightarrow> string \<Rightarrow> http_req \<Rightarrow> response op \<Rightarrow> response op" where
  \<comment> \<open>the middleware once the headers are trusted: a verified client certificate is required\<close>
  "https_edge x st cid req pass =
     bindE (client_cert_header_details x req) (\<lambda>d.
       if cd_verify d \<noteq> ''SUCCESS''
       then bindE (audit_mtls_identity x st req ''mtls_client_identity_failure''
           (verify_failure_reason (cd_verify d)) [(''proxy_proof'', PStr ''ok'')]) (\<lambda>_.
         ret (boundary_error 401 ''valid client certificate required'' (verify_failure_reason (cd_verify d))
           [(''mtls_verify_status'', PStr (cd_verify d))] cid))
       else bindE (audit_mtls_identity x st req ''mtls_client_identity_success'' ''client_certificate_verified''
           [(''proxy_proof'', PStr ''ok'')]) (\<lambda>_. pass))"

definition enforce_mtls_header_boundary ::
  "ext \<Rightarrow> settings \<Rightarrow> (http_req \<Rightarrow> response op) \<Rightarrow> http_req \<Rightarrow> response op" where
  "enforce_mtls_header_boundary x st call_next req0 =
     bindE (correlation_id req0) (\<lambda>(cid, req).
     bindE (has_client_cert_headers x req) (\<lambda>has_cert.
     (let https = is_https_edge req; proof_ok = internal_proxy_proof_ok st req;
          pass = bindE (call_next req) (\<lambda>r. ret (with_correlation cid r))
      in if hr_path req = ''/internal/health''
         then (if connection_ip req \<notin> {''127.0.0.1'', ''::1''}
               then ret (with_correlation cid (json_response 404 [(''error'', PStr ''not found'')])) else pass)
         else if (has_cert \<or> https) \<and> \<not> proof_ok
         then bindE (audit_mtls_identity x st req ''mtls_client_identity_failure'' ''untrusted_proxy_headers''
             [(''proxy_proof'', PStr ''fail'')]) (\<lambda>_.
           ret (boundary_error 403 ''untrusted client certificate headers'' ''untrusted_proxy_headers'' [] cid))
         else if has_cert \<and> \<not> https
         then bindE (audit_mtls_identity x st req ''mtls_client_identity_failure''
             ''mtls_headers_on_non_https_request'' [(''proxy_proof'', PStr ''ok'')]) (\<lambda>_.
           ret (boundary_error 403 ''client certificate headers are not trusted on this listener''
             ''mtls_headers_on_non_https_request'' [] cid))
         else if https then https_edge x st cid req pass else pass)))"

definition require_https_mtls :: "ext \<Rightarrow> settings \<Rightarrow> http_req \<Rightarrow> response option op" where
  "require_https_mtls x st req =
     (if \<not> is_https_edge req
      then bindE (log_audit ''mtls_client_identity_failure'' (agent_id_from_request req)
          (''enrollment:'' @ hr_path req) [(''reason'', PStr ''https_mtls_required''), (''path'', PStr (hr_path req)),
            (''source_ip'', PStr (request_ip st req))]) (\<lambda>_.
        ret (Some (json_response 403 [(''error'', PStr ''HTTPS/mTLS listener required''),
          (''error_code'', PStr ''https_mtls_required'')])))
      else bindE (client_cert_header_details x req) (\<lambda>d.
        if cd_verify d \<noteq> ''SUCCESS''
        then ret (Some (json_response 401 [(''error'', PStr ''valid client certificate required''),
          (''error_code'', PStr ''missing_client_certificate'')]))
        else ret None))"

section \<open>Agents\<close>

definition tokens_file_now :: "tokens_file op" where
  "tokens_file_now = getE (\<lambda>w. w_token_files w (w_token_reads w))"

definition unreadable :: "tokens_file \<Rightarrow> bool" where
  \<comment> \<open>the file exists and \<open>os.access\<close> refuses it\<close>
  "unreadable file = (case file of Some (_, Inl (OSError _)) \<Rightarrow> True | _ \<Rightarrow> False)"

definition auth_failure :: "string \<Rightarrow> string \<Rightarrow> string \<Rightarrow> pydict \<Rightarrow> int \<Rightarrow> string \<Rightarrow> string \<Rightarrow> string \<Rightarrow> response option op" where
  \<comment> \<open>the audited denial: actor, target, reason, status, message and code\<close>
  "auth_failure actor target reason extra status message code source_ip =
     bindE (log_audit ''agent_auth_failure'' actor target
       ([(''reason'', PStr reason), (''source_ip'', PStr source_ip)] @ extra)) (\<lambda>_.
       ret (Some (json_response status [(''error'', PStr message), (''error_code'', PStr code)])))"

definition agent_allowed :: "agent_policy \<Rightarrow> string \<Rightarrow> string option \<Rightarrow> string option \<Rightarrow> string option \<Rightarrow> bool" where
  "agent_allowed p access zone role uri =
     (let base = (if access = ''trust_anchor'' then ag_anchor p
            else if access = ''artifact_read''
            then (case (zone, role) of (Some z, Some r) \<Rightarrow> (z, r) \<in> ag_trustlists p | _ \<Rightarrow> False)
            else access \<in> {''telemetry_read'', ''lifecycle_read'', ''lifecycle_write'', ''enrollment_submit'',
              ''package_read'', ''package_update''});
          u = (case uri of None \<Rightarrow> [] | Some s \<Rightarrow> s)
      in if base \<and> u \<noteq> [] \<and> access \<in> {''lifecycle_read'', ''lifecycle_write''}
         then u \<in> (if ag_owned p \<noteq> {} then ag_owned p else ag_apps p)
         else if base \<and> u \<noteq> [] \<and> ag_apps p \<noteq> {} then u \<in> ag_apps p
         else base)"

definition opt_text :: "string option \<Rightarrow> string" where
  \<comment> \<open>\<open>value or ""\<close>\<close>
  "opt_text v = (case v of None \<Rightarrow> [] | Some s \<Rightarrow> s)"

definition auth_target :: "string \<Rightarrow> string option \<Rightarrow> string option \<Rightarrow> string option \<Rightarrow> string" where
  "auth_target access zone role uri =
     access @ '':'' @ opt_text zone @ '':'' @ opt_text role @ '':'' @ opt_text uri"

definition auth_scope :: "string \<Rightarrow> string option \<Rightarrow> string option \<Rightarrow> string option \<Rightarrow> pydict" where
  "auth_scope ip zone role uri = [(''source_ip'', PStr ip), (''zone'', opt_str zone), (''role'', opt_str role),
     (''application_uri'', opt_str uri)]"

definition not_authorized :: "string \<Rightarrow> string \<Rightarrow> pydict \<Rightarrow> response option op" where
  "not_authorized agent_id target scope =
     bindE (log_audit ''agent_unauthorized_pull'' agent_id target scope) (\<lambda>_.
       ret (Some (json_response 403 [(''error'', PStr ''agent not authorized for this resource''),
         (''error_code'', PStr ''agent_not_authorized'')])))"

definition judge_policy ::
  "string \<Rightarrow> string \<Rightarrow> string \<Rightarrow> string \<Rightarrow> string \<Rightarrow> string option \<Rightarrow> string option \<Rightarrow> string option \<Rightarrow>
   agent_policy option \<Rightarrow> response option op" where
  \<comment> \<open>\<open>_authorize_agent_pull\<close> from the policy of the agent on\<close>
  "judge_policy agent_id agent_token ip target access zone role uri found = (case found of
     None \<Rightarrow> auth_failure agent_id target ''unknown_agent'' [] 401 ''invalid agent credentials'' ''agent_unknown'' ip
   | Some p \<Rightarrow> bindE (lift_sum (verify_token p agent_token)) (\<lambda>valid_token.
       if \<not> valid_token
       then auth_failure agent_id target ''invalid_token'' [] 401 ''invalid agent credentials'' ''agent_invalid_token'' ip
       else if \<not> agent_allowed p access zone role uri
       then not_authorized agent_id target (auth_scope ip zone role uri)
       else bindE (log_audit ''agent_auth_success'' agent_id target (auth_scope ip zone role uri)) (\<lambda>_. ret None)))"

definition policy_unavailable :: "settings \<Rightarrow> string \<Rightarrow> string \<Rightarrow> string \<Rightarrow> string \<Rightarrow> string \<Rightarrow> response option op" where
  "policy_unavailable st agent_id target reason code ip =
     auth_failure agent_id target reason [(''tokens_file'', PStr (agent_tokens_file (s_auth st)))] 503
       ''agent auth token policy unavailable'' code ip"

definition authorize_agent_pull ::
  "settings \<Rightarrow> http_req \<Rightarrow> string \<Rightarrow> string option \<Rightarrow> string option \<Rightarrow> string option \<Rightarrow> response option op" where
  "authorize_agent_pull st req access zone role uri =
     (let agent_id = header req ''X-GDS-Agent-ID''; agent_token = header req ''X-GDS-Agent-Token'';
          ip = request_ip st req; target = auth_target access zone role uri
      in if \<not> agent_auth_enabled (s_auth st) then ret None
         else bindE (getE w_started) (\<lambda>started.
           if \<not> started then ret (Some (json_response 503 [(''error'', PStr ''agent auth not initialized''),
             (''error_code'', PStr ''agent_auth_not_initialized'')]))
           else if agent_id = [] \<or> agent_token = []
           then auth_failure ''unknown'' target ''missing_headers'' [] 401 ''agent authentication required''
             ''agent_auth_missing_headers'' ip
           else bindE tokens_file_now (\<lambda>file.
             if file = None
             then policy_unavailable st agent_id target ''tokens_file_missing'' ''agent_token_policy_missing'' ip
             else if unreadable file
             then policy_unavailable st agent_id target ''tokens_file_unreadable'' ''agent_token_policy_unreadable'' ip
             else tryE (agent_policy_of agent_id)
               (\<lambda>_. auth_failure agent_id target ''tokens_file_error'' [] 503 ''agent auth unavailable''
                  ''agent_token_policy_error'' ip)
               (judge_policy agent_id agent_token ip target access zone role uri))))"

definition deny_agent_on_admin_endpoint :: "settings \<Rightarrow> http_req \<Rightarrow> string \<Rightarrow> response option op" where
  "deny_agent_on_admin_endpoint st req target =
     (let agent_id = header req ''X-GDS-Agent-ID''; agent_token = header req ''X-GDS-Agent-Token'';
          ip = request_ip st req;
          denied = (\<lambda>actor reason status message.
            bindE (log_audit ''agent_auth_failure'' actor target
              [(''reason'', PStr reason), (''source_ip'', PStr ip)]) (\<lambda>_.
              ret (Some (json_response status [(''error'', PStr message)]))))
      in if \<not> agent_auth_enabled (s_auth st) then ret None
         else bindE (getE w_started) (\<lambda>started.
           if \<not> started then ret (Some (json_response 503 [(''error'', PStr ''agent auth not initialized'')]))
           else if agent_id = [] \<and> agent_token = [] then ret None
           else if agent_id = [] \<or> agent_token = []
           then denied (str_or agent_id ''unknown'') ''missing_headers'' 401 ''invalid agent credentials''
           else tryE (agent_policy_of agent_id)
             (\<lambda>_. denied agent_id ''tokens_file_error'' 503 ''agent auth unavailable'')
             (\<lambda>found. bindE (case found of None \<Rightarrow> ret False | Some p \<Rightarrow> lift_sum (verify_token p agent_token)) (\<lambda>ok.
                if \<not> ok then denied agent_id ''invalid_credentials'' 401 ''invalid agent credentials''
                else bindE (log_audit ''agent_unauthorized_pull'' agent_id target
                  [(''source_ip'', PStr ip), (''reason'', PStr ''admin_endpoint_forbidden'')]) (\<lambda>_.
                  ret (Some (json_response 403
                    [(''error'', PStr ''agent is not authorized for admin endpoint'')])))))))"

end
