(* ===== verification/Artifacts.thy ===== *)
theory Artifacts
  imports Vault Boundary
begin

text \<open>
  The signed trust artifacts of \<open>gds/app/main.py\<close>: when a trust list's artifact has to be
  regenerated, the regeneration itself, the endpoints that serve the artifact, the build of
  a trust list and an iteration of the background scan.
\<close>

section \<open>Floating point\<close>

text \<open>The threshold is computed with floating point numbers: a positive double is a
  53-bit mantissa and an exponent, and every operation rounds to the nearest, ties to even.\<close>

definition round_even :: "nat \<Rightarrow> nat \<Rightarrow> nat" where
  "round_even a b = (let q = a div b; r = a mod b in
     if 2 * r < b then q else if b < 2 * r then Suc q else if even q then q else Suc q)"

fun bit_length :: "nat \<Rightarrow> nat" where
  "bit_length n = (if n = 0 then 0 else Suc (bit_length (n div 2)))"

declare bit_length.simps [simp del]

definition double_of :: "nat \<Rightarrow> nat \<Rightarrow> nat \<times> int" where
  \<comment> \<open>mantissa and exponent of the double nearest to \<open>a / b\<close>\<close>
  "double_of a b =
     (if a = 0 then (0, 0)
      else let e0 = int (bit_length a) - int (bit_length b) - 53;
               scaled = (\<lambda>e. (a * 2 ^ nat (- e), b * 2 ^ nat e));
               e = (case scaled e0 of (n, m) \<Rightarrow> if 2 ^ 53 * m \<le> n then e0 + 1 else e0)
           in case scaled e of (n, m) \<Rightarrow> (round_even n m, e))"

definition double_times :: "nat \<Rightarrow> nat \<times> int \<Rightarrow> nat \<times> int" where
  \<comment> \<open>product of an integer below \<open>2\<^sup>5\<^sup>3\<close> and a double\<close>
  "double_times k f = (case f of (m, e) \<Rightarrow> double_of (k * m * 2 ^ nat e) (2 ^ nat (- e)))"

definition double_trunc :: "nat \<times> int \<Rightarrow> nat" where
  "double_trunc f = (case f of (m, e) \<Rightarrow> m * 2 ^ nat e div 2 ^ nat (- e))"

definition percentage_of :: "int \<Rightarrow> int \<Rightarrow> int" where
  \<comment> \<open>\<open>int(k * (percent / 100.0))\<close>, which rounds towards zero\<close>
  "percentage_of k percent = sgn k * sgn percent *
     int (double_trunc (double_times (nat \<bar>k\<bar>) (double_of (nat \<bar>percent\<bar>) 100)))"

section \<open>Requests\<close>

definition ALLOWED_ZONES :: "string list" where
  "ALLOWED_ZONES = [''OT'', ''DMZ'', ''IT'']"

definition ALLOWED_ROLES :: "string list" where
  "ALLOWED_ROLES = [''server'', ''southbound-client'', ''northbound-server'', ''scada-client'', ''client'']"

definition error_response :: "int \<Rightarrow> string \<Rightarrow> response" where
  "error_response status message = json_response status [(''error'', PStr message)]"

definition vault_sealed_response :: response where
  "vault_sealed_response = json_response 503 [(''error_code'', PStr ''vault_sealed'')]"

definition validate_trust_artifact_request :: "string \<Rightarrow> string \<Rightarrow> response option op" where
  "validate_trust_artifact_request zone role =
     (if zone \<notin> set ALLOWED_ZONES then ret (Some (error_response 400 ''invalid zone''))
      else if role \<notin> set ALLOWED_ROLES then ret (Some (error_response 400 ''invalid role''))
      else bindE (getE w_started) (\<lambda>started.
        ret (if started then None else Some (error_response 503 ''vault client not initialized''))))"

definition seconds_left :: "int \<Rightarrow> int \<Rightarrow> int" where
  \<comment> \<open>\<open>max(0, int((expires - now).total_seconds()))\<close>\<close>
  "seconds_left expires now = max 0 ((expires - now) div usec)"

definition ttl_remaining_seconds :: "artifact_row \<Rightarrow> int op" where
  "ttl_remaining_seconds row = bindE now_us (\<lambda>now. ret (seconds_left (ta_expires row) now))"

section \<open>When to regenerate\<close>

definition regeneration_reason ::
  "signer \<Rightarrow> settings \<Rightarrow> list_row \<Rightarrow> artifact_row option \<Rightarrow> bool \<Rightarrow> string \<Rightarrow> string option op" where
  "regeneration_reason g st trust_list current force_rebuild source =
     (if force_rebuild then ret (Some ''force_rebuild'')
      else case current of
        None \<Rightarrow> ret (Some ''cache_miss'')
      | Some row \<Rightarrow>
         if ta_version row \<noteq> tl_version trust_list then ret (Some ''version_changed'')
         else if ta_key_id row \<noteq> sg_key_id g then ret (Some ''signer_changed'')
         else if lower (ta_fingerprint row) \<noteq> lower (sg_fingerprint g) then ret (Some ''signer_changed'')
         else bindE (ttl_remaining_seconds row) (\<lambda>left.
           ret (if left < percentage_of (artifact_ttl_seconds (s_artifact st)) (regen_threshold_percent (s_artifact st))
                then Some (if source = ''scheduler'' then ''ttl_refresh'' else ''ttl_threshold'')
                else None)))"

definition member_dict :: "cert_view \<Rightarrow> pyval" where
  \<comment> \<open>a row of the query of the members of a trust list\<close>
  "member_dict v = (case v of (c, a) \<Rightarrow> PDict [(''certificate_id'', PInt (c_id c)),
     (''application_uri'', PStr (a_uri a)), (''common_name'', PStr (a_common_name a)),
     (''zone'', PStr (a_zone a)), (''role'', PStr (a_role a)), (''component_type'', opt_str (a_component a)),
     (''fingerprint_sha256'', PStr (c_fpr c)), (''pem'', PStr (c_pem c))])"

definition artifact_crl_metadata :: "pydict \<Rightarrow> pydict" where
  "artifact_crl_metadata bundle = map (\<lambda>k. (k, dget bundle k))
     [''root_crl_source'', ''root_pki_mount'', ''root_issuer_id'', ''root_crl_issuer'', ''root_crl_next_update'',
      ''root_crl_sha256'', ''intermediate_pki_mount'', ''intermediate_crl_issuer'', ''intermediate_crl_next_update'',
      ''intermediate_crl_sha256'', ''crl_freshness_verified'']"

definition cache_key :: "string \<Rightarrow> string \<Rightarrow> string" where
  "cache_key zone role = zone @ '':'' @ role"

definition artifact_target :: "string \<Rightarrow> string \<Rightarrow> string" where
  "artifact_target zone role = ''trustlist_artifact:'' @ cache_key zone role"

definition crl_text :: "pydict \<Rightarrow> string \<Rightarrow> string" where
  \<comment> \<open>\<open>crl_bundle[which]["crl_base64"]\<close>, a text\<close>
  "crl_text bundle which = get_str (as_dict (dget bundle which)) ''crl_base64''"

text \<open>Build, sign and store the next revision.\<close>

definition publish_artifact ::
  "ext \<Rightarrow> signer \<Rightarrow> settings \<Rightarrow> string \<Rightarrow> string \<Rightarrow> list_row \<Rightarrow> cert_view list \<Rightarrow> artifact_row option \<Rightarrow>
   string \<Rightarrow> string \<Rightarrow> int \<Rightarrow> (artifact_row \<times> pydict) op" where
  "publish_artifact x g st zone role trust_list certs previous reason source now_ts =
     (let next_revision = (case previous of None \<Rightarrow> 0 | Some row \<Rightarrow> ta_revision row) + 1 in
      bindE (get_ca_chain st) (\<lambda>ca_chain.
      bindE (get_crl_bundle x st) (\<lambda>bundle.
      bindE now_us (\<lambda>generated.
      bindE (lift_sum (build_signed_artifact x g trust_list (PList (map member_dict certs))
               (get_str ca_chain ''ca_chain_pem'') (crl_text bundle ''intermediate'') next_revision reason
               [(''root_crl_base64'', PStr (crl_text bundle ''root'')),
                (''intermediate_crl_base64'', PStr (crl_text bundle ''intermediate''))]
               (artifact_crl_metadata bundle) generated)) (\<lambda>signed.
      bindE (on_db (insert_trust_artifact zone role (tl_version trust_list) (sa_artifact signed) (sa_sha256 signed)
               (sa_signature signed) (sa_key_id signed) (sa_fingerprint signed) (sa_generated signed)
               (sa_expires signed) reason)) (\<lambda>row.
      bindE (updE (\<lambda>w. w\<lparr>w_regen_at := (w_regen_at w)(cache_key zone role \<mapsto> now_ts)\<rparr>)) (\<lambda>_.
      bindE (log_audit ''artifact_regenerated'' ''system'' (artifact_target zone role)
               [(''version'', PInt (tl_version trust_list)), (''artifact_revision'', PInt (ta_revision row)),
                (''reason'', PStr reason), (''source'', PStr source)]) (\<lambda>_.
      ret (row, sa_artifact signed)))))))))"

definition last_regeneration :: "string \<Rightarrow> string \<Rightarrow> world \<Rightarrow> int" where
  "last_regeneration zone role w = (case w_regen_at w (cache_key zone role) of None \<Rightarrow> 0 | Some t \<Rightarrow> t)"

text \<open>The part under the lock: the reason is evaluated again, and an API regeneration within
  the minimal interval is given up unless it is forced.\<close>

definition regenerate_locked ::
  "ext \<Rightarrow> signer \<Rightarrow> settings \<Rightarrow> string \<Rightarrow> string \<Rightarrow> list_row \<Rightarrow> cert_view list \<Rightarrow> bool \<Rightarrow> string \<Rightarrow>
   (artifact_row option \<times> pydict option) op" where
  "regenerate_locked x g st zone role trust_list certs force_rebuild source =
     bindE (query (get_latest_trust_artifact zone role)) (\<lambda>row.
     bindE (regeneration_reason g st trust_list row force_rebuild source) (\<lambda>reason.
       case reason of
         None \<Rightarrow> ret (row, None)
       | Some why \<Rightarrow>
         bindE now_us (\<lambda>now_ts.
         bindE (getE (last_regeneration zone role)) (\<lambda>last_regen.
           if \<not> force_rebuild \<and> now_ts - last_regen < regen_min_interval_seconds (s_artifact st) * usec
           then bindE (query (get_latest_trust_artifact zone role)) (\<lambda>row'. ret (row', None))
           else bindE (publish_artifact x g st zone role trust_list certs row why source now_ts) (\<lambda>(row', artifact).
             ret (Some row', Some artifact))))))"

definition cached_artifact :: "cache_entry option \<Rightarrow> artifact_row \<Rightarrow> pydict" where
  "cached_artifact entry row = (case entry of
     Some e \<Rightarrow> if ca_row_id e = ta_id row then ca_artifact e else ta_json row
   | None \<Rightarrow> ta_json row)"

text \<open>The artifact to serve: the trust list is brought up to date, then the latest artifact is
  taken from the cache or from its row, or a new one is published.\<close>

definition serve_artifact ::
  "ext \<Rightarrow> signer \<Rightarrow> settings \<Rightarrow> string \<Rightarrow> string \<Rightarrow> bool \<Rightarrow> string \<Rightarrow>
   (list_row \<times> artifact_row \<times> pydict) option op" where
  "serve_artifact x g st zone role force_rebuild source =
     bindE (getE w_started) (\<lambda>started.
     if \<not> started then ret None
     else bindE (on_db (ensure_trust_list_current zone role)) (\<lambda>_.
     bindE (query (get_latest_trust_list_with_certs zone role)) (\<lambda>(found, certs). case found of
       None \<Rightarrow> ret None
     | Some trust_list \<Rightarrow>
       bindE (getE (\<lambda>w. w_cache w (cache_key zone role))) (\<lambda>entry.
       bindE (query (get_latest_trust_artifact zone role)) (\<lambda>row0.
       bindE (regeneration_reason g st trust_list row0 force_rebuild source) (\<lambda>reason.
       bindE (if reason = None then ret (row0, None)
              else regenerate_locked x g st zone role trust_list certs force_rebuild source) (\<lambda>(row1, fresh).
       case row1 of
         None \<Rightarrow> raise (AttributeError ''get'')
       | Some row \<Rightarrow> ret (Some (trust_list, row,
           case fresh of Some a \<Rightarrow> a | None \<Rightarrow> cached_artifact entry row)))))))))"

definition get_or_regenerate_signed_artifact ::
  "ext \<Rightarrow> signer \<Rightarrow> settings \<Rightarrow> string \<Rightarrow> string \<Rightarrow> bool \<Rightarrow> string \<Rightarrow>
   (list_row \<times> artifact_row \<times> pydict) option op" where
  "get_or_regenerate_signed_artifact x g st zone role force_rebuild source =
     bindE (serve_artifact x g st zone role force_rebuild source) (\<lambda>served. case served of
       None \<Rightarrow> ret None
     | Some (trust_list, row, artifact) \<Rightarrow>
         bindE now_us (\<lambda>now.
         bindE (updE (\<lambda>w. w\<lparr>w_cache := (w_cache w)(cache_key zone role \<mapsto>
             \<lparr>ca_row_id = ta_id row, ca_revision = ta_revision row, ca_artifact = artifact,
              ca_cached_at = isoformat now\<rparr>)\<rparr>)) (\<lambda>_.
         ret (Some (trust_list, row, artifact)))))"

section \<open>Endpoints\<close>

text \<open>The common course of the endpoints that read an artifact: the agent's authorisation,
  the validation of the target, the artifact, and then the endpoint's own answer.\<close>

definition with_artifact ::
  "ext \<Rightarrow> signer \<Rightarrow> settings \<Rightarrow> string \<Rightarrow> string \<Rightarrow> bool \<Rightarrow>
   (list_row \<Rightarrow> artifact_row \<Rightarrow> pydict \<Rightarrow> response op) \<Rightarrow> response op" where
  "with_artifact x g st zone role force_rebuild answer =
     bindE (get_or_regenerate_signed_artifact x g st zone role force_rebuild ''api'') (\<lambda>found. case found of
       None \<Rightarrow> ret (error_response 404 ''trust list not found'')
     | Some (trust_list, row, artifact) \<Rightarrow>
         if artifact = [] then ret (error_response 404 ''trust list not found'')
         else answer trust_list row artifact)"

definition agent_artifact_read ::
  "settings \<Rightarrow> http_req \<Rightarrow> string \<Rightarrow> string \<Rightarrow> response op \<Rightarrow> response op" where
  "agent_artifact_read st req zone role serve =
     bindE (authorize_agent_pull st req ''artifact_read'' (Some zone) (Some role) None) (\<lambda>denied. case denied of
       Some r \<Rightarrow> ret r
     | None \<Rightarrow> bindE (validate_trust_artifact_request zone role) (\<lambda>err. case err of
         Some r \<Rightarrow> ret r
       | None \<Rightarrow> serve))"

definition read_details :: "list_row \<Rightarrow> artifact_row \<Rightarrow> pydict" where
  "read_details trust_list row = [(''version'', PInt (tl_version trust_list)),
     (''artifact_revision'', PInt (ta_revision row)), (''key_id'', PStr (ta_key_id row))]"

text \<open>A sealed Vault: the latest stored artifact is served as long as it has not expired.\<close>

definition sealed_artifact :: "string \<Rightarrow> string \<Rightarrow> response op" where
  "sealed_artifact zone role =
     bindE (query (get_latest_trust_artifact zone role)) (\<lambda>found. case found of
       None \<Rightarrow> ret vault_sealed_response
     | Some row \<Rightarrow> bindE (ttl_remaining_seconds row) (\<lambda>left.
         if 0 < left
         then bindE (log_audit ''trustlist_artifact_cached_read'' ''system'' (artifact_target zone role)
                [(''artifact_revision'', PInt (ta_revision row)), (''cache_reason'', PStr ''vault_sealed'')]) (\<lambda>_.
              ret \<lparr>rs_status = 200, rs_body = ta_json row,
                rs_headers = [(''X-GDS-Cache'', ''true''), (''X-GDS-Cache-Reason'', ''vault_sealed'')]\<rparr>)
         else ret vault_sealed_response))"

definition get_trustlist_artifact ::
  "ext \<Rightarrow> signer \<Rightarrow> settings \<Rightarrow> http_req \<Rightarrow> string \<Rightarrow> string \<Rightarrow> response op" where
  "get_trustlist_artifact x g st req zone role = agent_artifact_read st req zone role
     (tryE (get_or_regenerate_signed_artifact x g st zone role False ''api'')
        (\<lambda>e. if e = VaultSealedError then sealed_artifact zone role else raise e)
        (\<lambda>found. case found of
           None \<Rightarrow> ret (error_response 404 ''trust list not found'')
         | Some (trust_list, row, artifact) \<Rightarrow>
             if artifact = [] then ret (error_response 404 ''trust list not found'')
             else bindE (log_audit ''trustlist_artifact_read'' ''system'' (artifact_target zone role)
                    (read_details trust_list row)) (\<lambda>_. ret (json_response 200 artifact))))"

definition artifact_summary :: "string \<Rightarrow> string \<Rightarrow> artifact_row \<Rightarrow> pydict" where
  "artifact_summary zone role row = [(''zone'', PStr zone), (''role'', PStr role),
     (''version'', PInt (ta_version row)), (''artifact_revision'', PInt (ta_revision row))]"

definition artifact_times :: "artifact_row \<Rightarrow> pydict" where
  "artifact_times row = [(''generated_at'', PTime (ta_generated row)), (''expires_at'', PTime (ta_expires row))]"

definition get_trustlist_artifact_status ::
  "ext \<Rightarrow> signer \<Rightarrow> settings \<Rightarrow> http_req \<Rightarrow> string \<Rightarrow> string \<Rightarrow> response op" where
  "get_trustlist_artifact_status x g st req zone role = agent_artifact_read st req zone role
     (with_artifact x g st zone role False (\<lambda>trust_list row artifact.
       bindE (ttl_remaining_seconds row) (\<lambda>left.
       ret (json_response 200 (artifact_summary zone role row @ [(''artifact_sha256'', PStr (ta_sha256 row))]
         @ artifact_times row @ [(''ttl_remaining_seconds'', PInt left)])))))"

definition signer_algorithm_of :: "pydict \<Rightarrow> pyval" where
  "signer_algorithm_of artifact =
     dget_or (as_dict (dget_or artifact ''signer'' (PDict []))) ''algorithm'' (PStr ''ed25519'')"

definition signature_document :: "string \<Rightarrow> string \<Rightarrow> artifact_row \<Rightarrow> pydict \<Rightarrow> pydict" where
  "signature_document zone role row artifact =
     artifact_summary zone role row @ [(''artifact_sha256'', PStr (ta_sha256 row)),
       (''signature_base64'', PStr (ta_signature row))] @ artifact_times row @
       [(''signer'', PDict [(''key_id'', PStr (ta_key_id row)), (''algorithm'', signer_algorithm_of artifact),
          (''fingerprint_sha256'', PStr (ta_fingerprint row))])]"

definition get_trustlist_artifact_signature ::
  "ext \<Rightarrow> signer \<Rightarrow> settings \<Rightarrow> http_req \<Rightarrow> string \<Rightarrow> string \<Rightarrow> response op" where
  "get_trustlist_artifact_signature x g st req zone role = agent_artifact_read st req zone role
     (with_artifact x g st zone role False (\<lambda>trust_list row artifact.
       bindE (log_audit ''trustlist_artifact_sig_read'' ''system'' (''trustlist_artifact_sig:'' @ cache_key zone role)
                (read_details trust_list row)) (\<lambda>_.
       ret (json_response 200 (signature_document zone role row artifact)))))"

definition get_trustlist_artifact_canonical ::
  "ext \<Rightarrow> signer \<Rightarrow> settings \<Rightarrow> http_req \<Rightarrow> string \<Rightarrow> string \<Rightarrow> response op" where
  "get_trustlist_artifact_canonical x g st req zone role = agent_artifact_read st req zone role
     (with_artifact x g st zone role False (\<lambda>trust_list row artifact.
       bindE (lift_sum (canonical_json_bytes (PDict (canonical_artifact_payload artifact)))) (\<lambda>bytes.
       bindE (log_audit ''trustlist_artifact_canonical_read'' ''system''
                (''trustlist_artifact_canonical:'' @ cache_key zone role)
                [(''version'', PInt (tl_version trust_list)), (''artifact_revision'', PInt (ta_revision row)),
                 (''canonical_sha256'', PStr (sha256_hex x bytes))]) (\<lambda>_.
       bindE (ttl_remaining_seconds row) (\<lambda>left.
       ret (json_response 200 (artifact_summary zone role row @ [(''canonical_sha256'', PStr (sha256_hex x bytes)),
            (''canonical_payload'', PStr bytes),
            (''diagnostic_metadata'', PDict (artifact_times row @ [(''ttl_remaining_seconds'', PInt left)]))])))))))"

definition admin_only :: "settings \<Rightarrow> http_req \<Rightarrow> string \<Rightarrow> response op \<Rightarrow> response op" where
  "admin_only st req target serve =
     bindE (deny_agent_on_admin_endpoint st req target) (\<lambda>denied. case denied of
       Some r \<Rightarrow> ret r | None \<Rightarrow> serve)"

definition post_trustlist_artifact_rebuild ::
  "ext \<Rightarrow> signer \<Rightarrow> settings \<Rightarrow> http_req \<Rightarrow> string \<Rightarrow> string \<Rightarrow> response op" where
  "post_trustlist_artifact_rebuild x g st req zone role =
     admin_only st req (''admin:artifact_rebuild:'' @ cache_key zone role)
     (bindE (validate_trust_artifact_request zone role) (\<lambda>err. case err of
       Some r \<Rightarrow> ret r
     | None \<Rightarrow> with_artifact x g st zone role True (\<lambda>trust_list row artifact.
         bindE (log_audit ''trustlist_artifact_rebuild'' ''system'' (artifact_target zone role)
                  [(''version'', PInt (tl_version trust_list)), (''artifact_revision'', PInt (ta_revision row)),
                   (''reason'', PStr (ta_reason row))]) (\<lambda>_.
         ret (json_response 200 (artifact_summary zone role row @ artifact_times row @
           [(''artifact_sha256'', PStr (ta_sha256 row)), (''reason'', PStr (ta_reason row)),
            (''signer'', PDict [(''key_id'', PStr (ta_key_id row)), (''fingerprint_sha256'', PStr (ta_fingerprint row)),
               (''algorithm'', signer_algorithm_of artifact)])]))))))"

definition history_entry :: "int \<Rightarrow> artifact_row \<Rightarrow> pyval" where
  "history_entry now row = PDict (artifact_summary (ta_zone row) (ta_role row) row @
     [(''artifact_sha256'', PStr (ta_sha256 row))] @ artifact_times row @
     [(''ttl_remaining_seconds'', PInt (seconds_left (ta_expires row) now)), (''reason'', PStr (ta_reason row)),
      (''signer'', PDict [(''key_id'', PStr (ta_key_id row)), (''fingerprint_sha256'', PStr (ta_fingerprint row))])])"

text \<open>The history is open to every caller; its body is a list of entries.\<close>

definition get_trustlist_artifact_history :: "string \<Rightarrow> string \<Rightarrow> (response + pyval list) op" where
  "get_trustlist_artifact_history zone role =
     bindE (validate_trust_artifact_request zone role) (\<lambda>err. case err of
       Some r \<Rightarrow> ret (Inl r)
     | None \<Rightarrow> bindE (query (list_trust_artifact_history zone role 200)) (\<lambda>rows.
         bindE now_us (\<lambda>now. ret (Inr (map (history_entry now) rows)))))"

definition post_build_trustlist ::
  "ext \<Rightarrow> signer \<Rightarrow> settings \<Rightarrow> http_req \<Rightarrow> string \<Rightarrow> string \<Rightarrow> response op" where
  "post_build_trustlist x g st req zone role =
     admin_only st req (''admin:trustlists_build:'' @ cache_key zone role)
     (if role \<notin> set ALLOWED_ROLES then ret (error_response 400 ''invalid role'')
      else bindE (on_db (build_trust_list zone role)) (\<lambda>tl.
        bindE (log_audit ''trustlist_build'' ''system'' (''trustlist:'' @ cache_key zone role)
                 [(''version'', PInt (tl_version tl))]) (\<lambda>_.
        bindE (get_or_regenerate_signed_artifact x g st zone role False ''trustlist_build'') (\<lambda>_.
        ret (json_response 200 [(''zone'', PStr (tl_zone tl)), (''role'', PStr (tl_role tl)),
          (''version'', PInt (tl_version tl)), (''status'', PStr (tl_status tl)),
          (''created_at'', PTime (tl_created tl)), (''published_at'', opt_time (tl_published tl))])))))"

definition artifact_scan :: "ext \<Rightarrow> signer \<Rightarrow> settings \<Rightarrow> unit op" where
  \<comment> \<open>one iteration of the background loop: the first failure ends the iteration\<close>
  "artifact_scan x g st = catchE
     (bindE (query list_trustlist_targets) (\<lambda>targets.
       forE targets (\<lambda>(zone, role).
         if zone = [] \<or> role = [] then ret ()
         else bindE (get_or_regenerate_signed_artifact x g st zone role False ''scheduler'') (\<lambda>_. ret ()))))
     (\<lambda>_. ret ())"

end
