(* ===== verification/Vault_Facts.thy ===== *)
theory Vault_Facts
  imports Vault Outcomes
begin

text \<open>
  What the Vault client guarantees: a token it returns is usable, a renewal takes at most
  three requests, a sealed answer is reported and remembered, a revocation list that is
  returned is fresh, the status is consistent and always produced, and serial numbers are
  written in Vault's form.
\<close>

section \<open>The token\<close>

definition has_token :: "world \<Rightarrow> bool" where
  "has_token w \<longleftrightarrow> truthy (v_token (w_vault w))"

lemma has_token_prims [evolves_rules]:
  "evolves (keeps has_token) now_us" "evolves (keeps has_token) (http q)"
  "evolves (keeps has_token) (read_text p)" "evolves (keeps has_token) (lift_sum r)"
  "evolves (keeps has_token) (on_db h)" "evolves (keeps has_token) mark_sealed"
  "evolves (keeps has_token) (set_last_error e)"
  by (simp_all add: evolves_def keeps_def has_token_def now_us_def http_def read_text_def lift_sum_def
      on_db_def mark_sealed_def set_last_error_def upd_vault_def updE_def Let_def
      split: option.splits prod.splits)

lemma upd_keeps_token:
  "(\<And>v. truthy (v_token v) \<Longrightarrow> truthy (v_token (f v))) \<Longrightarrow> evolves (keeps has_token) (upd_vault f)"
  by (simp add: evolves_def keeps_def has_token_def upd_vault_def updE_def)

lemma raw_request_keeps_token [evolves_rules]: "evolves (keeps has_token) (raw_request st m p tok body)"
  unfolding raw_request_def
  by (auto intro!: kept.combinators evolves_rules split: pyval.splits)

lemma small_ops_keep_token [evolves_rules]:
  "evolves (keeps has_token) now_s" "evolves (keeps has_token) (log_audit ty ac ta det)"
  "evolves (keeps has_token) (raise_for_status res)" "evolves (keeps has_token) (res_json res)"
  "evolves (keeps has_token) (attr_get v k d)" "evolves (keeps has_token) current_token"
  unfolding now_s_def log_audit_def raise_for_status_def res_json_def attr_get_def current_token_def
  by (auto intro!: kept.combinators evolves_rules split: pyval.splits option.splits)

lemma vault_request_keeps_token [evolves_rules]: "evolves (keeps has_token) (vault_request st m p tok body)"
  unfolding vault_request_def mark_success_def
  by (intro kept.combinators evolves_rules upd_keeps_token) simp_all

lemma if_evolves_cond:
  "(b \<Longrightarrow> evolves R m) \<Longrightarrow> (\<not> b \<Longrightarrow> evolves R n) \<Longrightarrow> evolves R (if b then m else n)"
  by simp

lemma login_keeps_token [evolves_rules]: "evolves (keeps has_token) (login_approle st)"
  unfolding login_approle_def
  by (intro kept.ret_evolves kept.raise_evolves kept.bindE_evolves evolves_rules if_evolves_cond
      upd_keeps_token) simp_all

lemma renew_keeps_token [evolves_rules]:
  "evolves (keeps has_token) (lookup_self st tok)" "evolves (keeps has_token) (renew_self st tok)"
  "evolves (keeps has_token) (relogin_unless_sealed st err e)"
  unfolding lookup_self_def renew_self_def relogin_unless_sealed_def
  by (intro kept.combinators evolves_rules upd_keeps_token; simp)+

lemma refresh_keeps_token [evolves_rules]:
  "evolves (keeps has_token) (refresh_token_state st tok now)"
  "evolves (keeps has_token) (renew_or_login st now)"
  unfolding refresh_token_state_def renew_or_login_def
  by (intro kept.combinators evolves_rules upd_keeps_token; simp)+

lemma login_gets_token: "valid (\<lambda>_. True) (login_approle st) (\<lambda>_. has_token)"
proof -
  have upd: "truthy tok \<Longrightarrow> valid (\<lambda>_. True) (upd_vault (\<lambda>v. v\<lparr>v_token := tok, v_renewable := r,
      v_expire := e, v_last_error := l\<rparr>)) (\<lambda>_. has_token)" for tok r e l
    by (auto simp: valid_def upd_vault_def updE_def has_token_def)
  show ?thesis
    unfolding login_approle_def
    by (intro valid_bind_weak valid_if valid_raise upd) simp_all
qed

lemma current_token_valid: "valid has_token current_token (\<lambda>tok w. truthy tok \<and> tok = v_token (w_vault w))"
  by (auto simp: valid_def current_token_def getE_def has_token_def py_or_def)

lemma refreshed_token_valid:
  "valid has_token (tryE (refresh_token_state st token now)
     (\<lambda>e. bindE (relogin_unless_sealed st ''token_lookup_failed'' e) (\<lambda>_. current_token))
     (\<lambda>_. bindE (renew_or_login st now) (\<lambda>_. current_token)))
   (\<lambda>tok w. truthy tok \<and> tok = v_token (w_vault w))"
  by (rule valid_try [where R = "\<lambda>_. has_token"])
     (rule valid_keeps valid_bind [OF valid_keeps current_token_valid] evolves_rules)+

lemma fresh_login_valid:
  "valid P (bindE (login_approle st) (\<lambda>_. current_token)) (\<lambda>tok w. truthy tok \<and> tok = v_token (w_vault w))"
  by (rule valid_bind [OF valid_conseq [OF login_gets_token] current_token_valid]) simp_all

lemma ensure_token_valid:
  "valid (\<lambda>_. True) (ensure_token st) (\<lambda>tok w. truthy tok \<and> tok = v_token (w_vault w))"
proof -
  have body: "valid (\<lambda>w. v_token (w_vault w) = token)
     (if \<not> truthy token then bindE (login_approle st) (\<lambda>_. current_token)
      else tryE (refresh_token_state st token now)
         (\<lambda>e. bindE (relogin_unless_sealed st ''token_lookup_failed'' e) (\<lambda>_. current_token))
         (\<lambda>_. bindE (renew_or_login st now) (\<lambda>_. current_token)))
     (\<lambda>tok w. truthy tok \<and> tok = v_token (w_vault w))" for token now
    by (rule valid_if [OF fresh_login_valid], rule valid_conseq [OF refreshed_token_valid])
       (simp_all add: has_token_def)
  have got: "valid (\<lambda>_. True) (getE (\<lambda>w. v_token (w_vault w))) (\<lambda>token w. v_token (w_vault w) = token)"
    by (rule valid_getE) simp
  show ?thesis
    unfolding ensure_token_def by (rule valid_bind_weak) (rule valid_bind [OF got body])
qed

section \<open>Requests\<close>

lemma vault_sends:
  "sends 1 (raw_request st m p tok body)" "sends 0 mark_sealed" "sends 0 (mark_success st)"
  "sends 0 (raise_for_status res)" "sends 0 (res_json res)" "sends 0 (attr_get v k d)"
  "sends 0 current_token" "sends 0 (set_last_error e)" "sends 0 now_s"
proof -
  show "sends 1 (raw_request st m p tok body)"
    unfolding raw_request_def
    by (cases tok) (simp_all add: sends_http [simplified] sends_mono [OF sends_none(2), of "Suc 0"])
  show "sends 0 (mark_success st)"
    unfolding mark_success_def log_audit_def
    by (intro sends_bind [where a = 0 and b = 0, simplified] sends_catch [where a = 0 and b = 0, simplified]
        sends_if sends_none)
  show "sends 0 now_s"
    unfolding now_s_def by (intro sends_bind [where a = 0 and b = 0, simplified] sends_none)
qed (auto simp: mark_sealed_def raise_for_status_def res_json_def attr_get_def current_token_def
    set_last_error_def intro: sends_none split: option.splits pyval.splits)

lemmas sends_bind0 = sends_bind [where b = 0, simplified] and sends_bind1 = sends_bind [where a = 0, simplified]
  and sends_silent = sends_bind [where a = 0 and b = 0, simplified]

lemma vault_request_sends: "sends 1 (vault_request st m p tok body)"
  unfolding vault_request_def
  by (intro sends_bind0 vault_sends sends_if sends_none)

lemma login_sends: "sends 1 (login_approle st)"
  unfolding login_approle_def
  by (intro sends_bind1 sends_none sends_bind0 [where a = 1] vault_request_sends vault_sends sends_if)

lemma lookup_sends: "sends 1 (lookup_self st tok)"
  unfolding lookup_self_def by (intro sends_bind0 [where a = 1] vault_request_sends sends_silent vault_sends)

lemma renew_sends: "sends 1 (renew_self st tok)"
  unfolding renew_self_def
  by (intro sends_bind0 [where a = 1] vault_request_sends sends_silent vault_sends sends_none)

lemma relogin_sends: "sends 1 (relogin_unless_sealed st err e)"
  unfolding relogin_unless_sealed_def
  by (intro sends_if sends_bind1 vault_sends login_sends sends_mono [OF sends_none(2)]) simp

lemma refresh_sends: "sends 1 (refresh_token_state st tok now)"
  unfolding refresh_token_state_def
  by (intro sends_bind0 [where a = 1] lookup_sends sends_silent vault_sends sends_none)

lemma renew_or_login_sends: "sends 2 (renew_or_login st now)"
proof -
  have "sends (1 + 1) (catchE (if b then renew_self st tok else login_approle st)
      (relogin_unless_sealed st ''token_renew_failed''))" for b tok
    by (intro sends_catch sends_if renew_sends login_sends relogin_sends)
  then show ?thesis
    unfolding renew_or_login_def
    by (intro sends_bind1 sends_none sends_if) (simp_all add: sends_mono [OF sends_none(1)] numeral_2_eq_2)
qed

lemma ensure_token_sends: "sends 3 (ensure_token st)"
proof -
  have "sends (1 + 2) (tryE (refresh_token_state st token now)
         (\<lambda>e. bindE (relogin_unless_sealed st ''token_lookup_failed'' e) (\<lambda>_. current_token))
         (\<lambda>_. bindE (renew_or_login st now) (\<lambda>_. current_token)))" for token now
    by (intro sends_try refresh_sends sends_bind0 [where a = 2] renew_or_login_sends vault_sends
        sends_mono [OF relogin_sends]) simp
  moreover have "sends 3 (bindE (login_approle st) (\<lambda>_. current_token))"
    by (rule sends_mono [OF sends_bind0 [OF login_sends vault_sends(7)]]) simp
  ultimately show ?thesis
    unfolding ensure_token_def
    by (intro sends_bind1 [OF vault_sends(9)] sends_bind1 [OF sends_none(3)] sends_if)
       (simp_all add: eval_nat_numeral)
qed

section \<open>A sealed Vault\<close>

lemma vault_request_result:
  assumes "http q w = (Inr res, w1)" "tok = PNone"
    and "q = \<lparr>q_method = m, q_path = vault_url st p, q_token = None, q_body = body\<rparr>"
  shows "is_sealed_response res \<Longrightarrow>
      \<exists>w2. vault_request st m p tok body w = (Inl VaultSealedError, w2) \<and> v_sealed (w_vault w2)"
    and "\<not> is_sealed_response res \<Longrightarrow> fst (vault_request st m p tok body w) = Inr res"
  using assms unfolding vault_request_def raw_request_def mark_success_def mark_sealed_def
  by (auto simp: bindE_def raise_def ret_def getE_def upd_vault_def updE_def catchE_def
      split: prod.splits sum.splits)

lemma vault_request_unsealed:
  "valid (\<lambda>_. True) (vault_request st m p tok body) (\<lambda>res w. \<not> is_sealed_response res \<and> \<not> v_sealed (w_vault w))"
  by (rule validI)
    (auto simp: vault_request_def mark_success_def bindE_Inr getE_def upd_vault_def updE_def catchE_def
      ret_def raise_def log_audit_def on_db_def Let_def split: if_splits prod.splits sum.splits)

section \<open>Revocation lists\<close>

definition fresh_list :: "settings \<Rightarrow> pydict \<Rightarrow> world \<Rightarrow> bool" where
  \<comment> \<open>the list has an end of validity, which in strict mode is after the clock's last reading\<close>
  "fresh_list st c w \<longleftrightarrow> dget c ''freshness_verified'' = PBool True \<and>
     (\<exists>t. dget c ''next_update'' = PStr (iso_z t) \<and>
        (vault_strict_crl_freshness (vset st) \<longrightarrow> w_clock w (w_ticks w - 1) < t))"

lemma parse_crl_fresh:
  "valid (\<lambda>_. True) (parse_crl_metadata x st der source endpoint issuer)
     (\<lambda>c w. fresh_list st c w \<and> map fst c = [''source'', ''endpoint'', ''issuer_id'', ''issuer'',
        ''last_update'', ''next_update'', ''sha256'', ''freshness_verified''])"
  by (rule validI)
    (auto simp: parse_crl_metadata_def fresh_list_def bindE_Inr now_us_def ret_def raise_def dget_def
      split: option.splits if_splits)

lemma dget_append: "k \<notin> fst ` set d \<Longrightarrow> dget (d @ e) k = dget e k"
  by (induction d) (auto simp: dget_def)

lemma fresh_list_prefix:
  "''freshness_verified'' \<notin> fst ` set d \<Longrightarrow> ''next_update'' \<notin> fst ` set d \<Longrightarrow>
   fresh_list st (d @ c) w = fresh_list st c w"
  by (simp add: fresh_list_def dget_append)

lemma get_crl_fresh:
  "valid (\<lambda>_. True) (get_crl_from_endpoint x st mount path source issuer) (fresh_list st)"
  unfolding get_crl_from_endpoint_def
  by (intro valid_bind_weak valid_bind [OF parse_crl_fresh] valid_ret) (simp add: fresh_list_prefix del: append.simps)

lemma root_crl_fresh: "valid (\<lambda>_. True) (get_root_crl x st) (fresh_list st)"
  unfolding get_root_crl_def Let_def by (intro valid_if valid_raise get_crl_fresh)

lemma intermediate_crl_fresh: "valid (\<lambda>_. True) (get_intermediate_crl x st) (fresh_list st)"
  unfolding get_intermediate_crl_def Let_def by (intro valid_if get_crl_fresh)

lemma crl_without_next_update:
  assumes "k_load_crl_der x der = Some crl" "xl_next_update crl = None"
  shows "fst (parse_crl_metadata x st der source endpoint issuer w) = Inl (AttributeError ''replace'')"
  using assms by (simp add: parse_crl_metadata_def raise_def)

section \<open>Status\<close>

definition status_consistent :: "vault_status \<Rightarrow> bool" where
  "status_consistent s \<longleftrightarrow>
     (vs_crl s = ''fresh'' \<longrightarrow> vs_root_ok s \<and> vs_int_ok s) \<and>
     (vs_root_ok s \<or> vs_int_ok s \<longrightarrow> vs_token_ok s) \<and>
     (vs_token_ok s \<longrightarrow> vs_reachable s \<and> vs_initialized s) \<and>
     (vs_crl s = ''fresh'' \<longrightarrow> \<not> vs_sealed s)"

lemma check_crls_valid:
  "valid (\<lambda>_. True) (check_crls x st) (\<lambda>(r, i, c, sealed) _. c = ''fresh'' \<longrightarrow> r \<and> i \<and> \<not> sealed)"
  unfolding check_crls_def crl_failure_def Let_def
  by (intro valid_try [where R = "\<lambda>_ _. True"] valid_if valid_ret; simp add: evolves_def keeps_def valid_def)

lemma check_token_valid: "valid (\<lambda>_. True) (check_token st) (\<lambda>(ok, sealed) _. ok \<longrightarrow> \<not> sealed)"
  unfolding check_token_def
  by (intro valid_try [where R = "\<lambda>_ _. True"] valid_if valid_ret valid_bind_weak;
      simp add: evolves_def keeps_def valid_def)

lemma get_status_consistent: "valid (\<lambda>_. True) (get_status x st) (\<lambda>s _. status_consistent s)"
proof -
  let ?report = "\<lambda>r i sealed ok sealed2 t (root_ok, int_ok, crl, sealed3).
       ret \<lparr>vs_reachable = r, vs_initialized = i, vs_sealed = (sealed \<or> sealed2 \<or> sealed3),
         vs_mtls = mtls_enabled st, vs_token_ok = ok, vs_root_ok = root_ok, vs_int_ok = int_ok,
         vs_crl = crl, vs_checked_at = t\<rparr>"
  have fin: "valid (\<lambda>_. ok \<longrightarrow> r \<and> i \<and> \<not> sealed \<and> \<not> sealed2)
      (bindE (if ok then check_crls x st else ret (False, False, ''unavailable'', False))
        (?report r i sealed ok sealed2 t)) (\<lambda>s _. status_consistent s)"
    for ok r i sealed sealed2 t
  proof (rule validI)
    fix w s w'
    assume ok: "ok \<longrightarrow> r \<and> i \<and> \<not> sealed \<and> \<not> sealed2"
      and run: "bindE (if ok then check_crls x st else ret (False, False, ''unavailable'', False))
        (?report r i sealed ok sealed2 t) w = (Inr s, w')"
    obtain ro io c s3 w1 where c: "(if ok then check_crls x st else ret (False, False, ''unavailable'', False)) w
        = (Inr (ro, io, c, s3), w1)" and s: "?report r i sealed ok sealed2 t (ro, io, c, s3) w1 = (Inr s, w')"
      using run unfolding bindE_Inr by auto
    have "ok \<Longrightarrow> c = ''fresh'' \<longrightarrow> ro \<and> io \<and> \<not> s3"
      using validD [OF check_crls_valid, of x st w "(ro, io, c, s3)" w1] c by simp
    moreover have "\<not> ok \<Longrightarrow> \<not> ro \<and> \<not> io \<and> c = ''unavailable''" using c by (simp add: ret_def)
    ultimately show "status_consistent s" using s ok by (cases ok) (auto simp: ret_def status_consistent_def)
  qed
  have mid: "valid (\<lambda>_. True) (if b then check_token st else ret (False, False))
      (\<lambda>p _. fst p \<longrightarrow> b \<and> \<not> snd p)" for b
    by (rule valid_if, rule valid_conseq [OF check_token_valid]) (auto intro: valid_ret)
  have tail: "valid (\<lambda>_. True) ((\<lambda>(r, i, sealed).
     bindE (if r \<and> i \<and> \<not> sealed then check_token st else ret (False, False)) (\<lambda>(ok, sealed2).
     bindE (if ok then check_crls x st else ret (False, False, ''unavailable'', False))
       (?report r i sealed ok sealed2 t))) q) (\<lambda>s _. status_consistent s)" for q t
    unfolding case_prod_beta
    by (rule valid_bind [OF mid]) (rule valid_conseq [OF fin [unfolded case_prod_beta]]; auto)
  show ?thesis
    unfolding get_status_def by (intro valid_bind_weak tail)
qed

lemma get_status_total: "never_raises (get_status x st)"
proof -
  have "never_raises (mark_success st)" "never_raises mark_sealed" "never_raises (set_last_error e)" for e
    unfolding mark_success_def mark_sealed_def set_last_error_def by (intro never_raises_intros)+
  then show ?thesis
    unfolding get_status_def probe_seal_status_def check_token_def check_crls_def crl_failure_def
    by (intro never_raises_intros) simp_all
qed

section \<open>Serial numbers\<close>

lemma concat_pairs_of: "concat (pairs_of s) = s"
  by (induction s rule: pairs_of.induct) simp_all

lemma pairs_of_even: "even (length s) \<Longrightarrow> p \<in> set (pairs_of s) \<Longrightarrow> length p = 2"
  by (induction s rule: pairs_of.induct) auto

definition plain_hex :: "char \<Rightarrow> bool" where
  "plain_hex c \<longleftrightarrow> \<not> is_space c \<and> lower_char c = c \<and> c \<noteq> CHR ''-'' \<and> c \<noteq> CHR '':''"

lemma plain_hex_char: "d < 16 \<Longrightarrow> plain_hex (hex_char d)"
proof -
  have "list_all (\<lambda>d. plain_hex (hex_char d)) [0..<16]" by code_simp
  then show "d < 16 \<Longrightarrow> plain_hex (hex_char d)" by (simp add: list_all_iff)
qed

lemma nat_hex_plain: "list_all plain_hex (nat_hex n)"
proof (induction n rule: nat_hex.induct)
  case (1 n)
  show ?case
  proof (cases "n < 16")
    case True
    then show ?thesis by (subst nat_hex.simps) (simp add: plain_hex_char)
  next
    case False
    with "1.IH" show ?thesis by (subst nat_hex.simps) (simp add: plain_hex_char)
  qed
qed

lemma strip_no_space: "list_all (\<lambda>c. \<not> is_space c) s \<Longrightarrow> strip s = s"
proof -
  have "list_all (\<lambda>c. \<not> is_space c) u \<Longrightarrow> dropWhile is_space u = u" for u by (cases u) auto
  from this [of s] this [of "rev s"] show "list_all (\<lambda>c. \<not> is_space c) s \<Longrightarrow> strip s = s"
    by (simp add: strip_def lstrip_def rstrip_def)
qed

lemma plain_serial:
  assumes "list_all plain_hex s"
  shows "replace_char (CHR ''-'') (CHR '':'') (lower (strip s)) = s" and "CHR '':'' \<notin> set s"
proof -
  have "strip s = s" using assms by (intro strip_no_space) (auto simp: list_all_iff plain_hex_def)
  moreover have "map lower_char s = s" using assms by (intro map_idI) (auto simp: list_all_iff plain_hex_def)
  moreover have "map (\<lambda>c. if c = CHR ''-'' then CHR '':'' else c) s = s"
    using assms by (intro map_idI) (auto simp: list_all_iff plain_hex_def)
  ultimately show "replace_char (CHR ''-'') (CHR '':'') (lower (strip s)) = s"
    by (simp add: replace_char_def lower_def)
  show "CHR '':'' \<notin> set s" using assms by (auto simp: list_all_iff plain_hex_def)
qed

lemma vault_serial_plain:
  "list_all plain_hex s \<Longrightarrow> vault_serial_number s =
     str_join '':'' (pairs_of (if odd (length s) then CHR ''0'' # s else s))"
  by (simp add: vault_serial_number_def plain_serial Let_def)

end
