(* ===== verification/Runtime_Adapters.thy ===== *)
theory Runtime_Adapters
  imports Signing
begin

text \<open>
  \<open>gds/app/runtime_adapters.py\<close>: what a component profile demands of a signing request,
  the compatibility verdict, the layout of the package files and the (dry-run) install
  plan, and the profiles the service seeds. An adapter is built from a row of
  \<open>component_profiles\<close>; the paths of its layout are texts, as in every seeded profile (a
  path of another type is a \<open>TypeError\<close> here).
\<close>

section \<open>Adapters\<close>

record runtime_adapter =
  ra_family :: string
  ra_profile :: profile_row
  ra_semantics :: pydict
  ra_rules :: pydict
  ra_layout :: pydict
  ra_policy :: pydict

definition make_adapter :: "string \<Rightarrow> profile_row \<Rightarrow> runtime_adapter" where
  "make_adapter family p = \<lparr>ra_family = family, ra_profile = p, ra_semantics = as_dict (pf_semantics p),
     ra_rules = as_dict (pf_rules p), ra_layout = as_dict (pf_layout p), ra_policy = as_dict (pf_policy p)\<rparr>"

definition adapter_for_profile :: "profile_row \<Rightarrow> runtime_adapter" where
  "adapter_for_profile p = (let family = lower (strip (pf_family p)) in
     if family = ''open62541'' then make_adapter ''open62541'' p
     else if family = ''node-opcua'' then make_adapter ''node-opcua'' p
     else make_adapter ''generic'' p)"

section \<open>Identity of a signing request\<close>

record csr_identity =
  ci_csr_subject :: string
  ci_uri_sans :: "string list"
  ci_dns_sans :: "string list"
  ci_ip_sans :: "string list"
  ci_key_usage :: "string list"
  ci_eku :: "string list"

definition eku_name :: "string \<Rightarrow> string" where
  "eku_name oid = (if oid = ''1.3.6.1.5.5.7.3.1'' then ''serverAuth''
     else if oid = ''1.3.6.1.5.5.7.3.2'' then ''clientAuth'' else oid)"

definition extract_csr_identity :: "x509_csr \<Rightarrow> csr_identity" where
  "extract_csr_identity csr =
     (let (uris, dns, ips) = (case x_csr_san csr of None \<Rightarrow> ([], [], []) | Some san \<Rightarrow> san);
          usage = (case x_csr_key_usage csr of None \<Rightarrow> []
            | Some (digital_signature, key_encipherment, key_cert_sign) \<Rightarrow>
                (if digital_signature then [''digitalSignature''] else []) @
                (if key_encipherment then [''keyEncipherment''] else []) @
                (if key_cert_sign then [''keyCertSign''] else []));
          eku = (case x_csr_eku csr of None \<Rightarrow> [] | Some oids \<Rightarrow> map eku_name oids)
      in \<lparr>ci_csr_subject = x_csr_subject csr, ci_uri_sans = uris, ci_dns_sans = dns, ci_ip_sans = ips,
           ci_key_usage = usage, ci_eku = eku\<rparr>)"

definition strs :: "string list \<Rightarrow> pyval" where
  "strs xs = PList (map PStr xs)"

definition csr_identity_dict :: "csr_identity \<Rightarrow> pydict" where
  "csr_identity_dict i = [(''subject'', PStr (ci_csr_subject i)), (''uri_sans'', strs (ci_uri_sans i)),
     (''dns_sans'', strs (ci_dns_sans i)), (''ip_sans'', strs (ci_ip_sans i)),
     (''key_usage'', strs (ci_key_usage i)), (''extended_key_usage'', strs (ci_eku i))]"

section \<open>Validation of a signing request\<close>

fun hashable :: "pyval \<Rightarrow> bool" where
  "hashable (PList _) = False"
| "hashable (PDict _) = False"
| "hashable _ = True"

text \<open>\<open>set(value)\<close>: the elements of what can be iterated and hashed.\<close>

definition py_set :: "pyval \<Rightarrow> exn + pyval list" where
  "py_set v = (case v of
     PList vs \<Rightarrow> if list_all hashable vs then Inr (remdups vs) else Inl (TypeError ''unhashable type'')
   | PStr s \<Rightarrow> Inr (remdups (map (\<lambda>c. PStr [c]) s))
   | PBytes s \<Rightarrow> Inr (remdups (map (\<lambda>c. PInt (of_char c)) s))
   | PDict kvs \<Rightarrow> Inr (remdups (map (PStr \<circ> fst) kvs))
   | _ \<Rightarrow> Inl (TypeError ''object is not iterable''))"

definition uri_errors :: "string \<Rightarrow> csr_identity \<Rightarrow> string list" where
  "uri_errors app_uri i = (let u = strip app_uri in
     if u \<noteq> [] \<and> ci_uri_sans i \<noteq> [] \<and> u \<notin> set (ci_uri_sans i) then [''csr_uri_san_mismatch''] else [])"

definition wildcard_errors :: "csr_identity \<Rightarrow> string list" where
  "wildcard_errors i = map (\<lambda>_. ''wildcard_dns_san_rejected'') (filter (\<lambda>n. starts_with n ''*.'') (ci_dns_sans i))"

definition zone_errors :: "pydict \<Rightarrow> string \<Rightarrow> string list" where
  "zone_errors policy zone = (case dget policy ''allowed_zones'' of
     PList zones \<Rightarrow> if PStr zone \<in> set zones then [] else [''zone_not_allowed_by_profile'']
   | _ \<Rightarrow> [])"

definition ip_errors :: "ext \<Rightarrow> pydict \<Rightarrow> csr_identity \<Rightarrow> string list" where
  "ip_errors x policy i =
     (if truthy (dget_or policy ''allow_private_ip_sans'' (PBool True)) then []
      else concat (map (\<lambda>ip. case k_ip_private x ip of None \<Rightarrow> [''invalid_ip_san'']
             | Some True \<Rightarrow> [''private_ip_san_rejected''] | Some False \<Rightarrow> []) (ci_ip_sans i)))"

definition missing_error :: "pyval list \<Rightarrow> string list \<Rightarrow> string \<Rightarrow> string list" where
  \<comment> \<open>\<open>if required and not required.issubset(present)\<close>\<close>
  "missing_error required present error =
     (if required \<noteq> [] \<and> \<not> set required \<subseteq> set (map PStr present) then [error] else [])"

definition validate_csr ::
  "ext \<Rightarrow> runtime_adapter \<Rightarrow> x509_csr \<Rightarrow> app_row \<Rightarrow> exn + string list \<times> string list \<times> csr_identity" where
  "validate_csr x ad csr app =
     (let i = extract_csr_identity csr;
          errors = uri_errors (a_uri app) i @ wildcard_errors i @ zone_errors (ra_policy ad) (a_zone app)
            @ ip_errors x (ra_policy ad) i
      in bindS (py_set (dget_or (ra_rules ad) ''required_extended_key_usage'' (PList []))) (\<lambda>required_eku.
         bindS (py_set (dget_or (ra_rules ad) ''required_key_usage'' (PList []))) (\<lambda>required_ku.
           Inr (errors @ missing_error required_eku (ci_eku i) ''extended_key_usage_missing_required''
                  @ missing_error required_ku (ci_key_usage i) ''key_usage_missing_required'', [], i))))"

section \<open>Runtime compatibility\<close>

record runtime_compatibility =
  rc_status :: string
  rc_risk :: string
  rc_blocking :: "string list"
  rc_warnings :: "string list"
  rc_details :: pydict

definition component_of :: "app_row \<Rightarrow> string" where
  \<comment> \<open>\<open>app.get("component_type") or app.get("role")\<close>\<close>
  "component_of app = (case a_component app of None \<Rightarrow> a_role app | Some c \<Rightarrow> str_or c (a_role app))"

definition blocking_reasons :: "runtime_adapter \<Rightarrow> app_row \<Rightarrow> string list" where
  "blocking_reasons ad app =
     (let component = strip (component_of app); wanted = strip (pf_component (ra_profile ad)) in
      (if wanted \<noteq> [] \<and> component \<noteq> [] \<and> component \<noteq> wanted
       then [''component_type_differs_from_profile''] else []) @
      (if lower (pf_format (ra_profile ad)) \<notin> {''pem'', ''pem+der'', ''der''}
       then [''unsupported_certificate_format''] else []) @
      (if ra_layout ad = [] then [''missing_trust_store_layout''] else []))"

definition validate_runtime_compatibility ::
  "runtime_adapter \<Rightarrow> csr_identity \<Rightarrow> app_row \<Rightarrow> cert_info option \<Rightarrow> runtime_compatibility" where
  "validate_runtime_compatibility ad i app issued =
     (let blocking = blocking_reasons ad app in
      \<lparr>rc_status = (if blocking \<noteq> [] then ''INCOMPATIBLE'' else ''COMPATIBLE''),
       rc_risk = (if blocking \<noteq> [] then ''HIGH'' else ''LOW''),
       rc_blocking = blocking, rc_warnings = [],
       rc_details = [(''runtime_family'', PStr (ra_family ad)),
         (''certificate_format'', PStr (pf_format (ra_profile ad))),
         (''runtime_semantics'', PDict (ra_semantics ad)), (''trust_store_layout'', PDict (ra_layout ad)),
         (''csr_identity'', PDict (csr_identity_dict i)),
         (''issued_certificate_fingerprint'',
            (case issued of None \<Rightarrow> PNone | Some c \<Rightarrow> PStr (ci_fpr c)))]\<rparr>)"

definition classify_risk :: "runtime_compatibility \<Rightarrow> string" where
  "classify_risk c = rc_risk c"

section \<open>Packages\<close>

definition layout_path :: "pydict \<Rightarrow> string \<Rightarrow> string \<Rightarrow> exn + string" where
  "layout_path layout key dflt = (case dget_or layout key (PStr dflt) of
     PStr path \<Rightarrow> Inr path | _ \<Rightarrow> Inl (TypeError ''layout path''))"

definition generate_package_layout ::
  "runtime_adapter \<Rightarrow> cert_info \<Rightarrow> pyval \<Rightarrow> pyval \<Rightarrow> exn + pydict" where
  "generate_package_layout ad issued ca_chain crl =
     (let layout = ra_layout ad in
      bindS (layout_path layout ''application_certificate'' ''own/certs/application.pem'') (\<lambda>own.
      bindS (layout_path layout ''issuer_chain'' ''issuers/certs/ca-chain.pem'') (\<lambda>chain.
      bindS (layout_path layout ''issuer_crl'' ''issuers/crl/current.crl.b64'') (\<lambda>crl_path.
        Inr [(''runtime_family'', PStr (ra_family ad)), (''layout'', PDict layout),
          (''files'', PDict (dput crl_path crl (dput chain ca_chain (dput own (PStr (ci_pem issued)) []))))]))))"

definition generate_install_plan :: "runtime_adapter \<Rightarrow> pydict \<Rightarrow> runtime_compatibility \<Rightarrow> pydict" where
  "generate_install_plan ad package_layout c =
     [(''runtime_write_enabled'', PBool False), (''dry_run_only'', PBool True),
      (''runtime_family'', PStr (ra_family ad)),
      (''target_layout'', dget_or package_layout ''layout'' (PDict [])),
      (''steps'', strs [''verify_signed_manifest'', ''verify_payload_hash_tree'',
         ''verify_runtime_compatibility'', ''create_shadow_trust_store'',
         ''evaluate_approval_and_maintenance_window'', ''prepare_activation_dry_run_only'']),
      (''blocked'', PBool (rc_status c \<noteq> ''COMPATIBLE'')),
      (''blocking_reasons'', strs (rc_blocking c)), (''warnings'', strs (rc_warnings c))]"

definition to_lifecycle_request :: "pydict \<Rightarrow> pydict" where
  \<comment> \<open>\<open>OpcUaPart12EnrollmentAdapter\<close>\<close>
  "to_lifecycle_request payload = (''source_interface'', PStr ''opcua_part12'') #
     map (\<lambda>k. (k, dget payload k)) [''application_uri'', ''runtime_instance_id'', ''profile_name'',
       ''csr_pem'', ''requested_ttl'', ''requested_subject'', ''requested_sans'']"

section \<open>Seeded profiles\<close>

definition default_profile :: "string \<Rightarrow> string \<Rightarrow> string \<Rightarrow> string \<Rightarrow> pydict \<Rightarrow> string list \<Rightarrow> pydict" where
  "default_profile name family component format layout required_eku =
     [(''profile_name'', PStr name), (''runtime_family'', PStr family), (''component_type'', PStr component),
      (''certificate_format'', PStr format), (''trust_store_layout_json'', PDict layout),
      (''runtime_semantics_json'', PDict
         [(''hot_reload_supported'', PBool False), (''restart_required_for_key_change'', PBool True),
          (''restart_required_for_trust_change'', PBool False),
          (''private_key_format'', PStr (if family = ''open62541'' then ''DER'' else ''PEM'')),
          (''certificate_store_model'', PStr (if family = ''open62541'' then ''open62541-filestore'' else ''node-opcua-pki''))]),
      (''compatibility_rules_json'', PDict
         [(''required_key_usage'', strs [''digitalSignature'', ''keyEncipherment'']),
          (''required_extended_key_usage'', strs required_eku), (''reject_wildcard_dns_sans'', PBool True)]),
      (''enrollment_policy_json'', PDict
         [(''auto_issue_allowed'', PBool True), (''manual_approval_required'', PBool False),
          (''allowed_zones'', strs [''OT'', ''DMZ'']), (''allow_private_ip_sans'', PBool True),
          (''renewal_threshold_days'', PInt 7)]),
      (''status'', PStr ''active'')]"

definition default_layout :: "string \<Rightarrow> pydict" where
  "default_layout own = [(''application_certificate'', PStr own),
     (''issuer_chain'', PStr ''issuers/certs/ca-chain.pem''), (''issuer_crl'', PStr ''issuers/crl/current.crl.b64''),
     (''trusted_certs_dir'', PStr ''trusted/certs''), (''trusted_crl_dir'', PStr ''trusted/crl'')]"

definition default_component_profiles :: "pydict list" where
  "default_component_profiles =
     (let open62541_layout = default_layout ''own/certs/application.pem'';
          node_layout = default_layout ''own/certs/client_certificate.pem''
      in [default_profile ''open62541-server'' ''open62541'' ''server'' ''pem'' open62541_layout [''serverAuth''],
          default_profile ''open62541-client'' ''open62541'' ''client'' ''pem'' open62541_layout [''clientAuth''],
          default_profile ''node-opcua-server'' ''node-opcua'' ''server'' ''pem'' node_layout [''serverAuth''],
          default_profile ''node-opcua-client'' ''node-opcua'' ''client'' ''pem'' node_layout [''clientAuth'']])"

section \<open>Facts\<close>

lemma missing_error_Nil [simp]:
  "missing_error required present e = [] \<longleftrightarrow> set required \<subseteq> set (map PStr present)"
  by (auto simp: missing_error_def)

lemma wildcard_errors_Nil [simp]:
  "wildcard_errors i = [] \<longleftrightarrow> (\<forall>n \<in> set (ci_dns_sans i). \<not> starts_with n ''*.'')"
  by (auto simp: wildcard_errors_def filter_empty_conv)

lemma uri_errors_Nil [simp]:
  "uri_errors u i = [] \<longleftrightarrow> strip u = [] \<or> ci_uri_sans i = [] \<or> strip u \<in> set (ci_uri_sans i)"
  by (auto simp: uri_errors_def Let_def)

lemma ip_errors_Nil:
  "ip_errors x policy i = [] \<longleftrightarrow> truthy (dget_or policy ''allow_private_ip_sans'' (PBool True))
     \<or> (\<forall>ip \<in> set (ci_ip_sans i). k_ip_private x ip = Some False)"
  by (auto simp: ip_errors_def split: option.splits bool.splits)

lemma py_set_PList_strs [simp]: "py_set (strs xs) = Inr (remdups (map PStr xs))"
  by (auto simp: py_set_def strs_def list_all_iff)

lemma json_ok_strs [simp]: "json_ok (strs xs)"
  by (auto simp: strs_def)

lemma json_ok_identity [simp]: "json_ok (PDict (csr_identity_dict i))"
  by (simp add: csr_identity_dict_def)

lemma compatible_iff:
  "rc_status (validate_runtime_compatibility ad i app issued) = ''COMPATIBLE'' \<longleftrightarrow> blocking_reasons ad app = []"
  by (simp add: validate_runtime_compatibility_def Let_def)

lemma compatibility_of_fields:
  "rc_blocking (validate_runtime_compatibility ad i app issued) = blocking_reasons ad app"
  "rc_warnings (validate_runtime_compatibility ad i app issued) = []"
  by (simp_all add: validate_runtime_compatibility_def Let_def)

end
