(* ===== verification/Lifecycle.thy ===== *)
theory Lifecycle
  imports Vault_Facts Runtime_Adapters
begin

text \<open>
  \<open>gds/app/lifecycle.py\<close>: from a signing request to a certificate and a signed package.
  The body of \<open>issue_certificate_package\<close> is divided at the points where it raises or
  calls Vault: the target is resolved, the request is registered and validated, it is
  signed, the certificate is stored, and the package is assembled and stored.
\<close>

section \<open>Small functions\<close>

definition load_csr :: "ext \<Rightarrow> string \<Rightarrow> exn + x509_csr" where
  "load_csr x csr_pem = (case k_load_csr x csr_pem of
     None \<Rightarrow> Inl (LifecycleError ''malformed_csr'' ''CSR PEM could not be parsed'' 400 [])
   | Some csr \<Rightarrow> Inr csr)"

definition common_name_from_subject :: "string \<Rightarrow> string option" where
  "common_name_from_subject subject = (if subject = [] then None
     else case find (\<lambda>part. starts_with (strip part) ''CN='') (split_on (CHR '','') subject) of
       None \<Rightarrow> None | Some part \<Rightarrow> Some (drop 3 (strip part)))"

definition safe_ca_chain :: "settings \<Rightarrow> pyval op" where
  "safe_ca_chain st = catchE (bindE (get_ca_chain st) (\<lambda>c. ret (dget_or c ''ca_chain_pem'' (PStr []))))
     (\<lambda>_. ret (PStr []))"

definition safe_crl :: "ext \<Rightarrow> settings \<Rightarrow> pyval op" where
  "safe_crl x st = catchE (bindE (get_intermediate_crl x st) (\<lambda>c. ret (dget_or c ''crl_base64'' (PStr []))))
     (\<lambda>_. ret (PStr []))"

definition crl_metadata_of :: "pydict \<Rightarrow> pydict" where
  "crl_metadata_of bundle = map (\<lambda>k. (k, dget bundle k)) [''root_crl_source'', ''root_pki_mount'',
     ''root_issuer_id'', ''root_crl_issuer'', ''root_crl_next_update'', ''root_crl_sha256'',
     ''intermediate_pki_mount'', ''intermediate_crl_issuer'', ''intermediate_crl_next_update'',
     ''intermediate_crl_sha256'', ''crl_freshness_verified'']"

definition safe_crl_bundle :: "ext \<Rightarrow> settings \<Rightarrow> pydict op" where
  "safe_crl_bundle x st = catchE (bindE (get_crl_bundle x st) (\<lambda>bundle. ret
       [(''crl_bundle'', PDict
           [(''root_crl_base64'', dget (as_dict (dget bundle ''root'')) ''crl_base64''),
            (''intermediate_crl_base64'', dget (as_dict (dget bundle ''intermediate'')) ''crl_base64'')]),
        (''crl_metadata'', PDict (crl_metadata_of bundle))]))
     (\<lambda>_. ret [(''crl_bundle'', PDict []), (''crl_metadata'', PDict [])])"

definition risk_rank :: "string \<Rightarrow> int" where
  "risk_rank r = (if r = ''LOW'' then 0 else if r = ''MEDIUM'' then 1 else if r = ''HIGH'' then 2
     else if r = ''CRITICAL'' then 3 else 0)"

definition max_risk :: "string \<Rightarrow> string list \<Rightarrow> string" where
  \<comment> \<open>\<open>max(values, key=...)\<close>: the first of greatest rank\<close>
  "max_risk r rs = foldl (\<lambda>best v. if risk_rank best < risk_rank v then v else best) r rs"

definition merge_compatibility ::
  "runtime_compatibility \<Rightarrow> runtime_compatibility \<Rightarrow> runtime_compatibility" where
  "merge_compatibility a b =
     (let status = (if rc_status a = ''INCOMPATIBLE'' \<or> rc_status b = ''INCOMPATIBLE''
            then ''INCOMPATIBLE'' else ''COMPATIBLE'')
      in \<lparr>rc_status = status,
          rc_risk = max_risk (rc_risk a) [rc_risk b, if status = ''INCOMPATIBLE'' then ''HIGH'' else ''LOW''],
          rc_blocking = sort (remdups (rc_blocking a @ rc_blocking b)),
          rc_warnings = sort (remdups (rc_warnings a @ rc_warnings b)),
          rc_details = dmerge (rc_details a) (rc_details b)\<rparr>)"

definition package_signature_payload :: "package_row \<Rightarrow> pydict" where
  "package_signature_payload p =
     (let signer = as_dict (dget (pk_manifest p) ''signer'') in
      [(''package_id'', PStr (pk_package p)), (''generation'', PInt (pk_generation p)),
       (''manifest_sha256'', PStr (pk_manifest_sha p)), (''signature_base64'', PStr (pk_signature p)),
       (''signer'', PDict [(''key_id'', dget signer ''key_id''),
          (''algorithm'', dget_or signer ''algorithm'' (PStr ''ed25519'')),
          (''fingerprint_sha256'', dget signer ''fingerprint_sha256'')])])"

section \<open>The target of a request\<close>

definition app_runtime :: "app_row \<Rightarrow> string" where
  "app_runtime app = (case a_runtime app of None \<Rightarrow> a_uri app | Some r \<Rightarrow> str_or r (a_uri app))"

definition resolve_target :: "string \<Rightarrow> string \<Rightarrow> string \<Rightarrow> (app_row \<times> string \<times> profile_row) op" where
  "resolve_target application_uri runtime profile_name =
     bindE (query (get_application_by_uri application_uri)) (\<lambda>found. case found of
       None \<Rightarrow> raise (LifecycleError ''unknown_application'' ''application_uri is not registered'' 404 [])
     | Some app \<Rightarrow>
       if runtime \<noteq> [] \<and> app_runtime app \<noteq> [] \<and> runtime \<noteq> app_runtime app
       then raise (LifecycleError ''runtime_instance_mismatch''
         ''runtime_instance_id does not match application inventory'' 400
         [(''expected'', PStr (app_runtime app)), (''provided'', PStr runtime)])
       else bindE (query (get_component_profile profile_name)) (\<lambda>profile. case profile of
         None \<Rightarrow> raise (LifecycleError ''unknown_profile'' ''component profile is not active or does not exist'' 404 [])
       | Some p \<Rightarrow> if lower (pf_status p) \<noteq> ''active''
           then raise (LifecycleError ''unknown_profile'' ''component profile is not active or does not exist'' 404 [])
           else ret (app, str_or runtime (app_runtime app), p)))"

section \<open>Registration and validation\<close>

record csr_order =
  or_uri :: string
  or_runtime :: string
  or_profile :: string
  or_csr :: string
  or_ttl :: string
  or_by :: string
  or_source :: string
  or_allow_duplicate :: bool

definition request_target :: "string \<Rightarrow> string" where
  "request_target request_id = ''certificate_request:'' @ request_id"

definition register_request ::
  "csr_order \<Rightarrow> string \<Rightarrow> app_row \<Rightarrow> string \<Rightarrow> string \<Rightarrow> csr_identity \<Rightarrow> pydict \<Rightarrow> string \<Rightarrow> request_row op" where
  "register_request ord request_id app runtime csr_fp info validation status =
     on_db (insert_certificate_request request_id (a_id app) (Some runtime) (or_profile ord) (or_source ord)
       (or_csr ord) csr_fp (Some (ci_csr_subject info)) (ci_uri_sans info) (ci_dns_sans info)
       (ci_ip_sans info) validation (or_by ord) status)"

definition validation_of :: "string list \<Rightarrow> string list \<Rightarrow> csr_identity \<Rightarrow> pydict" where
  "validation_of errors warnings info = [(''errors'', strs errors), (''warnings'', strs warnings),
     (''csr_identity'', PDict (csr_identity_dict info))]"

definition csr_fingerprint :: "ext \<Rightarrow> x509_csr \<Rightarrow> string" where
  "csr_fingerprint x csr = k_sha256 x (x_csr_der csr)"

definition admit_csr :: "ext \<Rightarrow> csr_order \<Rightarrow> x509_csr op" where
  \<comment> \<open>the request parses, carries a valid signature and has not been used before\<close>
  "admit_csr x ord =
     bindE (lift_sum (load_csr x (or_csr ord))) (\<lambda>csr.
       if \<not> x_csr_signature_valid csr
       then raise (LifecycleError ''invalid_csr_signature'' ''CSR signature is invalid'' 400 [])
       else bindE (query (get_certificate_request_by_csr (csr_fingerprint x csr))) (\<lambda>existing. case existing of
         None \<Rightarrow> ret csr
       | Some r \<Rightarrow> if or_allow_duplicate ord then ret csr
           else raise (LifecycleError ''duplicate_csr'' ''CSR fingerprint already has a non-failed request'' 409
             [(''request_id'', PStr (rq_request r))])))"

definition validate_order ::
  "ext \<Rightarrow> csr_order \<Rightarrow> app_row \<Rightarrow> string \<Rightarrow> profile_row \<Rightarrow> x509_csr \<Rightarrow>
   (string \<times> request_row \<times> csr_identity) op" where
  "validate_order x ord app runtime p csr =
     bindE (lift_sum (validate_csr x (adapter_for_profile p) csr app)) (\<lambda>(errors, warnings, info).
     (let validation = validation_of errors warnings info in
     bindE uuid4_hex (\<lambda>request_id.
     bindE (register_request ord request_id app runtime (csr_fingerprint x csr) info validation
       (if errors \<noteq> [] then ''REJECTED'' else ''VALIDATED'')) (\<lambda>row.
     bindE (log_audit ''certificate_request_created'' (or_by ord) (request_target request_id)
       [(''application_uri'', PStr (or_uri ord)), (''profile_name'', PStr (or_profile ord))]) (\<lambda>_.
       if errors \<noteq> []
       then bindE (log_audit ''csr_rejected'' (or_by ord) (request_target request_id) validation) (\<lambda>_.
         raise (LifecycleError ''csr_validation_failed'' ''CSR failed validation'' 400 validation))
       else bindE (log_audit ''csr_validated'' (or_by ord) (request_target request_id) validation) (\<lambda>_.
         ret (request_id, row, info)))))))"

section \<open>Signing and storing the certificate\<close>

definition set_request_status :: "string \<Rightarrow> string \<Rightarrow> pydict option \<Rightarrow> unit op" where
  "set_request_status request_id status validation =
     bindE (on_db (update_certificate_request_status request_id status validation)) (\<lambda>_. ret ())"

definition signing_failed :: "csr_order \<Rightarrow> string \<Rightarrow> exn \<Rightarrow> 'a op" where
  "signing_failed ord request_id e =
     (if e = VaultSealedError
      then bindE (set_request_status request_id ''FAILED'' (Some [(''errors'', strs [''vault_sealed''])])) (\<lambda>_.
        bindE (log_audit ''certificate_issue_failed'' (or_by ord) (request_target request_id)
          [(''error_code'', PStr ''vault_sealed'')]) (\<lambda>_.
        raise (LifecycleError ''vault_sealed'' ''Vault is sealed'' 503 [])))
      else bindE (set_request_status request_id ''FAILED'' (Some [(''errors'', strs [''vault_signing_failed'']),
          (''detail'', PStr (exc_class e))])) (\<lambda>_.
        bindE (log_audit ''certificate_issue_failed'' (or_by ord) (request_target request_id)
          [(''error_code'', PStr ''vault_signing_failed'')]) (\<lambda>_.
        raise (LifecycleError ''vault_signing_failed'' ''Vault failed to sign CSR'' 503
          [(''detail'', PStr (exc_class e))]))))"

definition request_common_name :: "csr_identity \<Rightarrow> app_row \<Rightarrow> string" where
  "request_common_name info app = (case common_name_from_subject (ci_csr_subject info) of
     None \<Rightarrow> a_common_name app | Some cn \<Rightarrow> str_or cn (a_common_name app))"

definition sign_request :: "settings \<Rightarrow> csr_order \<Rightarrow> string \<Rightarrow> csr_identity \<Rightarrow> app_row \<Rightarrow> signed_csr op" where
  "sign_request st ord request_id info app =
     catchE (sign_csr st (or_csr ord) (str_or (or_ttl ord) (cert_default_ttl (s_expiry st)))
         (request_common_name info app))
       (signing_failed ord request_id)"

definition store_certificate :: "app_row \<Rightarrow> cert_info \<Rightarrow> cert_row op" where
  "store_certificate app issued =
     bindE (on_db (insert_certificate (a_id app) (ci_fpr issued) (Some (ci_serial issued))
       (Some (ci_subject issued)) (Some (ci_issuer issued)) (Some (ci_not_before issued))
       (Some (ci_not_after issued)) (ci_pem issued) ''active'')) (\<lambda>inserted. case inserted of
       Some row \<Rightarrow> ret row
     | None \<Rightarrow> bindE (query (get_certificate_by_fingerprint (ci_fpr issued))) (\<lambda>found. case found of
         Some (row, _) \<Rightarrow> ret row
       | None \<Rightarrow> raise (LifecycleError ''certificate_storage_failed''
           ''issued certificate could not be stored'' 500 [])))"

definition issue_certificate ::
  "ext \<Rightarrow> settings \<Rightarrow> csr_order \<Rightarrow> string \<Rightarrow> csr_identity \<Rightarrow> app_row \<Rightarrow> (signed_csr \<times> cert_info \<times> cert_row) op" where
  "issue_certificate x st ord request_id info app =
     bindE (sign_request st ord request_id info app) (\<lambda>signed.
     bindE (lift_sum (parse_pem_certificate x (sc_certificate signed))) (\<lambda>issued.
     bindE (store_certificate app issued) (\<lambda>row.
     bindE (set_request_status request_id ''ISSUED'' None) (\<lambda>_.
     bindE (log_audit ''certificate_issued'' (or_by ord) (''certificate:'' @ int_str (c_id row))
       [(''request_id'', PStr request_id), (''fingerprint_sha256'', PStr (ci_fpr issued))]) (\<lambda>_.
       ret (signed, issued, row))))))"

section \<open>The package\<close>

record package_parts =
  pp_chain :: pyval
  pp_crl :: pyval
  pp_bundle :: pydict
  pp_compat :: runtime_compatibility
  pp_plan :: pydict
  pp_files :: pydict
  pp_payload_sha :: string

definition assemble_parts ::
  "ext \<Rightarrow> settings \<Rightarrow> runtime_adapter \<Rightarrow> csr_identity \<Rightarrow> app_row \<Rightarrow> signed_csr \<Rightarrow> cert_info \<Rightarrow> package_parts op" where
  "assemble_parts x st ad info app signed issued =
     bindE (if sc_chain signed \<noteq> [] then ret (PStr (sc_chain signed)) else safe_ca_chain st) (\<lambda>chain.
     bindE (safe_crl x st) (\<lambda>crl.
     bindE (safe_crl_bundle x st) (\<lambda>bundle.
     (let compatibility = merge_compatibility (validate_runtime_compatibility ad info app None)
            (validate_runtime_compatibility ad info app (Some issued))
      in bindE (lift_sum (generate_package_layout ad issued chain crl)) (\<lambda>layout.
         let files = package_files_sha256 x layout in
         bindE (lift_sum (package_payload_sha256 x files)) (\<lambda>payload_sha.
           ret \<lparr>pp_chain = chain, pp_crl = crl, pp_bundle = bundle, pp_compat = compatibility,
             pp_plan = generate_install_plan ad layout compatibility, pp_files = files,
             pp_payload_sha = payload_sha\<rparr>))))))"

definition compatibility_dict :: "runtime_compatibility \<Rightarrow> pydict" where
  "compatibility_dict c = [(''status'', PStr (rc_status c)), (''risk_level'', PStr (rc_risk c)),
     (''blocking_reasons'', strs (rc_blocking c)), (''warnings'', strs (rc_warnings c)),
     (''details'', PDict (rc_details c))]"

definition package_manifest ::
  "csr_order \<Rightarrow> signer \<Rightarrow> string \<Rightarrow> (int \<times> string option \<times> int option) \<Rightarrow> app_row \<Rightarrow> string \<Rightarrow>
   cert_info \<Rightarrow> package_parts \<Rightarrow> string \<Rightarrow> pydict" where
  "package_manifest ord g package_id lineage app runtime issued parts created_at =
     (case lineage of (generation, prev_package, prev_generation) \<Rightarrow>
     [(''schema'', PStr ''labshock_certificate_package_v1''), (''schema_version'', PInt 1),
      (''package_id'', PStr package_id), (''generation'', PInt generation),
      (''supersedes_package_id'', opt_str prev_package), (''supersedes_generation'', opt_int prev_generation),
      (''application_uri'', PStr (or_uri ord)), (''runtime_instance_id'', PStr runtime),
      (''profile_name'', PStr (or_profile ord)), (''component_type'', PStr (component_of app)),
      (''certificate_fingerprint_sha256'', PStr (ci_fpr issued)), (''certificate_serial'', PStr (ci_serial issued)),
      (''not_before'', PStr (iso_z (ci_not_before issued))), (''not_after'', PStr (iso_z (ci_not_after issued))),
      (''certificate_pem'', PStr (ci_pem issued)), (''ca_chain_pem'', pp_chain parts),
      (''crl_base64'', pp_crl parts),
      (''crl_bundle'', dget_or (pp_bundle parts) ''crl_bundle'' (PDict [])),
      (''crl_metadata'', dget_or (pp_bundle parts) ''crl_metadata'' (PDict [])),
      (''install_plan'', PDict (pp_plan parts)),
      (''rollback_metadata'', PDict [(''rollback_supported'', PBool True),
         (''previous_generation_required'', PBool True), (''runtime_write_enabled'', PBool False)]),
      (''compatibility'', PDict (compatibility_dict (pp_compat parts))),
      (''lifecycle_state'', PStr ''PACKAGED''), (''payload_sha256'', PStr (pp_payload_sha parts)),
      (''files_sha256'', PDict (pp_files parts)), (''manifest_sha256'', PStr []),
      (''created_at'', PStr created_at), (''signer'', PDict (signer_identity g))])"

record issue_result =
  ir_request :: request_row
  ir_certificate :: cert_row
  ir_package :: package_row
  ir_manifest :: pydict
  ir_signature :: pydict

definition sign_manifest :: "ext \<Rightarrow> signer \<Rightarrow> pydict \<Rightarrow> exn + pydict \<times> string \<times> payload_signature" where
  "sign_manifest x g unstamped =
     bindS (manifest_sha256 x unstamped) (\<lambda>sha.
       let manifest = dput ''manifest_sha256'' (PStr sha) unstamped in
       bindS (sign_canonical_payload x g (canonical_package_manifest manifest)) (\<lambda>sig. Inr (manifest, sha, sig)))"

definition package_details :: "string \<Rightarrow> int \<Rightarrow> runtime_compatibility \<Rightarrow> pydict" where
  "package_details request_id generation c = [(''request_id'', PStr request_id),
     (''generation'', PInt generation), (''compatibility_status'', PStr (rc_status c))]"

definition announce_package :: "csr_order \<Rightarrow> string \<Rightarrow> string \<Rightarrow> pydict \<Rightarrow> unit op" where
  "announce_package ord request_id package_id details =
     bindE (set_request_status request_id ''PACKAGED'' None) (\<lambda>_.
     bindE (on_db (insert_package_event package_id ''certificate_package_created'' (or_by ord) details)) (\<lambda>_.
       log_audit ''certificate_package_created'' (or_by ord) (''certificate_package:'' @ package_id) details))"

definition store_package ::
  "ext \<Rightarrow> signer \<Rightarrow> csr_order \<Rightarrow> string \<Rightarrow> app_row \<Rightarrow> string \<Rightarrow> cert_info \<Rightarrow> cert_row \<Rightarrow> package_parts \<Rightarrow>
   (package_row \<times> pydict) op" where
  "store_package x g ord request_id app runtime issued row parts =
     bindE (query (get_latest_certificate_package_for_application (a_id app) (or_profile ord))) (\<lambda>previous.
     bindE uuid4_hex (\<lambda>package_id.
     bindE now_us (\<lambda>now.
     (case next_lineage previous of (generation, prev_package, prev_generation) \<Rightarrow>
     bindE (lift_sum (sign_manifest x g (package_manifest ord g package_id
       (generation, prev_package, prev_generation) app runtime issued parts (iso_z now)))) (\<lambda>(manifest, sha, sig).
     bindE (on_db (insert_certificate_package package_id (a_id app) (Some runtime) request_id
       (Some (c_id row)) (or_profile ord) manifest sha (ps_signature sig)
       (rc_status (pp_compat parts)) ''PACKAGED'' (Some generation) prev_package prev_generation)) (\<lambda>package.
     bindE (announce_package ord request_id package_id
       (package_details request_id generation (pp_compat parts))) (\<lambda>_.
       ret (package, manifest))))))))"

definition admit_order ::
  "ext \<Rightarrow> csr_order \<Rightarrow> (app_row \<times> string \<times> profile_row \<times> string \<times> request_row \<times> csr_identity) op" where
  \<comment> \<open>\<open>issue_certificate_package\<close> up to the audit event \<open>csr_validated\<close>\<close>
  "admit_order x ord =
     bindE (resolve_target (or_uri ord) (or_runtime ord) (or_profile ord)) (\<lambda>(app, runtime, p).
     bindE (admit_csr x ord) (\<lambda>csr.
     bindE (validate_order x ord app runtime p csr) (\<lambda>(request_id, request, info).
       ret (app, runtime, p, request_id, request, info))))"

definition issue_certificate_package :: "ext \<Rightarrow> settings \<Rightarrow> signer \<Rightarrow> csr_order \<Rightarrow> issue_result op" where
  "issue_certificate_package x st g ord =
     bindE (admit_order x ord) (\<lambda>(app, runtime, p, request_id, request, info).
     bindE (issue_certificate x st ord request_id info app) (\<lambda>(signed, issued, row).
     bindE (assemble_parts x st (adapter_for_profile p) info app signed issued) (\<lambda>parts.
     bindE (store_package x g ord request_id app runtime issued row parts) (\<lambda>(package, manifest).
       ret \<lparr>ir_request = request, ir_certificate = row, ir_package = package, ir_manifest = manifest,
         ir_signature = package_signature_payload package\<rparr>))))"

section \<open>Dry run\<close>

definition dry_run_validation ::
  "string list \<Rightarrow> string list \<Rightarrow> csr_identity \<Rightarrow> runtime_compatibility \<Rightarrow> string \<Rightarrow> pydict" where
  "dry_run_validation errors warnings info c correlation_id = validation_of errors warnings info @
     [(''compatibility'', PDict [(''status'', PStr (rc_status c)), (''risk_level'', PStr (rc_risk c)),
        (''blocking_reasons'', strs (rc_blocking c)), (''warnings'', strs (rc_warnings c))]),
      (''dry_run_only'', PBool True), (''vault_signing_performed'', PBool False),
      (''package_created'', PBool False), (''correlation_id'', PStr correlation_id)]"

record dry_run_result =
  dr_request :: request_row
  dr_validation :: pydict
  dr_uri :: string
  dr_runtime :: string
  dr_profile :: string
  dr_status :: string

definition validate_certificate_request_dry_run ::
  "ext \<Rightarrow> csr_order \<Rightarrow> string \<Rightarrow> dry_run_result op" where
  "validate_certificate_request_dry_run x ord correlation_id =
     bindE (resolve_target (or_uri ord) (or_runtime ord) (or_profile ord)) (\<lambda>(app, runtime, p).
     bindE (lift_sum (load_csr x (or_csr ord))) (\<lambda>csr.
     (let ad = adapter_for_profile p in
     bindE (lift_sum (validate_csr x ad csr app)) (\<lambda>(found, warnings, info).
     (let errors = found @ (if x_csr_signature_valid csr then [] else [''invalid_csr_signature'']);
          c = validate_runtime_compatibility ad info app None;
          validation = dry_run_validation errors warnings info c correlation_id
      in bindE uuid4_hex (\<lambda>request_id.
         bindE (register_request ord request_id app runtime (csr_fingerprint x csr) info validation
           (if errors \<noteq> [] then ''DRY_RUN_REJECTED'' else ''DRY_RUN_VALIDATED'')) (\<lambda>row.
         bindE (log_audit ''opcua_signing_request_dry_run'' (or_by ord) (request_target request_id)
           [(''application_uri'', PStr (or_uri ord)), (''runtime_instance_id'', PStr runtime),
            (''profile_name'', PStr (or_profile ord)), (''request_id'', PStr request_id),
            (''correlation_id'', PStr correlation_id), (''validation_status'', PStr (rq_status row)),
            (''compatibility_status'', PStr (rc_status c)), (''dry_run_only'', PBool True)]) (\<lambda>_.
           ret \<lparr>dr_request = row, dr_validation = validation, dr_uri = or_uri ord, dr_runtime = runtime,
             dr_profile = or_profile ord, dr_status = rq_status row\<rparr>))))))))"

section \<open>What the lifecycle may do to the database\<close>

lemma lifecycle_parts_sound [evolves_rules]:
  "evolves world_sound (resolve_target u r p)"
  "evolves world_sound (register_request ord rid app rt fp info v s)"
  "evolves world_sound (admit_csr x ord)"
  "evolves world_sound (set_request_status rid s q)"
  "evolves world_sound (safe_ca_chain st)" "evolves world_sound (safe_crl x st)"
  "evolves world_sound (safe_crl_bundle x st)"
  unfolding resolve_target_def register_request_def admit_csr_def set_request_status_def
    safe_ca_chain_def safe_crl_def safe_crl_bundle_def
  by (intro wsound.combinators evolves_rules; simp)+

lemma lifecycle_steps_sound [evolves_rules]:
  "evolves world_sound (validate_order x ord app rt p csr)"
  "evolves world_sound (signing_failed ord rid e)"
  "evolves world_sound (store_certificate app issued)"
  "evolves world_sound (assemble_parts x st ad info app signed issued)"
  "evolves world_sound (store_package x g ord rid app rt issued row parts)"
  unfolding validate_order_def signing_failed_def store_certificate_def assemble_parts_def store_package_def
    announce_package_def
  by (intro wsound.combinators evolves_rules; simp)+

lemma issue_certificate_sound [evolves_rules]:
  "evolves world_sound (issue_certificate x st ord rid info app)"
  unfolding issue_certificate_def sign_request_def
  by (intro wsound.combinators evolves_rules)

lemma issue_certificate_package_sound [evolves_rules]:
  "evolves world_sound (issue_certificate_package x st g ord)"
  unfolding issue_certificate_package_def admit_order_def
  by (intro wsound.combinators evolves_rules)

lemma dry_run_sound [evolves_rules]:
  "evolves world_sound (validate_certificate_request_dry_run x ord cid)"
  unfolding validate_certificate_request_dry_run_def
  by (intro wsound.combinators evolves_rules)

end
