(* ===== verification/Api_Core.thy ===== *)
theory Api_Core
  imports Artifacts Lifecycle
begin

text \<open>
  What the REST endpoints of \<open>gds/app/main.py\<close> share: the guards in front of them, the
  expiry state of certificates, the discovery catalogue, the active certificate of a
  component and the reduced dictionaries of certificates and packages.
\<close>

section \<open>Guards\<close>

text \<open>An endpoint whose answer is not a dictionary answers with a refusal or with its rows.\<close>

type_synonym 'a answer = "response + 'a"

definition api_error :: "int \<Rightarrow> string \<Rightarrow> string \<Rightarrow> response" where
  "api_error status message code = json_response status [(''error'', PStr message), (''error_code'', PStr code)]"

definition unless_refused :: "response option op \<Rightarrow> response op \<Rightarrow> response op" where
  \<comment> \<open>\<open>err = guard(...); if err: return err\<close>\<close>
  "unless_refused guard serve = bindE guard (\<lambda>refused. case refused of Some r \<Rightarrow> ret r | None \<Rightarrow> serve)"

definition answer_unless :: "response option op \<Rightarrow> 'a answer op \<Rightarrow> 'a answer op" where
  "answer_unless guard serve = bindE guard (\<lambda>refused. case refused of Some r \<Rightarrow> ret (Inl r) | None \<Rightarrow> serve)"

definition require_vault_unsealed :: "ext \<Rightarrow> settings \<Rightarrow> response option op" where
  "require_vault_unsealed x st =
     bindE (getE w_started) (\<lambda>started.
       if \<not> started then ret (Some (api_error 503 ''vault client not initialized'' ''vault_client_unavailable''))
       else tryE (get_status x st)
         (\<lambda>_. ret (Some (json_response 503 [(''error_code'', PStr ''vault_unavailable'')])))
         (\<lambda>report. ret (if vs_sealed report then Some vault_sealed_response else None)))"

definition require_started :: "response option op" where
  \<comment> \<open>the Vault client and the signer exist once the service has started\<close>
  "require_started = bindE (getE w_started) (\<lambda>started.
     ret (if started then None else Some (api_error 503 ''vault client not initialized'' ''vault_client_unavailable'')))"

definition agent_endpoint :: "ext \<Rightarrow> settings \<Rightarrow> http_req \<Rightarrow> string \<Rightarrow> string option \<Rightarrow> response op \<Rightarrow> response op" where
  \<comment> \<open>a verified client certificate, then the agent's token and policy\<close>
  "agent_endpoint x st req access uri serve =
     unless_refused (require_https_mtls x st req)
       (unless_refused (authorize_agent_pull st req access None None uri) serve)"

definition agent_answer :: "ext \<Rightarrow> settings \<Rightarrow> http_req \<Rightarrow> string \<Rightarrow> string option \<Rightarrow> 'a answer op \<Rightarrow> 'a answer op" where
  "agent_answer x st req access uri serve =
     answer_unless (require_https_mtls x st req)
       (answer_unless (authorize_agent_pull st req access None None uri) serve)"

definition unknown_application :: response where
  "unknown_application = api_error 404 ''application not found'' ''unknown_application''"

definition component_route ::
  "ext \<Rightarrow> settings \<Rightarrow> http_req \<Rightarrow> string \<Rightarrow> string \<Rightarrow> response \<Rightarrow> (app_row \<Rightarrow> response op) \<Rightarrow> response op" where
  \<comment> \<open>the certificate, the application, then the agent's authorisation for it\<close>
  "component_route x st req access uri missing serve =
     unless_refused (require_https_mtls x st req)
       (bindE (query (get_application_by_uri uri)) (\<lambda>found. case found of
          None \<Rightarrow> ret missing
        | Some app \<Rightarrow> unless_refused (authorize_agent_pull st req access None None (Some uri)) (serve app)))"

definition component_endpoint ::
  "ext \<Rightarrow> settings \<Rightarrow> http_req \<Rightarrow> string \<Rightarrow> string \<Rightarrow> (app_row \<Rightarrow> response op) \<Rightarrow> response op" where
  "component_endpoint x st req access uri serve = component_route x st req access uri unknown_application serve"

section \<open>Times\<close>

definition as_iso :: "int option \<Rightarrow> pyval" where
  "as_iso t = (case t of None \<Rightarrow> PNone | Some t \<Rightarrow> PStr (isoformat t))"

fun api_json_safe :: "pyval \<Rightarrow> pyval" where
  "api_json_safe (PTime t) = PStr (isoformat t)"
| "api_json_safe (PDict kvs) = PDict (map (\<lambda>(k, v). (k, api_json_safe v)) kvs)"
| "api_json_safe (PList vs) = PList (map api_json_safe vs)"
| "api_json_safe v = v"

definition generated_at :: "string op" where
  \<comment> \<open>\<open>datetime.now(timezone.utc).isoformat()\<close>\<close>
  "generated_at = bindE now_us (\<lambda>t. ret (isoformat t))"

definition days_until :: "int option \<Rightarrow> int option op" where
  "days_until value = (case value of None \<Rightarrow> ret None
     | Some t \<Rightarrow> bindE now_us (\<lambda>now. ret (Some (days_between t now))))"

definition expiry_state :: "settings \<Rightarrow> int option \<Rightarrow> string" where
  "expiry_state st days_remaining = (case days_remaining of
     None \<Rightarrow> ''unknown''
   | Some days \<Rightarrow> if days < 0 then ''expired''
       else if days \<le> cert_expiry_critical_days (s_expiry st) then ''critical''
       else if days \<le> cert_expiry_warning_days (s_expiry st) then ''warning''
       else ''ok'')"

section \<open>Reduced dictionaries\<close>

definition safe_certificate :: "cert_view option \<Rightarrow> pydict" where
  "safe_certificate cert = (case cert of None \<Rightarrow> [] | Some (c, a) \<Rightarrow>
     [(''id'', PInt (c_id c)), (''application_id'', PInt (c_app c)), (''application_uri'', PStr (a_uri a)),
      (''common_name'', PStr (a_common_name a)), (''zone'', PStr (a_zone a)), (''role'', PStr (a_role a)),
      (''fingerprint_sha256'', PStr (c_fpr c)), (''serial_number'', opt_str (c_serial c)),
      (''subject'', opt_str (c_subject c)), (''issuer'', opt_str (c_issuer c)),
      (''not_before'', as_iso (c_not_before c)), (''not_after'', as_iso (c_not_after c)),
      (''status'', PStr (c_status c)), (''revoked_at'', as_iso (c_revoked c))])"

definition api_package :: "package_view option \<Rightarrow> pydict" where
  "api_package row = (case row of None \<Rightarrow> [] | Some (p, a) \<Rightarrow>
     [(''package_id'', PStr (pk_package p)), (''certificate_id'', opt_int (pk_cert p)),
      (''generation'', PInt (pk_generation p)), (''profile_name'', PStr (pk_profile p)),
      (''supersedes_package_id'', opt_str (pk_prev_package p)),
      (''supersedes_generation'', opt_int (pk_prev_generation p)),
      (''compatibility_status'', PStr (pk_compat p)), (''lifecycle_state'', PStr (pk_lifecycle p)),
      (''status'', PStr (pk_status p)), (''created_at'', as_iso (Some (pk_created p)))])"

section \<open>Components\<close>

record component_meta =
  cm_target :: string
  cm_uri :: string
  cm_runtime :: string
  cm_profile :: string
  cm_zone :: string
  cm_role :: string
  cm_type :: string
  cm_family :: string

definition component_meta_dict :: "component_meta \<Rightarrow> pydict" where
  "component_meta_dict m = [(''target'', PStr (cm_target m)), (''application_uri'', PStr (cm_uri m)),
     (''runtime_instance_id'', PStr (cm_runtime m)), (''profile_name'', PStr (cm_profile m)),
     (''zone'', PStr (cm_zone m)), (''role'', PStr (cm_role m)), (''component_type'', PStr (cm_type m)),
     (''runtime_family'', PStr (cm_family m))]"

definition catalog_item ::
  "string \<Rightarrow> string \<Rightarrow> string \<Rightarrow> string \<Rightarrow> string \<Rightarrow> string \<Rightarrow> string \<Rightarrow> component_meta" where
  "catalog_item target uri profile zone role component_type family =
     \<lparr>cm_target = target, cm_uri = uri, cm_runtime = uri, cm_profile = profile, cm_zone = zone, cm_role = role,
       cm_type = component_type, cm_family = family\<rparr>"

definition COMPONENT_DISCOVERY_CATALOG :: "component_meta list" where
  "COMPONENT_DISCOVERY_CATALOG =
     [catalog_item ''opcua-server'' ''urn:dataprotect:opcua:ot-server'' ''open62541-server'' ''OT'' ''server''
        ''server'' ''open62541'',
      catalog_item ''fuxa'' ''urn:dataprotect:opcua:fuxa-client'' ''node-opcua-client'' ''OT'' ''scada-client''
        ''client'' ''node-opcua'',
      catalog_item ''dmz-gateway-client'' ''urn:dataprotect:opcua:dmz-gateway-client'' ''open62541-client'' ''DMZ''
        ''southbound-client'' ''client'' ''open62541'',
      catalog_item ''dmz-gateway-server'' ''urn:dataprotect:opcua:dmz-gateway-server'' ''open62541-server'' ''DMZ''
        ''northbound-server'' ''server'' ''open62541'']"

definition profile_for_application :: "app_row \<Rightarrow> component_meta" where
  "profile_for_application app =
     (case find (\<lambda>m. cm_uri m = a_uri app) COMPONENT_DISCOVERY_CATALOG of
        Some m \<Rightarrow> m
      | None \<Rightarrow>
         (let component_type = lower (component_of app);
              family = (if str_contains ''fuxa'' (lower (a_uri app)) then ''node-opcua'' else ''open62541'');
              profile = (if family = ''node-opcua'' then ''node-opcua-client''
                else if component_type = ''server'' then ''open62541-server'' else ''open62541-client'')
          in \<lparr>cm_target = a_uri app, cm_uri = a_uri app, cm_runtime = app_runtime app, cm_profile = profile,
               cm_zone = a_zone app, cm_role = a_role app,
               cm_type = (case a_component app of None \<Rightarrow> component_type | Some c \<Rightarrow> str_or c component_type),
               cm_family = family\<rparr>))"

definition catalog_entry :: "profile_row list \<Rightarrow> component_meta \<Rightarrow> pydict" where
  "catalog_entry profiles m = component_meta_dict m @
     (case find (\<lambda>p. pf_name p = cm_profile m) (rev profiles) of
        None \<Rightarrow> [(''certificate_format'', PNone), (''trust_store_layout'', PDict []), (''runtime_semantics'', PDict []),
                  (''enrollment_policy'', PDict []), (''status'', PStr ''unknown'')]
      | Some p \<Rightarrow> [(''certificate_format'', PStr (pf_format p)), (''trust_store_layout'', pf_layout p),
                  (''runtime_semantics'', pf_semantics p), (''enrollment_policy'', pf_policy p),
                  (''status'', PStr (pf_status p))])"

definition component_catalog_items :: "pydict list op" where
  "component_catalog_items = bindE (query list_component_profiles) (\<lambda>profiles.
     ret (map (catalog_entry profiles) COMPONENT_DISCOVERY_CATALOG))"

definition profile_or :: "string \<Rightarrow> string \<Rightarrow> pyval" where
  \<comment> \<open>\<open>profile_meta.get(k) or app_meta.get(k)\<close> of two texts\<close>
  "profile_or a b = PStr (str_or a b)"

definition certificate_group :: "string \<Rightarrow> component_meta \<Rightarrow> app_row \<Rightarrow> profile_row option \<Rightarrow> pydict" where
  "certificate_group profile_name m app found =
     (let txt = (\<lambda>f. case found of None \<Rightarrow> [] | Some p \<Rightarrow> f p);
          val = (\<lambda>f dflt. case found of None \<Rightarrow> dflt | Some p \<Rightarrow> f p) in
     [(''profile_name'', PStr profile_name),
      (''runtime_family'', profile_or (txt pf_family) (cm_family m)),
      (''component_type'', profile_or (txt pf_component) (cm_type m)),
      (''certificate_format'', val (\<lambda>p. PStr (pf_format p)) PNone),
      (''zone'', profile_or (a_zone app) (cm_zone m)), (''role'', profile_or (a_role app) (cm_role m)),
      (''trust_store_layout'', val pf_layout (PDict [])), (''runtime_semantics'', val pf_semantics (PDict [])),
      (''compatibility_rules'', val pf_rules (PDict [])), (''enrollment_policy'', val pf_policy (PDict [])),
      (''status'', val (\<lambda>p. PStr (pf_status p)) (PStr ''unknown''))])"

definition certificate_group_for_profile :: "string \<Rightarrow> app_row \<Rightarrow> pydict op" where
  "certificate_group_for_profile profile_name app =
     bindE (query (get_component_profile profile_name)) (\<lambda>found.
       ret (certificate_group profile_name (profile_for_application app) app found))"

section \<open>The active certificate of a component\<close>

definition operational :: "cert_row \<Rightarrow> bool" where
  "operational c \<longleftrightarrow> lower (c_status c) = ''active'' \<and> c_revoked c = None"

definition fallback_certificate :: "int \<Rightarrow> cert_view list \<Rightarrow> cert_view option" where
  "fallback_certificate app_id certs = fetch_one (order_desc (\<lambda>(c, a). (py_str (PTime (c_created c)), c_id c))
     (filter (\<lambda>(c, a). c_app c = app_id \<and> operational c) certs))"

definition active_certificate_fallback_for_app :: "int \<Rightarrow> cert_view option op" where
  "active_certificate_fallback_for_app app_id =
     bindE (query list_certificates) (\<lambda>certs. ret (fallback_certificate app_id certs))"

fun first_operational :: "package_view list \<Rightarrow> cert_view option op" where
  \<comment> \<open>the loop over the activated packages, newest first\<close>
  "first_operational [] = ret None"
| "first_operational ((p, a) # rest) = (case pk_cert p of
     None \<Rightarrow> first_operational rest
   | Some i \<Rightarrow> if i = 0 then first_operational rest
       else bindE (query (get_certificate i)) (\<lambda>found. case found of
         Some (c, a) \<Rightarrow> if operational c then ret (Some (c, a)) else first_operational rest
       | None \<Rightarrow> first_operational rest))"

definition resolve_component_active_certificate :: "app_row \<Rightarrow> cert_view option op" where
  "resolve_component_active_certificate app =
     bindE (query (list_certificate_packages (Some (a_uri app)) None None (Some ''ACTIVATED'') 100)) (\<lambda>packages.
     bindE (first_operational (order_desc (\<lambda>(p, a). (py_str (PTime (pk_created p)), pk_generation p))
              (filter (\<lambda>(p, a). lower (pk_status p) = ''active'') packages))) (\<lambda>found. case found of
       Some cert \<Rightarrow> ret (Some cert)
     | None \<Rightarrow> active_certificate_fallback_for_app (a_id app)))"

definition latest_package_for_app :: "app_row \<Rightarrow> string \<Rightarrow> package_view option op" where
  "latest_package_for_app app profile_name =
     bindE (query (list_certificate_packages (Some (a_uri app)) None (Some profile_name) None 50)) (\<lambda>packages.
       ret (fetch_one packages))"

section \<open>Renewal\<close>

definition policy_threshold :: "pyval \<Rightarrow> int option" where
  \<comment> \<open>a usable \<open>renewal_threshold_days\<close> of the profile's policy\<close>
  "policy_threshold policy = (case policy of
     PDict d \<Rightarrow> (case dget d ''renewal_threshold_days'' of
       PNone \<Rightarrow> None
     | v \<Rightarrow> (case py_int v of Inr n \<Rightarrow> if 0 \<le> n then Some n else None | Inl _ \<Rightarrow> None))
   | _ \<Rightarrow> None)"

definition renewal_threshold_days_for_profile :: "settings \<Rightarrow> pyval \<Rightarrow> int" where
  "renewal_threshold_days_for_profile st policy = (case policy_threshold policy of
     Some n \<Rightarrow> n
   | None \<Rightarrow> if 0 \<le> renewal_threshold_days (s_expiry st) then renewal_threshold_days (s_expiry st) else 14)"

definition renewal_threshold_days_for_app :: "settings \<Rightarrow> app_row \<Rightarrow> int op" where
  "renewal_threshold_days_for_app st app =
     bindE (query (get_component_profile (cm_profile (profile_for_application app)))) (\<lambda>found.
       ret (renewal_threshold_days_for_profile st (case found of None \<Rightarrow> PNone | Some p \<Rightarrow> pf_policy p)))"

end
