(* ===== verification/Checks.thy ===== *)
theory Checks
  imports Vault
begin

text \<open>
  \<open>gds/app/checks.py\<close>, \<open>gds/app/preflight.py\<close> and \<open>gds/app/inventory.py\<close>: the health
  checks, the start-up gate that retries them, and the import of the seeded applications
  with their fallback certificates.
\<close>

section \<open>Health checks\<close>

record check_result =
  hk_ok :: bool
  hk_detail :: string

definition check_postgres :: "ext \<Rightarrow> check_result op" where
  "check_postgres x = tryE (query (\<lambda>d. ret () d))
     (\<lambda>e. ret \<lparr>hk_ok = False, hk_detail = ''postgres check failed: '' @ k_exc_text x e\<rparr>)
     (\<lambda>_. ret \<lparr>hk_ok = True, hk_detail = ''postgres reachable''\<rparr>)"

definition check_vault :: "ext \<Rightarrow> settings \<Rightarrow> check_result op" where
  "check_vault x st = tryE
     (http \<lparr>q_method = ''GET'', q_path = vault_url st (vault_health_path (vset st)), q_token = None, q_body = None\<rparr>)
     (\<lambda>e. ret \<lparr>hk_ok = False, hk_detail = ''vault check failed: '' @ k_exc_text x e\<rparr>)
     (\<lambda>res. if r_status res \<in> {200, 429, 472, 473, 501, 503}
        then ret \<lparr>hk_ok = True, hk_detail = ''vault reachable ('' @ int_str (r_status res) @ '')''\<rparr>
        else ret \<lparr>hk_ok = False, hk_detail = ''vault bad status: '' @ int_str (r_status res)\<rparr>)"

definition check_config_files :: "settings \<Rightarrow> check_result op" where
  "check_config_files st = bindE (getE w_files) (\<lambda>files.
     let missing = map fst (filter (\<lambda>(name, path). files path = None)
           [(''vault_role_id_file'', vault_role_id_file (vset st)),
            (''vault_secret_id_file'', vault_secret_id_file (vset st))])
     in ret (if missing \<noteq> []
       then \<lparr>hk_ok = False, hk_detail = ''missing files: '' @ str_join '', '' missing\<rparr>
       else \<lparr>hk_ok = True, hk_detail = ''approle files present''\<rparr>))"

record health =
  hh_ok :: bool
  hh_postgres :: check_result
  hh_vault :: check_result
  hh_config :: check_result

definition full_health :: "ext \<Rightarrow> settings \<Rightarrow> health op" where
  "full_health x st =
     bindE (check_postgres x) (\<lambda>postgres.
     bindE (check_vault x st) (\<lambda>vault.
     bindE (check_config_files st) (\<lambda>config_files.
       ret \<lparr>hh_ok = (hk_ok postgres \<and> hk_ok vault \<and> hk_ok config_files), hh_postgres = postgres,
         hh_vault = vault, hh_config = config_files\<rparr>)))"

definition check_dict :: "check_result \<Rightarrow> pydict" where
  "check_dict c = [(''ok'', PBool (hk_ok c)), (''detail'', PStr (hk_detail c))]"

definition health_dict :: "health \<Rightarrow> pydict" where
  "health_dict h = [(''ok'', PBool (hh_ok h)), (''components'', PDict
     [(''postgres'', PDict (check_dict (hh_postgres h))), (''vault'', PDict (check_dict (hh_vault h))),
      (''config_files'', PDict (check_dict (hh_config h)))])]"

section \<open>Start-up\<close>

definition preflight_attempt :: "ext \<Rightarrow> settings \<Rightarrow> bool op" where
  "preflight_attempt x st =
     bindE (check_config_files st) (\<lambda>config.
     bindE (check_postgres x) (\<lambda>pg.
     bindE (check_vault x st) (\<lambda>vault.
       ret (hk_ok config \<and> hk_ok pg \<and> hk_ok vault))))"

fun preflight_attempts :: "ext \<Rightarrow> settings \<Rightarrow> nat \<Rightarrow> int op" where
  "preflight_attempts x st 0 = ret 1"
| "preflight_attempts x st (Suc n) =
     bindE (preflight_attempt x st) (\<lambda>ok. if ok then ret 0 else preflight_attempts x st n)"

definition preflight_main :: "ext \<Rightarrow> settings \<Rightarrow> int op" where
  \<comment> \<open>the exit code\<close>
  "preflight_main x st = preflight_attempts x st (nat (startup_retries (s_service st)))"

section \<open>Seeded inventory\<close>

record seeded_app =
  sa_uri :: string
  sa_common_name :: string
  sa_zone :: string
  sa_role :: string
  sa_host :: string
  sa_port :: "int option"
  sa_cert_path :: string

definition SEEDED_APPS :: "seeded_app list" where
  "SEEDED_APPS =
    [\<lparr>sa_uri = ''urn:dataprotect:opcua:ot-server'', sa_common_name = ''PowerGridOPCUA'', sa_zone = ''OT'',
      sa_role = ''server'', sa_host = ''192.168.1.62'', sa_port = Some 4840,
      sa_cert_path = ''ot_server/server.pem''\<rparr>,
     \<lparr>sa_uri = ''urn:dataprotect:opcua:dmz-gateway-client'', sa_common_name = ''OpcUaDmzGatewayClient'',
      sa_zone = ''DMZ'', sa_role = ''southbound-client'', sa_host = ''192.168.10.20'', sa_port = None,
      sa_cert_path = ''dmz_gateway_client/client.pem''\<rparr>,
     \<lparr>sa_uri = ''urn:dataprotect:opcua:dmz-gateway-server'', sa_common_name = ''OpcUaDmzGatewayServer'',
      sa_zone = ''DMZ'', sa_role = ''northbound-server'', sa_host = ''192.168.10.20'', sa_port = Some 4841,
      sa_cert_path = ''dmz_gateway_server/server.pem''\<rparr>,
     \<lparr>sa_uri = ''urn:dataprotect:opcua:fuxa-client'', sa_common_name = ''FuxaClient'', sa_zone = ''OT'',
      sa_role = ''scada-client'', sa_host = ''192.168.1.60'', sa_port = None,
      sa_cert_path = ''fuxa_client/client.pem''\<rparr>]"

definition path_join :: "string \<Rightarrow> string \<Rightarrow> string" where
  \<comment> \<open>\<open>Path(root) / path\<close> for a non-empty root and a relative path\<close>
  "path_join root path = rev (dropWhile (\<lambda>c. c = CHR ''/'') (rev root)) @ ''/'' @ path"

definition import_certificate :: "ext \<Rightarrow> int \<Rightarrow> string \<Rightarrow> unit op" where
  "import_certificate x app_id pem_text =
     catchE (bindE (lift_sum (parse_pem_certificate x pem_text)) (\<lambda>parsed.
         bindE (on_db (insert_certificate app_id (ci_fpr parsed) (Some (ci_serial parsed))
           (Some (ci_subject parsed)) (Some (ci_issuer parsed)) (Some (ci_not_before parsed))
           (Some (ci_not_after parsed)) (ci_pem parsed) ''active'')) (\<lambda>_. ret ())))
       (\<lambda>_. ret ())"

definition seed_app :: "ext \<Rightarrow> settings \<Rightarrow> seeded_app \<Rightarrow> unit op" where
  "seed_app x st app =
     bindE (on_db (upsert_application (sa_uri app) (sa_common_name app) (sa_zone app) (sa_role app)
       (Some (sa_host app)) (sa_port app) ''active'' None None)) (\<lambda>row.
     bindE (getE w_files) (\<lambda>files.
       case files (path_join (fallback_shared_pki_root (s_service st)) (sa_cert_path app)) of
         None \<Rightarrow> ret ()
       | Some pem_text \<Rightarrow> import_certificate x (a_id row) pem_text))"

definition seed_and_import :: "ext \<Rightarrow> settings \<Rightarrow> unit op" where
  "seed_and_import x st = forE SEEDED_APPS (seed_app x st)"

section \<open>Facts\<close>

lemma checks_sound [evolves_rules]:
  "evolves world_sound (check_postgres x)" "evolves world_sound (check_vault x st)"
  "evolves world_sound (check_config_files st)"
  unfolding check_postgres_def check_vault_def check_config_files_def
  by (intro wsound.combinators evolves_rules; simp add: ret_def)+

lemma full_health_sound [evolves_rules]: "evolves world_sound (full_health x st)"
  unfolding full_health_def by (intro wsound.combinators evolves_rules)

lemma seed_and_import_sound [evolves_rules]: "evolves world_sound (seed_and_import x st)"
  unfolding seed_and_import_def seed_app_def import_certificate_def
  by (intro wsound.combinators evolves_rules)

end
