(* ===== verification/Api_Inventory.thy ===== *)
theory Api_Inventory
  imports Api_Core Checks
begin

text \<open>
  The REST endpoints of \<open>gds/app/main.py\<close> for health, telemetry, the public key
  infrastructure, applications, certificates and their revocation. An endpoint that returns
  rows answers with the rows themselves (\<open>answer\<close>); the framework has checked the types of
  a body before the endpoint runs.
\<close>

section \<open>Health\<close>

fun latest_artifacts :: "(string \<times> string) list \<Rightarrow> artifact_row option list op" where
  "latest_artifacts [] = ret []"
| "latest_artifacts ((zone, role) # rest) =
     bindE (query (get_latest_trust_artifact zone role)) (\<lambda>row.
     bindE (latest_artifacts rest) (\<lambda>rows. ret (row # rows)))"

definition cached_artifacts_state :: "string op" where
  \<comment> \<open>each row of \<open>list_trustlist_targets\<close> is a dictionary, which unpacks into its keys: the look-up is
    made for the zone named zone and the role named role, once per target\<close>
  "cached_artifacts_state =
     tryE (bindE (query list_trustlist_targets) (\<lambda>targets. latest_artifacts (map (\<lambda>_. (''zone'', ''role'')) targets)))
       (\<lambda>_. ret ''unavailable'')
       (\<lambda>rows. bindE (mapE (\<lambda>row. case row of None \<Rightarrow> ret None
            | Some r \<Rightarrow> bindE (ttl_remaining_seconds r) (\<lambda>left. ret (Some (0 < left)))) rows) (\<lambda>states.
          ret (if Some True \<in> set states then ''valid''
               else if Some False \<in> set states then ''expired'' else ''unavailable'')))"

definition crl_report :: "pydict \<Rightarrow> pydict" where
  "crl_report bundle =
     [(''root_crl_ok'', PBool (truthy (dget (as_dict (dget_or bundle ''root'' (PDict []))) ''freshness_verified''))),
      (''root_crl_next_update'', dget bundle ''root_crl_next_update''),
      (''root_crl_source'', dget bundle ''root_crl_source''),
      (''intermediate_crl_ok'',
         PBool (truthy (dget (as_dict (dget_or bundle ''intermediate'' (PDict []))) ''freshness_verified''))),
      (''intermediate_crl_next_update'', dget bundle ''intermediate_crl_next_update''),
      (''crl_freshness_verified'', PBool (truthy (dget bundle ''crl_freshness_verified'')))]"

definition crl_unavailable :: "exn \<Rightarrow> pydict" where
  "crl_unavailable e = [(''root_crl_ok'', PBool False), (''intermediate_crl_ok'', PBool False),
     (''detail'', PStr (exc_class e))]"

definition health_of_vault :: "ext \<Rightarrow> settings \<Rightarrow> bool \<Rightarrow> (bool \<times> bool \<times> pydict) op" where
  \<comment> \<open>healthy so far, sealed, and the report on the revocation lists\<close>
  "health_of_vault x st ok =
     (let strict = vault_strict_crl_freshness (vset st) in
      tryE (bindE (get_status x st) (\<lambda>report. bindE (get_crl_bundle x st) (\<lambda>bundle. ret (report, bundle))))
        (\<lambda>e. bindE (getE (\<lambda>w. v_sealed (w_vault w))) (\<lambda>sealed.
           ret (ok \<and> \<not> (strict \<and> \<not> sealed), sealed, crl_unavailable e)))
        (\<lambda>(report, bundle). ret (ok \<and> \<not> (strict \<and> \<not> truthy (dget bundle ''crl_freshness_verified'')),
           vs_sealed report, crl_report bundle)))"

definition get_health :: "ext \<Rightarrow> settings \<Rightarrow> response op" where
  "get_health x st =
     bindE (full_health x st) (\<lambda>report.
     bindE (getE w_started) (\<lambda>started.
     bindE (if started then health_of_vault x st (hh_ok report) else ret (hh_ok report, False, []))
       (\<lambda>(ok, sealed, crl).
     bindE cached_artifacts_state (\<lambda>cached.
       (let healthy = ok \<and> \<not> sealed in
        ret (json_response (if healthy then 200 else 503)
          [(''service'', PStr (service_name (s_service st))), (''version'', PStr (service_version (s_service st))),
           (''status'', PStr (if healthy then ''ok'' else ''degraded'')), (''vault_sealed'', PBool sealed),
           (''cached_artifacts'', PStr cached), (''checks'', dget (health_dict report) ''components''),
           (''crl_status'', PDict crl)]))))))"

definition internal_health :: "settings \<Rightarrow> response op" where
  "internal_health st = ret (json_response 200 [(''status'', PStr ''ok''),
     (''service'', PStr (service_name (s_service st)))])"

section \<open>Telemetry\<close>

record cert_telemetry =
  ct_cert :: cert_view
  ct_days :: "int option"
  ct_state :: string
  ct_operational :: bool

definition certificate_telemetry_record :: "settings \<Rightarrow> cert_view \<Rightarrow> cert_telemetry op" where
  "certificate_telemetry_record st v =
     bindE (days_until (c_not_after (fst v))) (\<lambda>days.
       ret \<lparr>ct_cert = v, ct_days = days, ct_state = expiry_state st days, ct_operational = operational (fst v)\<rparr>)"

definition telemetry_dict :: "cert_telemetry \<Rightarrow> pyval" where
  "telemetry_dict r = (case ct_cert r of (c, a) \<Rightarrow> PDict
     [(''id'', PInt (c_id c)), (''application_id'', PInt (c_app c)), (''application_uri'', PStr (a_uri a)),
      (''common_name'', PStr (a_common_name a)), (''zone'', PStr (a_zone a)), (''role'', PStr (a_role a)),
      (''fingerprint_sha256'', PStr (c_fpr c)), (''serial_number'', opt_str (c_serial c)),
      (''subject'', opt_str (c_subject c)), (''issuer'', opt_str (c_issuer c)),
      (''not_before'', as_iso (c_not_before c)), (''not_after'', as_iso (c_not_after c)),
      (''days_remaining'', opt_int (ct_days r)), (''expiry_state'', PStr (ct_state r)),
      (''operational'', PBool (ct_operational r)), (''status'', PStr (c_status c)),
      (''revoked_at'', as_iso (c_revoked c))])"

fun count_by_expiry_state :: "(string \<times> int) list \<Rightarrow> cert_telemetry list \<Rightarrow> (string \<times> int) list" where
  "count_by_expiry_state counts [] = counts"
| "count_by_expiry_state counts (r # rest) =
     (let state = str_or (ct_state r) ''unknown'' in
      count_by_expiry_state (AList.update state ((case map_of counts state of None \<Rightarrow> 0 | Some n \<Rightarrow> n) + 1) counts) rest)"

definition counts_dict :: "(string \<times> int) list \<Rightarrow> pyval" where
  "counts_dict counts = PDict (map (\<lambda>(s, n). (s, PInt n)) counts)"

definition get_certificate_telemetry :: "settings \<Rightarrow> http_req \<Rightarrow> response op" where
  "get_certificate_telemetry st req =
     unless_refused (authorize_agent_pull st req ''telemetry_read'' None None None)
     (bindE (query list_certificates) (\<lambda>rows.
      bindE (mapE (certificate_telemetry_record st) rows) (\<lambda>certs.
      bindE (correlation_id req) (\<lambda>(cid, _).
      bindE (log_audit ''certificate_telemetry_read'' (agent_id_from_request req) ''certificates:telemetry''
        [(''correlation_id'', PStr cid), (''certificate_count'', PInt (int (length certs)))]) (\<lambda>_.
      bindE generated_at (\<lambda>now.
        (let current = filter ct_operational certs; historical = filter (\<lambda>r. \<not> ct_operational r) certs
         in ret (json_response 200 [(''generated_at'', PStr now),
           (''thresholds'', PDict [(''warning_days'', PInt (cert_expiry_warning_days (s_expiry st))),
              (''critical_days'', PInt (cert_expiry_critical_days (s_expiry st)))]),
           (''counts_by_expiry_state'', counts_dict (count_by_expiry_state [] current)),
           (''historical_counts_by_expiry_state'', counts_dict (count_by_expiry_state [] historical)),
           (''operational_certificate_count'', PInt (int (length current))),
           (''historical_certificate_count'', PInt (int (length certs - length current))),
           (''certificates'', PList (map telemetry_dict certs))]))))))))"

datatype drift_item =
    MissingActiveCertificate app_row
  | ActiveCertificateExpired cert_view "int option"
  | RevokedWithoutTime cert_view

definition drift_dict :: "drift_item \<Rightarrow> pyval" where
  "drift_dict i = PDict (case i of
     MissingActiveCertificate a \<Rightarrow> [(''type'', PStr ''application_missing_active_certificate''),
       (''application_id'', PInt (a_id a)), (''application_uri'', PStr (a_uri a)), (''zone'', PStr (a_zone a)),
       (''role'', PStr (a_role a))]
   | ActiveCertificateExpired (c, a) days \<Rightarrow> [(''type'', PStr ''active_certificate_expired''),
       (''certificate_id'', PInt (c_id c)), (''application_uri'', PStr (a_uri a)),
       (''fingerprint_sha256'', PStr (c_fpr c)), (''days_remaining'', opt_int days)]
   | RevokedWithoutTime (c, a) \<Rightarrow> [(''type'', PStr ''revoked_certificate_missing_revoked_at''),
       (''certificate_id'', PInt (c_id c)), (''application_uri'', PStr (a_uri a)),
       (''fingerprint_sha256'', PStr (c_fpr c))])"

definition missing_certificates :: "app_row list \<Rightarrow> cert_view list \<Rightarrow> drift_item list" where
  "missing_certificates apps certs =
     (let covered = map (c_app \<circ> fst) (filter (\<lambda>(c, a). lower (c_status c) = ''active'') certs)
      in map MissingActiveCertificate (filter (\<lambda>a. lower (a_status a) = ''active'' \<and> a_id a \<notin> set covered) apps))"

definition drift_of_certificate :: "settings \<Rightarrow> cert_view \<Rightarrow> drift_item list op" where
  "drift_of_certificate st v =
     bindE (certificate_telemetry_record st v) (\<lambda>r.
       ret ((if ct_state r = ''expired'' \<and> lower (c_status (fst v)) = ''active''
             then [ActiveCertificateExpired v (ct_days r)] else []) @
            (if lower (c_status (fst v)) = ''revoked'' \<and> c_revoked (fst v) = None then [RevokedWithoutTime v] else [])))"

definition certificate_drift_report :: "settings \<Rightarrow> (drift_item list \<times> string) op" where
  "certificate_drift_report st =
     bindE (query list_applications) (\<lambda>apps.
     bindE (query list_certificates) (\<lambda>certs.
     bindE (mapE (drift_of_certificate st) certs) (\<lambda>found.
     bindE generated_at (\<lambda>now. ret (missing_certificates apps certs @ concat found, now)))))"

definition get_certificate_drift :: "settings \<Rightarrow> http_req \<Rightarrow> response op" where
  "get_certificate_drift st req =
     unless_refused (authorize_agent_pull st req ''telemetry_read'' None None None)
     (bindE (certificate_drift_report st) (\<lambda>(items, now).
      bindE (correlation_id req) (\<lambda>(cid, _).
      bindE (log_audit ''certificate_drift_read'' (agent_id_from_request req) ''certificates:drift''
        [(''correlation_id'', PStr cid), (''drift_count'', PInt (int (length items)))]) (\<lambda>_.
      ret (json_response 200 [(''generated_at'', PStr now),
        (''status'', PStr (if items \<noteq> [] then ''drift_detected'' else ''ok'')),
        (''drift_count'', PInt (int (length items))), (''items'', PList (map drift_dict items))])))))"

definition audit_entry :: "audit_row \<Rightarrow> pyval" where
  "audit_entry e = PDict [(''id'', PInt (ev_id e)), (''event_type'', PStr (ev_type e)), (''actor'', PStr (ev_actor e)),
     (''target'', PStr (ev_target e)), (''created_at'', PTime (ev_created e)), (''details_json'', PDict (ev_details e))]"

definition get_mtls_metrics :: "settings \<Rightarrow> http_req \<Rightarrow> response op" where
  "get_mtls_metrics st req =
     unless_refused (authorize_agent_pull st req ''telemetry_read'' None None None)
     (bindE (query (list_audit_events_by_type [''mtls_client_identity_success'', ''mtls_client_identity_failure''] 500))
       (\<lambda>recent.
      bindE (query (count_audit_events_by_reason ''mtls_client_identity_failure'')) (\<lambda>failures.
      bindE (correlation_id req) (\<lambda>(cid, _).
      bindE (log_audit ''mtls_metrics_read'' (agent_id_from_request req) ''mtls:metrics''
        [(''correlation_id'', PStr cid), (''recent_count'', PInt (int (length recent)))]) (\<lambda>_.
      bindE generated_at (\<lambda>now.
        (let count = (\<lambda>ty. PInt (int (length (filter (\<lambda>e. ev_type e = ty) recent)))) in
         ret (json_response 200 [(''generated_at'', PStr now), (''window'', PDict [(''recent_limit'', PInt 500)]),
           (''success_count'', count ''mtls_client_identity_success''),
           (''failure_count'', count ''mtls_client_identity_failure''),
           (''failed_cert_auth_counters'', counts_dict failures),
           (''recent'', PList (map audit_entry (take 50 recent)))]))))))))"

section \<open>Public key infrastructure\<close>

definition get_pki_ca_chain :: "settings \<Rightarrow> response op" where
  "get_pki_ca_chain st =
     unless_refused (bindE (getE w_started) (\<lambda>started.
         ret (if started then None else Some (error_response 503 ''vault client not initialized''))))
     (tryE (get_ca_chain st)
       (\<lambda>e. ret (if e = VaultSealedError then vault_sealed_response
          else api_error 503 ''ca-chain retrieval failed'' ''ca_chain_unavailable''))
       (\<lambda>chain. ret (json_response 200 chain)))"

definition next_update_of :: "ext \<Rightarrow> pyval \<Rightarrow> int option" where
  \<comment> \<open>the ISO format first, then the mail format\<close>
  "next_update_of x v = (case k_parse_iso x (replace_all ''Z'' ''+00:00'' (py_str v)) of
     Some t \<Rightarrow> Some t | None \<Rightarrow> k_parse_date x (py_str v))"

definition crl_payload_valid :: "ext \<Rightarrow> pydict option \<Rightarrow> bool op" where
  "crl_payload_valid x payload = (case payload of
     None \<Rightarrow> ret False
   | Some d \<Rightarrow> if \<not> truthy (dget d ''next_update'') then ret False
       else (case next_update_of x (dget d ''next_update'') of
         None \<Rightarrow> ret False
       | Some t \<Rightarrow> bindE now_us (\<lambda>now. ret (now < t))))"

definition set_last_crl :: "pydict \<Rightarrow> unit op" where
  "set_last_crl payload = updE (\<lambda>w. w\<lparr>w_last_crl := Some payload\<rparr>)"

definition get_pki_crl :: "ext \<Rightarrow> settings \<Rightarrow> response op" where
  "get_pki_crl x st =
     unless_refused (bindE (getE w_started) (\<lambda>started.
         ret (if started then None else Some (error_response 503 ''vault client not initialized''))))
     (catchE
       (bindE (get_intermediate_crl x st) (\<lambda>payload.
        bindE (crl_payload_valid x (Some payload)) (\<lambda>ok.
        bindE (if ok then set_last_crl payload else ret ()) (\<lambda>_. ret (json_response 200 payload)))))
       (\<lambda>e. if e = VaultSealedError
          then bindE (getE w_last_crl) (\<lambda>last.
               bindE (crl_payload_valid x last) (\<lambda>ok.
                 ret (case last of
                   Some payload \<Rightarrow> if ok then \<lparr>rs_status = 200, rs_body = payload,
                       rs_headers = [(''X-GDS-Cache'', ''true''), (''X-GDS-Cache-Reason'', ''vault_sealed'')]\<rparr>
                     else vault_sealed_response
                 | None \<Rightarrow> vault_sealed_response)))
          else ret (api_error 503 ''crl retrieval failed'' ''crl_unavailable'')))"

definition without_crl :: "pydict \<Rightarrow> string \<Rightarrow> pyval" where
  "without_crl bundle name = PDict (filter (\<lambda>(k, v). k \<noteq> ''crl_base64'') (as_dict (dget bundle name)))"

definition get_pki_crls :: "ext \<Rightarrow> settings \<Rightarrow> response op" where
  "get_pki_crls x st =
     unless_refused (bindE (getE w_started) (\<lambda>started.
         ret (if started then None else Some (error_response 503 ''vault client not initialized''))))
     (tryE (get_crl_bundle x st)
       (\<lambda>e. ret (if e = VaultSealedError then vault_sealed_response
          else api_error 503 ''crl bundle retrieval failed'' ''crl_bundle_unavailable''))
       (\<lambda>bundle. ret (json_response 200 [(''root'', without_crl bundle ''root''),
          (''intermediate'', without_crl bundle ''intermediate''),
          (''crl_freshness_verified'', dget bundle ''crl_freshness_verified'')])))"

definition vault_status_dict :: "vault_status \<Rightarrow> pydict" where
  "vault_status_dict s = [(''vault_reachable'', PBool (vs_reachable s)), (''vault_initialized'', PBool (vs_initialized s)),
     (''vault_sealed'', PBool (vs_sealed s)), (''vault_mtls_enabled'', PBool (vs_mtls s)),
     (''token_ok'', PBool (vs_token_ok s)), (''pki_root_ok'', PBool (vs_root_ok s)),
     (''pki_int_ok'', PBool (vs_int_ok s)), (''crl_status'', PStr (vs_crl s)),
     (''checked_at'', PStr (vs_checked_at s))]"

definition get_vault_status :: "ext \<Rightarrow> settings \<Rightarrow> response op" where
  "get_vault_status x st =
     bindE (getE w_started) (\<lambda>started.
       if \<not> started
       then bindE generated_at (\<lambda>now. ret (json_response 503 (vault_status_dict
              \<lparr>vs_reachable = False, vs_initialized = False, vs_sealed = True, vs_mtls = False, vs_token_ok = False,
                vs_root_ok = False, vs_int_ok = False, vs_crl = ''unavailable'', vs_checked_at = now\<rparr>)))
       else bindE (get_status x st) (\<lambda>s.
         (let ok = vs_reachable s \<and> vs_initialized s \<and> \<not> vs_sealed s \<and> vs_token_ok s
            \<and> (vault_strict_crl_freshness (vset st) \<longrightarrow> vs_int_ok s \<and> vs_root_ok s)
          in ret (json_response (if ok then 200 else 503) (vault_status_dict s)))))"

definition get_trustlist :: "ext \<Rightarrow> settings \<Rightarrow> string \<Rightarrow> string \<Rightarrow> response op" where
  "get_trustlist x st zone role =
     unless_refused (validate_trust_artifact_request zone role)
     (bindE (query (get_latest_trust_list_with_certs zone role)) (\<lambda>(found, certs). case found of
        None \<Rightarrow> ret (error_response 404 ''trust list not found'')
      | Some l \<Rightarrow>
        bindE (get_ca_chain st) (\<lambda>ca_chain.
        bindE (get_intermediate_crl x st) (\<lambda>crl.
        bindE (log_audit ''trustlist_read'' ''system'' (''trustlist:'' @ cache_key zone role)
          [(''version'', PInt (tl_version l))]) (\<lambda>_.
        ret (json_response 200 [(''zone'', PStr zone), (''role'', PStr role), (''version'', PInt (tl_version l)),
          (''generated_at'', opt_time (tl_published l)), (''ca_chain_pem'', dget ca_chain ''ca_chain_pem''),
          (''crl_base64'', dget crl ''crl_base64''), (''certificates'', PList (map member_dict certs))]))))))"

definition get_signing_trust_anchor :: "settings \<Rightarrow> signer \<Rightarrow> http_req \<Rightarrow> response op" where
  "get_signing_trust_anchor st g req =
     unless_refused (authorize_agent_pull st req ''trust_anchor'' None None None)
     (unless_refused (bindE (getE w_started) (\<lambda>started.
         ret (if started then None else Some (error_response 503 ''trust artifact signer not initialized''))))
       (ret (json_response 200 (trust_anchor_payload g))))"

section \<open>Applications and the audit log\<close>

record register_body =
  rb_uri :: string
  rb_common_name :: string
  rb_zone :: string
  rb_role :: string
  rb_runtime :: "string option"
  rb_component :: "string option"
  rb_host :: "string option"
  rb_port :: "int option"
  rb_status :: string

definition register_application :: "settings \<Rightarrow> http_req \<Rightarrow> register_body \<Rightarrow> app_row answer op" where
  "register_application st req b =
     answer_unless (deny_agent_on_admin_endpoint st req ''admin:applications_register'')
     (if rb_role b \<notin> set ALLOWED_ROLES then ret (Inl (error_response 400 ''invalid role''))
      else bindE (on_db (upsert_application (rb_uri b) (rb_common_name b) (rb_zone b) (rb_role b) (rb_host b)
               (rb_port b) (rb_status b) (rb_runtime b) (rb_component b))) (\<lambda>row.
           bindE (log_audit ''application_register'' ''system'' (''application:'' @ int_str (a_id row))
             [(''application_uri'', PStr (rb_uri b))]) (\<lambda>_. ret (Inr row))))"

definition get_applications :: "app_row list op" where
  "get_applications = query list_applications"

definition get_application_by_id :: "int \<Rightarrow> app_row answer op" where
  "get_application_by_id app_id = bindE (query (get_application app_id)) (\<lambda>found. ret (case found of
     None \<Rightarrow> Inl (error_response 404 ''application not found'') | Some a \<Rightarrow> Inr a))"

definition post_application_heartbeat :: "settings \<Rightarrow> http_req \<Rightarrow> int \<Rightarrow> app_row answer op" where
  "post_application_heartbeat st req app_id =
     answer_unless (deny_agent_on_admin_endpoint st req (''admin:applications_heartbeat:'' @ int_str app_id))
     (bindE (on_db (heartbeat_application app_id)) (\<lambda>found. case found of
        None \<Rightarrow> ret (Inl (error_response 404 ''application not found''))
      | Some row \<Rightarrow> bindE (log_audit ''application_heartbeat'' ''system'' (''application:'' @ int_str app_id) [])
          (\<lambda>_. ret (Inr row))))"

definition get_audit_events :: "settings \<Rightarrow> http_req \<Rightarrow> audit_row list answer op" where
  "get_audit_events st req =
     answer_unless (deny_agent_on_admin_endpoint st req ''admin:audit_events'')
     (bindE (query (list_audit_events 200)) (\<lambda>rows. ret (Inr rows)))"

end
