(* ===== verification/Api_Revocation.thy ===== *)
theory Api_Revocation
  imports Api_Inventory
begin

text \<open>
  The certificate endpoints of \<open>gds/app/main.py\<close>: import, look-up and revocation. A
  revocation goes through Vault, the certificate, its packages, the trust list of its
  target, the signed artifact and the revocation list, in this order; what has been done
  when a later step fails stays done.
\<close>

section \<open>Import and look-up\<close>

record import_body =
  ib_uri :: string
  ib_zone :: string
  ib_role :: string
  ib_pem :: string

definition already_exists :: "string \<Rightarrow> cert_view option \<Rightarrow> response" where
  "already_exists fpr existing = json_response 409 ((''error'', PStr ''certificate already exists'') #
     (case existing of None \<Rightarrow> []
      | Some (c, a) \<Rightarrow> [(''fingerprint_sha256'', PStr fpr), (''certificate_id'', PInt (c_id c))]))"

definition store_imported :: "import_body \<Rightarrow> app_row \<Rightarrow> cert_info \<Rightarrow> cert_row answer op" where
  "store_imported b app parsed =
     bindE (query (get_certificate_by_fingerprint (ci_fpr parsed))) (\<lambda>existing.
       if existing \<noteq> None then ret (Inl (already_exists (ci_fpr parsed) existing))
       else bindE (on_db (insert_certificate (a_id app) (ci_fpr parsed) (Some (ci_serial parsed))
              (Some (ci_subject parsed)) (Some (ci_issuer parsed)) (Some (ci_not_before parsed))
              (Some (ci_not_after parsed)) (ci_pem parsed) ''active'')) (\<lambda>inserted. case inserted of
            None \<Rightarrow> ret (Inl (already_exists (ci_fpr parsed) None))
          | Some row \<Rightarrow> bindE (log_audit ''certificate_import'' ''system'' (''certificate:'' @ int_str (c_id row))
              [(''application_uri'', PStr (ib_uri b)), (''fingerprint_sha256'', PStr (ci_fpr parsed))])
              (\<lambda>_. ret (Inr row))))"

definition post_import_certificate :: "ext \<Rightarrow> settings \<Rightarrow> http_req \<Rightarrow> import_body \<Rightarrow> cert_row answer op" where
  "post_import_certificate x st req b =
     answer_unless (deny_agent_on_admin_endpoint st req ''admin:certificates_import'')
     (if ib_role b \<notin> set ALLOWED_ROLES then ret (Inl (error_response 400 ''invalid role''))
      else bindE (query (get_application_by_uri (ib_uri b))) (\<lambda>found. case found of
        None \<Rightarrow> ret (Inl (error_response 404 ''application not found''))
      | Some app \<Rightarrow>
          if a_zone app \<noteq> ib_zone b \<or> a_role app \<noteq> ib_role b
          then ret (Inl (error_response 400 ''application zone/role mismatch''))
          else (case parse_pem_certificate x (ib_pem b) of
            Inl e \<Rightarrow> ret (Inl (error_response 400 (''invalid pem: '' @ k_exc_text x e)))
          | Inr parsed \<Rightarrow> store_imported b app parsed)))"

definition get_certificates :: "cert_view list op" where
  "get_certificates = query list_certificates"

definition get_certificate_by_id :: "int \<Rightarrow> cert_view answer op" where
  "get_certificate_by_id cert_id = bindE (query (get_certificate cert_id)) (\<lambda>found. ret (case found of
     None \<Rightarrow> Inl (error_response 404 ''certificate not found'') | Some v \<Rightarrow> Inr v))"

definition post_issue_certificate :: "ext \<Rightarrow> settings \<Rightarrow> response op" where
  "post_issue_certificate x st = unless_refused (require_vault_unsealed x st)
     (ret (json_response 501 [(''status'', PStr ''not_implemented''), (''phase'', PStr ''phase1'')]))"

section \<open>Revocation\<close>

record revoke_body =
  vb_certificate :: "int option"
  vb_package :: "string option"
  vb_fingerprint :: "string option"
  vb_operator :: "string option"
  vb_reason :: string

definition given_text :: "string option \<Rightarrow> bool" where
  \<comment> \<open>\<open>bool(value)\<close>\<close>
  "given_text v \<longleftrightarrow> (case v of None \<Rightarrow> False | Some s \<Rightarrow> s \<noteq> [])"

definition given_id :: "int option \<Rightarrow> bool" where
  "given_id v \<longleftrightarrow> (case v of None \<Rightarrow> False | Some i \<Rightarrow> i \<noteq> 0)"

definition selectors_given :: "revoke_body \<Rightarrow> nat" where
  "selectors_given b = length (filter id [given_id (vb_certificate b), given_text (vb_package b),
     given_text (vb_fingerprint b)])"

definition resolve_revoke_certificate :: "revoke_body \<Rightarrow> (cert_view option \<times> package_view option) op" where
  "resolve_revoke_certificate b =
     (if selectors_given b \<noteq> 1 then raise (ValueError ''exactly_one_certificate_selector_required'')
      else if given_text (vb_package b)
      then bindE (query (get_certificate_package (the (vb_package b)))) (\<lambda>found. case found of
          None \<Rightarrow> ret (None, None)
        | Some (p, a) \<Rightarrow> (case pk_cert p of
            None \<Rightarrow> ret (None, Some (p, a))
          | Some i \<Rightarrow> if i = 0 then ret (None, Some (p, a))
              else bindE (query (get_certificate i)) (\<lambda>cert. ret (cert, Some (p, a)))))
      else if given_id (vb_certificate b)
      then bindE (query (get_certificate (the (vb_certificate b)))) (\<lambda>cert. ret (cert, None))
      else bindE (query (get_certificate_by_fingerprint (lower (strip (the (vb_fingerprint b))))))
             (\<lambda>cert. ret (cert, None)))"

definition crl_sha256_from_vault_payload :: "ext \<Rightarrow> pydict \<Rightarrow> exn + string" where
  "crl_sha256_from_vault_payload x payload =
     (let b64 = get_str payload ''crl_base64'' in
      if b64 = [] then Inr []
      else (case k_b64decode x b64 of None \<Rightarrow> Inl (ValueError ''base64'') | Some der \<Rightarrow> Inr (k_sha256 x der)))"

definition revoked_packages :: "package_view list \<Rightarrow> package_view option \<Rightarrow> string list" where
  \<comment> \<open>the packages of the certificate, the selected one first when it is not among them\<close>
  "revoked_packages packages selected =
     (let ids = map (pk_package \<circ> fst) packages in
      case selected of None \<Rightarrow> ids
      | Some (p, a) \<Rightarrow> if pk_package p \<in> set ids then ids else pk_package p # ids)"

definition revocation_details :: "cert_row \<Rightarrow> string list \<Rightarrow> revoke_body \<Rightarrow> string \<Rightarrow> pydict" where
  "revocation_details c ids b cid = [(''certificate_id'', PInt (c_id c)), (''fingerprint_sha256'', PStr (c_fpr c)),
     (''package_ids'', strs ids), (''reason'', PStr (vb_reason b)), (''correlation_id'', PStr cid)]"

definition package_revocation_details :: "cert_row \<Rightarrow> revoke_body \<Rightarrow> string \<Rightarrow> pydict" where
  "package_revocation_details c b cid = [(''event_type'', PStr ''package_revoked''),
     (''source_interface'', PStr ''rest_revoke''), (''certificate_id'', PInt (c_id c)),
     (''fingerprint_sha256'', PStr (c_fpr c)), (''reason'', PStr (vb_reason b)), (''correlation_id'', PStr cid)]"

definition revoke_in_vault :: "settings \<Rightarrow> cert_row \<Rightarrow> string \<Rightarrow> (bool \<times> pyval) op" where
  \<comment> \<open>already revoked, and the time that goes into the audit event\<close>
  "revoke_in_vault st c serial =
     (if lower (strip (c_status c)) = ''revoked'' then ret (True, opt_time (c_revoked c))
      else bindE (revoke_certificate st serial) (\<lambda>result. ret (False, dget result ''revocation_time'')))"

definition revoke_package :: "cert_row \<Rightarrow> revoke_body \<Rightarrow> string \<Rightarrow> string \<Rightarrow> string \<Rightarrow> bool op" where
  "revoke_package c b actor cid package_id =
     bindE (on_db (update_certificate_package_lifecycle package_id ''REVOKED'' actor (package_revocation_details c b cid)))
       (\<lambda>row. ret (row \<noteq> None))"

record revocation =
  rv_cert :: cert_row
  rv_already :: bool
  rv_time :: pyval
  rv_packages :: bool
  rv_list :: list_row
  rv_crl_sha :: string

definition carry_out_revocation ::
  "ext \<Rightarrow> signer \<Rightarrow> settings \<Rightarrow> cert_view \<Rightarrow> string list \<Rightarrow> revoke_body \<Rightarrow> string \<Rightarrow> string \<Rightarrow> string \<Rightarrow> revocation op" where
  "carry_out_revocation x g st v ids b actor cid serial = (case v of (c, a) \<Rightarrow>
     bindE (revoke_in_vault st c serial) (\<lambda>(already, time).
     bindE (on_db (mark_certificate_revoked (c_id c))) (\<lambda>revoked.
     bindE (mapE (revoke_package c b actor cid) ids) (\<lambda>done_packages.
     bindE (on_db (build_trust_list (a_zone a) (a_role a))) (\<lambda>l.
     bindE (get_or_regenerate_signed_artifact x g st (a_zone a) (a_role a) True ''api'') (\<lambda>_.
     bindE (get_intermediate_crl x st) (\<lambda>crl.
     bindE (lift_sum (crl_sha256_from_vault_payload x crl)) (\<lambda>sha.
       ret \<lparr>rv_cert = (case revoked of None \<Rightarrow> c | Some r \<Rightarrow> r), rv_already = already, rv_time = time,
         rv_packages = (True \<in> set done_packages), rv_list = l, rv_crl_sha = sha\<rparr>))))))))"

definition revocation_failed :: "cert_row \<Rightarrow> string \<Rightarrow> string \<Rightarrow> exn \<Rightarrow> response op" where
  "revocation_failed c actor cid e =
     (if e = VaultSealedError then ret vault_sealed_response
      else bindE (log_audit ''certificate_revocation_failed'' actor (''certificate:'' @ int_str (c_id c))
             [(''certificate_id'', PInt (c_id c)), (''fingerprint_sha256'', PStr (c_fpr c)),
              (''error_code'', PStr ''revocation_failed''), (''correlation_id'', PStr cid)]) (\<lambda>_.
           ret (api_error 500 ''certificate revocation failed'' ''revocation_failed'')))"

definition revocation_response :: "cert_view \<Rightarrow> string list \<Rightarrow> revocation \<Rightarrow> response" where
  "revocation_response v ids r = (case v of (c, a) \<Rightarrow> json_response 200
     [(''certificate_id'', PInt (c_id c)), (''fingerprint_sha256'', PStr (c_fpr (rv_cert r))),
      (''status'', PStr (c_status (rv_cert r))), (''revoked_at'', opt_time (c_revoked (rv_cert r))),
      (''package_ids'', strs ids),
      (''package_lifecycle_state'', if rv_packages r then PStr ''REVOKED'' else PNone),
      (''already_revoked'', PBool (rv_already r)), (''trustlist_zone'', PStr (a_zone a)),
      (''trustlist_role'', PStr (a_role a)), (''trustlist_version'', PInt (tl_version (rv_list r))),
      (''crl_refreshed'', PBool True), (''crl_sha256'', PStr (rv_crl_sha r)),
      (''runtime_mutation_performed'', PBool False), (''dry_run_runtime_propagation_required'', PBool True)])"

definition refreshed_details :: "cert_view \<Rightarrow> string list \<Rightarrow> revoke_body \<Rightarrow> string \<Rightarrow> revocation \<Rightarrow> pydict" where
  "refreshed_details v ids b cid r = (case v of (c, a) \<Rightarrow>
     [(''certificate_id'', PInt (c_id c)), (''fingerprint_sha256'', PStr (c_fpr c)), (''package_ids'', strs ids),
      (''reason'', PStr (vb_reason b)), (''already_revoked'', PBool (rv_already r)),
      (''vault_revocation_time'', rv_time r), (''trustlist_zone'', PStr (a_zone a)),
      (''trustlist_role'', PStr (a_role a)), (''trustlist_version'', PInt (tl_version (rv_list r))),
      (''crl_sha256'', PStr (rv_crl_sha r)), (''correlation_id'', PStr cid)])"

definition announce_revocation ::
  "cert_view \<Rightarrow> string list \<Rightarrow> revoke_body \<Rightarrow> string \<Rightarrow> string \<Rightarrow> revocation \<Rightarrow> response op" where
  "announce_revocation v ids b actor cid r =
     (let target = ''certificate:'' @ int_str (c_id (fst v)) in
      bindE (log_audit ''certificate_revocation_crl_refreshed'' actor target (refreshed_details v ids b cid r)) (\<lambda>_.
      bindE (log_audit ''certificate_revoked'' actor target (revocation_details (fst v) ids b cid)) (\<lambda>_.
        ret (revocation_response v ids r))))"

definition revoke_found ::
  "ext \<Rightarrow> signer \<Rightarrow> settings \<Rightarrow> cert_view \<Rightarrow> package_view option \<Rightarrow> revoke_body \<Rightarrow> string \<Rightarrow> string \<Rightarrow> response op" where
  \<comment> \<open>the endpoint from the certificate found on\<close>
  "revoke_found x g st v selected b actor cid = (case v of (c, a) \<Rightarrow>
     (let serial = strip (case c_serial c of None \<Rightarrow> [] | Some s \<Rightarrow> s) in
      if serial = [] then ret (api_error 400 ''certificate serial missing'' ''certificate_serial_missing'')
      else bindE (query (list_certificate_packages_for_certificate (c_id c))) (\<lambda>packages.
        (let ids = revoked_packages packages selected in
         bindE (log_audit ''certificate_revocation_requested'' actor (''certificate:'' @ int_str (c_id c))
           (revocation_details c ids b cid)) (\<lambda>_.
         tryE (carry_out_revocation x g st v ids b actor cid serial) (revocation_failed c actor cid)
           (announce_revocation v ids b actor cid))))))"

definition post_revoke_certificate ::
  "ext \<Rightarrow> signer \<Rightarrow> settings \<Rightarrow> http_req \<Rightarrow> revoke_body \<Rightarrow> response op" where
  "post_revoke_certificate x g st req b =
     agent_endpoint x st req ''package_update'' None
     (unless_refused (require_vault_unsealed x st)
     (bindE (correlation_id req) (\<lambda>(cid, _).
      (let actor = (if given_text (vb_operator b) then the (vb_operator b) else agent_id_from_request req) in
       bindE (tryE (resolve_revoke_certificate b)
           (\<lambda>e. case e of ValueError m \<Rightarrow> ret (Inl (api_error 400 m m)) | _ \<Rightarrow> raise e)
           (\<lambda>found. ret (Inr found))) (\<lambda>found. case found of
         Inl r \<Rightarrow> ret r
       | Inr (None, _) \<Rightarrow> ret (api_error 404 ''certificate not found'' ''certificate_not_found'')
       | Inr (Some v, selected) \<Rightarrow> revoke_found x g st v selected b actor cid)))))"

end
