(* ===== verification/Api_Components.thy ===== *)
theory Api_Components
  imports Api_Revocation
begin

text \<open>
  The component endpoints of \<open>gds/app/main.py\<close>: discovery, trust material and trust version,
  the lifecycle advice a component polls, its status reports and events, enrolment and
  renewal, and the packages.
\<close>

section \<open>Trust material\<close>

definition signature_block :: "string \<Rightarrow> string \<Rightarrow> artifact_row \<Rightarrow> pydict \<Rightarrow> pydict" where
  "signature_block zone role row artifact =
     artifact_summary zone role row @
     [(''artifact_sha256'', PStr (ta_sha256 row)), (''signature_base64'', PStr (ta_signature row))] @ artifact_times row @
     [(''signer'', PDict [(''key_id'', PStr (ta_key_id row)), (''algorithm'', signer_algorithm_of artifact),
        (''fingerprint_sha256'', PStr (ta_fingerprint row))])]"

definition trust_material_block :: "string \<Rightarrow> string \<Rightarrow> artifact_row \<Rightarrow> pydict \<Rightarrow> pydict" where
  "trust_material_block zone role row artifact =
     [(''zone'', PStr zone), (''role'', PStr role), (''trustlist_version'', PInt (ta_version row)),
      (''artifact_revision'', PInt (ta_revision row)), (''artifact_sha256'', PStr (ta_sha256 row)),
      (''artifact'', PDict artifact), (''artifact_signature'', PDict (signature_block zone role row artifact)),
      (''ca_chain_pem'', dget artifact ''ca_chain_pem''), (''crl_base64'', dget artifact ''crl_base64''),
      (''crl_bundle'', dget_or artifact ''crl_bundle'' (PDict [])),
      (''crl_metadata'', dget_or artifact ''crl_metadata'' (PDict [])),
      (''certificates'', dget_or artifact ''certificates'' (PList []))]"

definition usable_artifact :: "(list_row \<times> artifact_row \<times> pydict) option \<Rightarrow> bool" where
  "usable_artifact found \<longleftrightarrow> (case found of None \<Rightarrow> False | Some (l, row, artifact) \<Rightarrow> artifact \<noteq> [])"

definition artifact_for_component ::
  "ext \<Rightarrow> signer \<Rightarrow> settings \<Rightarrow> string \<Rightarrow> string \<Rightarrow> (list_row \<times> artifact_row \<times> pydict) option op" where
  \<comment> \<open>a second attempt is forced on a freshly built list\<close>
  "artifact_for_component x g st zone role =
     bindE (get_or_regenerate_signed_artifact x g st zone role False ''component_distribution'') (\<lambda>found.
       if usable_artifact found then ret found
       else bindE (on_db (build_trust_list zone role)) (\<lambda>_.
            get_or_regenerate_signed_artifact x g st zone role True ''component_distribution''))"

definition material_payload ::
  "app_row \<Rightarrow> component_meta \<Rightarrow> string \<Rightarrow> pydict \<Rightarrow> cert_view option \<Rightarrow> package_view option \<Rightarrow> artifact_row \<Rightarrow>
   pydict \<Rightarrow> pydict" where
  "material_payload app m now cert_group active package row artifact =
     [(''schema'', PStr ''labshock_gds_component_trust_material_v1''), (''generated_at'', PStr now),
      (''application_uri'', PStr (a_uri app)), (''runtime_instance_id'', PStr (app_runtime app)),
      (''component'', PDict (component_meta_dict m)), (''certificate_group'', PDict cert_group),
      (''active_certificate'', PDict (safe_certificate active)), (''latest_package'', PDict (api_package package)),
      (''trust_material'', PDict (trust_material_block (a_zone app) (a_role app) row artifact)),
      (''private_key_included'', PBool False)]"

definition material_of_artifact :: "http_req \<Rightarrow> app_row \<Rightarrow> artifact_row \<Rightarrow> pydict \<Rightarrow> pydict op" where
  "material_of_artifact req app row artifact =
     (let m = profile_for_application app in
      bindE (resolve_component_active_certificate app) (\<lambda>active.
      bindE (latest_package_for_app app (cm_profile m)) (\<lambda>package.
      bindE generated_at (\<lambda>now.
      bindE (certificate_group_for_profile (cm_profile m) app) (\<lambda>group.
      bindE (log_audit ''component_trust_material_read'' (agent_id_from_request req) (''component:'' @ a_uri app)
        [(''zone'', PStr (a_zone app)), (''role'', PStr (a_role app)),
         (''artifact_revision'', PInt (ta_revision row)), (''private_key_included'', PBool False)]) (\<lambda>_.
      ret (material_payload app m now group active package row artifact)))))))"

definition trust_material_for_application ::
  "ext \<Rightarrow> signer \<Rightarrow> settings \<Rightarrow> http_req \<Rightarrow> app_row \<Rightarrow> pydict answer op" where
  "trust_material_for_application x g st req app =
     (let missing = api_error 404 ''trust material not found'' ''trust_material_not_found'' in
     answer_unless require_started
     (answer_unless (authorize_agent_pull st req ''artifact_read'' (Some (a_zone app)) (Some (a_role app)) (Some (a_uri app)))
     (answer_unless (validate_trust_artifact_request (a_zone app) (a_role app))
     (bindE (artifact_for_component x g st (a_zone app) (a_role app)) (\<lambda>found. case found of
        None \<Rightarrow> ret (Inl missing)
      | Some (l, row, artifact) \<Rightarrow>
        if artifact = [] then ret (Inl missing)
        else bindE (material_of_artifact req app row artifact) (\<lambda>payload. ret (Inr payload)))))))"

definition trust_version_unavailable :: "ext \<Rightarrow> exn \<Rightarrow> response" where
  "trust_version_unavailable x e = json_response 503 [(''error'', PStr ''trust version unavailable''),
     (''error_code'', PStr ''trust_version_unavailable''), (''details'', PDict [(''reason'', PStr (k_exc_text x e))])]"

definition version_artifact ::
  "ext \<Rightarrow> signer \<Rightarrow> settings \<Rightarrow> string \<Rightarrow> string \<Rightarrow> string \<Rightarrow> (artifact_row \<times> pydict) option answer op" where
  \<comment> \<open>the stored artifact, or a first one\<close>
  "version_artifact x g st zone role source =
     bindE (query (get_latest_trust_artifact zone role)) (\<lambda>stored. case stored of
       Some row \<Rightarrow> ret (Inr (Some (row, ta_json row)))
     | None \<Rightarrow> answer_unless require_started
         (tryE (bindE (on_db (build_trust_list zone role)) (\<lambda>_.
                get_or_regenerate_signed_artifact x g st zone role True source))
            (\<lambda>e. ret (Inl (trust_version_unavailable x e)))
            (\<lambda>found. ret (Inr (map_option snd found)))))"

definition current_component_trust_version ::
  "ext \<Rightarrow> signer \<Rightarrow> settings \<Rightarrow> app_row \<Rightarrow> string \<Rightarrow> pydict answer op" where
  "current_component_trust_version x g st app source =
     (let zone = a_zone app; role = a_role app;
          missing = api_error 404 ''trust version not found'' ''trust_version_not_found'' in
     answer_unless (validate_trust_artifact_request zone role)
     (bindE (version_artifact x g st zone role source) (\<lambda>found. ret (case found of
        Inl r \<Rightarrow> Inl r
      | Inr None \<Rightarrow> Inl missing
      | Inr (Some (row, artifact)) \<Rightarrow>
         if artifact = [] then Inl missing
         else (let metadata = dget_or artifact ''crl_metadata'' (PDict []) in
           Inr [(''application_uri'', PStr (a_uri app)), (''zone'', PStr zone), (''role'', PStr role),
             (''trust_artifact_version'', PInt (ta_version row)), (''trust_artifact_revision'', PInt (ta_revision row)),
             (''trust_artifact_sha256'', PStr (ta_sha256 row)), (''generated_at'', as_iso (Some (ta_generated row))),
             (''expires_at'', as_iso (Some (ta_expires row))),
             (''crl_freshness_verified'', PBool (truthy (dget (as_dict metadata) ''crl_freshness_verified''))),
             (''crl_metadata'', metadata)])))))"

section \<open>Lifecycle advice\<close>

definition status_dict :: "status_row \<Rightarrow> pydict" where
  "status_dict r = [(''application_uri'', PStr (cs_uri r))] @ cs_columns r @
     [(''crl_freshness_verified'', PBool (cs_crl_fresh r)), (''private_key_exported'', PBool (cs_key_exported r)),
      (''private_key_touched'', PBool (cs_key_touched r)), (''runtime_write_enabled'', PBool (cs_runtime_write r)),
      (''status_json'', PDict (cs_json r)), (''reported_at'', cs_reported r), (''updated_at'', PTime (cs_updated r))]"

definition reported_hash :: "status_row option \<Rightarrow> string" where
  \<comment> \<open>the digest of the artifact the component says it has\<close>
  "reported_hash status = (case status of None \<Rightarrow> []
     | Some r \<Rightarrow> get_or_empty (cs_columns r) ''trust_artifact_sha256'')"

definition renewal_required :: "int option \<Rightarrow> int \<Rightarrow> bool" where
  "renewal_required days threshold \<longleftrightarrow> (case days of None \<Rightarrow> False | Some d \<Rightarrow> d \<le> threshold)"

definition trust_update_available :: "string \<Rightarrow> string \<Rightarrow> bool" where
  "trust_update_available local current \<longleftrightarrow> local = [] \<or> local \<noteq> current"

definition lifecycle_advice ::
  "app_row \<Rightarrow> cert_view option \<Rightarrow> int option \<Rightarrow> int \<Rightarrow> pydict \<Rightarrow> status_row option \<Rightarrow> string \<Rightarrow> pydict" where
  "lifecycle_advice app active days threshold version status now =
     (let local = reported_hash status; current = get_or_empty version ''trust_artifact_sha256'' in
     [(''schema'', PStr ''labshock_gds_component_lifecycle_v1''), (''generated_at'', PStr now), (''registered'', PBool True),
      (''application_uri'', PStr (a_uri app)), (''runtime_instance_id'', PStr (app_runtime app)),
      (''current_certificate_fingerprint_sha256'', case active of None \<Rightarrow> PNone | Some (c, a) \<Rightarrow> PStr (c_fpr c)),
      (''certificate_not_after'', case active of None \<Rightarrow> PNone | Some (c, a) \<Rightarrow> as_iso (c_not_after c)),
      (''days_until_expiry'', opt_int days), (''renewal_required'', PBool (renewal_required days threshold)),
      (''renewal_threshold_days'', PInt threshold),
      (''trust_artifact_version'', dget version ''trust_artifact_version''),
      (''trust_artifact_revision'', dget version ''trust_artifact_revision''),
      (''trust_artifact_sha256'', PStr current),
      (''trust_update_available'', PBool (trust_update_available local current)),
      (''component_reported_trust_artifact_sha256'', if local = [] then PNone else PStr local),
      (''crl_metadata'', api_json_safe (dget_or version ''crl_metadata'' (PDict []))),
      (''policy'', PDict [(''auto_renewal_recommended'', PBool False), (''component_owned_pki_required'', PBool True),
         (''private_key_export_allowed'', PBool False), (''shared_runtime_pki_writes_allowed'', PBool False)]),
      (''allowed_actions'', strs [''status_report'', ''event_report'', ''pull_trust'', ''renew_certificate'']),
      (''latest_status'', case status of None \<Rightarrow> PNone | Some r \<Rightarrow> api_json_safe (PDict (status_dict r)))])"

definition component_lifecycle_payload :: "ext \<Rightarrow> signer \<Rightarrow> settings \<Rightarrow> app_row \<Rightarrow> pydict answer op" where
  "component_lifecycle_payload x g st app = catchE
     (bindE (resolve_component_active_certificate app) (\<lambda>active.
      bindE (current_component_trust_version x g st app ''component_lifecycle'') (\<lambda>version. case version of
        Inl r \<Rightarrow> ret (Inl r)
      | Inr version \<Rightarrow>
        bindE (query (get_component_status (a_uri app))) (\<lambda>status.
        bindE (days_until (case active of None \<Rightarrow> None | Some (c, a) \<Rightarrow> c_not_after c)) (\<lambda>days.
        bindE (renewal_threshold_days_for_app st app) (\<lambda>threshold.
        bindE generated_at (\<lambda>now.
          ret (Inr (lifecycle_advice app active days threshold version status now)))))))))
     (\<lambda>e. ret (Inl (json_response 500 [(''error'', PStr ''component lifecycle failed''),
        (''error_code'', PStr ''component_lifecycle_failed''), (''details'', PDict [(''reason'', PStr (k_exc_text x e))])])))"

section \<open>Discovery\<close>

fun packages_of :: "cert_view list \<Rightarrow> package_view list op" where
  "packages_of [] = ret []"
| "packages_of ((c, a) # rest) = bindE (query (list_certificate_packages_for_certificate (c_id c))) (\<lambda>ps.
     bindE (packages_of rest) (\<lambda>qs. ret (ps @ qs)))"

definition revocation_status_for_app :: "app_row \<Rightarrow> pydict op" where
  "revocation_status_for_app app =
     bindE (query list_certificates) (\<lambda>certs.
     (let revoked = filter (\<lambda>(c, a). c_app c = a_id app \<and> lower (c_status c) = ''revoked'') certs in
     bindE (resolve_component_active_certificate app) (\<lambda>active.
     bindE (packages_of revoked) (\<lambda>packages.
       ret [(''schema'', PStr ''labshock_gds_component_revocation_status_v1''),
         (''application_uri'', PStr (a_uri app)), (''runtime_instance_id'', PStr (app_runtime app)),
         (''active_certificate'', PDict (safe_certificate active)),
         (''revoked_certificates'', PList (map (\<lambda>v. PDict (safe_certificate (Some v))) revoked)),
         (''revoked_certificate_count'', PInt (int (length revoked))),
         (''revoked_packages'', PList (map (\<lambda>v. PDict (api_package (Some v))) packages)),
         (''revoked_package_count'', PInt (int (length packages))), (''crl_source'', PStr ''vault_via_gds'')]))))"

definition get_component_profiles :: "profile_row list op" where
  "get_component_profiles = query list_component_profiles"

definition get_rest_discovery :: "ext \<Rightarrow> signer \<Rightarrow> settings \<Rightarrow> http_req \<Rightarrow> response op" where
  "get_rest_discovery x g st req =
     agent_endpoint x st req ''telemetry_read'' None
     (bindE (getE w_started) (\<lambda>started. bindE generated_at (\<lambda>now.
       (let anchor = (if started then trust_anchor_payload g else []) in
       ret (json_response 200 [(''schema'', PStr ''labshock_gds_discovery_v1''),
         (''service'', PStr (service_name (s_service st))), (''version'', PStr (service_version (s_service st))),
         (''generated_at'', PStr now), (''vault_ca_authority'', PBool True), (''private_key_export_allowed'', PBool False),
         (''supported_api_versions'', strs [''v1'']),
         (''supported_enrollment_modes'', strs [''rest_component_csr'', ''rest_csr_legacy'', ''opcua_facade_dry_run'',
            ''opcua_facade_component_csr'']),
         (''supported_distribution_modes'', strs [''component_trust_material'', ''signed_trust_artifact'',
            ''legacy_package_manifest'']),
         (''safety_gates'', strs [''mtls'', ''agent_token'', ''signed_artifacts'', ''trust_anchor_pinning'', ''approvals'',
            ''maintenance_windows'', ''blackouts'']),
         (''trust_anchor'', PDict (map (\<lambda>k. (k, dget anchor k)) [''key_id'', ''algorithm'', ''fingerprint_sha256''])),
         (''endpoints'', PDict
           [(''component_profiles'', PStr ''/api/v1/discovery/component-profiles''),
            (''certificate_groups'', PStr ''/api/v1/discovery/certificate-groups''),
            (''component_identity'', PStr ''/api/v1/discovery/components/{application_uri}/identity''),
            (''renewal_policy'', PStr ''/api/v1/discovery/components/{application_uri}/renewal-policy''),
            (''revocation_status'', PStr ''/api/v1/discovery/components/{application_uri}/revocation-status''),
            (''trust_material'', PStr ''/api/v1/distribution/components/{application_uri}/trust-material''),
            (''component_csr_enrollment'', PStr ''/api/v1/enrollments/components/csr''),
            (''component_certificate_renewal'', PStr ''/api/v1/certificates/renew'')])])))))"

definition get_discovery_component_profiles :: "ext \<Rightarrow> settings \<Rightarrow> http_req \<Rightarrow> response op" where
  "get_discovery_component_profiles x st req =
     agent_endpoint x st req ''telemetry_read'' None
     (bindE generated_at (\<lambda>now. bindE component_catalog_items (\<lambda>items.
       ret (json_response 200 [(''schema'', PStr ''labshock_gds_component_profiles_v1''), (''generated_at'', PStr now),
         (''component_profiles'', PList (map PDict items))]))))"

definition get_discovery_certificate_groups :: "ext \<Rightarrow> settings \<Rightarrow> http_req \<Rightarrow> response op" where
  "get_discovery_certificate_groups x st req =
     agent_endpoint x st req ''telemetry_read'' None
     (bindE component_catalog_items (\<lambda>items. bindE generated_at (\<lambda>now.
       (let group = (\<lambda>item. PDict (map (\<lambda>k. (k, dget item k)) [''target'', ''profile_name'', ''zone'', ''role'',
              ''runtime_family'', ''component_type'', ''certificate_format'', ''trust_store_layout''])) in
       ret (json_response 200 [(''schema'', PStr ''labshock_gds_certificate_groups_v1''), (''generated_at'', PStr now),
         (''certificate_groups'', PList (map group items))])))))"

definition application_dict :: "app_row \<Rightarrow> pydict" where
  "application_dict app = [(''id'', PInt (a_id app)), (''application_uri'', PStr (a_uri app)),
     (''common_name'', PStr (a_common_name app)), (''zone'', PStr (a_zone app)), (''role'', PStr (a_role app)),
     (''runtime_instance_id'', PStr (app_runtime app)), (''component_type'', opt_str (a_component app)),
     (''host'', opt_str (a_host app)), (''port'', opt_int (a_port app)), (''status'', PStr (a_status app)),
     (''last_seen_at'', as_iso (a_last_seen app))]"

definition get_component_identity :: "ext \<Rightarrow> settings \<Rightarrow> http_req \<Rightarrow> string \<Rightarrow> response op" where
  "get_component_identity x st req uri =
     component_endpoint x st req ''telemetry_read'' uri (\<lambda>app.
     (let m = profile_for_application app in
      bindE (resolve_component_active_certificate app) (\<lambda>active.
      bindE (latest_package_for_app app (cm_profile m)) (\<lambda>package.
      bindE generated_at (\<lambda>now.
      bindE (certificate_group_for_profile (cm_profile m) app) (\<lambda>group.
        ret (json_response 200 [(''schema'', PStr ''labshock_gds_component_identity_v1''), (''generated_at'', PStr now),
          (''application'', PDict (application_dict app)), (''component'', PDict (component_meta_dict m)),
          (''certificate_group'', PDict group), (''active_certificate'', PDict (safe_certificate active)),
          (''latest_package'', PDict (api_package package)), (''private_key_included'', PBool False)])))))))"

definition get_component_renewal_policy :: "ext \<Rightarrow> settings \<Rightarrow> http_req \<Rightarrow> string \<Rightarrow> response op" where
  "get_component_renewal_policy x st req uri =
     component_endpoint x st req ''telemetry_read'' uri (\<lambda>app.
      bindE (renewal_threshold_days_for_app st app) (\<lambda>threshold.
      bindE (resolve_component_active_certificate app) (\<lambda>active.
      bindE generated_at (\<lambda>now.
        ret (json_response 200 [(''schema'', PStr ''labshock_gds_component_renewal_policy_v1''),
          (''generated_at'', PStr now), (''application_uri'', PStr uri), (''runtime_instance_id'', PStr (app_runtime app)),
          (''profile_name'', PStr (cm_profile (profile_for_application app))), (''enrollment_allowed'', PBool True),
          (''renewal_allowed'', PBool (active \<noteq> None)), (''default_ttl'', PStr (cert_default_ttl (s_expiry st))),
          (''renewal_threshold_days'', PInt threshold), (''active_certificate'', PDict (safe_certificate active)),
          (''private_key_included'', PBool False)])))))"

definition get_component_revocation_status :: "ext \<Rightarrow> settings \<Rightarrow> http_req \<Rightarrow> string \<Rightarrow> response op" where
  "get_component_revocation_status x st req uri =
     component_endpoint x st req ''telemetry_read'' uri (\<lambda>app.
       bindE (revocation_status_for_app app) (\<lambda>report. ret (json_response 200 report)))"

section \<open>Status reports and events\<close>

definition event_dict :: "component_event_row \<Rightarrow> pydict" where
  "event_dict e = [(''id'', PInt (ce_id e)), (''application_uri'', PStr (ce_uri e)), (''component_name'', ce_name e),
     (''target'', ce_target e), (''event_type'', ce_type e), (''status'', ce_status e), (''message'', ce_message e),
     (''details_json'', ce_details e), (''created_at'', PTime (ce_created e))]"

definition get_all_component_lifecycle_status :: "ext \<Rightarrow> settings \<Rightarrow> http_req \<Rightarrow> response op" where
  "get_all_component_lifecycle_status x st req =
     agent_endpoint x st req ''telemetry_read'' None
     (bindE (query (list_component_statuses 200)) (\<lambda>rows. bindE generated_at (\<lambda>now.
       ret (json_response 200 [(''schema'', PStr ''labshock_gds_component_status_list_v1''), (''generated_at'', PStr now),
         (''components'', PList (map (\<lambda>r. api_json_safe (PDict (status_dict r))) rows))]))))"

definition clamped_limit :: "int \<Rightarrow> int" where
  \<comment> \<open>\<open>max(1, min(limit, 500))\<close>\<close>
  "clamped_limit n = max 1 (min n 500)"

definition event_limit :: "string option \<Rightarrow> int" where
  \<comment> \<open>the query parameter, 200 when it is missing or no number\<close>
  "event_limit raw = clamped_limit (case raw of None \<Rightarrow> 200
     | Some s \<Rightarrow> (case parse_int s of None \<Rightarrow> 200 | Some n \<Rightarrow> n))"

definition events_of :: "string option \<Rightarrow> string option \<Rightarrow> response op" where
  "events_of uri limit =
     bindE (query (list_component_events uri (event_limit limit))) (\<lambda>rows. bindE generated_at (\<lambda>now.
       ret (json_response 200 [(''schema'', PStr ''labshock_gds_component_event_list_v1''), (''generated_at'', PStr now),
         (''application_uri'', opt_str uri),
         (''events'', PList (map (\<lambda>e. api_json_safe (PDict (event_dict e))) rows))])))"

definition get_component_lifecycle_events ::
  "ext \<Rightarrow> settings \<Rightarrow> http_req \<Rightarrow> string option \<Rightarrow> string option \<Rightarrow> response op" where
  "get_component_lifecycle_events x st req uri limit =
     (if given_text uri then component_endpoint x st req ''lifecycle_read'' (the uri) (\<lambda>_. events_of uri limit)
      else agent_endpoint x st req ''telemetry_read'' None (events_of uri limit))"

text \<open>The body of a status report: its nullable columns by name.\<close>

record status_body =
  sb_uri :: string
  sb_columns :: pydict
  sb_crl_fresh :: bool
  sb_key_exported :: bool
  sb_key_touched :: bool
  sb_runtime_write :: bool
  sb_timestamp :: "int option"

definition status_payload :: "status_body \<Rightarrow> int \<Rightarrow> pydict" where
  \<comment> \<open>\<open>body.dict()\<close>, stamped\<close>
  "status_payload b stamp =
     [(''application_uri'', PStr (sb_uri b))] @ map (\<lambda>k. (k, dget (sb_columns b) k)) status_columns @
     [(''crl_freshness_verified'', PBool (sb_crl_fresh b)), (''private_key_exported'', PBool (sb_key_exported b)),
      (''private_key_touched'', PBool (sb_key_touched b)), (''runtime_write_enabled'', PBool (sb_runtime_write b)),
      (''timestamp'', PTime stamp)]"

definition uri_mismatch :: response where
  "uri_mismatch = api_error 400 ''application_uri mismatch'' ''application_uri_mismatch''"

definition reporting_endpoint ::
  "ext \<Rightarrow> settings \<Rightarrow> http_req \<Rightarrow> string \<Rightarrow> string \<Rightarrow> response op \<Rightarrow> response op" where
  \<comment> \<open>what a component reports about itself: path and body name the same application\<close>
  "reporting_endpoint x st req uri body_uri serve =
     unless_refused (require_https_mtls x st req)
       (if body_uri \<noteq> uri then ret uri_mismatch
        else bindE (query (get_application_by_uri uri)) (\<lambda>found. case found of
          None \<Rightarrow> ret unknown_application
        | Some app \<Rightarrow> unless_refused (authorize_agent_pull st req ''lifecycle_write'' None None (Some uri)) serve))"

definition key_flags_reported :: "http_req \<Rightarrow> status_body \<Rightarrow> unit op" where
  "key_flags_reported req b =
     (if sb_key_exported b \<or> sb_key_touched b
      then log_audit ''component_private_key_flag_reported'' (agent_id_from_request req) (''component:'' @ sb_uri b)
        [(''private_key_exported'', PBool (sb_key_exported b)), (''private_key_touched'', PBool (sb_key_touched b))]
      else ret ())"

definition post_component_lifecycle_status ::
  "ext \<Rightarrow> settings \<Rightarrow> http_req \<Rightarrow> string \<Rightarrow> status_body \<Rightarrow> response op" where
  "post_component_lifecycle_status x st req uri b =
     reporting_endpoint x st req uri (sb_uri b)
     (bindE (case sb_timestamp b of Some t \<Rightarrow> ret t | None \<Rightarrow> now_us) (\<lambda>stamp.
      bindE (on_db (upsert_component_status (status_payload b stamp) stamp)) (\<lambda>row.
      bindE (key_flags_reported req b) (\<lambda>_.
      bindE (log_audit ''component_lifecycle_status_reported'' (agent_id_from_request req) (''component:'' @ uri)
        [(''target'', dget (sb_columns b) ''target''),
         (''trust_artifact_sha256'', dget (sb_columns b) ''trust_artifact_sha256''),
         (''crl_freshness_verified'', PBool (sb_crl_fresh b)),
         (''runtime_write_enabled'', PBool (sb_runtime_write b))]) (\<lambda>_.
      ret (json_response 200 [(''schema'', PStr ''labshock_gds_component_status_ack_v1''), (''application_uri'', PStr uri),
        (''stored'', PBool True), (''status'', api_json_safe (PDict (status_dict row)))]))))))"

definition unregistered :: response where
  "unregistered = json_response 404 [(''registered'', PBool False), (''error'', PStr ''application not found''),
     (''error_code'', PStr ''unknown_application'')]"

definition get_component_lifecycle :: "ext \<Rightarrow> signer \<Rightarrow> settings \<Rightarrow> http_req \<Rightarrow> string \<Rightarrow> response op" where
  "get_component_lifecycle x g st req uri =
     component_route x st req ''lifecycle_read'' uri unregistered (\<lambda>app.
       bindE (component_lifecycle_payload x g st app) (\<lambda>advice. case advice of
         Inl r \<Rightarrow> ret r
       | Inr payload \<Rightarrow>
           bindE (log_audit ''component_lifecycle_read'' (agent_id_from_request req) (''component:'' @ uri)
             [(''trust_artifact_sha256'', dget payload ''trust_artifact_sha256''),
              (''renewal_required'', dget payload ''renewal_required'')]) (\<lambda>_. ret (json_response 200 payload))))"

definition get_component_trust_version :: "ext \<Rightarrow> signer \<Rightarrow> settings \<Rightarrow> http_req \<Rightarrow> string \<Rightarrow> response op" where
  "get_component_trust_version x g st req uri =
     component_endpoint x st req ''lifecycle_read'' uri (\<lambda>app.
       bindE (current_component_trust_version x g st app ''component_trust_version'') (\<lambda>version. ret (case version of
         Inl r \<Rightarrow> r
       | Inr payload \<Rightarrow> json_response 200
           (dput ''schema'' (PStr ''labshock_gds_component_trust_version_v1'') payload))))"

definition LIFECYCLE_EVENTS :: "string list" where
  "LIFECYCLE_EVENTS = [''lifecycle_check_started'', ''lifecycle_check_completed'', ''trust_version_changed'',
     ''trust_pull_started'', ''trust_pull_completed'', ''trust_apply_started'', ''trust_apply_completed'',
     ''trust_apply_failed'', ''renewal_threshold_reached'', ''renewal_csr_generated'', ''renewal_package_received'',
     ''renewal_apply_started'', ''renewal_apply_completed'', ''renewal_apply_failed'', ''reconnect_required'',
     ''reconnect_completed'']"

record event_body =
  eb_uri :: string
  eb_name :: "string option"
  eb_target :: "string option"
  eb_type :: string
  eb_status :: "string option"
  eb_message :: "string option"
  eb_details :: "pydict option"

definition event_payload :: "event_body \<Rightarrow> pydict" where
  "event_payload b = [(''application_uri'', PStr (eb_uri b)), (''component_name'', opt_str (eb_name b)),
     (''target'', opt_str (eb_target b)), (''event_type'', PStr (eb_type b)), (''status'', opt_str (eb_status b)),
     (''message'', opt_str (eb_message b)),
     (''details'', case eb_details b of None \<Rightarrow> PNone | Some d \<Rightarrow> PDict d)]"

definition post_component_lifecycle_event ::
  "ext \<Rightarrow> settings \<Rightarrow> http_req \<Rightarrow> string \<Rightarrow> event_body \<Rightarrow> response op" where
  "post_component_lifecycle_event x st req uri b =
     reporting_endpoint x st req uri (eb_uri b)
     (if eb_type b \<notin> set LIFECYCLE_EVENTS
      then ret (api_error 400 ''unsupported lifecycle event'' ''unsupported_lifecycle_event'')
      else bindE (on_db (insert_component_event (event_payload b))) (\<lambda>row.
        bindE (log_audit ''component_lifecycle_event'' (agent_id_from_request req) (''component:'' @ uri)
          [(''event_type'', PStr (eb_type b)), (''target'', opt_str (eb_target b)), (''status'', opt_str (eb_status b))])
          (\<lambda>_. ret (json_response 200 [(''schema'', PStr ''labshock_gds_component_event_ack_v1''),
            (''application_uri'', PStr uri), (''stored'', PBool True),
            (''event'', api_json_safe (PDict (event_dict row)))]))))"

definition as_response :: "pydict answer op \<Rightarrow> response op" where
  "as_response m = bindE m (\<lambda>a. ret (case a of Inl r \<Rightarrow> r | Inr payload \<Rightarrow> json_response 200 payload))"

definition get_component_trust_material :: "ext \<Rightarrow> signer \<Rightarrow> settings \<Rightarrow> http_req \<Rightarrow> string \<Rightarrow> response op" where
  "get_component_trust_material x g st req uri =
     unless_refused (require_https_mtls x st req)
     (bindE (query (get_application_by_uri uri)) (\<lambda>found. case found of
        None \<Rightarrow> ret unknown_application
      | Some app \<Rightarrow> as_response (trust_material_for_application x g st req app)))"

end
