(* ===== verification/Api_Packages.thy ===== *)
theory Api_Packages
  imports Api_Components
begin

text \<open>
  Enrolment, renewal and the package endpoints of \<open>gds/app/main.py\<close>.
\<close>

section \<open>Enrolment\<close>

record enroll_body =
  en_uri :: string
  en_runtime :: "string option"
  en_profile :: string
  en_csr :: string
  en_ttl :: "string option"
  en_reason :: "string option"

definition enroll_order :: "enroll_body \<Rightarrow> string \<Rightarrow> string \<Rightarrow> bool \<Rightarrow> csr_order" where
  "enroll_order b actor source duplicates = \<lparr>or_uri = en_uri b, or_runtime = opt_text (en_runtime b),
     or_profile = en_profile b, or_csr = en_csr b, or_ttl = opt_text (en_ttl b), or_by = actor, or_source = source,
     or_allow_duplicate = duplicates\<rparr>"

definition enrollment_endpoint :: "ext \<Rightarrow> settings \<Rightarrow> http_req \<Rightarrow> enroll_body \<Rightarrow> response op \<Rightarrow> response op" where
  \<comment> \<open>the guards of every endpoint that issues\<close>
  "enrollment_endpoint x st req b serve =
     agent_endpoint x st req ''enrollment_submit'' (Some (en_uri b))
       (unless_refused require_started (unless_refused (require_vault_unsealed x st) serve))"

definition lifecycle_failure :: "string \<Rightarrow> string \<Rightarrow> exn \<Rightarrow> response" where
  \<comment> \<open>a lifecycle error carries its own status; any other is an internal error\<close>
  "lifecycle_failure message code e = (case e of
     LifecycleError c m status details \<Rightarrow> json_response status
       [(''error'', PStr m), (''error_code'', PStr c), (''details'', PDict details)]
   | _ \<Rightarrow> api_error 500 message code)"

definition enrollment_summary :: "issue_result \<Rightarrow> pydict" where
  "enrollment_summary r =
     [(''request_id'', PStr (rq_request (ir_request r))), (''package_id'', PStr (pk_package (ir_package r))),
      (''generation'', PInt (pk_generation (ir_package r))), (''certificate_id'', PInt (c_id (ir_certificate r))),
      (''certificate_fingerprint_sha256'', PStr (c_fpr (ir_certificate r))),
      (''compatibility_status'', PStr (pk_compat (ir_package r))),
      (''lifecycle_state'', PStr (pk_lifecycle (ir_package r))),
      (''manifest_sha256'', PStr (pk_manifest_sha (ir_package r)))]"

definition post_rest_csr_enrollment ::
  "ext \<Rightarrow> signer \<Rightarrow> settings \<Rightarrow> http_req \<Rightarrow> enroll_body \<Rightarrow> response op" where
  "post_rest_csr_enrollment x g st req b = enrollment_endpoint x st req b
     (tryE (issue_certificate_package x st g (enroll_order b (agent_id_from_request req) ''rest'' False))
        (\<lambda>e. ret (lifecycle_failure ''certificate enrollment failed'' ''enrollment_failed'' e))
        (\<lambda>r. ret (json_response 200 (enrollment_summary r))))"

definition enrollment_payload :: "issue_result \<Rightarrow> pydict \<Rightarrow> pydict" where
  "enrollment_payload r material =
     (let m = ir_manifest r; p = ir_package r in
     [(''schema'', PStr ''labshock_gds_component_enrollment_result_v1''),
      (''request_id'', PStr (rq_request (ir_request r))), (''application_uri'', dget m ''application_uri''),
      (''runtime_instance_id'', dget m ''runtime_instance_id''), (''profile_name'', dget m ''profile_name''),
      (''package_id'', PStr (pk_package p)), (''generation'', PInt (pk_generation p)),
      (''certificate_id'', PInt (c_id (ir_certificate r))),
      (''certificate_fingerprint_sha256'', PStr (c_fpr (ir_certificate r))),
      (''compatibility_status'', PStr (pk_compat p)), (''lifecycle_state'', PStr (pk_lifecycle p)),
      (''manifest_sha256'', PStr (pk_manifest_sha p)), (''certificate_pem'', dget m ''certificate_pem''),
      (''ca_chain_pem'', dget m ''ca_chain_pem''), (''crl_base64'', dget m ''crl_base64''),
      (''install_plan'', dget_or m ''install_plan'' (PDict [])), (''manifest'', PDict m),
      (''signature'', PDict (package_signature_payload p)), (''trust_distribution'', PDict material),
      (''private_key_included'', PBool False)])"

definition component_enrollment_response ::
  "ext \<Rightarrow> signer \<Rightarrow> settings \<Rightarrow> http_req \<Rightarrow> issue_result \<Rightarrow> pydict answer op" where
  "component_enrollment_response x g st req r =
     bindE (query (get_application_by_uri (py_str (dget_or (ir_manifest r) ''application_uri'' (PStr []))))) (\<lambda>found.
       case found of
         None \<Rightarrow> ret (Inl (api_error 500 ''issued application not found'' ''application_lookup_failed''))
       | Some app \<Rightarrow> bindE (trust_material_for_application x g st req app) (\<lambda>material. ret (case material of
           Inl refused \<Rightarrow> Inl refused
         | Inr m \<Rightarrow> Inr (enrollment_payload r m))))"

definition rebuilt_entry :: "string \<Rightarrow> string \<Rightarrow> artifact_row \<Rightarrow> pyval" where
  "rebuilt_entry zone role row = PDict [(''zone'', PStr zone), (''role'', PStr role),
     (''trustlist_version'', PInt (ta_version row)), (''artifact_revision'', PInt (ta_revision row)),
     (''artifact_sha256'', PStr (ta_sha256 row))]"

definition rebuild_affected_consumer_artifacts_for_component ::
  "ext \<Rightarrow> signer \<Rightarrow> settings \<Rightarrow> string \<Rightarrow> string \<Rightarrow> pyval list op" where
  \<comment> \<open>the server's artifact, which lists the certificates of its clients\<close>
  "rebuild_affected_consumer_artifacts_for_component x g st uri source =
     (if uri \<notin> {''urn:dataprotect:opcua:dmz-gateway-client'', ''urn:dataprotect:opcua:fuxa-client''} then ret []
      else bindE (get_or_regenerate_signed_artifact x g st ''OT'' ''server'' True source) (\<lambda>found. ret (case found of
        None \<Rightarrow> [] | Some (l, row, artifact) \<Rightarrow> [rebuilt_entry ''OT'' ''server'' row])))"

definition enroll_component ::
  "ext \<Rightarrow> signer \<Rightarrow> settings \<Rightarrow> http_req \<Rightarrow> enroll_body \<Rightarrow> response op" where
  \<comment> \<open>the body of the try statement\<close>
  "enroll_component x g st req b =
     bindE (issue_certificate_package x st g (enroll_order b (agent_id_from_request req) ''component_rest'' False)) (\<lambda>r.
     bindE (component_enrollment_response x g st req r) (\<lambda>answer. case answer of
       Inl refused \<Rightarrow> ret refused
     | Inr payload \<Rightarrow>
         bindE (rebuild_affected_consumer_artifacts_for_component x g st (en_uri b) ''component_enrollment'') (\<lambda>rebuilt.
         bindE (log_audit ''component_enrollment_completed'' (agent_id_from_request req) (''component:'' @ en_uri b)
           [(''request_id'', dget payload ''request_id''), (''package_id'', dget payload ''package_id''),
            (''certificate_id'', dget payload ''certificate_id''), (''private_key_included'', PBool False)]) (\<lambda>_.
         ret (json_response 200 (dput ''affected_trust_artifacts_rebuilt'' (PList rebuilt) payload))))))"

definition post_component_csr_enrollment ::
  "ext \<Rightarrow> signer \<Rightarrow> settings \<Rightarrow> http_req \<Rightarrow> enroll_body \<Rightarrow> response op" where
  "post_component_csr_enrollment x g st req b = enrollment_endpoint x st req b
     (catchE (enroll_component x g st req b)
        (\<lambda>e. ret (lifecycle_failure ''component certificate enrollment failed'' ''component_enrollment_failed'' e)))"

section \<open>Renewal\<close>

definition renewal_requested :: "enroll_body \<Rightarrow> string \<Rightarrow> string \<Rightarrow> unit op" where
  "renewal_requested b actor cid = log_audit ''certificate_renewal_requested'' actor (''application:'' @ en_uri b)
     [(''application_uri'', PStr (en_uri b)), (''runtime_instance_id'', opt_str (en_runtime b)),
      (''profile_name'', PStr (en_profile b)), (''renewal_reason'', PStr (opt_text (en_reason b))),
      (''correlation_id'', PStr cid)]"

definition renewal_failed :: "enroll_body \<Rightarrow> string \<Rightarrow> string \<Rightarrow> exn \<Rightarrow> response op" where
  "renewal_failed b actor cid e =
     bindE (log_audit ''certificate_renewal_failed'' actor (''application:'' @ en_uri b)
       [(''application_uri'', PStr (en_uri b)), (''profile_name'', PStr (en_profile b)),
        (''error_code'', PStr (case e of LifecycleError c m status details \<Rightarrow> c | _ \<Rightarrow> ''renewal_failed'')),
        (''correlation_id'', PStr cid)]) (\<lambda>_.
     ret (lifecycle_failure ''certificate renewal failed'' ''renewal_failed'' e))"

definition renewal_packaged :: "enroll_body \<Rightarrow> string \<Rightarrow> string \<Rightarrow> issue_result \<Rightarrow> unit op" where
  "renewal_packaged b actor cid r = log_audit ''certificate_renewal_packaged'' actor
     (''certificate_package:'' @ pk_package (ir_package r))
     [(''request_id'', PStr (rq_request (ir_request r))), (''package_id'', PStr (pk_package (ir_package r))),
      (''generation'', PInt (pk_generation (ir_package r))),
      (''supersedes_package_id'', opt_str (pk_prev_package (ir_package r))), (''application_uri'', PStr (en_uri b)),
      (''profile_name'', PStr (en_profile b)), (''correlation_id'', PStr cid)]"

definition renewal_payload :: "issue_result \<Rightarrow> pyval list \<Rightarrow> pydict \<Rightarrow> pydict" where
  "renewal_payload r rebuilt payload =
     dput ''private_key_included'' (PBool False)
      (dput ''affected_trust_artifacts_rebuilt'' (PList rebuilt)
      (dput ''supersedes_generation'' (opt_int (pk_prev_generation (ir_package r)))
      (dput ''supersedes_package_id'' (opt_str (pk_prev_package (ir_package r)))
      (dput ''schema'' (PStr ''labshock_gds_component_renewal_result_v1'') payload))))"

definition renewal_issued ::
  "ext \<Rightarrow> signer \<Rightarrow> settings \<Rightarrow> http_req \<Rightarrow> enroll_body \<Rightarrow> string \<Rightarrow> string \<Rightarrow> issue_result \<Rightarrow> response op" where
  \<comment> \<open>the endpoint from the issued package on; what fails here is not caught\<close>
  "renewal_issued x g st req b actor cid r =
     bindE (renewal_packaged b actor cid r) (\<lambda>_.
     bindE (rebuild_affected_consumer_artifacts_for_component x g st (en_uri b) ''certificate_renewal'') (\<lambda>rebuilt.
     bindE (component_enrollment_response x g st req r) (\<lambda>answer. ret (case answer of
       Inl refused \<Rightarrow> refused
     | Inr payload \<Rightarrow> json_response 200 (renewal_payload r rebuilt payload)))))"

definition renew_certificate ::
  "ext \<Rightarrow> signer \<Rightarrow> settings \<Rightarrow> http_req \<Rightarrow> enroll_body \<Rightarrow> response op" where
  "renew_certificate x g st req0 b = enrollment_endpoint x st req0 b
     (let actor = agent_id_from_request req0 in
      bindE (correlation_id req0) (\<lambda>(cid, req).
      bindE (renewal_requested b actor cid) (\<lambda>_.
      tryE (issue_certificate_package x st g (enroll_order b actor ''rest_renewal'' True))
        (renewal_failed b actor cid)
        (renewal_issued x g st req b actor cid))))"

definition get_enrollment_request ::
  "ext \<Rightarrow> settings \<Rightarrow> http_req \<Rightarrow> string \<Rightarrow> (request_row \<times> app_row) answer op" where
  \<comment> \<open>the row without its signing request\<close>
  "get_enrollment_request x st req request_id =
     agent_answer x st req ''package_read'' None
     (bindE (query (get_certificate_request request_id)) (\<lambda>found. ret (case found of
        None \<Rightarrow> Inl (error_response 404 ''certificate request not found'')
      | Some (r, a) \<Rightarrow> Inr (r\<lparr>rq_csr := []\<rparr>, a))))"

section \<open>Packages\<close>

definition package_not_found :: response where
  "package_not_found = error_response 404 ''package not found''"

definition package_target :: "string \<Rightarrow> string" where
  "package_target package_id = ''certificate_package:'' @ package_id"

definition package_endpoint ::
  "ext \<Rightarrow> settings \<Rightarrow> http_req \<Rightarrow> string \<Rightarrow> string \<Rightarrow> (package_row \<Rightarrow> app_row \<Rightarrow> 'a answer op) \<Rightarrow> 'a answer op" where
  \<comment> \<open>certificate, agent, then the package; the agent's own applications play no part\<close>
  "package_endpoint x st req access package_id serve =
     agent_answer x st req access None
     (bindE (query (get_certificate_package package_id)) (\<lambda>found. case found of
        None \<Rightarrow> ret (Inl package_not_found) | Some (p, a) \<Rightarrow> serve p a))"

definition list_certificate_packages_endpoint ::
  "ext \<Rightarrow> settings \<Rightarrow> http_req \<Rightarrow> string option \<Rightarrow> string option \<Rightarrow> string option \<Rightarrow> string option \<Rightarrow> int \<Rightarrow>
   package_view list answer op" where
  "list_certificate_packages_endpoint x st req uri runtime profile lifecycle limit =
     agent_answer x st req ''package_read'' None
     (bindE (query (list_certificate_packages uri runtime profile
        (if given_text lifecycle then map_option upper lifecycle else None) (clamped_limit limit))) (\<lambda>rows.
      ret (Inr rows)))"

definition get_package_lifecycle_telemetry ::
  "ext \<Rightarrow> settings \<Rightarrow> http_req \<Rightarrow> lifecycle_telemetry answer op" where
  "get_package_lifecycle_telemetry x st req =
     agent_answer x st req ''package_read'' None
     (bindE (on_db package_lifecycle_telemetry) (\<lambda>report.
      bindE (log_audit ''package_lifecycle_telemetry_read'' (agent_id_from_request req) ''certificate_packages'' []) (\<lambda>_.
      ret (Inr report))))"

definition generation_detail :: "package_row \<Rightarrow> pydict" where
  "generation_detail p = [(''generation'', PInt (pk_generation p))]"

definition get_certificate_package_endpoint :: "ext \<Rightarrow> settings \<Rightarrow> http_req \<Rightarrow> string \<Rightarrow> pydict answer op" where
  "get_certificate_package_endpoint x st req package_id =
     package_endpoint x st req ''package_read'' package_id (\<lambda>p a.
     bindE (log_audit ''certificate_package_read'' (agent_id_from_request req) (package_target package_id)
       (generation_detail p)) (\<lambda>_.
     ret (Inr [(''package_id'', PStr (pk_package p)), (''generation'', PInt (pk_generation p)),
       (''application_uri'', PStr (a_uri a)), (''runtime_instance_id'', opt_str (pk_runtime p)),
       (''profile_name'', PStr (pk_profile p)), (''compatibility_status'', PStr (pk_compat p)),
       (''lifecycle_state'', PStr (pk_lifecycle p)), (''manifest_sha256'', PStr (pk_manifest_sha p)),
       (''signature'', PDict (package_signature_payload p)), (''manifest'', PDict (pk_manifest p))])))"

record package_history =
  ph_package :: package_row
  ph_app :: app_row
  ph_lineage :: "package_view list"
  ph_events :: "package_event_row list"

definition get_certificate_package_history ::
  "ext \<Rightarrow> settings \<Rightarrow> http_req \<Rightarrow> string \<Rightarrow> package_history answer op" where
  "get_certificate_package_history x st req package_id =
     package_endpoint x st req ''package_read'' package_id (\<lambda>p a.
     bindE (query (list_certificate_packages_for_lineage (pk_app p) (pk_profile p))) (\<lambda>lineage.
     bindE (query (list_package_events package_id 200)) (\<lambda>events.
     bindE (log_audit ''package_history_read'' (agent_id_from_request req) (package_target package_id)
       (generation_detail p)) (\<lambda>_.
     ret (Inr \<lparr>ph_package = p, ph_app = a, ph_lineage = lineage, ph_events = events\<rparr>)))))"

definition get_certificate_package_events ::
  "ext \<Rightarrow> settings \<Rightarrow> http_req \<Rightarrow> string \<Rightarrow> int \<Rightarrow> package_event_row list answer op" where
  "get_certificate_package_events x st req package_id limit =
     package_endpoint x st req ''package_read'' package_id (\<lambda>p a.
     bindE (query (list_package_events package_id (clamped_limit limit))) (\<lambda>events. ret (Inr events)))"

record package_event_body =
  pb_state :: string
  pb_type :: "string option"
  pb_details :: "pydict option"

definition event_acknowledged :: "string \<Rightarrow> string \<Rightarrow> pydict" where
  "event_acknowledged package_id state = [(''package_id'', PStr package_id), (''lifecycle_state'', PStr state),
     (''event_recorded'', PBool True)]"

definition reported_details :: "package_event_body \<Rightarrow> string \<Rightarrow> pydict" where
  "reported_details b event_type =
     dput ''source_interface'' (PStr ''ot_agent_pull'') (dput ''event_type'' (PStr event_type)
       (case pb_details b of None \<Rightarrow> [] | Some d \<Rightarrow> d))"

definition record_package_event ::
  "string \<Rightarrow> package_row \<Rightarrow> package_event_body \<Rightarrow> string \<Rightarrow> string \<Rightarrow> pydict answer op" where
  \<comment> \<open>an event of another name than the state's leaves the state as it is\<close>
  "record_package_event package_id p b event_type actor =
     (let details = dput ''requested_lifecycle_state'' (PStr (pb_state b))
        (dput ''lifecycle_state'' (PStr (pk_lifecycle p)) (reported_details b event_type)) in
      bindE (on_db (insert_package_event package_id event_type actor details)) (\<lambda>_.
      bindE (log_audit event_type actor (package_target package_id)
        (dmerge [(''lifecycle_state'', PStr (pk_lifecycle p))] details)) (\<lambda>_.
      ret (Inr (event_acknowledged package_id (pk_lifecycle p))))))"

definition advance_package ::
  "string \<Rightarrow> package_event_body \<Rightarrow> string \<Rightarrow> string \<Rightarrow> pydict answer op" where
  "advance_package package_id b event_type actor =
     (let details = reported_details b event_type in
      bindE (tryE (on_db (update_certificate_package_lifecycle package_id (pb_state b) actor details))
          (\<lambda>e. case e of ValueError m \<Rightarrow> ret (Inl (api_error 400 m ''invalid_lifecycle_state'')) | _ \<Rightarrow> raise e)
          (\<lambda>row. ret (Inr row))) (\<lambda>updated. case updated of
        Inl r \<Rightarrow> ret (Inl r)
      | Inr None \<Rightarrow> ret (Inl package_not_found)
      | Inr (Some row) \<Rightarrow>
          bindE (log_audit event_type actor (package_target package_id)
            (dmerge [(''lifecycle_state'', PStr (pk_lifecycle row))] details)) (\<lambda>_.
          ret (Inr (event_acknowledged package_id (pk_lifecycle row))))))"

definition post_certificate_package_event ::
  "ext \<Rightarrow> settings \<Rightarrow> http_req \<Rightarrow> string \<Rightarrow> package_event_body \<Rightarrow> pydict answer op" where
  "post_certificate_package_event x st req package_id b =
     package_endpoint x st req ''package_update'' package_id (\<lambda>p a.
     (let default_type = ''package_'' @ lower (pb_state b);
          event_type = (case pb_type b of None \<Rightarrow> default_type | Some t \<Rightarrow> str_or t default_type);
          actor = agent_id_from_request req
      in if event_type \<noteq> default_type then record_package_event package_id p b event_type actor
         else advance_package package_id b event_type actor))"

definition get_certificate_package_manifest :: "ext \<Rightarrow> settings \<Rightarrow> http_req \<Rightarrow> string \<Rightarrow> pydict answer op" where
  "get_certificate_package_manifest x st req package_id =
     package_endpoint x st req ''package_read'' package_id (\<lambda>p a.
     bindE (log_audit ''package_manifest_read'' (agent_id_from_request req) (package_target package_id)
       (generation_detail p @ [(''manifest_sha256'', PStr (pk_manifest_sha p))])) (\<lambda>_.
     ret (Inr (pk_manifest p))))"

definition get_certificate_package_manifest_signature ::
  "ext \<Rightarrow> settings \<Rightarrow> http_req \<Rightarrow> string \<Rightarrow> pydict answer op" where
  "get_certificate_package_manifest_signature x st req package_id =
     package_endpoint x st req ''package_read'' package_id (\<lambda>p a.
     bindE (log_audit ''package_manifest_sig_read'' (agent_id_from_request req) (package_target package_id)
       (generation_detail p)) (\<lambda>_.
     ret (Inr (package_signature_payload p))))"

end
