(* ===== verification/Json_Canonical.thy ===== *)
theory Json_Canonical
  imports Signing "HOL-Library.Multiset"
begin

text \<open>
  The canonical JSON text determines the document: the encoder is injective on the values
  it accepts, up to the order of the keys of dictionaries, which it sorts. This is what
  makes a signature over the canonical bytes a signature of the document.
\<close>

section \<open>Strings\<close>

definition hexval :: "char \<Rightarrow> nat" where
  "hexval c = (let n = (of_char c :: nat) in if n < 58 then n - 48 else n - 87)"

lemma hexval_hex_char: "d < 16 \<Longrightarrow> hexval (hex_char d) = d"
  by (simp add: hexval_def hex_char_def Let_def)

text \<open>A reader for one encoded character.\<close>

definition simple_escape :: "char \<Rightarrow> char" where
  "simple_escape e = (if e = CHR ''n'' then CHR 0x0A else if e = CHR ''r'' then CHR 0x0D
     else if e = CHR ''t'' then CHR 0x09 else if e = CHR ''b'' then CHR 0x08
     else if e = CHR ''f'' then CHR 0x0C else e)"

fun unescape :: "string \<Rightarrow> (char \<times> string) option" where
  "unescape [] = None"
| "unescape (c # s) =
     (if c \<noteq> CHR 0x5C then Some (c, s)
      else case s of [] \<Rightarrow> None
        | e # t \<Rightarrow>
           if e = CHR ''u''
           then (case t of z1 # z2 # h # l # rest \<Rightarrow> Some (char_of (16 * hexval h + hexval l), rest) | _ \<Rightarrow> None)
           else Some (simple_escape e, t))"

lemma unescape_json_char: "unescape (json_char c @ r) = Some (c, r)"
proof -
  have lt: "(of_char c :: nat) < 256" by simp
  have "hexval (hex_char (of_char c div 16)) = (of_char c div 16 :: nat)"
    using lt by (intro hexval_hex_char) (simp add: div_less_iff_less_mult)
  moreover have "hexval (hex_char (of_char c mod 16)) = (of_char c mod 16 :: nat)"
    by (intro hexval_hex_char) simp
  ultimately show ?thesis
    by (simp add: json_char_def hex2_def simple_escape_def Let_def)
qed

lemma json_char_inj: "json_char c @ r = json_char c' @ r' \<Longrightarrow> c = c' \<and> r = r'"
  by (metis unescape_json_char option.inject prod.inject)

lemma json_char_not_quote: "json_char c @ r \<noteq> CHR 0x22 # r'"
proof
  assume eq: "json_char c @ r = CHR 0x22 # r'"
  have "c = CHR 0x22" using unescape_json_char [of c r] by (simp add: eq)
  with eq show False by (simp add: json_char_def)
qed

lemma json_body_inj:
  "concat (map json_char s) @ CHR 0x22 # r = concat (map json_char s') @ CHR 0x22 # r' \<Longrightarrow> s = s' \<and> r = r'"
proof (induction s arbitrary: s')
  case Nil
  note prem = Nil
  show ?case
  proof (cases s')
    case Nil
    with prem show ?thesis by simp
  next
    case (Cons c t)
    with prem json_char_not_quote [of c "concat (map json_char t) @ CHR 0x22 # r'" r]
    show ?thesis by simp
  qed
next
  case (Cons c s)
  show ?case
  proof (cases s')
    case Nil
    with Cons.prems json_char_not_quote [of c "concat (map json_char s) @ CHR 0x22 # r" r']
    show ?thesis by simp
  next
    case (Cons c' t)
    with Cons.prems have "c = c' \<and> concat (map json_char s) @ CHR 0x22 # r = concat (map json_char t) @ CHR 0x22 # r'"
      by (intro json_char_inj) simp
    with Cons.IH [of t] Cons show ?thesis by simp
  qed
qed

lemma json_str_inj: "json_str s @ r = json_str s' @ r' \<Longrightarrow> s = s' \<and> r = r'"
  by (rule json_body_inj) (simp add: json_str_def)

section \<open>Numbers\<close>

lemma digits_val_snoc: "digits_val (s @ [c]) = digits_val s * 10 + int (of_char c) - 48"
  by (simp add: digits_val_def)

lemma of_digit_char: "d < 10 \<Longrightarrow> int (of_char (digit_char d)) = 48 + int d"
proof -
  assume "d < 10"
  then have "d = 0 \<or> d = 1 \<or> d = 2 \<or> d = 3 \<or> d = 4 \<or> d = 5 \<or> d = 6 \<or> d = 7 \<or> d = 8 \<or> d = 9"
    by auto
  then show ?thesis by (auto simp: digit_char_def)
qed

lemma digits_val_nat_str: "digits_val (nat_str n) = int n"
proof (induction n rule: nat_str.induct)
  case (1 n)
  show ?case
  proof (cases "n < 10")
    case True
    then show ?thesis by (subst nat_str.simps) (simp add: digits_val_def of_digit_char)
  next
    case False
    with "1.IH" have "digits_val (nat_str n) = int (n div 10) * 10 + int (n mod 10)"
      by (subst nat_str.simps) (simp add: digits_val_snoc of_digit_char)
    also have "\<dots> = int n" by (metis div_mult_mod_eq of_nat_add of_nat_mult of_nat_numeral)
    finally show ?thesis .
  qed
qed

definition num_char :: "char \<Rightarrow> bool" where
  "num_char c \<longleftrightarrow> is_digit c \<or> c = CHR ''-''"

lemma not_digit_minus: "\<not> is_digit (CHR ''-'')"
  by (simp add: is_digit_def less_eq_char_def)

lemma int_str_chars: "list_all num_char (int_str i)"
  using nat_str_digits by (auto simp: int_str_def num_char_def list_all_iff)

lemma nat_str_hd: "is_digit (hd (nat_str n))"
  using nat_str_digits [of n] nat_str_nonempty [of n] by (metis hd_in_set list_all_iff)

lemma nat_str_eq_minus: "nat_str n \<noteq> CHR ''-'' # s"
  using nat_str_hd [of n] not_digit_minus by auto

lemma int_str_inj: "int_str i = int_str j \<Longrightarrow> i = j"
proof -
  assume eq: "int_str i = int_str j"
  have nat_inj: "nat_str m = nat_str n \<Longrightarrow> m = n" for m n
    using digits_val_nat_str by (metis of_nat_eq_iff)
  show ?thesis
    using eq nat_str_eq_minus [THEN not_sym] nat_str_eq_minus
    by (auto simp: int_str_def dest!: nat_inj split: if_splits)
qed

definition delim :: "string \<Rightarrow> bool" where
  "delim r \<longleftrightarrow> r = [] \<or> \<not> num_char (hd r)"

lemma takeWhile_int_str: "delim r \<Longrightarrow> takeWhile num_char (int_str i @ r) = int_str i"
  using int_str_chars [of i] by (cases r) (auto simp: delim_def list_all_iff takeWhile_append)

lemma int_str_prefix:
  "int_str i @ r = int_str j @ r' \<Longrightarrow> delim r \<Longrightarrow> delim r' \<Longrightarrow> i = j \<and> r = r'"
  using takeWhile_int_str [of r i] takeWhile_int_str [of r' j] int_str_inj by fastforce

lemma int_str_hd: "\<exists>c s. int_str i = c # s \<and> num_char c"
  using int_str_chars [of i] nat_str_nonempty
  by (cases "int_str i") (auto simp: int_str_def split: if_splits)

section \<open>Sequences\<close>

lemma delim_comma: "delim (CHR '','' # r)" and delim_brackets: "delim (CHR '']'' # r)" "delim (CHR ''}'' # r)"
  by (simp_all add: delim_def num_char_def is_digit_def less_eq_char_def)

definition tail_text :: "('a \<Rightarrow> string) \<Rightarrow> char \<Rightarrow> 'a list \<Rightarrow> string" where
  "tail_text enc close xs = concat (map (\<lambda>x. CHR '','' # enc x) xs) @ [close]"

lemma str_join_tail: "str_join '','' (map enc (x # xs)) @ [close] = enc x @ tail_text enc close xs"
proof (induction xs arbitrary: x)
  case (Cons y ys)
  from Cons [of y] show ?case by (simp add: tail_text_def)
qed (simp add: tail_text_def)

lemma tail_text_inj:
  assumes "\<And>x y r r'. x \<in> set xs \<Longrightarrow> y \<in> set ys \<Longrightarrow> delim r \<Longrightarrow> delim r' \<Longrightarrow>
      enc x @ r = enc y @ r' \<Longrightarrow> x = y \<and> r = r'"
    and "close = CHR '']'' \<or> close = CHR ''}''"
    and "tail_text enc close xs @ r = tail_text enc close ys @ r'"
  shows "xs = ys \<and> r = r'"
  using assms(1,3)
proof (induction xs arbitrary: ys)
  case Nil
  with assms(2) show ?case by (cases ys) (auto simp: tail_text_def)
next
  case (Cons x xs)
  note outer = Cons
  show ?case
  proof (cases ys)
    case Nil
    with outer(3) assms(2) show ?thesis by (auto simp: tail_text_def)
  next
    case (Cons y zs)
    have delims: "delim (tail_text enc close ws @ q)" for ws q
      using assms(2) delim_comma delim_brackets by (cases ws) (auto simp: tail_text_def)
    have "x = y \<and> tail_text enc close xs @ r = tail_text enc close zs @ r'"
      by (rule outer(2)) (use outer(3) Cons delims in \<open>auto simp: tail_text_def\<close>)
    moreover from this have "xs = zs \<and> r = r'"
      using outer(2) Cons by (intro outer(1)) auto
    ultimately show ?thesis using Cons by simp
  qed
qed

lemma str_join_close:
  "str_join '','' (map enc xs) @ close # r =
     (case xs of [] \<Rightarrow> close # r | x # xs' \<Rightarrow> enc x @ tail_text enc close xs' @ r)"
proof (cases xs)
  case (Cons x xs')
  have "str_join '','' (map enc xs) @ close # r = (str_join '','' (map enc xs) @ [close]) @ r" by simp
  also have "\<dots> = enc x @ tail_text enc close xs' @ r" unfolding Cons str_join_tail by simp
  finally show ?thesis by (simp only: Cons list.case)
qed simp

lemma str_join_inj:
  assumes inj: "\<And>x y r r'. x \<in> set xs \<Longrightarrow> y \<in> set ys \<Longrightarrow> delim r \<Longrightarrow> delim r' \<Longrightarrow>
      enc x @ r = enc y @ r' \<Longrightarrow> x = y \<and> r = r'"
    and close: "close = CHR '']'' \<or> close = CHR ''}''"
    and start: "\<And>z q q'. z \<in> set xs \<union> set ys \<Longrightarrow> enc z @ q \<noteq> close # q'"
    and eq: "str_join '','' (map enc xs) @ close # r = str_join '','' (map enc ys) @ close # r'"
  shows "xs = ys \<and> r = r'"
proof (cases xs; cases ys)
  fix x xs' y ys'
  assume c: "xs = x # xs'" "ys = y # ys'"
  have "enc x @ tail_text enc close xs' @ r = enc y @ tail_text enc close ys' @ r'"
    using eq unfolding str_join_close c list.case .
  then have "tail_text enc close xs @ r = tail_text enc close ys @ r'"
    by (simp add: c tail_text_def)
  with inj close show ?thesis by (rule tail_text_inj)
next
  fix y ys'
  assume c: "xs = []" "ys = y # ys'"
  have "close # r = enc y @ tail_text enc close ys' @ r'"
    using eq unfolding str_join_close c list.case .
  moreover have "y \<in> set xs \<union> set ys" by (simp add: c)
  ultimately show ?thesis using start by metis
next
  fix x xs'
  assume c: "xs = x # xs'" "ys = []"
  have "enc x @ tail_text enc close xs' @ r = close # r'"
    using eq unfolding str_join_close c list.case .
  moreover have "x \<in> set xs \<union> set ys" by (simp add: c)
  ultimately show ?thesis using start by metis
next
  assume c: "xs = []" "ys = []"
  from eq show ?thesis unfolding str_join_close c list.case by simp
qed

section \<open>Values\<close>

lemma num_char_literals [simp]:
  "\<not> num_char (CHR ''n'')" "\<not> num_char (CHR ''t'')" "\<not> num_char (CHR ''f'')"
  "\<not> num_char (CHR 0x22)" "\<not> num_char (CHR ''['')" "\<not> num_char (CHR ''{'')"
  "\<not> num_char (CHR '']'')" "\<not> num_char (CHR ''}'')" "\<not> num_char (CHR '','')"
  by (simp_all add: num_char_def is_digit_def less_eq_char_def)

text \<open>The first character of an encoded value tells its kind.\<close>

fun kind :: "pyval \<Rightarrow> nat" where
  "kind PNone = 0"
| "kind (PBool b) = (if b then 1 else 2)"
| "kind (PInt _) = 3"
| "kind (PStr _) = 4"
| "kind (PList _) = 5"
| "kind (PDict _) = 6"
| "kind _ = 7"

fun lead :: "pyval \<Rightarrow> char \<Rightarrow> bool" where
  "lead PNone c = (c = CHR ''n'')"
| "lead (PBool b) c = (c = (if b then CHR ''t'' else CHR ''f''))"
| "lead (PInt _) c = num_char c"
| "lead (PStr _) c = (c = CHR 0x22)"
| "lead (PList _) c = (c = CHR ''['')"
| "lead (PDict _) c = (c = CHR ''{'')"
| "lead _ c = False"

lemma lead_enc: "json_ok v \<Longrightarrow> \<exists>c s. json_enc v = c # s \<and> lead v c"
  using int_str_hd by (cases v) (simp_all add: json_str_def)

definition kind_of_char :: "char \<Rightarrow> nat" where
  "kind_of_char c = (if num_char c then 3 else if c = CHR ''n'' then 0 else if c = CHR ''t'' then 1
     else if c = CHR ''f'' then 2 else if c = CHR 0x22 then 4 else if c = CHR ''['' then 5 else 6)"

lemma lead_kind_of_char: "lead v c \<Longrightarrow> kind v = kind_of_char c"
  by (cases v) (simp_all add: kind_of_char_def split: if_splits)

lemma lead_kind: "lead v c \<Longrightarrow> lead v' c \<Longrightarrow> kind v = kind v'"
  by (simp add: lead_kind_of_char)

lemma enc_kind:
  assumes "json_ok v" "json_ok v'" "json_enc v @ r = json_enc v' @ r'"
  shows "kind v = kind v'"
proof -
  obtain c s where c: "json_enc v = c # s" "lead v c" using lead_enc [OF assms(1)] by blast
  obtain c' s' where c': "json_enc v' = c' # s'" "lead v' c'" using lead_enc [OF assms(2)] by blast
  have "c = c'" using assms(3) unfolding c(1) c'(1) by simp
  with c(2) have "lead v c'" by simp
  then show ?thesis using c'(2) by (rule lead_kind)
qed

lemma enc_not_bracket: "json_ok v \<Longrightarrow> json_enc v @ q \<noteq> CHR '']'' # q'"
proof
  assume ok: "json_ok v" and eq: "json_enc v @ q = CHR '']'' # q'"
  obtain c s where c: "json_enc v = c # s" "lead v c" using lead_enc [OF ok] by blast
  have "c = CHR '']''" using eq unfolding c(1) by simp
  with c(2) show False by (cases v) (simp_all split: if_splits)
qed

definition member_text :: "string \<times> pyval \<Rightarrow> string" where
  "member_text kv = json_str (fst kv) @ CHR '':'' # json_enc (snd kv)"

lemma json_enc_PDict: "json_enc (PDict kvs) = CHR ''{'' # str_join '','' (map member_text kvs) @ [CHR ''}'']"
proof -
  have "(\<lambda>(k, v). json_str k @ '':'' @ json_enc v) = member_text"
    by (rule ext) (simp add: member_text_def split_beta)
  then show ?thesis by simp
qed

lemma member_not_bracket: "member_text kv @ q \<noteq> CHR ''}'' # q'"
  by (simp add: member_text_def json_str_def)

definition enc_unique :: "pyval \<Rightarrow> bool" where
  "enc_unique v \<longleftrightarrow> (\<forall>v' r r'. json_ok v \<longrightarrow> json_ok v' \<longrightarrow> delim r \<longrightarrow> delim r' \<longrightarrow>
     json_enc v @ r = json_enc v' @ r' \<longrightarrow> v = v' \<and> r = r')"

lemma enc_uniqueD:
  "enc_unique v \<Longrightarrow> json_ok v \<Longrightarrow> json_ok v' \<Longrightarrow> delim r \<Longrightarrow> delim r' \<Longrightarrow>
   json_enc v @ r = json_enc v' @ r' \<Longrightarrow> v = v' \<and> r = r'"
  unfolding enc_unique_def by blast

lemma enc_uniqueI:
  assumes "\<And>v' r r'. json_ok v \<Longrightarrow> json_ok v' \<Longrightarrow> delim r \<Longrightarrow> delim r' \<Longrightarrow> kind v = kind v' \<Longrightarrow>
     json_enc v @ r = json_enc v' @ r' \<Longrightarrow> v = v' \<and> r = r'"
  shows "enc_unique v"
  unfolding enc_unique_def using assms enc_kind by blast

lemma kind_PBool: "kind v' = kind (PBool b) \<Longrightarrow> v' = PBool b"
  by (cases v') (simp_all split: if_splits)

lemma kind_dest:
  "kind v' = 0 \<Longrightarrow> v' = PNone" "kind v' = 3 \<Longrightarrow> \<exists>i. v' = PInt i" "kind v' = 4 \<Longrightarrow> \<exists>s. v' = PStr s"
  "kind v' = 5 \<Longrightarrow> \<exists>vs. v' = PList vs" "kind v' = 6 \<Longrightarrow> \<exists>kvs. v' = PDict kvs"
  by (cases v'; simp split: if_splits)+

lemma enc_unique_PList:
  assumes IH: "\<And>x. x \<in> set vs \<Longrightarrow> enc_unique x"
  shows "enc_unique (PList vs)"
proof (rule enc_uniqueI)
  fix v' r r'
  assume ok: "json_ok (PList vs)" "json_ok v'" and k: "kind (PList vs) = kind v'"
    and eq: "json_enc (PList vs) @ r = json_enc v' @ r'"
  obtain ws where ws: "v' = PList ws" using kind_dest(4) [of v'] k by auto
  have "str_join '','' (map json_enc vs) @ CHR '']'' # r = str_join '','' (map json_enc ws) @ CHR '']'' # r'"
    using eq unfolding ws by simp
  then have "vs = ws \<and> r = r'"
  proof (rule str_join_inj [rotated 3])
    fix x y q q'
    assume "x \<in> set vs" "y \<in> set ws" "delim q" "delim q'" "json_enc x @ q = json_enc y @ q'"
    with IH ok ws show "x = y \<and> q = q'" by (intro enc_uniqueD) auto
  next
    fix z q q'
    assume "z \<in> set vs \<union> set ws"
    with ok ws have "json_ok z" by auto
    then show "json_enc z @ q \<noteq> CHR '']'' # q'" by (rule enc_not_bracket)
  qed simp
  with ws show "PList vs = v' \<and> r = r'" by simp
qed

lemma member_unique:
  assumes "enc_unique (snd x)" "json_ok (snd x)" "json_ok (snd y)" "delim q" "delim q'"
    and eq: "member_text x @ q = member_text y @ q'"
  shows "x = y \<and> q = q'"
proof -
  have "json_str (fst x) @ CHR '':'' # json_enc (snd x) @ q = json_str (fst y) @ CHR '':'' # json_enc (snd y) @ q'"
    using eq by (simp add: member_text_def)
  from json_str_inj [OF this] have f: "fst x = fst y"
    and e: "json_enc (snd x) @ q = json_enc (snd y) @ q'" by simp_all
  from enc_uniqueD [OF assms(1-5) e] f show ?thesis by (simp add: prod_eq_iff)
qed

lemma enc_unique_PDict:
  assumes IH: "\<And>x. x \<in> set kvs \<Longrightarrow> enc_unique (snd x)"
  shows "enc_unique (PDict kvs)"
proof (rule enc_uniqueI)
  fix v' r r'
  assume ok: "json_ok (PDict kvs)" "json_ok v'" and k: "kind (PDict kvs) = kind v'"
    and eq: "json_enc (PDict kvs) @ r = json_enc v' @ r'"
  obtain ws where ws: "v' = PDict ws" using kind_dest(5) [of v'] k by auto
  have "str_join '','' (map member_text kvs) @ CHR ''}'' # r = str_join '','' (map member_text ws) @ CHR ''}'' # r'"
    using eq unfolding ws json_enc_PDict by simp
  then have "kvs = ws \<and> r = r'"
  proof (rule str_join_inj [rotated 3])
    fix x y q q'
    assume "x \<in> set kvs" "y \<in> set ws" "delim q" "delim q'" "member_text x @ q = member_text y @ q'"
    with IH ok ws show "x = y \<and> q = q'" by (intro member_unique) auto
  qed (simp_all add: member_not_bracket)
  with ws show "PDict kvs = v' \<and> r = r'" by simp
qed

lemma enc_unique_atoms:
  "enc_unique PNone" "enc_unique (PBool b)" "enc_unique (PInt i)" "enc_unique (PStr s)"
proof -
  show "enc_unique PNone"
  proof (rule enc_uniqueI)
    fix v' r r' assume k: "kind PNone = kind v'" and eq: "json_enc PNone @ r = json_enc v' @ r'"
    from k have "v' = PNone" by (intro kind_dest) simp
    with eq show "PNone = v' \<and> r = r'" by simp
  qed
  show "enc_unique (PBool b)"
  proof (rule enc_uniqueI)
    fix v' r r' assume k: "kind (PBool b) = kind v'" and eq: "json_enc (PBool b) @ r = json_enc v' @ r'"
    from k have "v' = PBool b" by (intro kind_PBool) simp
    with eq show "PBool b = v' \<and> r = r'" by simp
  qed
  show "enc_unique (PInt i)"
  proof (rule enc_uniqueI)
    fix v' r r' assume k: "kind (PInt i) = kind v'" and eq: "json_enc (PInt i) @ r = json_enc v' @ r'"
      and d: "delim r" "delim r'"
    from k obtain j where j: "v' = PInt j" using kind_dest(2) [of v'] by auto
    have "int_str i @ r = int_str j @ r'" using eq unfolding j by simp
    from int_str_prefix [OF this d] j show "PInt i = v' \<and> r = r'" by simp
  qed
  show "enc_unique (PStr s)"
  proof (rule enc_uniqueI)
    fix v' r r' assume k: "kind (PStr s) = kind v'" and eq: "json_enc (PStr s) @ r = json_enc v' @ r'"
    from k obtain t where t: "v' = PStr t" using kind_dest(3) [of v'] by auto
    have "json_str s @ r = json_str t @ r'" using eq unfolding t by simp
    from json_str_inj [OF this] t show "PStr s = v' \<and> r = r'" by simp
  qed
qed

lemma enc_unique_bad: "\<not> json_ok v \<Longrightarrow> enc_unique v"
  unfolding enc_unique_def by blast

lemma enc_unique: "enc_unique v"
proof (induction v rule: json_enc.induct)
  case (8 vs)
  then show ?case by (intro enc_unique_PList) blast
next
  case (9 kvs)
  show ?case
  proof (rule enc_unique_PDict)
    fix x assume "x \<in> set kvs"
    with 9 [of x "fst x" "snd x"] show "enc_unique (snd x)" by simp
  qed
qed (simp_all only: enc_unique_atoms enc_unique_bad json_ok.simps not_False_eq_True)

theorem json_enc_inj: "json_ok v \<Longrightarrow> json_ok v' \<Longrightarrow> json_enc v = json_enc v' \<Longrightarrow> v = v'"
  using enc_uniqueD [OF enc_unique, of v v' "[]" "[]"] by (simp add: delim_def)

section \<open>Canonical documents\<close>

lemma sort_key_fst_eq_iff:
  fixes xs ys :: "('a::linorder \<times> 'b) list"
  assumes "distinct (map fst xs)" "distinct (map fst ys)"
  shows "sort_key fst xs = sort_key fst ys \<longleftrightarrow> map_of xs = map_of ys"
proof
  assume "sort_key fst xs = sort_key fst ys"
  then have "mset xs = mset ys" by (metis mset_sort)
  then have "set xs = set ys" by (metis set_mset_mset)
  with assms show "map_of xs = map_of ys" by (rule map_of_inject_set [THEN iffD2])
next
  assume "map_of xs = map_of ys"
  with assms have "set xs = set ys" by (simp add: map_of_inject_set)
  moreover have "distinct xs" "distinct ys" using assms by (simp_all add: distinct_map)
  ultimately have "mset xs = mset ys" by (simp add: set_eq_iff_mset_eq_distinct)
  moreover have "inj_on fst (set xs)" using assms(1) by (simp add: distinct_map)
  ultimately show "sort_key fst xs = sort_key fst ys"
    by (intro sort_key_inj_key_eq) simp_all
qed

text \<open>Two documents have the same canonical bytes exactly when they bind the same keys to
  values with the same canonical form.\<close>

lemma canonical_dict_eq_iff:
  assumes "json_ok (PDict a)" "json_ok (PDict b)" "distinct (map fst a)" "distinct (map fst b)"
  shows "canonical_json_bytes (PDict a) = canonical_json_bytes (PDict b) \<longleftrightarrow>
    (\<forall>k. map_option sort_keys (map_of a k) = map_option sort_keys (map_of b k))"
proof -
  let ?n = "map (\<lambda>(k, v). (k, sort_keys v)) :: pydict \<Rightarrow> pydict"
  have mo: "map_of (?n d) k = map_option sort_keys (map_of d k)" for d :: pydict and k
    by (simp add: map_of_map)
  have "canonical_json_bytes (PDict a) = canonical_json_bytes (PDict b) \<longleftrightarrow>
      sort_keys (PDict a) = sort_keys (PDict b)"
    using assms(1,2) json_enc_inj [of "sort_keys (PDict a)" "sort_keys (PDict b)"]
    unfolding canonical_json_bytes_def
    by (simp only: if_True sum.inject json_ok_sort_keys) (metis (no_types))
  also have "\<dots> \<longleftrightarrow> map_of (?n a) = map_of (?n b)"
    using assms(3,4) by (simp add: sort_key_fst_eq_iff comp_def case_prod_unfold)
  also have "\<dots> \<longleftrightarrow> (\<forall>k. map_option sort_keys (map_of a k) = map_option sort_keys (map_of b k))"
    by (simp add: fun_eq_iff mo)
  finally show ?thesis .
qed

end
