(* ===== verification/Boundary_Facts.thy ===== *)
theory Boundary_Facts
  imports Boundary
begin

text \<open>
  The boundary decides by the headers alone whether a request reaches its handler, an agent
  is let in only with its token and within its policy, every decision about an agent is
  audited, and an agent never gets past the guard of an administrative endpoint.
\<close>

section \<open>Which requests reach the handler\<close>

definition days_header :: "http_req \<Rightarrow> string" where
  "days_header req = header req ''X-Client-Cert-Days-Remaining''"

definition days_numeric :: "http_req \<Rightarrow> bool" where
  "days_numeric req \<longleftrightarrow> all_digits (dropWhile (\<lambda>c. c = CHR ''-'') (strip (days_header req)))"

definition days_well_formed :: "http_req \<Rightarrow> bool" where
  \<comment> \<open>a number of days is written with at most one sign\<close>
  "days_well_formed req \<longleftrightarrow> (days_numeric req \<longrightarrow> parse_int (strip (days_header req)) \<noteq> None)"

definition cert_headers_present :: "http_req \<Rightarrow> bool" where
  "cert_headers_present req \<longleftrightarrow>
     list_ex (\<lambda>name. header req name \<noteq> []) [''X-Client-Cert-Verify'', ''X-Client-Cert-Subject'',
       ''X-Client-Cert-Issuer'', ''X-Client-Cert-Serial'', ''X-Client-Cert-Fingerprint'',
       ''X-Client-Cert-Not-Before'', ''X-Client-Cert-Not-After'']
     \<or> (days_numeric req \<and> parse_int (strip (days_header req)) \<noteq> Some 0)"

definition boundary_admits :: "settings \<Rightarrow> http_req \<Rightarrow> bool" where
  "boundary_admits st req \<longleftrightarrow>
     (if hr_path req = ''/internal/health'' then connection_ip req \<in> {''127.0.0.1'', ''::1''}
      else (\<not> cert_headers_present req \<and> \<not> is_https_edge req)
        \<or> (is_https_edge req \<and> internal_proxy_proof_ok st req \<and> header req ''X-Client-Cert-Verify'' = ''SUCCESS''))"

lemma header_correlation [simp]: "header (req\<lparr>hr_correlation := c\<rparr>) n = header req n"
  by (simp add: header_def)

lemma request_facts_correlation [simp]:
  "days_header (req\<lparr>hr_correlation := c\<rparr>) = days_header req"
  "days_numeric (req\<lparr>hr_correlation := c\<rparr>) = days_numeric req"
  "days_well_formed (req\<lparr>hr_correlation := c\<rparr>) = days_well_formed req"
  "cert_headers_present (req\<lparr>hr_correlation := c\<rparr>) = cert_headers_present req"
  "is_https_edge (req\<lparr>hr_correlation := c\<rparr>) = is_https_edge req"
  "internal_proxy_proof_ok st (req\<lparr>hr_correlation := c\<rparr>) = internal_proxy_proof_ok st req"
  "connection_ip (req\<lparr>hr_correlation := c\<rparr>) = connection_ip req"
  "boundary_admits st (req\<lparr>hr_correlation := c\<rparr>) = boundary_admits st req"
  by (simp_all add: days_header_def days_numeric_def days_well_formed_def cert_headers_present_def
      is_https_edge_def internal_proxy_proof_ok_def connection_ip_def boundary_admits_def)

lemma header_details_run:
  assumes "days_well_formed req"
  obtains d w' where "client_cert_header_details x req w = (Inr d, w')"
    "cd_verify d = header req ''X-Client-Cert-Verify''" "details_present d = cert_headers_present req"
proof -
  have "\<exists>days w'. cert_days_remaining x (header req ''X-Client-Cert-Not-After'') (days_header req) w = (Inr days, w')
      \<and> (days_numeric req \<longrightarrow> days = parse_int (strip (days_header req)))
      \<and> (\<not> days_numeric req \<longrightarrow> header req ''X-Client-Cert-Not-After'' = [] \<longrightarrow> days = None)"
    using assms
    by (auto simp: cert_days_remaining_def days_well_formed_def days_numeric_def parse_tls_date_def
        ret_def bindE_def now_us_def split: option.splits)
  then obtain days w' where run: "cert_days_remaining x (header req ''X-Client-Cert-Not-After'') (days_header req) w
      = (Inr days, w')" and num: "days_numeric req \<longrightarrow> days = parse_int (strip (days_header req))"
    and none: "\<not> days_numeric req \<longrightarrow> header req ''X-Client-Cert-Not-After'' = [] \<longrightarrow> days = None" by blast
  let ?d = "\<lparr>cd_verify = header req ''X-Client-Cert-Verify'', cd_subject = header req ''X-Client-Cert-Subject'',
          cd_issuer = header req ''X-Client-Cert-Issuer'', cd_serial = header req ''X-Client-Cert-Serial'',
          cd_fingerprint = header req ''X-Client-Cert-Fingerprint'',
          cd_not_before = header req ''X-Client-Cert-Not-Before'',
          cd_not_after = header req ''X-Client-Cert-Not-After'', cd_days = days\<rparr>"
  have "client_cert_header_details x req w = (Inr ?d, w')"
    using run by (simp add: client_cert_header_details_def bindE_def ret_def Let_def days_header_def)
  moreover have "details_present ?d = cert_headers_present req"
  proof -
    have "truthy (opt_int days) \<longleftrightarrow> days \<noteq> None \<and> days \<noteq> Some 0" by (cases days) (auto simp: opt_int_def)
    then show ?thesis
      using num none assms
      by (auto simp: details_present_def cert_details_dict_def cert_headers_present_def days_well_formed_def)
  qed
  ultimately show ?thesis using that by simp
qed

lemma correlation_id_run:
  obtains cid c w' where "correlation_id req w = (Inr (cid, req\<lparr>hr_correlation := c\<rparr>), w')"
proof (cases "strip (hr_correlation req) \<noteq> []")
  case True
  then have "correlation_id req w = (Inr (strip (hr_correlation req), req\<lparr>hr_correlation := hr_correlation req\<rparr>), w)"
    by (simp add: correlation_id_def ret_def)
  then show ?thesis by (rule that)
next
  case False
  obtain v w' where "(if header req ''X-Correlation-ID'' \<noteq> [] then ret (header req ''X-Correlation-ID'') else uuid4_hex) w
      = (Inr v, w')" by (cases "header req ''X-Correlation-ID'' = []") (auto simp: ret_def uuid4_hex_def)
  with False have "correlation_id req w = (Inr (v, req\<lparr>hr_correlation := v\<rparr>), w')"
    by (simp add: correlation_id_def bindE_def ret_def)
  then show ?thesis by (rule that)
qed

lemma audit_mtls_run:
  assumes "days_well_formed req"
  obtains w' where "audit_mtls_identity x st req ty reason det w = (Inr (), w')"
proof -
  obtain cid c w1 where c: "correlation_id req w = (Inr (cid, req\<lparr>hr_correlation := c\<rparr>), w1)"
    by (rule correlation_id_run)
  obtain d w2 where d: "client_cert_header_details x req w1 = (Inr d, w2)"
    using assms by (rule header_details_run)
  have quiet: "\<exists>w'. catchE m (\<lambda>_. ret ()) v = (Inr (), w')" for m :: "unit op" and v
    by (auto simp: catchE_def ret_def split: prod.splits sum.splits)
  show ?thesis
    using quiet that c d by (simp add: audit_mtls_identity_def bindE_def Let_def) blast
qed

lemma boundary_refuses:
  assumes "days_well_formed req" and "\<not> boundary_admits st req"
  shows "\<exists>r w'. (\<forall>h. enforce_mtls_header_boundary x st h req w = (Inr r, w')) \<and> rs_status r \<in> {401, 403, 404}"
proof -
  obtain cid c w1 where c: "correlation_id req w = (Inr (cid, req\<lparr>hr_correlation := c\<rparr>), w1)"
    by (rule correlation_id_run)
  let ?r = "req\<lparr>hr_correlation := c\<rparr>"
  have wf: "days_well_formed ?r" and out: "\<not> boundary_admits st ?r" using assms by simp_all
  obtain d w2 where d: "client_cert_header_details x ?r w1 = (Inr d, w2)" "details_present d = cert_headers_present ?r"
    using wf by (rule header_details_run)
  have h: "has_client_cert_headers x ?r w1 = (Inr (cert_headers_present ?r), w2)"
    using d by (simp add: has_client_cert_headers_def bindE_def ret_def)
  obtain e w3 where e: "client_cert_header_details x ?r w2 = (Inr e, w3)"
      "cd_verify e = header ?r ''X-Client-Cert-Verify''" using wf by (rule header_details_run)
  note aud = audit_mtls_run [OF wf, of x st]
  obtain w4 where a4: "audit_mtls_identity x st ?r ''mtls_client_identity_failure'' ''untrusted_proxy_headers''
      [(''proxy_proof'', PStr ''fail'')] w2 = (Inr (), w4)" by (rule aud)
  obtain w5 where a5: "audit_mtls_identity x st ?r ''mtls_client_identity_failure'' ''mtls_headers_on_non_https_request''
      [(''proxy_proof'', PStr ''ok'')] w2 = (Inr (), w5)" by (rule aud)
  obtain w6 where a6: "audit_mtls_identity x st ?r ''mtls_client_identity_failure''
      (verify_failure_reason (cd_verify e)) [(''proxy_proof'', PStr ''ok'')] w3 = (Inr (), w6)" by (rule aud)
  let ?n = "header ?r ''X-Client-Cert-Verify''"
  note step = enforce_mtls_header_boundary_def bindE_def c h Let_def https_edge_def e(1)
  note keep = header_correlation request_facts_correlation
  consider (health) "hr_path ?r = ''/internal/health''" "connection_ip ?r \<notin> {''127.0.0.1'', ''::1''}"
    | (untrusted) "hr_path ?r \<noteq> ''/internal/health''" "cert_headers_present ?r \<or> is_https_edge ?r"
        "\<not> internal_proxy_proof_ok st ?r"
    | (plain) "hr_path ?r \<noteq> ''/internal/health''" "internal_proxy_proof_ok st ?r" "cert_headers_present ?r"
        "\<not> is_https_edge ?r"
    | (verify) "hr_path ?r \<noteq> ''/internal/health''" "internal_proxy_proof_ok st ?r" "is_https_edge ?r"
        "?n \<noteq> ''SUCCESS''"
    using out unfolding boundary_admits_def by argo
  then show ?thesis
  proof cases
    case health
    then show ?thesis by (simp add: step ret_def with_correlation_def json_response_def del: keep)
  next
    case untrusted
    then show ?thesis
      by (simp add: step ret_def a4 boundary_error_def with_correlation_def json_response_def del: keep)
  next
    case plain
    then show ?thesis
      by (simp add: step ret_def a5 boundary_error_def with_correlation_def json_response_def del: keep)
  next
    case verify
    with e(2) have "cd_verify e \<noteq> ''SUCCESS''" by (simp del: keep)
    with verify show ?thesis
      by (simp add: step ret_def a6 boundary_error_def with_correlation_def json_response_def del: keep)
  qed
qed

lemma boundary_passes:
  assumes "days_well_formed req" and "boundary_admits st req"
  shows "\<exists>cid c w'. \<forall>h. enforce_mtls_header_boundary x st h req w =
    bindE (h (req\<lparr>hr_correlation := c\<rparr>)) (\<lambda>r. ret (with_correlation cid r)) w'"
proof -
  obtain cid c w1 where c: "correlation_id req w = (Inr (cid, req\<lparr>hr_correlation := c\<rparr>), w1)"
    by (rule correlation_id_run)
  let ?r = "req\<lparr>hr_correlation := c\<rparr>"
  have wf: "days_well_formed ?r" and ok: "boundary_admits st ?r" using assms by simp_all
  obtain d w2 where d: "client_cert_header_details x ?r w1 = (Inr d, w2)" "details_present d = cert_headers_present ?r"
    using wf by (rule header_details_run)
  have h: "has_client_cert_headers x ?r w1 = (Inr (cert_headers_present ?r), w2)"
    using d by (simp add: has_client_cert_headers_def bindE_def ret_def)
  obtain e w3 where e: "client_cert_header_details x ?r w2 = (Inr e, w3)"
      "cd_verify e = header ?r ''X-Client-Cert-Verify''" using wf by (rule header_details_run)
  obtain w4 where a: "audit_mtls_identity x st ?r ''mtls_client_identity_success'' ''client_certificate_verified''
      [(''proxy_proof'', PStr ''ok'')] w3 = (Inr (), w4)" by (rule audit_mtls_run [OF wf])
  note step = enforce_mtls_header_boundary_def bindE_def c h Let_def https_edge_def e(1)
  note keep = header_correlation request_facts_correlation
  consider (health) "hr_path ?r = ''/internal/health''" "connection_ip ?r \<in> {''127.0.0.1'', ''::1''}"
    | (plain) "hr_path ?r \<noteq> ''/internal/health''" "\<not> cert_headers_present ?r" "\<not> is_https_edge ?r"
    | (verified) "hr_path ?r \<noteq> ''/internal/health''" "internal_proxy_proof_ok st ?r" "is_https_edge ?r"
        "header ?r ''X-Client-Cert-Verify'' = ''SUCCESS''"
    using ok unfolding boundary_admits_def by argo
  then show ?thesis
  proof cases
    case health
    then show ?thesis
      by (intro exI [of _ cid] exI [of _ c] exI [of _ w2]) (simp add: step del: keep)
  next
    case plain
    then show ?thesis
      by (intro exI [of _ cid] exI [of _ c] exI [of _ w2]) (simp add: step del: keep)
  next
    case verified
    with e(2) have "cd_verify e = ''SUCCESS''" by (simp del: keep)
    with verified show ?thesis
      by (intro exI [of _ cid] exI [of _ c] exI [of _ w4]) (simp add: step a del: keep)
  qed
qed

lemma boundary_malformed_days:
  assumes "days_numeric req" and "parse_int (strip (days_header req)) = None"
  shows "\<exists>w'. enforce_mtls_header_boundary x st h req w = (Inl (ValueError ''int''), w')"
proof -
  obtain cid c w1 where c: "correlation_id req w = (Inr (cid, req\<lparr>hr_correlation := c\<rparr>), w1)"
    by (rule correlation_id_run)
  have "has_client_cert_headers x (req\<lparr>hr_correlation := c\<rparr>) w1 = (Inl (ValueError ''int''), w1)"
    using assms
    by (simp add: has_client_cert_headers_def client_cert_header_details_def cert_days_remaining_def bindE_def
        raise_def Let_def days_numeric_def days_header_def)
  then show ?thesis
    by (simp add: enforce_mtls_header_boundary_def bindE_def c)
qed

section \<open>Agents\<close>

lemma log_audit_run:
  "log_audit ty ac tg det w = (Inr u, w') \<Longrightarrow>
   \<exists>e. d_audit (w_db w') = d_audit (w_db w) @ [e] \<and> ev_type e = ty \<and> ev_actor e = ac \<and> ev_target e = tg
     \<and> ev_details e = det"
  unfolding log_audit_def on_db_run by (auto simp: audit_def split: sum.splits)

lemma agent_policy_run:
  "agent_policy_of a w = (r, w') \<Longrightarrow> w_db w' = w_db w"
  by (auto simp: agent_policy_of_def split: prod.splits)

definition audited_one :: "string \<Rightarrow> world \<Rightarrow> world \<Rightarrow> bool" where
  \<comment> \<open>exactly one event of that type was appended\<close>
  "audited_one ty w w' \<longleftrightarrow> (\<exists>e. d_audit (w_db w') = d_audit (w_db w) @ [e] \<and> ev_type e = ty)"

lemma auth_failure_run:
  "auth_failure actor target reason extra status message code ip w = (Inr r, w') \<Longrightarrow>
   audited_one ''agent_auth_failure'' w w' \<and> (\<exists>resp. r = Some resp \<and> rs_status resp = status)"
  unfolding auth_failure_def run_simps audited_one_def
  by (auto simp: json_response_def dest!: log_audit_run)

definition agent_entitled ::
  "world \<Rightarrow> http_req \<Rightarrow> string \<Rightarrow> string option \<Rightarrow> string option \<Rightarrow> string option \<Rightarrow> bool" where
  \<comment> \<open>the policy the store returns has the presented token and covers the resource\<close>
  "agent_entitled w req access zone role uri \<longleftrightarrow>
     header req ''X-GDS-Agent-ID'' \<noteq> [] \<and> header req ''X-GDS-Agent-Token'' \<noteq> [] \<and>
     (\<exists>p. fst (agent_policy_of (header req ''X-GDS-Agent-ID'') w) = Inr (Some p) \<and>
        ag_token p = header req ''X-GDS-Agent-Token'' \<and> agent_allowed p access zone role uri)"

lemma tryE_run:
  "tryE m h k w = (Inr y, w') \<longleftrightarrow>
   (\<exists>e w1. m w = (Inl e, w1) \<and> h e w1 = (Inr y, w')) \<or> (\<exists>a w1. m w = (Inr a, w1) \<and> k a w1 = (Inr y, w'))"
  by (auto simp: tryE_def split: prod.splits sum.splits)

definition agent_checks :: "http_req \<Rightarrow> string \<Rightarrow> string option \<Rightarrow> string option \<Rightarrow> string option \<Rightarrow> world \<Rightarrow>
    response option \<Rightarrow> world \<Rightarrow> bool" where
  "agent_checks req access zone role uri w r w' \<longleftrightarrow>
     (r = None \<and> agent_entitled w req access zone role uri \<and> audited_one ''agent_auth_success'' w w')
     \<or> (\<exists>resp. r = Some resp \<and> rs_status resp \<in> {401, 403, 503} \<and>
          (audited_one ''agent_auth_failure'' w w' \<or> audited_one ''agent_unauthorized_pull'' w w'))"

lemma denied_checks:
  "auth_failure ac tg re ex status ms co ip w1 = (Inr r, w') \<Longrightarrow> w_db w1 = w_db w \<Longrightarrow> status \<in> {401, 403, 503} \<Longrightarrow>
   agent_checks req access zone role uri w r w'"
  by (drule auth_failure_run) (auto simp: agent_checks_def audited_one_def)

lemma judge_policy_outcome:
  assumes run: "judge_policy (header req ''X-GDS-Agent-ID'') (header req ''X-GDS-Agent-Token'') ip tg access zone role uri
      found w1 = (Inr r, w')"
    and pol: "agent_policy_of (header req ''X-GDS-Agent-ID'') w = (Inr found, w1)"
    and given: "header req ''X-GDS-Agent-ID'' \<noteq> []" "header req ''X-GDS-Agent-Token'' \<noteq> []"
  shows "agent_checks req access zone role uri w r w'"
proof (cases found)
  case None
  with run show ?thesis
    by (intro denied_checks [OF _ agent_policy_run [OF pol]]) (auto simp: judge_policy_def)
next
  case (Some p)
  note db = agent_policy_run [OF pol]
  obtain b where v: "verify_token p (header req ''X-GDS-Agent-Token'') = Inr b"
    using run unfolding judge_policy_def Some option.case run_simps by blast
  note go = run [unfolded judge_policy_def Some option.case bindE_Inr lift_sum_run v]
  consider "\<not> b" | "b" "\<not> agent_allowed p access zone role uri" | "b" "agent_allowed p access zone role uri" by blast
  then show ?thesis
  proof cases
    case 1
    with go show ?thesis by (intro denied_checks [OF _ db]) auto
  next
    case 2
    with go db show ?thesis
      by (auto simp: not_authorized_def bindE_Inr ret_run agent_checks_def audited_one_def json_response_def
          dest!: log_audit_run)
  next
    case 3
    have "ag_token p = header req ''X-GDS-Agent-Token''"
      using v 3(1) by (auto simp: verify_token_def split: if_splits)
    with 3 given pol Some have "agent_entitled w req access zone role uri" by (auto simp: agent_entitled_def)
    with 3 go db show ?thesis
      by (auto simp: bindE_Inr ret_run agent_checks_def audited_one_def dest!: log_audit_run)
  qed
qed

lemma authorize_outcome:
  assumes en: "agent_auth_enabled (s_auth st)" "w_started w"
    and run: "authorize_agent_pull st req access zone role uri w = (Inr r, w')"
  shows "agent_checks req access zone role uri w r w'"
proof -
  let ?id = "header req ''X-GDS-Agent-ID''" and ?tok = "header req ''X-GDS-Agent-Token''"
  let ?ip = "request_ip st req" and ?tg = "auth_target access zone role uri"
  have "(?id = [] \<or> ?tok = []) \<and> (\<exists>re co ms. auth_failure ''unknown'' ?tg re [] 401 ms co ?ip w = (Inr r, w'))
    \<or> (\<exists>re co. policy_unavailable st ?id ?tg re co ?ip w = (Inr r, w'))
    \<or> (?id \<noteq> [] \<and> ?tok \<noteq> [] \<and> tryE (agent_policy_of ?id)
         (\<lambda>_. auth_failure ?id ?tg ''tokens_file_error'' [] 503 ''agent auth unavailable'' ''agent_token_policy_error'' ?ip)
         (judge_policy ?id ?tok ?ip ?tg access zone role uri) w = (Inr r, w'))"
    using run en unfolding authorize_agent_pull_def Let_def tokens_file_now_def
    by (simp add: bindE_Inr getE_run split: if_splits) blast+
  then show ?thesis
  proof (elim disjE exE conjE)
    fix re co assume "policy_unavailable st ?id ?tg re co ?ip w = (Inr r, w')"
    then show ?thesis unfolding policy_unavailable_def by (rule denied_checks) simp_all
  next
    assume given: "?id \<noteq> []" "?tok \<noteq> []" and t: "tryE (agent_policy_of ?id)
         (\<lambda>_. auth_failure ?id ?tg ''tokens_file_error'' [] 503 ''agent auth unavailable'' ''agent_token_policy_error'' ?ip)
         (judge_policy ?id ?tok ?ip ?tg access zone role uri) w = (Inr r, w')"
    from t show ?thesis
      unfolding tryE_run
    proof (elim disjE exE conjE)
      fix e w1
      assume p: "agent_policy_of ?id w = (Inl e, w1)" and f: "auth_failure ?id ?tg ''tokens_file_error'' [] 503
        ''agent auth unavailable'' ''agent_token_policy_error'' ?ip w1 = (Inr r, w')"
      show ?thesis using f agent_policy_run [OF p] by (rule denied_checks) simp
    next
      fix found w1
      assume p: "agent_policy_of ?id w = (Inr found, w1)"
        and j: "judge_policy ?id ?tok ?ip ?tg access zone role uri found w1 = (Inr r, w')"
      show ?thesis using j p given by (rule judge_policy_outcome)
    qed
  next
    fix re co ms assume f: "auth_failure ''unknown'' ?tg re [] 401 ms co ?ip w = (Inr r, w')"
    show ?thesis using f refl by (rule denied_checks) simp
  next
    fix re co ms assume f: "auth_failure ''unknown'' ?tg re [] 401 ms co ?ip w = (Inr r, w')"
    show ?thesis using f refl by (rule denied_checks) simp
  qed
qed

text \<open>A caller with agent headers never passes the guard of an administrative endpoint.\<close>

lemma admin_guard:
  assumes "agent_auth_enabled (s_auth st)" "header req ''X-GDS-Agent-ID'' \<noteq> [] \<or> header req ''X-GDS-Agent-Token'' \<noteq> []"
  shows "fst (deny_agent_on_admin_endpoint st req target w) \<noteq> Inr None"
proof
  assume "fst (deny_agent_on_admin_endpoint st req target w) = Inr None"
  then obtain w' where "deny_agent_on_admin_endpoint st req target w = (Inr None, w')" by (metis prod.collapse)
  with assms show False
    unfolding deny_agent_on_admin_endpoint_def Let_def
    by (auto simp: bindE_Inr getE_run ret_run tryE_run split: if_splits)
qed

section \<open>The database\<close>

lemma boundary_ops_sound [evolves_rules]:
  "evolves world_sound (correlation_id req)" "evolves world_sound (client_cert_header_details x req)"
  "evolves world_sound tokens_file_now"
  "evolves world_sound (auth_failure ac tg re ex status ms co ip)"
  unfolding correlation_id_def client_cert_header_details_def cert_days_remaining_def tokens_file_now_def auth_failure_def
  by (intro wsound.combinators evolves_rules)+

lemma guards_sound [evolves_rules]:
  "evolves world_sound (audit_mtls_identity x st req ty re det)"
  "evolves world_sound (require_https_mtls x st req)"
  "evolves world_sound (authorize_agent_pull st req access zone role uri)"
  "evolves world_sound (deny_agent_on_admin_endpoint st req target)"
  unfolding audit_mtls_identity_def require_https_mtls_def authorize_agent_pull_def deny_agent_on_admin_endpoint_def
    judge_policy_def not_authorized_def policy_unavailable_def
  by (intro wsound.combinators evolves_rules)+

lemma boundary_sound:
  "(\<And>r. evolves world_sound (h r)) \<Longrightarrow> evolves world_sound (enforce_mtls_header_boundary x st h req)"
  unfolding enforce_mtls_header_boundary_def has_client_cert_headers_def https_edge_def
  by (intro wsound.combinators evolves_rules; assumption)

end
