(* ===== verification/Artifacts_Facts.thy ===== *)
theory Artifacts_Facts
  imports Artifacts Vault_Facts Json_Canonical Boundary_Facts
begin

text \<open>
  What the regeneration of trust artifacts guarantees: when an artifact is regenerated, what
  is stored and signed, that the cache never serves anything but the stored artifact, and
  that a regeneration within the minimal interval does not take place.
\<close>

section \<open>When to regenerate\<close>

definition artifact_current :: "signer \<Rightarrow> settings \<Rightarrow> list_row \<Rightarrow> artifact_row \<Rightarrow> int \<Rightarrow> bool" where
  "artifact_current g st trust_list row now \<longleftrightarrow> ta_version row = tl_version trust_list
     \<and> ta_key_id row = sg_key_id g \<and> lower (ta_fingerprint row) = lower (sg_fingerprint g)
     \<and> percentage_of (artifact_ttl_seconds (s_artifact st)) (regen_threshold_percent (s_artifact st))
         \<le> seconds_left (ta_expires row) now"

lemma regeneration_reason_run:
  assumes "regeneration_reason g st lst cur force src w = (r, w')"
  shows "core w' = core w" "w_db w' = w_db w" "\<exists>why. r = Inr why \<and> (why = None \<longleftrightarrow>
    \<not> force \<and> (\<exists>row. cur = Some row \<and> artifact_current g st lst row (w_clock w (w_ticks w))))"
  using assms
  by (auto simp: regeneration_reason_def ret_def bindE_def ttl_remaining_seconds_def now_us_def core_def
      artifact_current_def split: option.splits if_splits)

section \<open>Revisions\<close>

lemma latest_artifact_max:
  "max_revision d zone role = (case latest_artifact d zone role of None \<Rightarrow> 0 | Some row \<Rightarrow> ta_revision row)"
proof (cases "latest_artifact d zone role")
  case None
  then show ?thesis by (simp add: latest_artifact_def max_revision_def max_opt_def)
next
  case (Some row)
  then have row: "fetch_one (order_desc ta_revision (artifacts_for d zone role)) = Some row"
    by (simp add: latest_artifact_def)
  have mem: "row \<in> set (artifacts_for d zone role)" by (rule fetch_desc_mem [OF row])
  obtain m where m: "max_opt (map ta_revision (artifacts_for d zone role)) = Some m"
    using mem by (cases "max_opt (map ta_revision (artifacts_for d zone role))") auto
  obtain a where a: "a \<in> set (artifacts_for d zone role)" "m = ta_revision a"
    using max_opt_mem [OF m] by auto
  from order_desc_hd_max [OF row a(1)] max_revision_ge [OF mem] a(2) m Some
  show ?thesis by (simp add: max_revision_def)
qed

definition genuine_artifact :: "ext \<Rightarrow> signer \<Rightarrow> artifact_row \<Rightarrow> bool" where
  \<comment> \<open>digest and signature of the stored document, which states its own revision and reason\<close>
  "genuine_artifact x g row \<longleftrightarrow> (\<exists>bytes.
     canonical_json_bytes (PDict (canonical_artifact_payload (ta_json row))) = Inr bytes \<and>
     ta_sha256 row = k_sha256 x bytes \<and> ta_signature row = k_b64 x (k_sign x (sg_key g) bytes)) \<and>
     dget (ta_json row) ''artifact_revision'' = PInt (ta_revision row) \<and>
     dget (ta_json row) ''version'' = PInt (ta_version row) \<and>
     dget (ta_json row) ''artifact_reason'' = PStr (ta_reason row) \<and>
     ta_key_id row = sg_key_id g \<and> ta_fingerprint row = sg_fingerprint g \<and>
     ta_expires row = ta_generated row + sg_ttl g * usec"

lemma insert_artifact_result:
  assumes "insert_trust_artifact zone role v art sha sig kid fpr gen ex why t d = (Inr row, d')"
  shows "d_artifacts d' = d_artifacts d @ [row]" "ta_revision row = max_revision d zone role + 1"
    "ta_zone row = zone" "ta_role row = role" "ta_version row = v" "ta_json row = art" "ta_sha256 row = sha"
    "ta_signature row = sig" "ta_key_id row = kid" "ta_fingerprint row = fpr" "ta_generated row = gen"
    "ta_expires row = ex" "ta_reason row = why" "ta_id row = next_id TrustArtifacts d"
    "d_apps d' = d_apps d" "d_certs d' = d_certs d" "d_lists d' = d_lists d" "d_members d' = d_members d"
    "d_packages d' = d_packages d" "latest_artifact d' zone role = Some row"
proof -
  show "latest_artifact d' zone role = Some row"
    unfolding latest_artifact_def using assms by (intro artifact_log.latest_appended) blast
qed (use assms in \<open>auto simp: insert_trust_artifact_def Let_def split: sum.splits\<close>)

text \<open>Two databases that agree on what trust lists are made of.\<close>

definition trust_part :: "db \<Rightarrow> app_row list \<times> cert_row list \<times> list_row list \<times> member_row list \<times> package_row list" where
  "trust_part d = (d_apps d, d_certs d, d_lists d, d_members d, d_packages d)"

lemma trust_part_cong:
  assumes "trust_part d = trust_part e"
  shows "latest_list d zone role = latest_list e zone role" "members_of d l = members_of e l"
    "desired_trustlist_certificate_ids d zone role = desired_trustlist_certificate_ids e zone role"
proof -
  show "desired_trustlist_certificate_ids d zone role = desired_trustlist_certificate_ids e zone role"
    using assms by (intro desired_cong) (simp_all add: trust_part_def)
qed (use assms in \<open>simp_all add: trust_part_def latest_list_def lists_for_def members_of_def\<close>)

lemma core_trust_part: "core w' = core w \<Longrightarrow> trust_part (w_db w') = trust_part (w_db w)"
  by (auto simp: core_def trust_part_def dest: tables_eqD)

lemma core_artifacts: "core w' = core w \<Longrightarrow> d_artifacts (w_db w') = d_artifacts (w_db w)"
  by (auto simp: core_def dest: tables_eqD)

lemma latest_artifact_cong:
  "d_artifacts d = d_artifacts e \<Longrightarrow> latest_artifact d zone role = latest_artifact e zone role"
  by (simp add: latest_artifact_def artifacts_for_def)

lemma build_signed_result:
  assumes "build_signed_artifact x g lst certs ca crl nxt why cb cm gen = Inr s"
  shows "\<exists>bytes. canonical_json_bytes (PDict (canonical_artifact_payload (sa_artifact s))) = Inr bytes
      \<and> sa_sha256 s = k_sha256 x bytes \<and> sa_signature s = k_b64 x (k_sign x (sg_key g) bytes)"
    "sa_artifact s = artifact_document g lst certs ca crl nxt why cb cm gen" "sa_key_id s = sg_key_id g"
    "sa_fingerprint s = sg_fingerprint g" "sa_generated s = gen" "sa_expires s = gen + sg_ttl g * usec"
  using assms by (auto simp: build_signed_artifact_def bindS_Inr Let_def sha256_hex_def)

definition published :: "ext \<Rightarrow> signer \<Rightarrow> string \<Rightarrow> string \<Rightarrow> list_row \<Rightarrow> world \<Rightarrow> artifact_row \<Rightarrow> world \<Rightarrow> bool" where
  \<comment> \<open>one artifact was added, the next revision of its target\<close>
  "published x g zone role lst w row w' \<longleftrightarrow> d_artifacts (w_db w') = d_artifacts (w_db w) @ [row]
     \<and> ta_revision row = max_revision (w_db w) zone role + 1 \<and> ta_version row = tl_version lst
     \<and> latest_artifact (w_db w') zone role = Some row \<and> genuine_artifact x g row
     \<and> trust_part (w_db w') = trust_part (w_db w) \<and> w_cache w' = w_cache w"

lemma publish_artifact_result:
  assumes run: "publish_artifact x g st zone role lst certs (latest_artifact (w_db w) zone role) why src now w
      = (Inr (row, art), w')"
  shows "published x g zone role lst w row w'" "art = ta_json row"
    "last_regeneration zone role w' = now"
proof -
  define nxt where "nxt = (case latest_artifact (w_db w) zone role of None \<Rightarrow> 0 | Some r \<Rightarrow> ta_revision r) + 1"
  obtain ca w1 crls w2 gen w3 signed w4 w5 w6 where
    ca: "get_ca_chain st w = (Inr ca, w1)" and b: "get_crl_bundle x st w1 = (Inr crls, w2)" and
    n: "now_us w2 = (Inr gen, w3)" and
    s: "build_signed_artifact x g lst (PList (map member_dict certs)) (get_str ca ''ca_chain_pem'')
      (crl_text crls ''intermediate'')
      ((case latest_artifact (w_db w) zone role of None \<Rightarrow> 0 | Some r \<Rightarrow> ta_revision r) + 1) why [(''root_crl_base64'', PStr (crl_text crls ''root'')),
        (''intermediate_crl_base64'', PStr (crl_text crls ''intermediate''))]
      (artifact_crl_metadata crls) gen = Inr signed" and w4: "w4 = w3" and
    i: "on_db (insert_trust_artifact zone role (tl_version lst) (sa_artifact signed) (sa_sha256 signed)
      (sa_signature signed) (sa_key_id signed) (sa_fingerprint signed) (sa_generated signed)
      (sa_expires signed) why) w4 = (Inr row, w5)" and
    w6: "w6 = w5\<lparr>w_regen_at := (w_regen_at w5)(cache_key zone role \<mapsto> now)\<rparr>" and
    a: "log_audit ''artifact_regenerated'' ''system'' (artifact_target zone role)
      [(''version'', PInt (tl_version lst)), (''artifact_revision'', PInt (ta_revision row)),
       (''reason'', PStr why), (''source'', PStr src)] w6 = (Inr (), w')" and art: "art = sa_artifact signed"
    using run unfolding publish_artifact_def Let_def run_simps nxt_def [symmetric] updE_def by auto
  have c4: "core w4 = core w"
    using ca b n w4 by (metis core_prims(1) vault_core.crl_neutral(1,6) same_run)
  have a4: "d_artifacts (w_db w4) = d_artifacts (w_db w)" by (rule core_artifacts [OF c4])
  have m4: "max_revision (w_db w4) zone role = max_revision (w_db w) zone role"
    using a4 by (simp add: max_revision_def artifacts_for_def)
  from i obtain t where ins: "insert_trust_artifact zone role (tl_version lst) (sa_artifact signed)
      (sa_sha256 signed) (sa_signature signed) (sa_key_id signed) (sa_fingerprint signed) (sa_generated signed)
      (sa_expires signed) why t (w_db w4) = (Inr row, w_db w5)" and w5: "w_cache w5 = w_cache w4"
    unfolding on_db_run by auto
  note f = insert_artifact_result [OF ins]
  have c6: "core w' = core w6" by (rule same_run [OF core_prims(8) a])
  have nxt: "nxt = ta_revision row" using f(2) m4 latest_artifact_max [of "w_db w"] by (simp add: nxt_def)
  note doc = build_signed_result [OF s [folded nxt_def]]
  have gen: "genuine_artifact x g row"
    using doc nxt f(5-13) by (simp add: genuine_artifact_def artifact_document_def dget_def)
  have cache: "w_cache w' = w_cache w" using c6 w6 w5 c4 by (simp add: core_def)
  have "trust_part (w_db w5) = trust_part (w_db w4)" using f by (simp add: trust_part_def)
  then have "trust_part (w_db w') = trust_part (w_db w)"
    using core_trust_part [OF c6] core_trust_part [OF c4] w6 by simp
  moreover have "d_artifacts (w_db w') = d_artifacts (w_db w5)" using core_artifacts [OF c6] w6 by simp
  ultimately show "published x g zone role lst w row w'"
    using f a4 m4 gen cache by (simp add: published_def latest_artifact_def artifacts_for_def)
  show "art = ta_json row" using art f by simp
  show "last_regeneration zone role w' = now" using c6 w6 by (simp add: core_def last_regeneration_def)
qed

section \<open>The regeneration\<close>

lemma clock_kept [evolves_rules]:
  "evolves (same w_clock) (on_db f)" "evolves (same w_clock) now_us" "evolves (same w_clock) (query m)"
  by (auto simp: evolves_def same_def on_db_def query_def now_us_def Let_def split: prod.splits)

lemma reason_clock_kept [evolves_rules]: "evolves (same w_clock) (regeneration_reason g st lst cur force src)"
  unfolding regeneration_reason_def ttl_remaining_seconds_def by (intro frame.combinators evolves_rules)

lemma latest_artifact_query:
  assumes "query (get_latest_trust_artifact zone role) w = (Inr r, w')"
  shows "r = latest_artifact (w_db w) zone role" "w_db w' = w_db w" "core w' = core w" "w_clock w' = w_clock w"
proof -
  show "r = latest_artifact (w_db w) zone role" "w_db w' = w_db w"
    using query_run [OF assms] by (simp_all add: get_latest_trust_artifact_def ret_def)
  show "core w' = core w" using assms by (rule same_run [rotated]) (intro evolves_rules; simp)
  show "w_clock w' = w_clock w" using assms by (rule same_run [rotated]) (rule evolves_rules)
qed

definition may_regenerate :: "settings \<Rightarrow> string \<Rightarrow> string \<Rightarrow> bool \<Rightarrow> world \<Rightarrow> bool" where
  \<comment> \<open>forced, or the minimal interval has passed at some reading of the clock\<close>
  "may_regenerate st zone role force w \<longleftrightarrow> force \<or>
     (\<exists>k. regen_min_interval_seconds (s_artifact st) * usec \<le> w_clock w k - last_regeneration zone role w)"

lemma last_regeneration_core: "core w' = core w \<Longrightarrow> last_regeneration zone role w' = last_regeneration zone role w"
  by (simp add: core_def last_regeneration_def)

lemma published_cong:
  assumes "published x g zone role lst w1 row w'" and "w_db w1 = w_db w" "w_cache w1 = w_cache w"
  shows "published x g zone role lst w row w'"
  using assms by (simp add: published_def)

lemma regenerate_locked_result:
  assumes run: "regenerate_locked x g st zone role lst certs force src w = (Inr (r, fresh), w')"
  shows "(fresh = None \<and> r = latest_artifact (w_db w) zone role \<and> core w' = core w \<and> w_db w' = w_db w \<and> \<not> force)
    \<or> (\<exists>row. r = Some row \<and> fresh = Some (ta_json row) \<and> published x g zone role lst w row w'
         \<and> may_regenerate st zone role force w)"
proof -
  obtain row w1 why w2 where
    q: "query (get_latest_trust_artifact zone role) w = (Inr row, w1)" and
    reason: "regeneration_reason g st lst row force src w1 = (Inr why, w2)" and
    rest: "(case why of None \<Rightarrow> ret (row, None) | Some why \<Rightarrow> bindE now_us (\<lambda>now_ts.
         bindE (getE (last_regeneration zone role)) (\<lambda>last_regen.
           if \<not> force \<and> now_ts - last_regen < regen_min_interval_seconds (s_artifact st) * usec
           then bindE (query (get_latest_trust_artifact zone role)) (\<lambda>row'. ret (row', None))
           else bindE (publish_artifact x g st zone role lst certs row why src now_ts) (\<lambda>(row', artifact).
             ret (Some row', Some artifact))))) w2 = (Inr (r, fresh), w')"
    using run unfolding regenerate_locked_def bindE_Inr by blast
  note q = latest_artifact_query [OF q] and reason_r = regeneration_reason_run [OF reason]
  have clk2: "w_clock w2 = w_clock w"
    using same_run [OF reason_clock_kept reason] q by simp
  have c2: "core w2 = core w" "w_db w2 = w_db w" using q reason_r by simp_all
  show ?thesis
  proof (cases why)
    case None
    with rest reason_r q c2 show ?thesis by (auto simp: ret_def)
  next
    case (Some y)
    obtain now w3 where n: "now_us w2 = (Inr now, w3)" by (simp add: now_us_def)
    then have w3: "w_db w3 = w_db w" "core w3 = core w" "w_clock w3 = w_clock w" "now = w_clock w (w_ticks w2)"
      using c2 clk2 by (auto simp: now_us_def core_def)
    show ?thesis
    proof (cases "\<not> force \<and> now - last_regeneration zone role w3 < regen_min_interval_seconds (s_artifact st) * usec")
      case True
      then obtain row' where "query (get_latest_trust_artifact zone role) w3 = (Inr row', w')" "r = row'" "fresh = None"
        using rest Some n by (auto simp: bindE_Inr getE_run ret_run)
      with latest_artifact_query True w3 show ?thesis by metis
    next
      case False
      then obtain row' art where p: "publish_artifact x g st zone role lst certs row y src now w3 = (Inr (row', art), w')"
        and r: "r = Some row'" "fresh = Some art"
        using rest Some n by (auto simp: bindE_Inr getE_run ret_run)
      have "row = latest_artifact (w_db w3) zone role" using q w3 by simp
      note pub = publish_artifact_result [OF p [unfolded this]]
      have "may_regenerate st zone role force w"
        using False unfolding may_regenerate_def last_regeneration_core [OF w3(2)] w3(4)
        by (metis not_less)
      moreover have "published x g zone role lst w row' w'"
        using published_cong [OF pub(1) w3(1)] w3(2) by (simp add: core_def)
      ultimately show ?thesis using r pub(2) by blast
    qed
  qed
qed

lemma cached_artifact_stored:
  assumes "cache_ok w" "db_inv (w_db w)" "w_cache w k = e" "row \<in> set (d_artifacts (w_db w))"
  shows "cached_artifact e row = ta_json row"
proof (cases e)
  case (Some c)
  then obtain r where r: "r \<in> set (d_artifacts (w_db w))" "ta_id r = ca_row_id c" "ta_json r = ca_artifact c"
    using assms by (auto simp: cache_ok_def)
  have inj: "inj_on ta_id (set (d_artifacts (w_db w)))"
    using assms(2) by (auto simp: db_inv_def artifacts_inv_def dest: serial_ok_inj)
  show ?thesis
  proof (cases "ca_row_id c = ta_id row")
    case True
    with r assms(4) inj have "r = row" by (metis inj_onD)
    with r Some True show ?thesis by (simp add: cached_artifact_def)
  qed (simp add: cached_artifact_def Some)
qed (simp add: cached_artifact_def)

definition list_complete :: "db \<Rightarrow> string \<Rightarrow> string \<Rightarrow> list_row \<Rightarrow> bool" where
  \<comment> \<open>the list is the latest of its target and its members are the desired certificates\<close>
  "list_complete d zone role lst \<longleftrightarrow> latest_list d zone role = Some lst \<and>
     set (members_of d (tl_id lst)) = set (desired_trustlist_certificate_ids d zone role)"

lemma ensure_complete:
  assumes "ensure_trust_list_current zone role t d = (Inr l, d')" "db_inv d"
  shows "list_complete d' zone role l" "d_artifacts d' = d_artifacts d"
proof -
  have "list_complete d' zone role l \<and> d_artifacts d' = d_artifacts d"
    using assms(1)
  proof (cases rule: ensure_cases)
    case current
    then have "set (members_of d (tl_id l)) = set (desired_trustlist_certificate_ids d zone role)"
      by (metis set_sort)
    with current show ?thesis by (simp add: list_complete_def)
  next
    case built
    from build_trust_list_result [OF assms(2) built] built show ?thesis
      by (auto simp: list_complete_def build_trust_list_def Let_def)
  qed
  then show "list_complete d' zone role l" "d_artifacts d' = d_artifacts d" by blast+
qed

lemma list_complete_cong: "trust_part d = trust_part e \<Longrightarrow> list_complete d zone role l = list_complete e zone role l"
  unfolding list_complete_def by (metis trust_part_cong)

text \<open>The outcome of a request for an artifact: the target's list is complete, the artifact
  returned is the latest stored one, and at most one artifact was added, genuine and of the
  list's version.\<close>

definition artifact_outcome ::
  "ext \<Rightarrow> signer \<Rightarrow> settings \<Rightarrow> string \<Rightarrow> string \<Rightarrow> bool \<Rightarrow> world \<Rightarrow> list_row \<Rightarrow> artifact_row \<Rightarrow> pydict \<Rightarrow>
   world \<Rightarrow> bool" where
  "artifact_outcome x g st zone role force w lst row art w' \<longleftrightarrow>
     list_complete (w_db w') zone role lst \<and> latest_artifact (w_db w') zone role = Some row
     \<and> art = ta_json row \<and>
     ((d_artifacts (w_db w') = d_artifacts (w_db w) \<and> \<not> force) \<or>
      (d_artifacts (w_db w') = d_artifacts (w_db w) @ [row] \<and> ta_revision row = max_revision (w_db w) zone role + 1
        \<and> ta_version row = tl_version lst \<and> genuine_artifact x g row \<and> may_regenerate st zone role force w))"

lemma latest_artifact_mem: "latest_artifact d zone role = Some row \<Longrightarrow> row \<in> set (d_artifacts d)"
  unfolding latest_artifact_def artifacts_for_def by (drule fetch_desc_mem) simp

lemma max_revision_cong: "d_artifacts d = d_artifacts e \<Longrightarrow> max_revision d zone role = max_revision e zone role"
  by (simp add: max_revision_def artifacts_for_def)

lemma serve_result:
  assumes inv: "db_inv (w_db w)" and ok: "cache_ok w" and lst: "list_complete (w_db w) zone role lst"
    and run: "(if why = None then ret (latest_artifact (w_db w) zone role, None)
      else regenerate_locked x g st zone role lst certs force src) w = (Inr (Some row, fresh), w')"
    and why: "why = None \<longrightarrow> \<not> force" and art: "art = (case fresh of Some a \<Rightarrow> a | None \<Rightarrow> cached_artifact (w_cache w k) row)"
  shows "artifact_outcome x g st zone role force w lst row art w'" "cache_ok w'"
proof -
  consider (served) "fresh = None" "latest_artifact (w_db w) zone role = Some row" "core w' = core w"
      "w_db w' = w_db w" "\<not> force"
    | (new) "fresh = Some (ta_json row)" "published x g zone role lst w row w'" "may_regenerate st zone role force w"
  proof (cases "why = None")
    case True
    with run why show ?thesis by (intro served) (auto simp: ret_def)
  next
    case False
    then have "regenerate_locked x g st zone role lst certs force src w = (Inr (Some row, fresh), w')"
      using run by (simp only: if_False)
    from regenerate_locked_result [OF this] served new show ?thesis by fastforce
  qed
  then have "artifact_outcome x g st zone role force w lst row art w' \<and> cache_ok w'"
  proof cases
    case served
    have "art = ta_json row"
      using served cached_artifact_stored [OF ok inv refl latest_artifact_mem [OF served(2)]] by (simp add: art)
    moreover have "w_cache w' = w_cache w" using served(3) by (simp add: core_def)
    ultimately show ?thesis
      using served lst ok cache_ok_cong [OF ok] by (simp add: artifact_outcome_def)
  next
    case new
    have p: "trust_part (w_db w') = trust_part (w_db w)" "w_cache w' = w_cache w"
        "d_artifacts (w_db w') = d_artifacts (w_db w) @ [row]"
      using new(2) by (simp_all add: published_def)
    have "cache_ok w'" using cache_ok_cong [OF ok p(2)] p(3) by auto
    moreover have "list_complete (w_db w') zone role lst"
      using lst list_complete_cong [OF p(1)] by simp
    ultimately show ?thesis
      using new by (simp add: artifact_outcome_def published_def art)
  qed
  then show "artifact_outcome x g st zone role force w lst row art w'" "cache_ok w'" by blast+
qed

lemma list_query:
  assumes "query (get_latest_trust_list_with_certs zone role) w = (Inr (found, certs), w')"
  shows "found = latest_list (w_db w) zone role" "w_db w' = w_db w" "core w' = core w"
proof -
  show "found = latest_list (w_db w) zone role" "w_db w' = w_db w"
    using query_run [OF assms]
    by (auto simp: get_latest_trust_list_with_certs_def split: option.splits)
  show "core w' = core w" using assms by (rule same_run [rotated]) (intro evolves_rules; simp)
qed

lemma ensure_step:
  assumes "on_db (ensure_trust_list_current zone role) w = (Inr l, w')" "db_inv (w_db w)" "cache_ok w"
  shows "list_complete (w_db w') zone role l" "d_artifacts (w_db w') = d_artifacts (w_db w)" "db_inv (w_db w')"
    "cache_ok w'" "w_clock w' = w_clock w" "last_regeneration zone role w' = last_regeneration zone role w"
proof -
  obtain t d where e: "ensure_trust_list_current zone role t (w_db w) = (Inr l, d)"
    and w': "w' = w\<lparr>w_calls := Suc (w_calls w), w_ticks := Suc (w_ticks w), w_db := d\<rparr>"
    using assms(1) unfolding on_db_run by blast
  from ensure_complete [OF e assms(2)] w'
  show "list_complete (w_db w') zone role l" and art: "d_artifacts (w_db w') = d_artifacts (w_db w)" by simp_all
  show "db_inv (w_db w')"
    using ensure_trust_list_current_keeps [of zone role t] e assms(2) w'
    unfolding evolves_def keeps_def by (metis snd_conv world.select_convs(1) world.update_convs(1) world.surjective)
  show "cache_ok w'" using art w' by (intro cache_ok_cong [OF assms(3)]) simp_all
  show "w_clock w' = w_clock w" "last_regeneration zone role w' = last_regeneration zone role w"
    using w' by (simp_all add: last_regeneration_def)
qed

lemma artifact_outcome_transfer:
  assumes "artifact_outcome x g st zone role force w1 lst row art w2"
    and "d_artifacts (w_db w1) = d_artifacts (w_db w)" "w_clock w1 = w_clock w"
    and "last_regeneration zone role w1 = last_regeneration zone role w" "w_db w' = w_db w2"
  shows "artifact_outcome x g st zone role force w lst row art w'"
  using assms max_revision_cong [OF assms(2)] by (simp add: artifact_outcome_def may_regenerate_def)

lemma serve_artifact_result:
  assumes run: "serve_artifact x g st zone role force src w = (Inr (Some (lst, row, art)), w')"
    and inv: "db_inv (w_db w)" and ok: "cache_ok w"
  shows "artifact_outcome x g st zone role force w lst row art w'" "cache_ok w'"
proof -
  obtain l w1 found certs w2 row0 w3 why w4 fresh where
    e: "on_db (ensure_trust_list_current zone role) w = (Inr l, w1)" and
    q: "query (get_latest_trust_list_with_certs zone role) w1 = (Inr (Some lst, certs), w2)" and
    a: "query (get_latest_trust_artifact zone role) w2 = (Inr row0, w3)" and
    r: "regeneration_reason g st lst row0 force src w3 = (Inr why, w4)" and
    s: "(if why = None then ret (row0, None) else regenerate_locked x g st zone role lst certs force src) w4
          = (Inr (Some row, fresh), w')" and
    art: "art = (case fresh of Some b \<Rightarrow> b | None \<Rightarrow> cached_artifact (w_cache w2 (cache_key zone role)) row)"
    using run unfolding serve_artifact_def run_simps by auto
  have clk4: "w_clock w4 = w_clock w1"
    using same_run [OF clock_kept(3) q] latest_artifact_query(4) [OF a] same_run [OF reason_clock_kept r] by simp
  note e = ensure_step [OF e inv ok] and q = list_query [OF q] and a = latest_artifact_query [OF a]
    and r = regeneration_reason_run [OF r]
  have db: "w_db w4 = w_db w1" "core w4 = core w2" "core w2 = core w1" "w_cache w4 = w_cache w2"
    "w_cache w2 = w_cache w1"
    using q a r by (simp_all add: core_def)
  have lst: "lst = l" using q e(1) by (simp add: list_complete_def)
  have ok4: "cache_ok w4" using db by (intro cache_ok_cong [OF e(4)]) simp_all
  have row0: "row0 = latest_artifact (w_db w4) zone role" using a q r by simp
  have wf: "why = None \<longrightarrow> \<not> force" using r(3) by auto
  have lst4: "list_complete (w_db w4) zone role lst" using lst e(1) db by simp
  have c4: "last_regeneration zone role w4 = last_regeneration zone role w" "w_clock w4 = w_clock w"
    using db(2,3) e q a r last_regeneration_core clk4 by metis+
  have inv4: "db_inv (w_db w4)" using db e by simp
  note serve = serve_result [OF inv4 ok4 lst4 s [unfolded row0] wf art [folded db(4)]]
  show "artifact_outcome x g st zone role force w lst row art w'"
    using serve(1)
  proof (rule artifact_outcome_transfer)
  qed (use db e c4 in simp_all)
  show "cache_ok w'" by (rule serve(2))
qed

lemma get_or_regenerate_run:
  assumes "get_or_regenerate_signed_artifact x g st zone role force src w = (Inr (Some (lst, row, art)), w')"
  shows "\<exists>w1 w2 e. serve_artifact x g st zone role force src w = (Inr (Some (lst, row, art)), w1) \<and> w_db w2 = w_db w1
    \<and> w_cache w2 = w_cache w1 \<and> ca_row_id e = ta_id row \<and> ca_artifact e = art
    \<and> w' = w2\<lparr>w_cache := (w_cache w2)(cache_key zone role \<mapsto> e)\<rparr>"
proof -
  obtain w1 now w2 where s: "serve_artifact x g st zone role force src w = (Inr (Some (lst, row, art)), w1)"
    and n: "now_us w1 = (Inr now, w2)" and w': "w' = w2\<lparr>w_cache := (w_cache w2)(cache_key zone role \<mapsto>
      \<lparr>ca_row_id = ta_id row, ca_revision = ta_revision row, ca_artifact = art, ca_cached_at = isoformat now\<rparr>)\<rparr>"
    using assms unfolding get_or_regenerate_signed_artifact_def run_simps updE_def by auto
  have "w_db w2 = w_db w1" "w_cache w2 = w_cache w1" using n by (auto simp: now_us_def)
  with s w' show ?thesis
    by (intro exI [of _ w1] exI [of _ w2] exI [of _ "\<lparr>ca_row_id = ta_id row, ca_revision = ta_revision row,
      ca_artifact = art, ca_cached_at = isoformat now\<rparr>"]) simp
qed

lemma get_or_regenerate_outcome:
  assumes run: "get_or_regenerate_signed_artifact x g st zone role force src w = (Inr (Some (lst, row, art)), w')"
    and inv: "db_inv (w_db w)" and ok: "cache_ok w"
  shows "artifact_outcome x g st zone role force w lst row art w'" "cache_ok w'"
proof -
  obtain w1 w2 e where s: "serve_artifact x g st zone role force src w = (Inr (Some (lst, row, art)), w1)"
    and w2: "w_db w2 = w_db w1" "w_cache w2 = w_cache w1" and e: "ca_row_id e = ta_id row" "ca_artifact e = art"
    and w': "w' = w2\<lparr>w_cache := (w_cache w2)(cache_key zone role \<mapsto> e)\<rparr>"
    using get_or_regenerate_run [OF run] by blast
  note res = serve_artifact_result [OF s inv ok]
  show "artifact_outcome x g st zone role force w lst row art w'"
    using res(1) w' w2 by (simp add: artifact_outcome_def)
  have "row \<in> set (d_artifacts (w_db w1))" "art = ta_json row"
    using res(1) latest_artifact_mem by (auto simp: artifact_outcome_def)
  with res(2) w' w2 e show "cache_ok w'" unfolding cache_ok_def by auto
qed

section \<open>Soundness\<close>

lemma artifact_parts_sound [evolves_rules]:
  "evolves world_sound (validate_trust_artifact_request zone role)"
  "evolves world_sound (ttl_remaining_seconds row)"
  "evolves world_sound (regeneration_reason g st lst cur force src)"
  unfolding validate_trust_artifact_request_def ttl_remaining_seconds_def regeneration_reason_def
  by (intro wsound.combinators evolves_rules)+

lemma regen_at_sound [evolves_rules]: "evolves world_sound (updE (\<lambda>w. w\<lparr>w_regen_at := f w\<rparr>))"
  by (simp add: evolves_def world_sound_def updE_def cache_ok_def forward.evo_refl)

lemma publish_sound [evolves_rules]:
  "evolves world_sound (publish_artifact x g st zone role lst certs prev why src now)"
  unfolding publish_artifact_def by (intro wsound.combinators evolves_rules)

lemma locked_sound [evolves_rules]:
  "evolves world_sound (regenerate_locked x g st zone role lst certs force src)"
  unfolding regenerate_locked_def by (intro wsound.combinators evolves_rules; simp)

lemma serve_sound [evolves_rules]: "evolves world_sound (serve_artifact x g st zone role force src)"
  unfolding serve_artifact_def by (intro wsound.combinators evolves_rules; simp)

lemma get_or_regenerate_sound [evolves_rules]:
  "evolves world_sound (get_or_regenerate_signed_artifact x g st zone role force src)"
  unfolding evolves_def
proof
  fix w
  let ?run = "get_or_regenerate_signed_artifact x g st zone role force src w"
  obtain r w1 where s: "serve_artifact x g st zone role force src w = (r, w1)" by fastforce
  have sound: "world_sound w w1" using serve_sound [of x g st zone role force src] s
    unfolding evolves_def by (metis snd_conv)
  show "world_sound w (snd ?run)"
  proof (cases r)
    case (Inl e)
    with s sound show ?thesis by (simp add: get_or_regenerate_signed_artifact_def bindE_def)
  next
    case (Inr found)
    show ?thesis
    proof (cases found)
      case None
      with s Inr sound show ?thesis by (simp add: get_or_regenerate_signed_artifact_def bindE_def ret_def)
    next
      case (Some t)
      then obtain lst row art where t: "found = Some (lst, row, art)" by (cases t) auto
      with s Inr obtain w' where run: "?run = (Inr (Some (lst, row, art)), w')" and db: "w_db w' = w_db w1"
        by (simp add: get_or_regenerate_signed_artifact_def bindE_def ret_def now_us_def updE_def)
      from get_or_regenerate_outcome(2) [OF run] sound show ?thesis
        unfolding run world_sound_def by (auto simp: db)
    qed
  qed
qed

lemma endpoint_parts_sound [evolves_rules]:
  "(\<And>l r a. evolves world_sound (ans l r a)) \<Longrightarrow> evolves world_sound (with_artifact x g st zone role force ans)"
  "evolves world_sound m \<Longrightarrow> evolves world_sound (agent_artifact_read st req zone role m)"
  "evolves world_sound m \<Longrightarrow> evolves world_sound (admin_only st req target m)"
  unfolding with_artifact_def agent_artifact_read_def admin_only_def
  by (intro wsound.combinators evolves_rules; assumption)+

lemma sealed_artifact_sound [evolves_rules]: "evolves world_sound (sealed_artifact zone role)"
  unfolding sealed_artifact_def by (intro wsound.combinators evolves_rules; simp)

lemma artifact_endpoints_sound [evolves_rules]:
  "evolves world_sound (get_trustlist_artifact x g st req zone role)"
  "evolves world_sound (get_trustlist_artifact_status x g st req zone role)"
  "evolves world_sound (get_trustlist_artifact_signature x g st req zone role)"
  "evolves world_sound (get_trustlist_artifact_canonical x g st req zone role)"
  "evolves world_sound (post_trustlist_artifact_rebuild x g st req zone role)"
  "evolves world_sound (get_trustlist_artifact_history zone role)"
  "evolves world_sound (post_build_trustlist x g st req zone role)"
  "evolves world_sound (artifact_scan x g st)"
  unfolding get_trustlist_artifact_def get_trustlist_artifact_status_def get_trustlist_artifact_signature_def
    get_trustlist_artifact_canonical_def post_trustlist_artifact_rebuild_def get_trustlist_artifact_history_def
    post_build_trustlist_def artifact_scan_def
  by (intro wsound.combinators evolves_rules; simp)+

end
