(* ===== verification/Api_Facts.thy ===== *)
theory Api_Facts
  imports Api_Packages Artifacts_Facts
begin

text \<open>
  The endpoints of \<open>gds/app/main.py\<close> keep the constraints of the database, undo nothing that
  is final and keep the artifact cache consistent, whatever they answer.
\<close>

section \<open>Shared parts\<close>

lemma value_error_case:
  "(\<And>m. evolves R (f m)) \<Longrightarrow> evolves R n \<Longrightarrow>
   evolves R (case e of ValueError m \<Rightarrow> f m | _ \<Rightarrow> n)"
  by (cases e) auto

lemma guarded_sound [evolves_rules]:
  "evolves world_sound gd \<Longrightarrow> evolves world_sound m \<Longrightarrow> evolves world_sound (unless_refused gd m)"
  "evolves world_sound gd \<Longrightarrow> evolves world_sound n \<Longrightarrow> evolves world_sound (answer_unless gd n)"
  unfolding unless_refused_def answer_unless_def by (intro wsound.combinators; assumption)+

lemma guards_sound_too [evolves_rules]:
  "evolves world_sound (require_vault_unsealed x st)" "evolves world_sound require_started"
  "evolves world_sound (deny_agent_on_admin_endpoint st req target)"
  "evolves world_sound generated_at" "evolves world_sound (days_until v)"
  unfolding require_vault_unsealed_def require_started_def deny_agent_on_admin_endpoint_def Let_def generated_at_def
    days_until_def
  by (intro wsound.combinators evolves_rules)+

lemma endpoints_sound [evolves_rules]:
  "evolves world_sound m \<Longrightarrow> evolves world_sound (agent_endpoint x st req access uri m)"
  "evolves world_sound n \<Longrightarrow> evolves world_sound (agent_answer x st req access uri n)"
  "(\<And>a. evolves world_sound (f a)) \<Longrightarrow> evolves world_sound (component_route x st req access u missing f)"
  "(\<And>a. evolves world_sound (f a)) \<Longrightarrow> evolves world_sound (component_endpoint x st req access u f)"
  unfolding agent_endpoint_def agent_answer_def component_endpoint_def component_route_def
  by (intro wsound.combinators evolves_rules; simp)+

lemma first_operational_sound [evolves_rules]: "evolves world_sound (first_operational rows)"
proof (induction rows rule: first_operational.induct)
  case (2 p a rest)
  then show ?case by (auto intro!: wsound.combinators evolves_rules split: option.splits)
qed (simp add: wsound.ret_evolves)

lemma core_parts_sound [evolves_rules]:
  "evolves world_sound component_catalog_items"
  "evolves world_sound (certificate_group_for_profile nm app)"
  "evolves world_sound (active_certificate_fallback_for_app i)"
  "evolves world_sound (latest_package_for_app app nm)"
  "evolves world_sound (renewal_threshold_days_for_app st app)"
  unfolding component_catalog_items_def certificate_group_for_profile_def active_certificate_fallback_for_app_def
    latest_package_for_app_def renewal_threshold_days_for_app_def
  by (intro wsound.combinators evolves_rules; simp)+

lemma resolve_active_sound [evolves_rules]: "evolves world_sound (resolve_component_active_certificate app)"
  unfolding resolve_component_active_certificate_def by (intro wsound.combinators evolves_rules; simp)

section \<open>Health, telemetry, public key infrastructure, inventory\<close>

lemma latest_artifacts_sound [evolves_rules]: "evolves world_sound (latest_artifacts ts)"
  by (induction ts rule: latest_artifacts.induct) (simp_all, (intro wsound.combinators evolves_rules; simp)+)

lemma set_last_crl_sound [evolves_rules]: "evolves world_sound (set_last_crl p)"
  by (simp add: evolves_def world_sound_def set_last_crl_def updE_def cache_ok_def forward.evo_refl)

lemma telemetry_parts_sound [evolves_rules]:
  "evolves world_sound (certificate_telemetry_record st v)" "evolves world_sound (crl_payload_valid x p)"
  "evolves world_sound (health_of_vault x st ok)" "evolves world_sound cached_artifacts_state"
  unfolding certificate_telemetry_record_def crl_payload_valid_def health_of_vault_def cached_artifacts_state_def Let_def
  by (intro wsound.combinators evolves_rules; simp)+

lemma drift_sound [evolves_rules]:
  "evolves world_sound (drift_of_certificate st v)" "evolves world_sound (certificate_drift_report st)"
  unfolding drift_of_certificate_def certificate_drift_report_def
  by (intro wsound.combinators evolves_rules; simp add: drift_of_certificate_def; intro wsound.combinators evolves_rules)+

lemma inventory_endpoints_sound [evolves_rules]:
  "evolves world_sound (get_health x st)" "evolves world_sound (internal_health st)"
  "evolves world_sound (get_certificate_telemetry st req)" "evolves world_sound (get_certificate_drift st req)"
  "evolves world_sound (get_mtls_metrics st req)" "evolves world_sound (get_pki_ca_chain st)"
  "evolves world_sound (get_pki_crl x st)" "evolves world_sound (get_pki_crls x st)"
  "evolves world_sound (get_vault_status x st)" "evolves world_sound (get_trustlist x st zone role)"
  "evolves world_sound (get_signing_trust_anchor st g req)"
  "evolves world_sound (register_application st req rb)" "evolves world_sound get_applications"
  "evolves world_sound (get_application_by_id i)" "evolves world_sound (post_application_heartbeat st req i)"
  "evolves world_sound (get_audit_events st req)"
  unfolding get_health_def internal_health_def get_certificate_telemetry_def get_certificate_drift_def
    get_mtls_metrics_def get_pki_ca_chain_def get_pki_crl_def get_pki_crls_def get_vault_status_def get_trustlist_def
    get_signing_trust_anchor_def register_application_def get_applications_def get_application_by_id_def
    post_application_heartbeat_def get_audit_events_def Let_def
  by (intro wsound.combinators evolves_rules; simp)+

section \<open>Certificates and revocation\<close>

lemma revocation_parts_sound [evolves_rules]:
  "evolves world_sound (store_imported ib app parsed)" "evolves world_sound (resolve_revoke_certificate b)"
  "evolves world_sound (revoke_in_vault st c serial)" "evolves world_sound (revoke_package c b actor cid q)"
  "evolves world_sound (revocation_failed c actor cid e)"
  unfolding store_imported_def resolve_revoke_certificate_def revoke_in_vault_def revoke_package_def
    revocation_failed_def
  by (intro wsound.combinators evolves_rules; simp)+

lemma carry_out_sound [evolves_rules]: "evolves world_sound (carry_out_revocation x g st v ids b actor cid serial)"
  unfolding carry_out_revocation_def by (intro wsound.combinators evolves_rules; simp)

lemma revoke_found_sound [evolves_rules]: "evolves world_sound (revoke_found x g st v sel b actor cid)"
  unfolding revoke_found_def announce_revocation_def Let_def by (intro wsound.combinators evolves_rules; simp)

lemma certificate_endpoints_sound [evolves_rules]:
  "evolves world_sound (post_import_certificate x st req ib)" "evolves world_sound get_certificates"
  "evolves world_sound (get_certificate_by_id i)" "evolves world_sound (post_issue_certificate x st)"
  "evolves world_sound (post_revoke_certificate x g st req b)"
  unfolding post_import_certificate_def get_certificates_def get_certificate_by_id_def post_issue_certificate_def
    post_revoke_certificate_def Let_def
  by (intro wsound.combinators evolves_rules value_error_case; simp)+

section \<open>Components\<close>

lemma packages_of_sound [evolves_rules]: "evolves world_sound (packages_of vs)"
  by (induction vs rule: packages_of.induct) (simp_all, (intro wsound.combinators evolves_rules; simp)+)

lemma component_parts_sound [evolves_rules]:
  "evolves world_sound (artifact_for_component x g st zone role)"
  "evolves world_sound (material_of_artifact req app row art)"
  "evolves world_sound (version_artifact x g st zone role src)"
  "evolves world_sound (revocation_status_for_app app)" "evolves world_sound (events_of uri lim)"
  "evolves world_sound (key_flags_reported req sb)"
  unfolding artifact_for_component_def material_of_artifact_def version_artifact_def revocation_status_for_app_def
    events_of_def key_flags_reported_def Let_def
  by (intro wsound.combinators evolves_rules; simp)+

lemma component_payloads_sound [evolves_rules]:
  "evolves world_sound (trust_material_for_application x g st req app)"
  "evolves world_sound (current_component_trust_version x g st app src)"
  unfolding trust_material_for_application_def current_component_trust_version_def Let_def
  by (intro wsound.combinators evolves_rules; simp)+

lemma component_wrappers_sound [evolves_rules]:
  "evolves world_sound m \<Longrightarrow> evolves world_sound (reporting_endpoint x st req uri body_uri m)"
  "evolves world_sound n \<Longrightarrow> evolves world_sound (as_response n)"
  "evolves world_sound (component_lifecycle_payload x g st app)"
  unfolding reporting_endpoint_def as_response_def component_lifecycle_payload_def
  by (intro wsound.combinators evolves_rules; simp)+

lemma component_endpoints_sound [evolves_rules]:
  "evolves world_sound get_component_profiles" "evolves world_sound (get_rest_discovery x g st req)"
  "evolves world_sound (get_discovery_component_profiles x st req)"
  "evolves world_sound (get_discovery_certificate_groups x st req)"
  "evolves world_sound (get_component_identity x st req u)"
  "evolves world_sound (get_component_renewal_policy x st req u)"
  "evolves world_sound (get_component_revocation_status x st req u)"
  "evolves world_sound (get_all_component_lifecycle_status x st req)"
  "evolves world_sound (get_component_lifecycle_events x st req ou lim)"
  "evolves world_sound (post_component_lifecycle_status x st req u sb)"
  "evolves world_sound (get_component_lifecycle x g st req u)"
  "evolves world_sound (get_component_trust_version x g st req u)"
  "evolves world_sound (post_component_lifecycle_event x st req u eb)"
  "evolves world_sound (get_component_trust_material x g st req u)"
  unfolding get_component_profiles_def get_rest_discovery_def get_discovery_component_profiles_def
    get_discovery_certificate_groups_def get_component_identity_def get_component_renewal_policy_def
    get_component_revocation_status_def get_all_component_lifecycle_status_def get_component_lifecycle_events_def
    post_component_lifecycle_status_def get_component_lifecycle_def get_component_trust_version_def
    post_component_lifecycle_event_def get_component_trust_material_def Let_def
  by (intro wsound.combinators evolves_rules; simp)+

section \<open>Enrolment, renewal and packages\<close>

lemma enrolment_parts_sound [evolves_rules]:
  "evolves world_sound m \<Longrightarrow> evolves world_sound (enrollment_endpoint x st req eb m)"
  "evolves world_sound (component_enrollment_response x g st req r)"
  "evolves world_sound (rebuild_affected_consumer_artifacts_for_component x g st uri src)"
  "evolves world_sound (renewal_requested eb actor cid)" "evolves world_sound (renewal_failed eb actor cid e)"
  "evolves world_sound (renewal_packaged eb actor cid r)"
  unfolding enrollment_endpoint_def component_enrollment_response_def
    rebuild_affected_consumer_artifacts_for_component_def renewal_requested_def renewal_failed_def renewal_packaged_def
  by (intro wsound.combinators evolves_rules; simp)+

lemma enrolment_bodies_sound [evolves_rules]:
  "evolves world_sound (enroll_component x g st req eb)"
  "evolves world_sound (renewal_issued x g st req eb actor cid r)"
  unfolding enroll_component_def renewal_issued_def by (intro wsound.combinators evolves_rules; simp)+

lemma enrolment_endpoints_sound [evolves_rules]:
  "evolves world_sound (post_rest_csr_enrollment x g st req eb)"
  "evolves world_sound (post_component_csr_enrollment x g st req eb)"
  "evolves world_sound (renew_certificate x g st req eb)" "evolves world_sound (get_enrollment_request x st req rid)"
  unfolding post_rest_csr_enrollment_def post_component_csr_enrollment_def renew_certificate_def
    get_enrollment_request_def Let_def
  by (intro wsound.combinators evolves_rules; simp)+

lemma package_parts_sound [evolves_rules]:
  "(\<And>p a. evolves world_sound (f p a)) \<Longrightarrow> evolves world_sound (package_endpoint x st req access q f)"
  "evolves world_sound (record_package_event q p pb ty actor)" "evolves world_sound (advance_package q pb ty actor)"
  unfolding package_endpoint_def record_package_event_def advance_package_def Let_def
  by (intro wsound.combinators evolves_rules value_error_case; simp)+

lemma on_telemetry_sound [evolves_rules]: "evolves world_sound (on_db package_lifecycle_telemetry)"
  by (intro on_db_sound pure_sound) simp

lemma package_endpoints_sound [evolves_rules]:
  "evolves world_sound (list_certificate_packages_endpoint x st req u ru pn ls n)"
  "evolves world_sound (get_package_lifecycle_telemetry x st req)"
  "evolves world_sound (get_certificate_package_endpoint x st req q)"
  "evolves world_sound (get_certificate_package_history x st req q)"
  "evolves world_sound (get_certificate_package_events x st req q n)"
  "evolves world_sound (post_certificate_package_event x st req q pb)"
  "evolves world_sound (get_certificate_package_manifest x st req q)"
  "evolves world_sound (get_certificate_package_manifest_signature x st req q)"
  unfolding list_certificate_packages_endpoint_def get_package_lifecycle_telemetry_def
    get_certificate_package_endpoint_def get_certificate_package_history_def get_certificate_package_events_def
    post_certificate_package_event_def get_certificate_package_manifest_def
    get_certificate_package_manifest_signature_def Let_def
  by (intro wsound.combinators evolves_rules; simp)+

end
