(* ===== verification/Rest.thy ===== *)
theory Rest
  imports Api_Facts
begin

text \<open>
  The routes of \<open>gds/app/main.py\<close> as one table: what a client can ask for, the handler of
  each, and the handler behind the boundary middleware.
\<close>

datatype endpoint =
    Health | InternalHealth | VaultStatus | CaChain | RootCrl | CrlBundle | SigningTrustAnchor
  | CertificateTelemetry | CertificateDrift | MtlsMetrics | AuditEvents
  | Applications | Application int | ApplicationHeartbeat int | RegisterApplication register_body
  | ListCertificates | Certificate int | ImportCertificate import_body | IssueCertificate
  | RevokeCertificate revoke_body | RenewCertificate enroll_body
  | TrustList string string | BuildTrustList string string
  | Artifact string string | ArtifactStatus string string | ArtifactSignature string string
  | ArtifactCanonical string string | RebuildArtifact string string | ArtifactHistory string string
  | ComponentProfileList | Discovery | DiscoveryProfiles | DiscoveryGroups
  | ComponentIdentity string | RenewalPolicy string | RevocationStatus string
  | ComponentStatuses | ComponentEvents "string option" "string option"
  | ReportStatus string status_body | ReportEvent string event_body
  | ComponentLifecycle string | TrustVersion string | TrustMaterial string
  | EnrollRest enroll_body | EnrollComponent enroll_body | EnrollmentRequest string
  | Packages "string option" "string option" "string option" "string option" int
  | PackageTelemetry | Package string | PackageHistory string | PackageEventList string int
  | ReportPackageEvent string package_event_body | PackageManifest string | PackageSignature string

text \<open>Where an endpoint returns rows the framework renders them; the table keeps the status
  alone.\<close>

definition rendered :: "'a answer op \<Rightarrow> response op" where
  "rendered m = bindE m (\<lambda>a. ret (case a of Inl r \<Rightarrow> r | Inr _ \<Rightarrow> json_response 200 []))"

definition rows_of :: "'a op \<Rightarrow> response op" where
  "rows_of m = bindE m (\<lambda>_. ret (json_response 200 []))"

fun handle :: "ext \<Rightarrow> signer \<Rightarrow> settings \<Rightarrow> endpoint \<Rightarrow> http_req \<Rightarrow> response op" where
  "handle x g st Health req = get_health x st"
| "handle x g st InternalHealth req = internal_health st"
| "handle x g st VaultStatus req = get_vault_status x st"
| "handle x g st CaChain req = get_pki_ca_chain st"
| "handle x g st RootCrl req = get_pki_crl x st"
| "handle x g st CrlBundle req = get_pki_crls x st"
| "handle x g st SigningTrustAnchor req = get_signing_trust_anchor st g req"
| "handle x g st CertificateTelemetry req = get_certificate_telemetry st req"
| "handle x g st CertificateDrift req = get_certificate_drift st req"
| "handle x g st MtlsMetrics req = get_mtls_metrics st req"
| "handle x g st AuditEvents req = rendered (get_audit_events st req)"
| "handle x g st Applications req = rows_of get_applications"
| "handle x g st (Application i) req = rendered (get_application_by_id i)"
| "handle x g st (ApplicationHeartbeat i) req = rendered (post_application_heartbeat st req i)"
| "handle x g st (RegisterApplication b) req = rendered (register_application st req b)"
| "handle x g st ListCertificates req = rows_of get_certificates"
| "handle x g st (Certificate i) req = rendered (get_certificate_by_id i)"
| "handle x g st (ImportCertificate b) req = rendered (post_import_certificate x st req b)"
| "handle x g st IssueCertificate req = post_issue_certificate x st"
| "handle x g st (RevokeCertificate b) req = post_revoke_certificate x g st req b"
| "handle x g st (RenewCertificate b) req = renew_certificate x g st req b"
| "handle x g st (TrustList z r) req = get_trustlist x st z r"
| "handle x g st (BuildTrustList z r) req = post_build_trustlist x g st req z r"
| "handle x g st (Artifact z r) req = get_trustlist_artifact x g st req z r"
| "handle x g st (ArtifactStatus z r) req = get_trustlist_artifact_status x g st req z r"
| "handle x g st (ArtifactSignature z r) req = get_trustlist_artifact_signature x g st req z r"
| "handle x g st (ArtifactCanonical z r) req = get_trustlist_artifact_canonical x g st req z r"
| "handle x g st (RebuildArtifact z r) req = post_trustlist_artifact_rebuild x g st req z r"
| "handle x g st (ArtifactHistory z r) req = rendered (get_trustlist_artifact_history z r)"
| "handle x g st ComponentProfileList req = rows_of get_component_profiles"
| "handle x g st Discovery req = get_rest_discovery x g st req"
| "handle x g st DiscoveryProfiles req = get_discovery_component_profiles x st req"
| "handle x g st DiscoveryGroups req = get_discovery_certificate_groups x st req"
| "handle x g st (ComponentIdentity u) req = get_component_identity x st req u"
| "handle x g st (RenewalPolicy u) req = get_component_renewal_policy x st req u"
| "handle x g st (RevocationStatus u) req = get_component_revocation_status x st req u"
| "handle x g st ComponentStatuses req = get_all_component_lifecycle_status x st req"
| "handle x g st (ComponentEvents u n) req = get_component_lifecycle_events x st req u n"
| "handle x g st (ReportStatus u b) req = post_component_lifecycle_status x st req u b"
| "handle x g st (ReportEvent u b) req = post_component_lifecycle_event x st req u b"
| "handle x g st (ComponentLifecycle u) req = get_component_lifecycle x g st req u"
| "handle x g st (TrustVersion u) req = get_component_trust_version x g st req u"
| "handle x g st (TrustMaterial u) req = get_component_trust_material x g st req u"
| "handle x g st (EnrollRest b) req = post_rest_csr_enrollment x g st req b"
| "handle x g st (EnrollComponent b) req = post_component_csr_enrollment x g st req b"
| "handle x g st (EnrollmentRequest i) req = rendered (get_enrollment_request x st req i)"
| "handle x g st (Packages u r p s n) req = rendered (list_certificate_packages_endpoint x st req u r p s n)"
| "handle x g st PackageTelemetry req = rendered (get_package_lifecycle_telemetry x st req)"
| "handle x g st (Package q) req = as_response (get_certificate_package_endpoint x st req q)"
| "handle x g st (PackageHistory q) req = rendered (get_certificate_package_history x st req q)"
| "handle x g st (PackageEventList q n) req = rendered (get_certificate_package_events x st req q n)"
| "handle x g st (ReportPackageEvent q b) req = as_response (post_certificate_package_event x st req q b)"
| "handle x g st (PackageManifest q) req = as_response (get_certificate_package_manifest x st req q)"
| "handle x g st (PackageSignature q) req = as_response (get_certificate_package_manifest_signature x st req q)"

definition serve_http :: "ext \<Rightarrow> signer \<Rightarrow> settings \<Rightarrow> endpoint \<Rightarrow> http_req \<Rightarrow> response op" where
  "serve_http x g st ep = enforce_mtls_header_boundary x st (handle x g st ep)"

lemma rendered_sound [evolves_rules]:
  "evolves world_sound m \<Longrightarrow> evolves world_sound (rendered m)"
  "evolves world_sound n \<Longrightarrow> evolves world_sound (rows_of n)"
  unfolding rendered_def rows_of_def by (intro wsound.combinators; assumption)+

lemma handle_sound: "evolves world_sound (handle x g st ep req)"
  by (cases ep) (simp_all, (rule evolves_rules)+)

lemma serve_http_sound [evolves_rules]: "evolves world_sound (serve_http x g st ep req)"
  unfolding serve_http_def by (rule boundary_sound) (rule handle_sound)

end
