(* ===== verification/Collector.thy ===== *)
theory Collector
  imports Checks Outcomes
begin

text \<open>
  \<open>gds/app/dmz_collector_sender.py\<close>: the events that the service sends to the collector of
  the DMZ, their redaction and size limits, the cursor over the audit log and the polling
  loop. A set of field names that the code iterates is a list here, in the order of the
  source.
\<close>

section \<open>Redaction and limits\<close>

definition DROP_OR_REDACT_KEYS :: "string list" where
  "DROP_OR_REDACT_KEYS = [''token'', ''client_token'', ''x-vault-token'', ''x-gds-agent-token'', ''password'',
     ''passwd'', ''pwd'', ''role_id'', ''secret_id'', ''private_key'', ''private_key_pem'', ''server_key'',
     ''client_key'', ''pem'', ''csr_pem'', ''certificate_pem'', ''ca_chain_pem'', ''crl_base64'',
     ''root_crl_base64'', ''intermediate_crl_base64'', ''crl_bundle'', ''signature_base64'']"

definition SAFE_FIELD_NAMES :: "string list" where
  "SAFE_FIELD_NAMES = [''event_type'', ''actor'', ''target'', ''application_uri'', ''runtime_instance_id'',
     ''package_id'', ''request_id'', ''certificate_id'', ''fingerprint_sha256'', ''serial_number'',
     ''trustlist_zone'', ''trustlist_role'', ''trustlist_version'', ''artifact_revision'', ''artifact_sha256'',
     ''error_code'', ''correlation_id'', ''source_ip'', ''mtls_verify_status'']"

fun json_safe :: "pyval \<Rightarrow> pyval" where
  "json_safe (PTime t) = PStr (iso_z t)"
| "json_safe (PDate d) = PStr (py_str (PDate d))"
| "json_safe (PBytes _) = PStr ''<redacted-bytes>''"
| "json_safe (PDict kvs) = PDict (map (\<lambda>(k, v). (k, json_safe v)) kvs)"
| "json_safe (PList vs) = PList (map json_safe vs)"
| "json_safe v = v"

definition secret_key :: "string \<Rightarrow> bool" where
  "secret_key key \<longleftrightarrow> replace_char (CHR ''-'') (CHR ''_'') (lower (strip key)) \<in> set DROP_OR_REDACT_KEYS"

definition pem_text :: "string \<Rightarrow> bool" where
  "pem_text s \<longleftrightarrow> str_contains ''-----BEGIN '' s \<or> str_contains ''-----END '' s"

fun redact_secrets :: "pyval \<Rightarrow> pyval" where
  "redact_secrets (PDict kvs) =
     PDict (map (\<lambda>(k, v). (k, if secret_key k then PStr ''<redacted>'' else redact_secrets v)) kvs)"
| "redact_secrets (PList vs) = PList (map redact_secrets vs)"
| "redact_secrets (PStr s) = (if pem_text s then PStr ''<redacted-pem>'' else PStr s)"
| "redact_secrets v = json_safe v"

definition truncate_text :: "string \<Rightarrow> int \<Rightarrow> string" where
  "truncate_text value max_len =
     (if max_len \<le> 0 \<or> int (length value) \<le> max_len then value
      else take (nat (max 0 (max_len - 15))) value @ ''...<truncated>'')"

definition dumps_default :: "pyval \<Rightarrow> string" where
  \<comment> \<open>\<open>json.dumps(v, ensure_ascii=True, separators=(",", ":"), default=str)\<close>\<close>
  "dumps_default v = json_enc (default_str v)"

definition limit_raw :: "pydict \<Rightarrow> int \<Rightarrow> pyval" where
  "limit_raw raw max_raw_len =
     (let safe = redact_secrets (PDict raw); encoded = dumps_default safe in
      if max_raw_len \<le> 0 \<or> int (length encoded) \<le> max_raw_len then safe
      else PDict [(''truncated'', PBool True), (''preview'', PStr (truncate_text encoded max_raw_len))])"

section \<open>Events\<close>

definition AUDIT_EVENT_MAP :: "(string \<times> string \<times> string \<times> string \<times> bool) list" where
  "AUDIT_EVENT_MAP =
    [(''application_register'', ''gds_client_registered'', ''pki_lifecycle'', ''info'', False),
     (''certificate_request_created'', ''gds_enrollment_request'', ''pki_lifecycle'', ''info'', False),
     (''certificate_renewal_requested'', ''gds_enrollment_request'', ''pki_lifecycle'', ''info'', False),
     (''csr_validated'', ''gds_enrollment_approved'', ''pki_lifecycle'', ''info'', False),
     (''component_enrollment_completed'', ''gds_enrollment_approved'', ''pki_lifecycle'', ''info'', False),
     (''csr_rejected'', ''gds_enrollment_failed'', ''pki_lifecycle'', ''warning'', True),
     (''certificate_issue_failed'', ''gds_enrollment_failed'', ''pki_lifecycle'', ''warning'', True),
     (''certificate_renewal_failed'', ''gds_enrollment_failed'', ''pki_lifecycle'', ''warning'', True),
     (''certificate_issued'', ''gds_certificate_issued'', ''certificate_lifecycle'', ''info'', True),
     (''certificate_renewal_packaged'', ''gds_certificate_renewed'', ''certificate_lifecycle'', ''info'', True),
     (''certificate_revoked'', ''gds_certificate_revoked'', ''certificate_lifecycle'', ''warning'', True),
     (''certificate_revocation_crl_refreshed'', ''gds_certificate_revoked'', ''certificate_lifecycle'', ''warning'', True),
     (''trustlist_build'', ''gds_trust_list_updated'', ''pki_trust_sync'', ''info'', False),
     (''artifact_regenerated'', ''gds_trust_list_published'', ''pki_trust_sync'', ''info'', True),
     (''trustlist_artifact_rebuild'', ''gds_trust_list_published'', ''pki_trust_sync'', ''info'', True),
     (''agent_auth_failure'', ''gds_unauthorized_request'', ''security'', ''warning'', True),
     (''agent_unauthorized_pull'', ''gds_unauthorized_request'', ''security'', ''warning'', True),
     (''mtls_client_identity_failure'', ''gds_unauthorized_request'', ''security'', ''warning'', True)]"

definition details_of :: "ext \<Rightarrow> pydict \<Rightarrow> pydict" where
  "details_of x row = (case py_or (dget row ''details_json'') (PDict []) of
     PStr s \<Rightarrow> (case k_json_loads x s of Some (PDict d) \<Rightarrow> d | _ \<Rightarrow> [])
   | PDict d \<Rightarrow> d | _ \<Rightarrow> [])"

definition timestamp_from :: "pydict \<Rightarrow> string op" where
  "timestamp_from values =
     (case find truthy (map (dget values)
        [''created_at'', ''generated_at'', ''reported_at'', ''ts'', ''timestamp'', ''checked_at'']) of
        Some (PTime t) \<Rightarrow> ret (iso_z t)
      | Some v \<Rightarrow> ret (py_str v)
      | None \<Rightarrow> bindE now_us (\<lambda>t. ret (iso_z t)))"

definition target_parts :: "string \<Rightarrow> pydict" where
  "target_parts target = (case split_on (CHR '':'') target of
     kind # a # b # _ \<Rightarrow>
       if kind \<in> {''trustlist'', ''trustlist_artifact'', ''trustlist_artifact_sig'', ''trustlist_artifact_canonical''}
       then [(''trustlist_zone'', PStr a), (''trustlist_role'', PStr b)]
       else if kind = ''certificate'' \<and> a \<noteq> [] then [(''certificate_id'', PStr a)] else []
   | [kind, a] \<Rightarrow> if kind = ''certificate'' \<and> a \<noteq> [] then [(''certificate_id'', PStr a)] else []
   | _ \<Rightarrow> [])"

definition safe_fields :: "pydict \<Rightarrow> pydict \<Rightarrow> pydict" where
  "safe_fields row details =
     (let merged = dmerge (dmerge row details) (target_parts (get_or_empty row ''target''));
          fields = map (\<lambda>k. (k, json_safe (dget merged k)))
            (filter (\<lambda>k. dget merged k \<notin> {PNone, PStr []}) SAFE_FIELD_NAMES)
      in if dmem ''verify'' details \<and> \<not> dmem ''mtls_verify_status'' fields
         then dput ''mtls_verify_status'' (dget details ''verify'') fields else fields)"

definition base_event ::
  "string \<Rightarrow> string \<Rightarrow> string \<Rightarrow> string \<Rightarrow> string \<Rightarrow> pydict \<Rightarrow> pydict \<Rightarrow> int \<Rightarrow> int \<Rightarrow> pydict op" where
  "base_event name category severity message timestamp raw tags max_message_len max_raw_len =
     bindE (if truthy (dget tags ''event_id'') then ret (dget tags ''event_id'')
            else bindE uuid4_hex (\<lambda>u. ret (PStr u))) (\<lambda>event_id.
       ret [(''id'', event_id), (''timestamp'', PStr timestamp), (''zone'', PStr ''DMZ''),
         (''source_type'', PStr ''gds''), (''sourcetype'', PStr ''labshock:dmz:gds''),
         (''asset_name'', PStr ''labshock_gds''), (''asset_ip'', PStr ''192.168.10.30''),
         (''severity'', PStr severity), (''protocol'', PStr ''http''), (''event_category'', PStr category),
         (''message'', PStr (truncate_text message max_message_len)), (''raw'', limit_raw raw max_raw_len),
         (''tags'', PDict (dput ''gds_event'' (PStr name) (as_dict (redact_secrets (PDict tags)))))])"

definition flag_text :: "bool \<Rightarrow> string" where
  "flag_text b = (if b then ''true'' else ''false'')"

definition classify_audit :: "string \<Rightarrow> string \<times> string \<times> string \<times> bool" where
  "classify_audit ty = (case map_of AUDIT_EVENT_MAP ty of
     None \<Rightarrow> (''gds_audit_event'', ''audit'', ''info'', False) | Some c \<Rightarrow> c)"

definition normalize_audit_event :: "ext \<Rightarrow> pydict \<Rightarrow> int \<Rightarrow> int \<Rightarrow> pydict op" where
  "normalize_audit_event x row max_message_len max_raw_len =
     (let details = details_of x row;
          ty = py_str (py_or (dget row ''event_type'') (PStr ''gds_audit_event''))
      in case classify_audit ty of (name, category, severity, alert) \<Rightarrow>
        bindE (timestamp_from row) (\<lambda>timestamp.
          base_event name category severity (name @ '': '' @ ty) timestamp
            [(''audit_row'', PDict row), (''details'', PDict details), (''normalized_event'', PStr name)]
            (dmerge [(''source_table'', PStr ''audit_events''), (''audit_event_type'', PStr ty),
               (''alert_candidate'', PStr (flag_text alert))] (safe_fields row details))
            max_message_len max_raw_len))"

definition normalize_db_snapshot_event :: "pydict \<Rightarrow> int \<Rightarrow> int \<Rightarrow> pydict op" where
  "normalize_db_snapshot_event snapshot max_message_len max_raw_len =
     (let ok = truthy (dget snapshot ''ok'');
          name = (if ok then ''gds_db_snapshot'' else ''gds_db_disconnected'')
      in bindE (timestamp_from snapshot) (\<lambda>timestamp.
        base_event name (if ok then ''system_health'' else ''error'') (if ok then ''info'' else ''critical'')
          name timestamp [(''db_snapshot'', PDict snapshot)]
          [(''source_table'', PStr ''gds_db_telemetry''), (''alert_candidate'', PStr (flag_text (\<not> ok))),
           (''database'', dget_or snapshot ''database'' (PStr [])), (''db_host'', dget_or snapshot ''host'' (PStr []))]
          max_message_len max_raw_len))"

definition normalize_db_health_event :: "health \<Rightarrow> int \<Rightarrow> int \<Rightarrow> pydict op" where
  "normalize_db_health_event h max_message_len max_raw_len =
     (let ok = hk_ok (hh_postgres h);
          name = (if ok then ''gds_db_connected'' else ''gds_db_disconnected'')
      in bindE now_us (\<lambda>t.
        base_event name (if ok then ''system_health'' else ''error'') (if ok then ''info'' else ''critical'')
          name (iso_z t) [(''health'', PDict (health_dict h))]
          [(''source_table'', PStr ''gds_health''), (''alert_candidate'', PStr (flag_text (\<not> ok))),
           (''postgres_ok'', PStr (flag_text ok))] max_message_len max_raw_len))"

definition normalize_heartbeat_event :: "health \<Rightarrow> int \<Rightarrow> int \<Rightarrow> pydict op" where
  "normalize_heartbeat_event h max_message_len max_raw_len =
     (let ok = hh_ok h in bindE now_us (\<lambda>t.
        base_event ''gds_heartbeat'' (if ok then ''system_health'' else ''error'') (if ok then ''info'' else ''warning'')
          ''gds_heartbeat'' (iso_z t) [(''health'', PDict (health_dict h))]
          [(''source_table'', PStr ''gds_health''), (''alert_candidate'', PStr (flag_text (\<not> ok))),
           (''health_ok'', PStr (flag_text ok))] max_message_len max_raw_len))"

definition encoded_size :: "pydict list \<Rightarrow> int" where
  "encoded_size events = int (length (dumps_default (PList (map PDict events))))"

fun trim_events :: "int \<Rightarrow> pydict list \<Rightarrow> pydict list \<Rightarrow> pydict list" where
  \<comment> \<open>the loop: the events kept so far, and those left\<close>
  "trim_events limit trimmed [] = trimmed"
| "trim_events limit trimmed (e # es) =
     (if limit < encoded_size (trimmed @ [e]) then trimmed else trim_events limit (trimmed @ [e]) es)"

definition payload_within_limit :: "pydict list \<Rightarrow> int \<Rightarrow> pydict list" where
  "payload_within_limit events limit =
     (if limit \<le> 0 \<or> encoded_size events \<le> limit then events
      else let trimmed = trim_events limit [] events in if trimmed \<noteq> [] then trimmed else take 1 events)"

section \<open>The sender\<close>

text \<open>The sender's own state beside the world: its cursor, the time of its last warning, the
  batches posted and the collector's answers. Times of the loop are in microseconds.\<close>

record sender =
  sn_world :: world
  sn_last_audit :: int
  sn_last_warning :: int
  sn_posts :: "pydict list list"
  sn_answers :: "nat \<Rightarrow> exn option"
  sn_next_health :: int
  sn_next_snapshot :: int

type_synonym 'a sop = "(sender, 'a) eff"

definition in_world :: "'a op \<Rightarrow> 'a sop" where
  "in_world m s = (case m (sn_world s) of (r, w) \<Rightarrow> (r, s\<lparr>sn_world := w\<rparr>))"

definition post_events :: "pydict list \<Rightarrow> unit sop" where
  "post_events events s = (case sn_answers s (length (sn_posts s)) of
     Some e \<Rightarrow> (Inl e, s\<lparr>sn_posts := sn_posts s @ [events]\<rparr>)
   | None \<Rightarrow> (Inr (), s\<lparr>sn_posts := sn_posts s @ [events]\<rparr>))"

definition audit_row_dict :: "audit_row \<Rightarrow> pydict" where
  "audit_row_dict e = [(''id'', PInt (ev_id e)), (''event_type'', PStr (ev_type e)), (''actor'', PStr (ev_actor e)),
     (''target'', PStr (ev_target e)), (''details_json'', PDict (ev_details e)), (''created_at'', PTime (ev_created e))]"

definition read_bearer_token :: "string \<Rightarrow> string sop" where
  "read_bearer_token path = in_world (catchE (read_text path) (\<lambda>_. ret []))"

definition send :: "settings \<Rightarrow> pydict list \<Rightarrow> unit sop" where
  "send st events =
     bindE (read_bearer_token (dmz_token_file (s_collector st))) (\<lambda>token.
       if token = []
       then bindE (in_world now_us) (\<lambda>now. updE (\<lambda>s. if 60 * usec \<le> now - sn_last_warning s
              then s\<lparr>sn_last_warning := now\<rparr> else s))
       else catchE (post_events (payload_within_limit events (dmz_max_payload_bytes (s_collector st))))
              (\<lambda>_. ret ()))"

definition initialize_last_audit_id :: "unit sop" where
  "initialize_last_audit_id = catchE
     (bindE (in_world (query (list_audit_events 1))) (\<lambda>latest. case latest of
        [] \<Rightarrow> ret () | e # _ \<Rightarrow> updE (\<lambda>s. s\<lparr>sn_last_audit := ev_id e\<rparr>)))
     (\<lambda>_. ret ())"

definition failure_event :: "settings \<Rightarrow> exn \<Rightarrow> pydict \<Rightarrow> pydict op" where
  "failure_event st e extra =
     bindE now_us (\<lambda>t. normalize_db_snapshot_event
       ([(''ok'', PBool False), (''checked_at'', PStr (iso_z t)), (''database'', PStr (pg_db (s_pg st))),
         (''host'', PStr (pg_host (s_pg st))), (''error_class'', PStr (exc_class e))] @ extra)
       (dmz_max_message_len (s_collector st)) (dmz_max_raw_len (s_collector st)))"

fun normalize_rows :: "ext \<Rightarrow> settings \<Rightarrow> audit_row list \<Rightarrow> pydict list \<Rightarrow> (exn option \<times> pydict list) sop" where
  \<comment> \<open>the loop over the rows: the events appended and the exception that ended it\<close>
  "normalize_rows x st [] events = ret (None, events)"
| "normalize_rows x st (row # rows) events =
     tryE (in_world (normalize_audit_event x (audit_row_dict row) (dmz_max_message_len (s_collector st))
             (dmz_max_raw_len (s_collector st))))
       (\<lambda>e. ret (Some e, events))
       (\<lambda>event. bindE (updE (\<lambda>s. s\<lparr>sn_last_audit := max (sn_last_audit s) (ev_id row)\<rparr>))
          (\<lambda>_. normalize_rows x st rows (events @ [event])))"

definition poll_audit :: "ext \<Rightarrow> settings \<Rightarrow> pydict list sop" where
  "poll_audit x st =
     bindE (getE sn_last_audit) (\<lambda>after_id.
     bindE (tryE (in_world (query (list_audit_events_after_id after_id (max 1 (dmz_batch_size (s_collector st))))))
         (\<lambda>e. ret (Some e, [])) (\<lambda>rows. normalize_rows x st rows [])) (\<lambda>(failure, events).
       case failure of None \<Rightarrow> ret events
       | Some e \<Rightarrow> bindE (in_world (failure_event st e [(''source'', PStr ''audit_events_poll'')]))
           (\<lambda>event. ret (events @ [event]))))"

definition health_events :: "ext \<Rightarrow> settings \<Rightarrow> pydict list sop" where
  "health_events x st = in_world (bindE (full_health x st) (\<lambda>h.
     bindE (normalize_heartbeat_event h (dmz_max_message_len (s_collector st)) (dmz_max_raw_len (s_collector st))) (\<lambda>a.
     bindE (normalize_db_health_event h (dmz_max_message_len (s_collector st)) (dmz_max_raw_len (s_collector st))) (\<lambda>b.
       ret [a, b]))))"

definition snapshot_events :: "(string \<Rightarrow> exn option) \<Rightarrow> settings \<Rightarrow> pydict list sop" where
  "snapshot_events fails st = in_world (catchE
     (bindE now_us (\<lambda>utc_now.
      bindE (query (gds_db_telemetry_snapshot fails (pg_db (s_pg st)) (pg_host (s_pg st)) (pg_port (s_pg st)) utc_now))
        (\<lambda>snapshot. bindE (normalize_db_snapshot_event snapshot (dmz_max_message_len (s_collector st))
           (dmz_max_raw_len (s_collector st))) (\<lambda>e. ret [e]))))
     (\<lambda>e. bindE (failure_event st e []) (\<lambda>event. ret [event])))"

definition tick :: "ext \<Rightarrow> (string \<Rightarrow> exn option) \<Rightarrow> settings \<Rightarrow> int \<Rightarrow> unit sop" where
  "tick x fails st now =
     bindE (getE (\<lambda>s. (sn_next_health s, sn_next_snapshot s))) (\<lambda>(next_health, next_snapshot).
     bindE (poll_audit x st) (\<lambda>audit_events.
     bindE (if next_health \<le> now then health_events x st else ret []) (\<lambda>health.
     bindE (if next_snapshot \<le> now then snapshot_events fails st else ret []) (\<lambda>snapshot.
     (let events = audit_events @ health @ snapshot
      in if events \<noteq> [] then send st events else ret ())))))"

definition run_step :: "ext \<Rightarrow> (string \<Rightarrow> exn option) \<Rightarrow> settings \<Rightarrow> unit sop" where
  \<comment> \<open>one turn of the polling loop\<close>
  "run_step x fails st = catchE
     (bindE (in_world now_us) (\<lambda>now0.
      bindE (tick x fails st now0) (\<lambda>_.
      bindE (in_world now_us) (\<lambda>now. updE (\<lambda>s.
        s\<lparr>sn_next_health := (if sn_next_health s \<le> now
             then now + max 1 (dmz_health_interval (s_collector st)) * usec else sn_next_health s),
          sn_next_snapshot := (if sn_next_snapshot s \<le> now
             then now + max 1 (dmz_db_summary_interval (s_collector st)) * usec else sn_next_snapshot s)\<rparr>)))))
     (\<lambda>_. ret ())"

fun run_steps :: "ext \<Rightarrow> (string \<Rightarrow> exn option) \<Rightarrow> settings \<Rightarrow> nat \<Rightarrow> unit sop" where
  \<comment> \<open>the turns made before the stop event is set\<close>
  "run_steps x fails st 0 = ret ()"
| "run_steps x fails st (Suc n) = bindE (run_step x fails st) (\<lambda>_. run_steps x fails st n)"

definition run_sender :: "ext \<Rightarrow> (string \<Rightarrow> exn option) \<Rightarrow> settings \<Rightarrow> nat \<Rightarrow> unit sop" where
  "run_sender x fails st n =
     (if dmz_enabled (s_collector st)
      then bindE initialize_last_audit_id (\<lambda>_. run_steps x fails st n) else ret ())"

end
