(* ===== verification/Facade.thy ===== *)
theory Facade
  imports Lifecycle Collector
begin

text \<open>
  \<open>gds/app/opcua_boundary_adapter.py\<close>: the methods of the OPC UA facade with their rate
  limits. A method's result is the dictionary that \<open>_json\<close> serialises (\<open>facade_json\<close>).
  The asyncio server around the methods is not modelled.
\<close>

section \<open>State\<close>

text \<open>Counters per session and per enrolling client; \<open>fa_mono\<close> are the readings of
  \<open>time.monotonic()\<close> in microseconds.\<close>

record rate_counter =
  rl_started :: int
  rl_count :: int

record facade =
  fa_world :: world
  fa_sessions :: "string \<Rightarrow> rate_counter option"
  fa_enrollments :: "string \<Rightarrow> rate_counter option"
  fa_mono :: "nat \<Rightarrow> int"
  fa_reads :: nat

type_synonym 'a fop = "(facade, 'a) eff"

definition via_world :: "'a op \<Rightarrow> 'a fop" where
  "via_world m s = (case m (fa_world s) of (r, w) \<Rightarrow> (r, s\<lparr>fa_world := w\<rparr>))"

section \<open>Rate limits\<close>

definition window_usec :: int where
  "window_usec = 60 * 1000000"

definition allow_at :: "int \<Rightarrow> int \<Rightarrow> rate_counter option \<Rightarrow> bool \<times> rate_counter" where
  \<comment> \<open>\<open>_allow\<close> at time \<open>now\<close>: the answer and the counter stored\<close>
  "allow_at limit now counter = (case counter of
     None \<Rightarrow> (True, \<lparr>rl_started = now, rl_count = 1\<rparr>)
   | Some c \<Rightarrow> if window_usec \<le> now - rl_started c then (True, \<lparr>rl_started = now, rl_count = 1\<rparr>)
       else (rl_count c + 1 \<le> limit, c\<lparr>rl_count := rl_count c + 1\<rparr>))"

definition allow_request :: "settings \<Rightarrow> pydict \<Rightarrow> bool fop" where
  "allow_request st context s =
     (let key = py_str (py_or (dget context ''opcua_session_id'') (PStr ''anonymous''));
          (ok, c) = allow_at (facade_session_request_limit (s_facade st)) (fa_mono s (fa_reads s)) (fa_sessions s key)
      in (Inr ok, s\<lparr>fa_sessions := (fa_sessions s)(key \<mapsto> c), fa_reads := Suc (fa_reads s)\<rparr>))"

definition allow_enrollment :: "settings \<Rightarrow> pydict \<Rightarrow> bool fop" where
  "allow_enrollment st context s =
     (let key = py_str (py_or (dget context ''application_uri'')
            (py_or (dget context ''opcua_session_id'') (PStr ''anonymous'')));
          (ok, c) = allow_at (facade_client_enrollment_limit (s_facade st)) (fa_mono s (fa_reads s)) (fa_enrollments s key)
      in (Inr ok, s\<lparr>fa_enrollments := (fa_enrollments s)(key \<mapsto> c), fa_reads := Suc (fa_reads s)\<rparr>))"

section \<open>Helpers\<close>

definition parse_payload :: "ext \<Rightarrow> string \<Rightarrow> pydict" where
  "parse_payload x text = (case k_json_loads x (str_or text ''{}'') of Some (PDict d) \<Rightarrow> d | _ \<Rightarrow> [])"

definition facade_context :: "pydict \<Rightarrow> pydict fop" where
  "facade_context payload =
     bindE (if truthy (dget payload ''correlation_id'') then ret (py_str (dget payload ''correlation_id''))
            else via_world uuid4_hex) (\<lambda>cid.
       ret [(''correlation_id'', PStr cid),
            (''opcua_session_id'', PStr (py_str (py_or (dget payload ''opcua_session_id'') (PStr ''anonymous'')))),
            (''application_uri'', PStr (get_or_empty payload ''application_uri''))])"

definition facade_actor :: "pydict \<Rightarrow> string" where
  "facade_actor payload = ''opcua:'' @ take 96 (strip (py_str
     (py_or (py_or (dget payload ''client_id'') (dget payload ''application_uri'')) (PStr ''anonymous''))))"

definition facade_audit :: "settings \<Rightarrow> string \<Rightarrow> string \<Rightarrow> pydict \<Rightarrow> pydict \<Rightarrow> unit fop" where
  "facade_audit st event_type actor context details =
     via_world (catchE (log_audit event_type actor ''opcua:gds_facade''
       (dmerge details [(''correlation_id'', dget context ''correlation_id''),
         (''opcua_session_id'', dget context ''opcua_session_id''),
         (''application_uri'', dget context ''application_uri''),
         (''facade_mode'', PStr (facade_mode (s_facade st)))])) (\<lambda>_. ret ()))"

definition facade_json :: "pydict \<Rightarrow> string" where
  "facade_json payload = dumps_default (PDict payload)"

definition facade_error :: "string \<Rightarrow> string \<Rightarrow> pydict \<Rightarrow> pydict \<Rightarrow> pydict" where
  "facade_error code message context details =
     dmerge [(''schema'', PStr ''labshock_opcua_error_v1''), (''ok'', PBool False), (''error_code'', PStr code),
       (''error'', PStr message), (''details'', PDict details), (''runtime_write_enabled'', PBool False),
       (''dry_run_only'', PBool True)] context"

definition rate_limited :: "pydict \<Rightarrow> pydict" where
  "rate_limited context =
     facade_error ''rate_limit_exceeded'' ''OPC UA facade session request limit exceeded'' context []"

definition enrollment_limited :: "pydict \<Rightarrow> pydict" where
  "enrollment_limited context =
     facade_error ''enrollment_rate_limit_exceeded'' ''OPC UA facade client enrollment limit exceeded'' context []"

definition READ_DRY_RUN_OPERATIONS :: "string list" where
  "READ_DRY_RUN_OPERATIONS = [''GetServerCapabilities'', ''GetDiscovery'', ''GetApplicationInventory'',
     ''GetCertificateGroups'', ''GetTrustMaterialStatus'', ''CreateSigningRequestDryRun'', ''GetPackageStatus'']"

definition enabled_operations :: "settings \<Rightarrow> string list" where
  "enabled_operations st = READ_DRY_RUN_OPERATIONS @
     (if facade_allow_signing (s_facade st) then [''CreateSigningRequest''] else [])"

definition disabled_operations :: "settings \<Rightarrow> string list" where
  "disabled_operations st = (if facade_allow_signing (s_facade st) then [] else [''CreateSigningRequest''])"

definition safe_package :: "package_view \<Rightarrow> pydict" where
  "safe_package v = (case v of (p, a) \<Rightarrow>
     [(''package_id'', PStr (pk_package p)), (''application_uri'', PStr (a_uri a)),
      (''runtime_instance_id'', opt_str (pk_runtime p)), (''profile_name'', PStr (pk_profile p)),
      (''generation'', PInt (pk_generation p)), (''supersedes_package_id'', opt_str (pk_prev_package p)),
      (''supersedes_generation'', opt_int (pk_prev_generation p)), (''manifest_sha256'', PStr (pk_manifest_sha p)),
      (''compatibility_status'', PStr (pk_compat p)), (''lifecycle_state'', PStr (pk_lifecycle p)),
      (''status'', PStr (pk_status p)), (''created_at'', PTime (pk_created p)),
      (''component_type'', opt_str (a_component a)), (''zone'', PStr (a_zone a)), (''role'', PStr (a_role a))])"

section \<open>Reading methods\<close>

definition limited_read :: "settings \<Rightarrow> pydict \<Rightarrow> (pydict \<Rightarrow> pydict fop) \<Rightarrow> pydict fop" where
  \<comment> \<open>the common opening of the methods: context, then the session limit\<close>
  "limited_read st payload body =
     bindE (facade_context payload) (\<lambda>context.
     bindE (allow_request st context) (\<lambda>ok. if ok then body context else ret (rate_limited context)))"

definition profile_names_of :: "profile_row list \<Rightarrow> pyval" where
  "profile_names_of ps = strs (map pf_name ps)"

definition facade_capabilities :: "settings \<Rightarrow> profile_row list \<Rightarrow> pydict" where
  "facade_capabilities st profiles = (let f = s_facade st in
     [(''schema'', PStr ''labshock_opcua_gds_facade_capabilities_v1''), (''namespace'', PStr ''urn:labshock:gds:facade''),
      (''mode'', PStr (facade_mode f)), (''endpoint_path'', PStr ''/LabShock/GDS/Facade''),
      (''part12_full_compliance'', PBool False), (''runtime_write_enabled'', PBool False),
      (''dry_run_only'', PBool True), (''opcua_signing_enabled'', PBool (facade_allow_signing f)),
      (''security_model'', PStr ''cyber_range_minimal_restricted_namespace''),
      (''enabled_operations'', strs (enabled_operations st)), (''disabled_operations'', strs (disabled_operations st)),
      (''supported_operations'', strs (enabled_operations st)), (''supported_profiles'', profile_names_of profiles),
      (''limits'', PDict [(''max_csr_bytes'', PInt (facade_max_csr_bytes f)),
         (''session_request_limit'', PInt (facade_session_request_limit f)),
         (''client_enrollment_limit'', PInt (facade_client_enrollment_limit f))])])"

definition get_server_capabilities :: "settings \<Rightarrow> pydict fop" where
  "get_server_capabilities st = limited_read st [] (\<lambda>context.
     bindE (via_world (query list_component_profiles)) (\<lambda>profiles.
     bindE (facade_audit st ''opcua_capabilities_read'' ''opcua:gds_facade'' context []) (\<lambda>_.
       ret (dmerge (facade_capabilities st profiles) context))))"

definition get_discovery :: "settings \<Rightarrow> pydict fop" where
  "get_discovery st = limited_read st [] (\<lambda>context.
     bindE (via_world (query list_component_profiles)) (\<lambda>profiles.
     bindE (facade_audit st ''opcua_discovery_read'' ''opcua:gds_facade'' context
       [(''profile_count'', PInt (int (length profiles)))]) (\<lambda>_.
       ret (dmerge [(''schema'', PStr ''labshock_opcua_gds_discovery_v1''),
         (''namespace'', PStr ''urn:labshock:gds:facade''), (''mode'', PStr (facade_mode (s_facade st))),
         (''private_key_export_allowed'', PBool False), (''runtime_write_enabled'', PBool False),
         (''dry_run_only'', PBool True), (''enabled_operations'', strs (enabled_operations st)),
         (''disabled_operations'', strs (disabled_operations st)),
         (''supported_operations'', strs (enabled_operations st)),
         (''supported_profiles'', profile_names_of profiles)] context))))"

definition application_summary :: "app_row \<Rightarrow> pydict" where
  "application_summary a = [(''application_uri'', PStr (a_uri a)), (''common_name'', PStr (a_common_name a)),
     (''zone'', PStr (a_zone a)), (''role'', PStr (a_role a)), (''component_type'', opt_str (a_component a)),
     (''runtime_instance_id'', opt_str (a_runtime a)), (''host'', opt_str (a_host a)),
     (''port'', opt_int (a_port a)), (''status'', PStr (a_status a))]"

definition get_application_inventory :: "settings \<Rightarrow> pydict fop" where
  "get_application_inventory st = limited_read st [] (\<lambda>context.
     bindE (via_world (query list_applications)) (\<lambda>rows.
     bindE (facade_audit st ''opcua_application_inventory_read'' ''opcua:gds_facade'' context
       [(''application_count'', PInt (int (length rows)))]) (\<lambda>_.
       ret (dmerge [(''schema'', PStr ''labshock_opcua_application_inventory_v1''),
         (''applications'', PList (map (PDict \<circ> application_summary) rows))] context))))"

definition profile_summary :: "profile_row \<Rightarrow> pydict" where
  "profile_summary p = [(''profile_name'', PStr (pf_name p)), (''runtime_family'', PStr (pf_family p)),
     (''component_type'', PStr (pf_component p)), (''certificate_format'', PStr (pf_format p)),
     (''status'', PStr (pf_status p))]"

definition get_certificate_groups :: "settings \<Rightarrow> pydict fop" where
  "get_certificate_groups st = limited_read st [] (\<lambda>context.
     bindE (via_world (query list_component_profiles)) (\<lambda>rows.
     bindE (facade_audit st ''opcua_certificate_groups_read'' ''opcua:gds_facade'' context
       [(''group_count'', PInt (int (length rows)))]) (\<lambda>_.
       ret (dmerge [(''schema'', PStr ''labshock_opcua_certificate_groups_v1''),
         (''certificate_groups'', PList (map (PDict \<circ> profile_summary) rows))] context))))"

definition get_trust_material_status :: "ext \<Rightarrow> settings \<Rightarrow> string \<Rightarrow> pydict fop" where
  "get_trust_material_status x st payload_json =
     (let payload = parse_payload x payload_json; uri = strip (get_or_empty payload ''application_uri'') in
      limited_read st payload (\<lambda>context.
        if uri = [] then ret (facade_error ''missing_application_uri'' ''Provide application_uri'' context [])
        else bindE (via_world (query (get_application_by_uri uri))) (\<lambda>found. case found of
          None \<Rightarrow> ret (facade_error ''unknown_application'' ''application_uri is not registered'' context [])
        | Some app \<Rightarrow>
          bindE (via_world (query (list_certificate_packages (Some uri) None None None 5))) (\<lambda>rows.
          bindE (facade_audit st ''opcua_trust_material_status_read'' ''opcua:gds_facade'' context
            [(''application_uri'', PStr uri)]) (\<lambda>_.
          ret (dmerge [(''schema'', PStr ''labshock_opcua_trust_material_status_v1''), (''application_uri'', PStr uri),
            (''runtime_instance_id'', py_or (opt_str (a_runtime app)) (PStr uri)), (''zone'', PStr (a_zone app)),
            (''role'', PStr (a_role app)), (''private_key_included'', PBool False),
            (''packages'', PList (map (PDict \<circ> safe_package) rows))] context))))))"

definition get_package_status :: "ext \<Rightarrow> settings \<Rightarrow> string \<Rightarrow> pydict fop" where
  "get_package_status x st payload_json =
     (let payload = parse_payload x payload_json;
          package_id = strip (get_or_empty payload ''package_id'');
          uri = strip (get_or_empty payload ''application_uri'') in
      limited_read st payload (\<lambda>context.
        if package_id = [] \<and> uri = []
        then ret (facade_error ''missing_package_selector'' ''Provide package_id or application_uri'' context [])
        else bindE (if package_id \<noteq> []
              then bindE (via_world (query (get_certificate_package package_id))) (\<lambda>row. ret (case row of None \<Rightarrow> [] | Some v \<Rightarrow> [v]))
              else via_world (query (list_certificate_packages (Some uri) None None None 10))) (\<lambda>rows.
          bindE (facade_audit st ''opcua_package_status_read'' ''opcua:gds_facade'' context
            [(''package_id'', PStr package_id), (''application_uri'', PStr uri)]) (\<lambda>_.
          ret (dmerge [(''schema'', PStr ''labshock_opcua_package_status_v1''),
            (''packages'', PList (map (PDict \<circ> safe_package) rows))] context)))))"

section \<open>Signing requests\<close>

definition utf8_length :: "string \<Rightarrow> int" where
  "utf8_length s = int (sum_list (map (\<lambda>c. if (of_char c :: nat) < 128 then 1 else 2) s))"

definition payload_order :: "pydict \<Rightarrow> string \<Rightarrow> csr_order" where
  "payload_order payload source = \<lparr>or_uri = get_or_empty payload ''application_uri'',
     or_runtime = get_or_empty payload ''runtime_instance_id'', or_profile = get_or_empty payload ''profile_name'',
     or_csr = get_or_empty payload ''csr_pem'', or_ttl = get_or_empty payload ''requested_ttl'',
     or_by = facade_actor payload, or_source = source, or_allow_duplicate = False\<rparr>"

definition limited_enrollment :: "settings \<Rightarrow> pydict \<Rightarrow> (pydict \<Rightarrow> pydict fop) \<Rightarrow> pydict fop" where
  "limited_enrollment st payload body = limited_read st payload (\<lambda>context.
     bindE (allow_enrollment st context) (\<lambda>ok. if ok then body context else ret (enrollment_limited context)))"

definition reject_large_csr ::
  "settings \<Rightarrow> string \<Rightarrow> pydict \<Rightarrow> pydict \<Rightarrow> pydict fop \<Rightarrow> pydict fop" where
  "reject_large_csr st event_type payload context body =
     (if facade_max_csr_bytes (s_facade st) < utf8_length (get_or_empty payload ''csr_pem'')
      then bindE (facade_audit st event_type (facade_actor payload) context [(''error_code'', PStr ''csr_too_large'')])
        (\<lambda>_. ret (facade_error ''csr_too_large'' ''CSR exceeds OPC UA facade maximum size'' context []))
      else body)"

definition lifecycle_rejection ::
  "settings \<Rightarrow> string \<Rightarrow> pydict \<Rightarrow> pydict \<Rightarrow> pydict \<Rightarrow> exn \<Rightarrow> pydict fop" where
  "lifecycle_rejection st event_type payload context extra e = (case e of
     LifecycleError code message status_code details \<Rightarrow>
       bindE (facade_audit st event_type (facade_actor payload) context
         [(''error_code'', PStr code), (''details'', PDict details)])
         (\<lambda>_. ret (facade_error code message context (dmerge details extra)))
   | _ \<Rightarrow> raise e)"

definition dry_run_response :: "dry_run_result \<Rightarrow> pydict" where
  "dry_run_response r =
     [(''schema'', PStr ''labshock_opcua_signing_request_dry_run_v1''),
      (''request_id'', PStr (rq_request (dr_request r))), (''application_uri'', PStr (dr_uri r)),
      (''runtime_instance_id'', PStr (dr_runtime r)), (''profile_name'', PStr (dr_profile r)),
      (''status'', PStr (dr_status r)),
      (''validation_errors'', dget_or (dr_validation r) ''errors'' (PList [])),
      (''validation_warnings'', dget_or (dr_validation r) ''warnings'' (PList [])),
      (''compatibility'', dget_or (dr_validation r) ''compatibility'' (PDict [])),
      (''vault_signing_performed'', PBool False), (''package_created'', PBool False),
      (''runtime_write_enabled'', PBool False), (''dry_run_only'', PBool True)]"

definition create_signing_request_dry_run :: "ext \<Rightarrow> settings \<Rightarrow> string \<Rightarrow> pydict fop" where
  "create_signing_request_dry_run x st payload_json =
     (let payload = parse_payload x payload_json in
      limited_enrollment st payload (\<lambda>context.
      reject_large_csr st ''opcua_signing_request_dry_run_rejected'' payload context
        (tryE (via_world (validate_certificate_request_dry_run x (payload_order payload ''opcua_part12_dry_run'')
             (py_str (dget context ''correlation_id''))))
           (lifecycle_rejection st ''opcua_signing_request_dry_run_rejected'' payload context
             [(''vault_signing_performed'', PBool False), (''package_created'', PBool False)])
           (\<lambda>r. ret (dmerge (dry_run_response r) context)))))"

text \<open>Every request signs with a Vault client and a signer of its own; \<open>fresh_key\<close> is the
  key that is generated when the key file does not exist yet.\<close>

definition with_fresh_vault :: "'a op \<Rightarrow> 'a op" where
  "with_fresh_vault m w = (case m (w\<lparr>w_vault := initial_vault_state\<rparr>) of
     (r, w') \<Rightarrow> (r, w'\<lparr>w_vault := w_vault w\<rparr>))"

definition open_signer :: "ext \<Rightarrow> settings \<Rightarrow> string \<Rightarrow> signer op" where
  "open_signer x st fresh_key w =
     (let path = signing_key_path (s_artifact st); file = w_files w path;
          w' = (case load_or_create_private_key x file fresh_key of
             Inr (_, Some written) \<Rightarrow> w\<lparr>w_files := (w_files w)(path \<mapsto> written)\<rparr> | _ \<Rightarrow> w)
      in (trust_artifact_signer x file fresh_key (signing_key_id (s_artifact st)) (artifact_ttl_seconds (s_artifact st)), w'))"

definition signing_response :: "issue_result \<Rightarrow> pydict" where
  "signing_response r =
     [(''schema'', PStr ''labshock_opcua_signing_request_result_v1''),
      (''request_id'', PStr (rq_request (ir_request r))),
      (''application_uri'', dget (ir_manifest r) ''application_uri''),
      (''runtime_instance_id'', dget (ir_manifest r) ''runtime_instance_id''),
      (''profile_name'', dget (ir_manifest r) ''profile_name''),
      (''package_id'', PStr (pk_package (ir_package r))), (''generation'', PInt (pk_generation (ir_package r))),
      (''certificate_id'', PInt (c_id (ir_certificate r))),
      (''certificate_fingerprint_sha256'', PStr (c_fpr (ir_certificate r))),
      (''compatibility_status'', PStr (pk_compat (ir_package r))),
      (''lifecycle_state'', PStr (pk_lifecycle (ir_package r))), (''vault_signing_performed'', PBool True),
      (''runtime_write_enabled'', PBool False), (''private_key_included'', PBool False)]"

definition create_signing_request :: "ext \<Rightarrow> settings \<Rightarrow> string \<Rightarrow> string \<Rightarrow> pydict fop" where
  "create_signing_request x st fresh_key payload_json =
     (let payload = parse_payload x payload_json in
      limited_enrollment st payload (\<lambda>context.
      if \<not> facade_allow_signing (s_facade st)
      then bindE (facade_audit st ''opcua_signing_request_rejected'' (facade_actor payload) context
          [(''error_code'', PStr ''opcua_signing_disabled'')]) (\<lambda>_.
        ret (facade_error ''opcua_signing_disabled''
          ''OPC UA facade signing is disabled; use REST HTTPS/mTLS issuance or CreateSigningRequestDryRun'' context
          [(''vault_signing_performed'', PBool False), (''package_created'', PBool False), (''dry_run_only'', PBool True)]))
      else reject_large_csr st ''opcua_signing_request_rejected'' payload context
        (tryE (via_world (bindE (open_signer x st fresh_key) (\<lambda>g.
             with_fresh_vault (issue_certificate_package x st g (payload_order payload ''opcua_part12_component'')))))
           (lifecycle_rejection st ''opcua_signing_request_rejected'' payload context [])
           (\<lambda>r. bindE (facade_audit st ''opcua_signing_request_completed'' (facade_actor payload) context
              [(''package_id'', PStr (pk_package (ir_package r))), (''certificate_id'', PInt (c_id (ir_certificate r)))])
              (\<lambda>_. ret (dmerge (signing_response r) context))))))"

end
