(* ===== verification/Lifecycle_Facts.thy ===== *)
theory Lifecycle_Facts
  imports Lifecycle Json_Canonical
begin

text \<open>
  What issuing a package guarantees: nothing is signed or stored unless the request is
  valid, a dry run never reaches Vault, the package stored is the next of its lineage and
  its digest and signature are those of its manifest, and the compatibility verdict of the
  package joins the two verdicts it is made of.
\<close>

section \<open>Frames\<close>

text \<open>What an operation leaves alone outside its own table.\<close>

definition untouched :: "world \<Rightarrow> request list \<times> cert_row list \<times> package_row list" where
  "untouched w = (w_requests w, d_certs (w_db w), d_packages (w_db w))"

lemma untouched_on_db:
  "(\<And>t d. d_certs (snd (f t d)) = d_certs d \<and> d_packages (snd (f t d)) = d_packages d) \<Longrightarrow>
   evolves (same untouched) (on_db f)"
  unfolding evolves_def same_def untouched_def on_db_def Let_def
  by (auto split: prod.splits) (metis snd_conv)+

lemma untouched_query [evolves_rules]: "(\<And>d. snd (m d) = d) \<Longrightarrow> evolves (same untouched) (query m)"
  unfolding query_def by (rule untouched_on_db) simp

lemma untouched_prims [evolves_rules]:
  "evolves (same untouched) now_us" "evolves (same untouched) uuid4_hex" "evolves (same untouched) (lift_sum r)"
  "evolves (same untouched) (log_audit ty ac tg det)"
proof -
  show "evolves (same untouched) (log_audit ty ac tg det)"
    unfolding log_audit_def by (rule untouched_on_db) (auto simp: audit_def json_dumps_def split: sum.splits)
qed (simp_all add: evolves_def same_def untouched_def now_us_def uuid4_hex_def lift_sum_def)

lemma register_untouched [evolves_rules]:
  "evolves (same untouched) (register_request ord rid app rt fp info v s)"
  unfolding register_request_def
  by (rule untouched_on_db) (auto simp: insert_certificate_request_def json_dumps_def Let_def split: sum.splits)

lemma resolve_untouched [evolves_rules]: "evolves (same untouched) (resolve_target u r p)"
  unfolding resolve_target_def by (intro frame.combinators evolves_rules; simp)

lemma admission_untouched [evolves_rules]:
  "evolves (same untouched) (admit_csr x ord)" "evolves (same untouched) (validate_order x ord app rt p csr)"
  unfolding admit_csr_def validate_order_def by (intro frame.combinators evolves_rules; simp)+

lemma dry_run_untouched: "evolves (same untouched) (validate_certificate_request_dry_run x ord cid)"
  unfolding validate_certificate_request_dry_run_def by (intro frame.combinators evolves_rules)

section \<open>Nothing is signed without a valid request\<close>

definition acceptable :: "ext \<Rightarrow> csr_order \<Rightarrow> db \<Rightarrow> bool" where
  \<comment> \<open>the application and the active profile exist, and the profile accepts the request\<close>
  "acceptable x ord d \<longleftrightarrow> (\<exists>app p csr ws i. app \<in> set (d_apps d) \<and> a_uri app = or_uri ord \<and>
     p \<in> set (d_profiles d) \<and> pf_name p = or_profile ord \<and> lower (pf_status p) = ''active'' \<and>
     k_load_csr x (or_csr ord) = Some csr \<and> x_csr_signature_valid csr \<and>
     validate_csr x (adapter_for_profile p) csr app = Inr ([], ws, i))"

lemma resolve_target_result:
  assumes "resolve_target u r pn w = (Inr (app, rt, p), w')"
  shows "w_db w' = w_db w \<and> app \<in> set (d_apps (w_db w)) \<and> a_uri app = u \<and> p \<in> set (d_profiles (w_db w))
    \<and> pf_name p = pn \<and> lower (pf_status p) = ''active'' \<and> (r = [] \<or> r = app_runtime app \<or> app_runtime app = [])"
proof -
  obtain w1 where a: "query (get_application_by_uri u) w = (Inr (Some app), w1)"
    and p: "query (get_component_profile pn) w1 = (Inr (Some p), w')"
    and g: "lower (pf_status p) = ''active''" "r = [] \<or> r = app_runtime app \<or> app_runtime app = []"
    using assms unfolding resolve_target_def run_simps by blast
  from query_run [OF a] query_run [OF p] g show ?thesis
    by (auto simp: get_application_by_uri_def get_component_profile_def ret_def dest!: find_SomeD)
qed

lemma admit_csr_result:
  assumes "admit_csr x ord w = (Inr csr, w')"
  shows "w_db w' = w_db w \<and> k_load_csr x (or_csr ord) = Some csr \<and> x_csr_signature_valid csr"
proof -
  obtain r where l: "load_csr x (or_csr ord) = Inr csr" and v: "x_csr_signature_valid csr"
    and q: "query (get_certificate_request_by_csr (csr_fingerprint x csr)) w = (Inr r, w')"
    using assms unfolding admit_csr_def run_simps by auto
  from query_run [OF q] l v show ?thesis
    by (auto simp: load_csr_def split: option.splits)
qed

lemma validate_order_result:
  assumes "validate_order x ord app rt p csr w = (Inr (rid, row, info), w')"
  shows "\<exists>ws. validate_csr x (adapter_for_profile p) csr app = Inr ([], ws, info)"
  using assms unfolding validate_order_def run_simps Let_def by auto

lemma admit_order_untouched: "evolves (same untouched) (admit_order x ord)"
  unfolding admit_order_def by (intro frame.combinators evolves_rules)

lemma admit_order_result:
  assumes "admit_order x ord w = (Inr q, w')"
  shows "acceptable x ord (w_db w)"
proof -
  obtain app rt p w1 csr w2 rid row info w3 where
    r: "resolve_target (or_uri ord) (or_runtime ord) (or_profile ord) w = (Inr (app, rt, p), w1)" and
    a: "admit_csr x ord w1 = (Inr csr, w2)" and
    v: "validate_order x ord app rt p csr w2 = (Inr (rid, row, info), w3)"
    using assms unfolding admit_order_def run_simps by blast
  from resolve_target_result [OF r] admit_csr_result [OF a] validate_order_result [OF v]
  show ?thesis unfolding acceptable_def by metis
qed

lemma unacceptable_untouched:
  assumes "\<not> acceptable x ord (w_db w)"
  shows "same untouched w (snd (issue_certificate_package x st g ord w))"
    and "\<exists>e. fst (issue_certificate_package x st g ord w) = Inl e"
proof -
  obtain r w' where run: "admit_order x ord w = (r, w')" by fastforce
  have "r \<noteq> Inr q" for q
    using assms admit_order_result [of x ord w q w'] run by auto
  with run obtain e where e: "admit_order x ord w = (Inl e, w')" by (metis sum.exhaust)
  then have res: "issue_certificate_package x st g ord w = (Inl e, w')"
    by (simp add: issue_certificate_package_def bindE_def)
  then show "\<exists>e. fst (issue_certificate_package x st g ord w) = Inl e" by simp
  show "same untouched w (snd (issue_certificate_package x st g ord w))"
    using admit_order_untouched [of x ord] e res by (metis evolves_def snd_conv)
qed

section \<open>The package stored\<close>

definition genuine :: "ext \<Rightarrow> signer \<Rightarrow> package_row \<Rightarrow> bool" where
  \<comment> \<open>the digest and the signature of a package are those of its manifest\<close>
  "genuine x g p \<longleftrightarrow> manifest_sha256 x (pk_manifest p) = Inr (pk_manifest_sha p)
     \<and> dget (pk_manifest p) ''manifest_sha256'' = PStr (pk_manifest_sha p)
     \<and> (\<exists>bytes. canonical_json_bytes (PDict (canonical_package_manifest (pk_manifest p))) = Inr bytes
          \<and> pk_signature p = k_b64 x (k_sign x (sg_key g) bytes))"

lemma sign_manifest_genuine:
  assumes "sign_manifest x g unstamped = Inr (manifest, sha, sig)"
  shows "manifest_sha256 x manifest = Inr sha" "dget manifest ''manifest_sha256'' = PStr sha"
    "\<exists>bytes. canonical_json_bytes (PDict (canonical_package_manifest manifest)) = Inr bytes
       \<and> ps_signature sig = k_b64 x (k_sign x (sg_key g) bytes)"
  using assms
  by (auto simp: sign_manifest_def sign_canonical_payload_def bindS_Inr dget_dput Let_def manifest_sha256_def
      canonical_manifest_stamp)

lemma insert_package_result:
  assumes "insert_certificate_package pid a rt rid c pr m sha sig co li (Some gen) pp pg t d = (Inr p, d')"
  shows "d_packages d' = d_packages d @ [p]" "pk_package p = pid" "pk_app p = a" "pk_profile p = pr"
    "pk_generation p = gen" "pk_prev_package p = pp" "pk_prev_generation p = pg" "pk_manifest p = m"
    "pk_manifest_sha p = sha" "pk_signature p = sig" "pk_cert p = c" "pk_request p = rid" "pk_lifecycle p = li"
    "pk_compat p = co"
  using assms by (auto simp: insert_certificate_package_def Let_def split: sum.splits if_splits)

definition package_table :: "world \<Rightarrow> package_row list" where
  "package_table w = d_packages (w_db w)"

lemma package_table_on_db:
  "(\<And>t d. d_packages (snd (f t d)) = d_packages d) \<Longrightarrow> evolves (same package_table) (on_db f)"
  unfolding evolves_def same_def package_table_def on_db_def Let_def
  by (auto split: prod.splits) (metis snd_conv)+

lemma package_table_kept [evolves_rules]:
  "evolves (same package_table) (log_audit ty ac tg det)"
  "evolves (same package_table) (set_request_status rid s q)"
  "evolves (same package_table) (on_db (insert_package_event pid ty ac det))"
  "evolves (same package_table) uuid4_hex" "evolves (same package_table) now_us"
  "evolves (same package_table) (lift_sum r)"
proof -
  show "evolves (same package_table) (log_audit ty ac tg det)"
    unfolding log_audit_def by (rule package_table_on_db) (auto simp: audit_def json_dumps_def split: sum.splits)
  show "evolves (same package_table) (set_request_status rid s q)"
    unfolding set_request_status_def
    by (intro frame.combinators package_table_on_db)
       (auto simp: update_certificate_request_status_def json_dumps_def Let_def split: option.splits sum.splits)
  show "evolves (same package_table) (on_db (insert_package_event pid ty ac det))"
    by (rule package_table_on_db) (auto simp: insert_package_event_def json_dumps_def split: sum.splits)
qed (simp_all add: evolves_def same_def package_table_def uuid4_hex_def now_us_def lift_sum_def)

lemma latest_after_insert:
  assumes "insert_certificate_package pid a rt rid c pr m sha sig co li
      (Some (fst (next_lineage (latest_package d a pr)))) pp pg t d = (Inr p, d')"
  shows "latest_package d' a pr = Some p"
proof -
  note ins = insert_package_result [OF assms]
  have rows: "packages_for d' a pr = packages_for d a pr @ [p]" using ins(1-4) by (simp add: packages_for_def)
  obtain z where z: "fetch_one (order_desc pk_generation (packages_for d' a pr)) = Some z"
    using rows by (cases "fetch_one (order_desc pk_generation (packages_for d' a pr))") auto
  have "pk_generation p \<le> pk_generation z" using order_desc_hd_max [OF z] rows by simp
  moreover have "z \<in> set (packages_for d a pr @ [p])" using fetch_desc_mem [OF z] rows by simp
  ultimately have "z = p" using next_lineage_above [of z d a pr] ins(5) by auto
  with z show ?thesis by (simp add: latest_package_def)
qed

definition package_for_order ::
  "ext \<Rightarrow> signer \<Rightarrow> csr_order \<Rightarrow> int \<Rightarrow> int \<Rightarrow> string \<Rightarrow> package_row \<Rightarrow> package_row option \<Rightarrow> bool" where
  "package_for_order x g ord app_id cert_id rid p previous \<longleftrightarrow> pk_app p = app_id \<and> pk_profile p = or_profile ord
     \<and> pk_cert p = Some cert_id \<and> pk_request p = rid \<and> pk_lifecycle p = ''PACKAGED'' \<and> genuine x g p
     \<and> (pk_generation p, pk_prev_package p, pk_prev_generation p) = next_lineage previous"

lemma store_package_result:
  assumes "store_package x g ord rid app rt issued row parts w = (Inr (p, m), w')"
  shows "package_for_order x g ord (a_id app) (c_id row) rid p
      (latest_package (w_db w) (a_id app) (or_profile ord))"
    and "package_table w' = package_table w @ [p]"
    and "latest_package (w_db w') (a_id app) (or_profile ord) = Some p" and "pk_manifest p = m"
proof -
  define prev where "prev = latest_package (w_db w) (a_id app) (or_profile ord)"
  obtain gen pp pg where lin: "next_lineage prev = (gen, pp, pg)" by (cases "next_lineage prev") auto
  obtain prev' w1 where q: "query (get_latest_certificate_package_for_application (a_id app) (or_profile ord)) w
      = (Inr prev', w1)" using assms unfolding store_package_def bindE_Inr by blast
  from query_run [OF q] have prev': "prev' = prev"
    by (simp add: prev_def get_latest_certificate_package_for_application_def ret_def)
  obtain pid w2 now w3 sha sig w4 w5 where
    u: "uuid4_hex w1 = (Inr pid, w2)" and n: "now_us w2 = (Inr now, w3)" and
    s: "lift_sum (sign_manifest x g (package_manifest ord g pid (gen, pp, pg) app rt issued parts (iso_z now))) w3
          = (Inr (m, sha, sig), w4)" and
    i: "on_db (insert_certificate_package pid (a_id app) (Some rt) rid (Some (c_id row)) (or_profile ord) m sha
          (ps_signature sig) (rc_status (pp_compat parts)) ''PACKAGED'' (Some gen) pp pg) w4 = (Inr p, w5)" and
    rest: "announce_package ord rid pid (package_details rid gen (pp_compat parts)) w5 = (Inr (), w')"
    using assms q prev' lin unfolding store_package_def run_simps by auto
  from s have sm: "sign_manifest x g (package_manifest ord g pid (gen, pp, pg) app rt issued parts (iso_z now))
      = Inr (m, sha, sig)" and w4: "w4 = w3" by (auto simp: lift_sum_def)
  have db4: "w_db w4 = w_db w" using query_run [OF q] u n w4
    by (auto dest!: same_db_run simp: get_latest_certificate_package_for_application_def ret_def)
  from i obtain t where ins: "insert_certificate_package pid (a_id app) (Some rt) rid
      (Some (c_id row)) (or_profile ord) m sha (ps_signature sig) (rc_status (pp_compat parts)) ''PACKAGED''
      (Some gen) pp pg t (w_db w) = (Inr p, w_db w5)"
    unfolding on_db_run by (auto simp: db4)
  note fields = insert_package_result [OF ins]
  have "package_table w' = package_table w5"
    using rest by (rule same_run [rotated])
      (unfold announce_package_def, intro frame.combinators evolves_rules)
  then have pk: "d_packages (w_db w') = d_packages (w_db w5)" by (simp add: package_table_def)
  show "package_table w' = package_table w @ [p]" using pk fields(1) by (simp add: package_table_def)
  have "latest_package (w_db w5) (a_id app) (or_profile ord) = Some p"
    using latest_after_insert ins lin unfolding prev_def by (metis fst_conv)
  then show "latest_package (w_db w') (a_id app) (or_profile ord) = Some p"
    by (simp add: latest_package_def packages_for_def pk)
  show "pk_manifest p = m" by (rule fields)
  show "package_for_order x g ord (a_id app) (c_id row) rid p
      (latest_package (w_db w) (a_id app) (or_profile ord))"
    using sign_manifest_genuine [OF sm] fields lin
    by (simp add: package_for_order_def genuine_def prev_def)
qed

section \<open>The outcome of issuing\<close>

definition issued_as_next :: "ext \<Rightarrow> signer \<Rightarrow> csr_order \<Rightarrow> issue_result \<Rightarrow> db \<Rightarrow> bool" where
  \<comment> \<open>the last package of the table is the one returned, and it continues its lineage\<close>
  "issued_as_next x g ord r d \<longleftrightarrow> (\<exists>before app_id. d_packages d = before @ [ir_package r] \<and>
     package_for_order x g ord app_id (c_id (ir_certificate r)) (pk_request (ir_package r)) (ir_package r)
       (fetch_one (order_desc pk_generation
          (filter (\<lambda>p. pk_app p = app_id \<and> pk_profile p = or_profile ord) before))) \<and>
     latest_package d app_id (or_profile ord) = Some (ir_package r) \<and>
     pk_manifest (ir_package r) = ir_manifest r)"

lemma issue_result:
  assumes "issue_certificate_package x st g ord w = (Inr r, w')"
  shows "acceptable x ord (w_db w)" and "issued_as_next x g ord r (w_db w')"
proof -
  obtain app rt p rid row info w1 signed issued crow w2 parts w3 package manifest where
    a: "admit_order x ord w = (Inr (app, rt, p, rid, row, info), w1)" and
    s: "store_package x g ord rid app rt issued crow parts w3 = (Inr (package, manifest), w')" and
    r: "r = \<lparr>ir_request = row, ir_certificate = crow, ir_package = package, ir_manifest = manifest,
         ir_signature = package_signature_payload package\<rparr>"
    using assms unfolding issue_certificate_package_def run_simps by blast
  show "acceptable x ord (w_db w)" by (rule admit_order_result [OF a])
  note res = store_package_result [OF s]
  have "pk_request package = rid" using res(1) by (simp add: package_for_order_def)
  then show "issued_as_next x g ord r (w_db w')"
    using res unfolding issued_as_next_def
    by (intro exI [of _ "d_packages (w_db w3)"] exI [of _ "a_id app"])
       (simp add: r package_table_def latest_package_def packages_for_def)
qed

section \<open>Compatibility\<close>

lemma risk_rank_max: "risk_rank (max_risk r rs) = Max (set (map risk_rank (r # rs)))"
proof (induction rs arbitrary: r)
  case (Cons v rs)
  have "max_risk r (v # rs) = max_risk (if risk_rank r < risk_rank v then v else r) rs"
    by (simp add: max_risk_def)
  with Cons [of "if risk_rank r < risk_rank v then v else r"] show ?case
    by (cases rs) (simp_all add: max_def)
qed (simp add: max_risk_def)

lemma merge_compatibility_verdict:
  "rc_status (merge_compatibility a b) =
     (if rc_status a = ''INCOMPATIBLE'' \<or> rc_status b = ''INCOMPATIBLE'' then ''INCOMPATIBLE'' else ''COMPATIBLE'')"
  "set (rc_blocking (merge_compatibility a b)) = set (rc_blocking a) \<union> set (rc_blocking b)"
  "set (rc_warnings (merge_compatibility a b)) = set (rc_warnings a) \<union> set (rc_warnings b)"
  "distinct (rc_blocking (merge_compatibility a b)) \<and> sorted (rc_blocking (merge_compatibility a b))"
  by (simp_all add: merge_compatibility_def Let_def)

lemma merge_compatibility_risk:
  "risk_rank (rc_risk a) \<le> risk_rank (rc_risk (merge_compatibility a b))
   \<and> risk_rank (rc_risk b) \<le> risk_rank (rc_risk (merge_compatibility a b))
   \<and> (rc_status (merge_compatibility a b) = ''INCOMPATIBLE'' \<longrightarrow>
       risk_rank ''HIGH'' \<le> risk_rank (rc_risk (merge_compatibility a b)))"
  unfolding merge_compatibility_def Let_def by (simp add: risk_rank_max le_max_iff_disj)

end
