(* ===== verification/Collector_Facts.thy ===== *)
theory Collector_Facts
  imports Collector
begin

text \<open>
  The sender of events: what redaction removes, the bounds on texts and batches, the order
  and completeness of the cursor over the audit log, and that polling only reads.
\<close>

section \<open>Redaction\<close>

fun redacted :: "pyval \<Rightarrow> bool" where
  \<comment> \<open>no PEM text anywhere, and nothing but the mark under a secret key\<close>
  "redacted (PDict kvs) \<longleftrightarrow>
     (\<forall>(k, v) \<in> set kvs. if secret_key k then v = PStr ''<redacted>'' else redacted v)"
| "redacted (PList vs) \<longleftrightarrow> (\<forall>v \<in> set vs. redacted v)"
| "redacted (PStr s) \<longleftrightarrow> \<not> pem_text s"
| "redacted (PBytes _) \<longleftrightarrow> False"
| "redacted (PTime _) \<longleftrightarrow> False"
| "redacted (PDate _) \<longleftrightarrow> False"
| "redacted _ \<longleftrightarrow> True"

lemma str_contains_set: "str_contains p s \<Longrightarrow> set p \<subseteq> set s"
proof (induction s)
  case (Cons x xs)
  then consider "take (length p) (x # xs) = p" | "str_contains p xs" by auto
  then show ?case
  proof cases
    case 1
    then have "set p = set (take (length p) (x # xs))" by simp
    then show ?thesis using set_take_subset [of "length p" "x # xs"] by simp
  next
    case 2
    with Cons.IH show ?thesis by auto
  qed
qed simp

definition date_char :: "char \<Rightarrow> bool" where
  "date_char c \<longleftrightarrow> is_digit c \<or> c \<in> set ''-T:.+Z ''"

lemma digits_date_char: "list_all date_char (int_str i)"
  using nat_str_digits by (auto simp: int_str_def date_char_def list_all_iff)

lemma pad_date_char: "list_all date_char (pad n i)"
  using digits_date_char [of i]
  by (auto simp: pad_def Let_def list_all_iff date_char_def is_digit_def less_eq_char_def)

lemma iso_date_char: "date_char sep \<Longrightarrow> list_all date_char (iso_utc_sep sep t)"
  using pad_date_char
  by (auto simp: iso_utc_sep_def Let_def date_char_def is_digit_def less_eq_char_def split: prod.splits)

lemma replace_all_chars: "list_all P s \<Longrightarrow> list_all P new \<Longrightarrow> list_all P (replace_all old new s)"
proof (induction old new s rule: replace_all.induct)
  case (2 old new c s)
  then show ?case by (auto simp: list_all_iff dest: in_set_dropD)
qed simp

lemma iso_z_chars: "list_all date_char (iso_z t)"
proof -
  have "date_char (CHR ''T'')" "list_all date_char ''Z''" by (simp_all add: date_char_def)
  then show ?thesis unfolding iso_z_def isoformat_def by (intro replace_all_chars iso_date_char)
qed

lemma date_text_clean: "list_all date_char s \<Longrightarrow> \<not> pem_text s"
proof -
  assume s: "list_all date_char s"
  have "\<not> date_char (CHR ''E'')" by (simp add: date_char_def is_digit_def less_eq_char_def)
  then have "CHR ''E'' \<notin> set s" using s by (auto simp: list_all_iff)
  then show ?thesis using str_contains_set [of "''-----BEGIN ''" s] str_contains_set [of "''-----END ''" s]
    by (auto simp: pem_text_def)
qed

lemma date_str_clean: "\<not> pem_text (py_str (PDate d))"
proof -
  have "list_all date_char (iso_utc_sep (CHR '' '') (d * day_usec))"
    by (rule iso_date_char) (simp add: date_char_def)
  then have "list_all date_char (take 10 (iso_utc_sep (CHR '' '') (d * day_usec)))"
    by (auto simp: list_all_iff dest: in_set_takeD)
  then show ?thesis by (intro date_text_clean) (simp add: py_str_def)
qed

lemma mark_clean: "\<not> pem_text ''<redacted-bytes>''" "\<not> pem_text ''<redacted-pem>''"
  by (simp_all add: pem_text_def)

lemma redact_secrets_redacted: "redacted (redact_secrets v)"
proof (induction v rule: redact_secrets.induct)
  case (1 kvs)
  then show ?case by (fastforce split: prod.splits)
qed (simp_all add: mark_clean date_str_clean date_text_clean iso_z_chars)

text \<open>Two of the listed names contain a hyphen, which the normalised key never does.\<close>

lemma hyphen_names_never_match: "\<not> secret_key ''X-Vault-Token''" "\<not> secret_key ''x-gds-agent-token''"
  by (code_simp, code_simp)

section \<open>Bounds\<close>

lemma truncate_text_bound: "0 < m \<Longrightarrow> int (length (truncate_text v m)) \<le> max m 14"
  by (auto simp: truncate_text_def min_def)

lemma truncate_text_short: "m \<le> 0 \<or> int (length v) \<le> m \<Longrightarrow> truncate_text v m = v"
  by (simp add: truncate_text_def)

lemma trim_events_prefix: "\<exists>n. trim_events limit tr es = tr @ take n es \<and> n \<le> length es \<and>
    (n < length es \<longrightarrow> limit < encoded_size (tr @ take (Suc n) es))"
proof (induction es arbitrary: tr)
  case (Cons e es)
  show ?case
  proof (cases "limit < encoded_size (tr @ [e])")
    case True
    then show ?thesis by (intro exI [of _ 0]) simp
  next
    case False
    obtain n where "trim_events limit (tr @ [e]) es = (tr @ [e]) @ take n es \<and> n \<le> length es \<and>
        (n < length es \<longrightarrow> limit < encoded_size ((tr @ [e]) @ take (Suc n) es))" using Cons by blast
    with False show ?thesis by (intro exI [of _ "Suc n"]) simp
  qed
qed simp

lemma trim_events_size: "encoded_size tr \<le> limit \<or> tr = [] \<Longrightarrow>
    encoded_size (trim_events limit tr es) \<le> limit \<or> trim_events limit tr es = []"
  by (induction limit tr es rule: trim_events.induct) auto

lemma payload_prefix: "\<exists>n. payload_within_limit events limit = take n events"
proof -
  obtain n where "trim_events limit [] events = take n events" using trim_events_prefix [of limit "[]" events] by auto
  then show ?thesis
    unfolding payload_within_limit_def Let_def
    by (metis order_refl take_all_iff)
qed

lemma payload_nonempty: "events \<noteq> [] \<Longrightarrow> payload_within_limit events limit \<noteq> []"
  by (simp add: payload_within_limit_def Let_def)

lemma payload_size:
  "0 < limit \<Longrightarrow> encoded_size (payload_within_limit events limit) \<le> limit
     \<or> (payload_within_limit events limit = take 1 events \<and> limit < encoded_size (take 1 events))"
proof -
  assume "0 < limit"
  obtain n where n: "trim_events limit [] events = take n events" "n \<le> length events"
      "n < length events \<longrightarrow> limit < encoded_size (take (Suc n) events)"
    using trim_events_prefix [of limit "[]" events] by auto
  show ?thesis
  proof (cases "encoded_size events \<le> limit \<or> trim_events limit [] events \<noteq> []")
    case True
    with \<open>0 < limit\<close> trim_events_size [of "[]" limit events] show ?thesis
      by (auto simp: payload_within_limit_def Let_def)
  next
    case False
    with \<open>0 < limit\<close> have p: "payload_within_limit events limit = take 1 events"
      by (simp add: payload_within_limit_def Let_def)
    show ?thesis
    proof (cases events)
      case Nil
      with False p show ?thesis by simp
    next
      case (Cons e es)
      with False n have "n = 0" by (cases n) auto
      with n Cons p show ?thesis by simp
    qed
  qed
qed

section \<open>The cursor\<close>

text \<open>A batch is downward closed: no event between the cursor and the last event of the
  batch is missing.\<close>

lemma take_sort_closed:
  assumes "x \<in> set xs" "y \<in> set (take n (sort_key f xs))" "f x < f y"
  shows "x \<in> set (take n (sort_key f xs))"
proof (rule ccontr)
  assume "x \<notin> set (take n (sort_key f xs))"
  moreover have "set (take n (sort_key f xs)) \<union> set (drop n (sort_key f xs)) = set xs"
    by (metis append_take_drop_id set_append set_sort)
  ultimately have "x \<in> set (drop n (sort_key f xs))" using assms(1) by blast
  moreover have "sorted (map f (take n (sort_key f xs)) @ map f (drop n (sort_key f xs)))"
    by (metis append_take_drop_id map_append sorted_sort_key)
  ultimately have "f y \<le> f x" using assms(2) by (auto simp: sorted_append)
  with assms(3) show False by simp
qed

lemma audit_batch_closed:
  assumes "list_audit_events_after_id a n d = (Inr rows, d')" "e \<in> set (d_audit d)"
    and "a < ev_id e" "last_row \<in> set rows" "ev_id e \<le> ev_id last_row" "audit_inv d"
  shows "e \<in> set rows"
proof -
  have rows: "rows = take (nat n) (sort_key ev_id (filter (\<lambda>e. a < ev_id e) (d_audit d)))"
    using assms(1) by (auto simp: list_audit_events_after_id_def limit_rows_def order_asc_def eff_defs split: if_splits)
  have mem: "last_row \<in> set (d_audit d)" using assms(4) unfolding rows by (auto dest!: in_set_takeD)
  show ?thesis
  proof (cases "ev_id e = ev_id last_row")
    case True
    with assms(2,6) mem have "e = last_row" by (auto simp: audit_inv_def dest!: serial_ok_inj dest: inj_onD)
    with assms(4) show ?thesis by simp
  next
    case False
    with assms show ?thesis unfolding rows by (intro take_sort_closed [of e _ last_row]) auto
  qed
qed

lemma cursor_moves_forward: "evolves (\<lambda>s t. sn_last_audit s \<le> sn_last_audit t) m \<Longrightarrow>
    sn_last_audit s \<le> sn_last_audit (snd (m s))"
  by (simp add: evolves_def)

interpretation cursor: evolution "\<lambda>s t. sn_last_audit s \<le> sn_last_audit t"
  by unfold_locales auto

lemma cursor_prims [evolves_rules]:
  "evolves (\<lambda>s t. sn_last_audit s \<le> sn_last_audit t) (in_world m)"
  "evolves (\<lambda>s t. sn_last_audit s \<le> sn_last_audit t) (post_events es)"
  by (simp_all add: evolves_def in_world_def post_events_def split: prod.splits option.splits)

lemma cursor_upd: "(\<And>s. sn_last_audit s \<le> sn_last_audit (f s)) \<Longrightarrow>
    evolves (\<lambda>s t. sn_last_audit s \<le> sn_last_audit t) (updE f)"
  by (simp add: evolves_def updE_def)

lemma cursor_rows [evolves_rules]: "evolves (\<lambda>s t. sn_last_audit s \<le> sn_last_audit t) (normalize_rows x st rows es)"
  by (induction rows arbitrary: es) (auto intro!: cursor.combinators evolves_rules cursor_upd)

lemma cursor_run_step: "evolves (\<lambda>s t. sn_last_audit s \<le> sn_last_audit t) (run_step x fails st)"
  unfolding run_step_def tick_def poll_audit_def health_events_def snapshot_events_def send_def
    read_bearer_token_def
  by (intro cursor.combinators evolves_rules cursor_upd; simp)

lemma cursor_run_steps: "evolves (\<lambda>s t. sn_last_audit s \<le> sn_last_audit t) (run_steps x fails st n)"
  by (induction n) (auto intro!: cursor.combinators cursor_run_step)

section \<open>Polling only reads\<close>

definition sender_db :: "sender \<Rightarrow> db" where
  "sender_db s = w_db (sn_world s)"

definition reads :: "sender \<Rightarrow> sender \<Rightarrow> bool" where
  "reads s t \<longleftrightarrow> sender_db t = sender_db s"

interpretation readonly: evolution reads
  by unfold_locales (auto simp: reads_def)

lemma same_db_ops [evolves_rules]:
  "evolves same_db now_us" "evolves same_db uuid4_hex" "evolves same_db (http q)"
  "evolves same_db (read_text p)" "evolves same_db (lift_sum r)"
  by (simp_all add: evolves_def same_db_def now_us_def uuid4_hex_def http_def read_text_def lift_sum_def
      split: option.splits)

lemma same_db_query [evolves_rules]: "(\<And>d. snd (m d) = d) \<Longrightarrow> evolves same_db (query m)"
  unfolding evolves_def same_db_def query_def on_db_def Let_def by (auto split: prod.splits) (metis snd_conv)+

lemma in_world_reads [evolves_rules]: "evolves same_db m \<Longrightarrow> evolves reads (in_world m)"
  unfolding evolves_def same_db_def reads_def sender_db_def in_world_def
  by (auto split: prod.splits) (metis snd_conv)

lemma sender_reads [evolves_rules]: "evolves reads (post_events es)"
  by (simp add: evolves_def reads_def sender_db_def post_events_def split: option.splits)

lemma upd_reads: "(\<And>s. sn_world (f s) = sn_world s) \<Longrightarrow> evolves reads (updE f)"
  by (simp add: evolves_def reads_def sender_db_def updE_def)

lemma value_evolves:
  "(\<And>t. evolves R (f t)) \<Longrightarrow> (\<And>v. evolves R (g v)) \<Longrightarrow> evolves R m \<Longrightarrow>
   evolves R (case v of None \<Rightarrow> m | Some (PTime t) \<Rightarrow> f t | Some v \<Rightarrow> g v)"
  by (cases v; simp split: pyval.splits)

lemma event_reads [evolves_rules]:
  "evolves same_db (timestamp_from vs)" "evolves same_db (base_event nm ca se ms ti raw tags m1 m2)"
  unfolding timestamp_from_def base_event_def
  by (intro undb.combinators evolves_rules value_evolves)+

lemma normalize_reads [evolves_rules]:
  "evolves same_db (normalize_audit_event x row m1 m2)" "evolves same_db (normalize_db_snapshot_event sn m1 m2)"
  "evolves same_db (normalize_db_health_event h m1 m2)" "evolves same_db (normalize_heartbeat_event h m1 m2)"
  "evolves same_db (failure_event st e extra)"
  unfolding normalize_audit_event_def normalize_db_snapshot_event_def normalize_db_health_event_def
    normalize_heartbeat_event_def failure_event_def
  by (intro undb.combinators evolves_rules)+

lemma health_reads [evolves_rules]: "evolves same_db (full_health x st)"
  unfolding full_health_def check_postgres_def check_vault_def check_config_files_def
  by (intro undb.combinators evolves_rules; simp add: ret_def)

lemma rows_read [evolves_rules]: "evolves reads (normalize_rows x st rows es)"
  by (induction rows arbitrary: es) (auto intro!: readonly.combinators evolves_rules upd_reads)

lemma run_step_reads: "evolves reads (run_step x fails st)"
  unfolding run_step_def tick_def poll_audit_def health_events_def snapshot_events_def send_def
    read_bearer_token_def
  by (intro readonly.combinators undb.combinators evolves_rules upd_reads; simp)

lemma run_sender_reads: "evolves reads (run_sender x fails st n)"
proof -
  have "evolves reads (run_steps x fails st n)"
    by (induction n) (auto intro!: readonly.combinators run_step_reads)
  then show ?thesis
    unfolding run_sender_def initialize_last_audit_id_def
    by (intro readonly.combinators evolves_rules upd_reads; simp)
qed

section \<open>What is posted\<close>

text \<open>Without a token nothing is posted, although the cursor has moved on.\<close>

lemma send_without_token:
  assumes "w_files (sn_world s) (dmz_token_file (s_collector st)) = None"
  shows "sn_posts (snd (send st events s)) = sn_posts s"
  using assms
  by (auto simp: send_def read_bearer_token_def in_world_def catchE_def read_text_def bindE_def ret_def
      updE_def now_us_def)

lemma send_with_token:
  assumes "w_files (sn_world s) (dmz_token_file (s_collector st)) = Some raw" "strip raw \<noteq> []"
  shows "sn_posts (snd (send st events s)) = sn_posts s @
      [payload_within_limit events (dmz_max_payload_bytes (s_collector st))]"
    and "fst (send st events s) = Inr ()"
  using assms
  by (auto simp: send_def read_bearer_token_def in_world_def catchE_def read_text_def bindE_def ret_def
      post_events_def split: option.splits)

end
