(* ===== verification/Facade_Facts.thy ===== *)
theory Facade_Facts
  imports Facade Lifecycle_Facts Collector_Facts
begin

text \<open>
  The facade's guarantees: how many requests a window admits, that nothing is signed when
  signing is disabled, and that every method but the signing one leaves certificates,
  packages and Vault alone.
\<close>

section \<open>The rate limiter\<close>

text \<open>A run of one key's calls at given times.\<close>

fun admitted :: "int \<Rightarrow> rate_counter option \<Rightarrow> int list \<Rightarrow> (int \<times> bool) list" where
  "admitted limit c [] = []"
| "admitted limit c (t # ts) = (case allow_at limit t c of (ok, c') \<Rightarrow> (t, ok) # admitted limit (Some c') ts)"

definition grants :: "(int \<times> bool) list \<Rightarrow> nat" where
  "grants log = length (filter snd log)"

lemma grants_simps [simp]: "grants [] = 0" "grants ((t, b) # log) = (if b then 1 else 0) + grants log"
  by (simp_all add: grants_def)

lemma admitted_in_window:
  "\<forall>t \<in> set ts. t < s + window_usec \<Longrightarrow> 1 \<le> n \<Longrightarrow>
   int (grants (admitted limit (Some \<lparr>rl_started = s, rl_count = n\<rparr>) ts)) \<le> max 0 (limit - n)"
proof (induction ts arbitrary: n)
  case (Cons t ts)
  from Cons.prems have "\<not> window_usec \<le> t - s" by simp
  with Cons.IH [of "n + 1"] Cons.prems show ?case
    by (auto simp: allow_at_def)
qed simp

text \<open>The calls of one window: the first opens it.\<close>

lemma admitted_window:
  assumes "case c of None \<Rightarrow> True | Some k \<Rightarrow> window_usec \<le> t - rl_started k"
    and "\<forall>u \<in> set ts. u < t + window_usec"
  shows "int (grants (admitted limit c (t # ts))) \<le> max 1 limit"
    and "hd (admitted limit c (t # ts)) = (t, True)"
proof -
  have a: "allow_at limit t c = (True, \<lparr>rl_started = t, rl_count = 1\<rparr>)"
    using assms(1) by (auto simp: allow_at_def split: option.splits)
  show "int (grants (admitted limit c (t # ts))) \<le> max 1 limit"
    using admitted_in_window [OF assms(2), of 1 limit] by (simp add: a)
  show "hd (admitted limit c (t # ts)) = (t, True)" by (simp add: a)
qed

text \<open>The limiter only restarts a counter when its window is over.\<close>

lemma allow_at_restart:
  assumes "allow_at limit now c = (ok, c')"
  shows "rl_started c' = now \<or> (\<exists>k. c = Some k \<and> rl_started c' = rl_started k \<and> now - rl_started k < window_usec)"
  using assms by (auto simp: allow_at_def split: option.splits if_splits)

section \<open>What the methods leave alone\<close>

definition facade_untouched :: "facade \<Rightarrow> request list \<times> cert_row list \<times> package_row list" where
  "facade_untouched s = untouched (fa_world s)"

lemma via_world_untouched [evolves_rules]:
  "evolves (same untouched) m \<Longrightarrow> evolves (same facade_untouched) (via_world m)"
  unfolding evolves_def same_def facade_untouched_def via_world_def
  by (auto split: prod.splits) (metis snd_conv)

lemma limiter_untouched [evolves_rules]:
  "evolves (same facade_untouched) (allow_request st ctx)" "evolves (same facade_untouched) (allow_enrollment st ctx)"
  by (simp_all add: evolves_def same_def facade_untouched_def allow_request_def allow_enrollment_def Let_def
      split: prod.splits)

lemma facade_helpers_untouched [evolves_rules]:
  "evolves (same facade_untouched) (facade_context payload)"
  "evolves (same facade_untouched) (facade_audit st ty actor ctx det)"
  unfolding facade_context_def facade_audit_def by (intro frame.combinators evolves_rules)+

lemma limited_untouched [evolves_rules]:
  "(\<And>ctx. evolves (same facade_untouched) (body ctx)) \<Longrightarrow> evolves (same facade_untouched) (limited_read st payload body)"
  "(\<And>ctx. evolves (same facade_untouched) (body ctx)) \<Longrightarrow> evolves (same facade_untouched) (limited_enrollment st payload body)"
  unfolding limited_enrollment_def limited_read_def by (intro frame.combinators evolves_rules; assumption)+

lemma reading_methods_untouched:
  "evolves (same facade_untouched) (get_server_capabilities st)" "evolves (same facade_untouched) (get_discovery st)"
  "evolves (same facade_untouched) (get_application_inventory st)"
  "evolves (same facade_untouched) (get_certificate_groups st)"
  "evolves (same facade_untouched) (get_trust_material_status x st pj)"
  "evolves (same facade_untouched) (get_package_status x st pj)"
  unfolding get_server_capabilities_def get_discovery_def get_application_inventory_def get_certificate_groups_def
    get_trust_material_status_def get_package_status_def
  by (intro frame.combinators evolves_rules; simp)+

lemma rejection_untouched [evolves_rules]:
  "evolves (same facade_untouched) (lifecycle_rejection st ty payload ctx extra e)"
  unfolding lifecycle_rejection_def
  by (cases e; simp; intro frame.combinators evolves_rules)

lemma dry_run_method_untouched: "evolves (same facade_untouched) (create_signing_request_dry_run x st pj)"
  unfolding create_signing_request_dry_run_def reject_large_csr_def
  by (intro frame.combinators evolves_rules dry_run_untouched)

lemma signing_disabled_untouched:
  assumes "\<not> facade_allow_signing (s_facade st)"
  shows "evolves (same facade_untouched) (create_signing_request x st fk pj)"
  unfolding create_signing_request_def Let_def if_P [OF assms]
  by (intro frame.combinators evolves_rules)

end
