(* ===== verification/Service.thy ===== *)
theory Service
  imports Rest Facade_Facts
begin

text \<open>
  The service as a state machine: one call of an operation is one step of the world, and the
  reachable worlds are those that any sequence of calls leads to. The environment (Vault, the
  clock, the connection, the files) is part of the world and answers as it likes.
\<close>

section \<open>The facade in the world\<close>

definition facade_sound :: "facade \<Rightarrow> facade \<Rightarrow> bool" where
  "facade_sound s t \<longleftrightarrow> world_sound (fa_world s) (fa_world t)"

interpretation fsound: evolution facade_sound
  by unfold_locales (auto simp: facade_sound_def intro: wsound.evo_refl wsound.evo_trans)

lemma via_world_sound [evolves_rules]: "evolves world_sound m \<Longrightarrow> evolves facade_sound (via_world m)"
  unfolding evolves_def facade_sound_def via_world_def by (auto split: prod.splits) (metis snd_conv)

lemma limiter_sound [evolves_rules]:
  "evolves facade_sound (allow_request st ctx)" "evolves facade_sound (allow_enrollment st ctx)"
  by (simp_all add: evolves_def facade_sound_def wsound.evo_refl allow_request_def allow_enrollment_def Let_def
      split: prod.splits)

lemma facade_helpers_sound [evolves_rules]:
  "evolves facade_sound (facade_context payload)" "evolves facade_sound (facade_audit st ty actor ctx det)"
  unfolding facade_context_def facade_audit_def by (intro fsound.combinators wsound.combinators evolves_rules)+

lemma limited_sound [evolves_rules]:
  "(\<And>ctx. evolves facade_sound (body ctx)) \<Longrightarrow> evolves facade_sound (limited_read st payload body)"
  "(\<And>ctx. evolves facade_sound (body ctx)) \<Longrightarrow> evolves facade_sound (limited_enrollment st payload body)"
  unfolding limited_enrollment_def limited_read_def by (intro fsound.combinators evolves_rules; assumption)+

lemma rejection_sound [evolves_rules]:
  "evolves facade_sound (lifecycle_rejection st ty payload ctx extra e)"
  unfolding lifecycle_rejection_def by (cases e; simp; intro fsound.combinators evolves_rules)

lemma open_signer_sound [evolves_rules]: "evolves world_sound (open_signer x st fk)"
  by (simp add: evolves_def world_sound_def open_signer_def Let_def cache_ok_def forward.evo_refl
      split: sum.splits prod.splits option.splits)

lemma fresh_vault_sound [evolves_rules]:
  assumes "evolves world_sound m"
  shows "evolves world_sound (with_fresh_vault m)"
  unfolding evolves_def
proof
  fix w :: world
  let ?w = "w\<lparr>w_vault := initial_vault_state\<rparr>"
  have cong: "w_db ?w = w_db w" "cache_ok ?w = cache_ok w" by (simp_all add: cache_ok_def)
  have out: "w_db (snd (with_fresh_vault m w)) = w_db (snd (m ?w))"
    "cache_ok (snd (with_fresh_vault m w)) = cache_ok (snd (m ?w))"
    by (simp_all add: with_fresh_vault_def cache_ok_def case_prod_beta)
  have "world_sound ?w (snd (m ?w))" using assms unfolding evolves_def by blast
  then show "world_sound w (snd (with_fresh_vault m w))" unfolding world_sound_def cong out .
qed

lemma facade_methods_sound [evolves_rules]:
  "evolves facade_sound (get_server_capabilities st)" "evolves facade_sound (get_discovery st)"
  "evolves facade_sound (get_application_inventory st)" "evolves facade_sound (get_certificate_groups st)"
  "evolves facade_sound (get_trust_material_status x st pj)" "evolves facade_sound (get_package_status x st pj)"
  "evolves facade_sound (create_signing_request_dry_run x st pj)" "evolves facade_sound (create_signing_request x st fk pj)"
  unfolding get_server_capabilities_def get_discovery_def get_application_inventory_def get_certificate_groups_def
    get_trust_material_status_def get_package_status_def create_signing_request_dry_run_def reject_large_csr_def
    create_signing_request_def Let_def
  by (intro fsound.combinators wsound.combinators evolves_rules; simp)+

section \<open>Steps\<close>

text \<open>What a client, an agent or an operator can request over HTTP, what the facade offers and
  what the background tasks do. A restart of the API process forgets its caches.\<close>

datatype call =
    Http endpoint http_req
  | ArtifactScan
  | SeedInventory
  | SeedProfiles
  | ExpireCertificates
  | FacadeSign string string facade
  | FacadeDryRun string facade
  | FacadePackageStatus string facade
  | FacadeTrustStatus string facade
  | FacadeCapabilities facade
  | FacadeDiscovery facade
  | FacadeInventory facade
  | FacadeGroups facade
  | Restart

definition in_facade :: "'a fop \<Rightarrow> facade \<Rightarrow> world \<Rightarrow> world" where
  \<comment> \<open>a facade method, with the facade's own counters, in this world\<close>
  "in_facade m fa w = fa_world (snd (m (fa\<lparr>fa_world := w\<rparr>)))"

definition restart :: "world \<Rightarrow> world" where
  "restart w = w\<lparr>w_cache := (\<lambda>_. None), w_regen_at := (\<lambda>_. None), w_vault := initial_vault_state, w_last_crl := None\<rparr>"

fun serve :: "ext \<Rightarrow> signer \<Rightarrow> settings \<Rightarrow> call \<Rightarrow> world \<Rightarrow> world" where
  "serve x g st (Http ep req) w = snd (serve_http x g st ep req w)"
| "serve x g st ArtifactScan w = snd (artifact_scan x g st w)"
| "serve x g st SeedInventory w = snd (seed_and_import x st w)"
| "serve x g st SeedProfiles w = snd (on_db (seed_component_profiles default_component_profiles) w)"
| "serve x g st ExpireCertificates w = snd (on_db mark_expired_active_certificates w)"
| "serve x g st (FacadeSign fk pj fa) w = in_facade (create_signing_request x st fk pj) fa w"
| "serve x g st (FacadeDryRun pj fa) w = in_facade (create_signing_request_dry_run x st pj) fa w"
| "serve x g st (FacadePackageStatus pj fa) w = in_facade (get_package_status x st pj) fa w"
| "serve x g st (FacadeTrustStatus pj fa) w = in_facade (get_trust_material_status x st pj) fa w"
| "serve x g st (FacadeCapabilities fa) w = in_facade (get_server_capabilities st) fa w"
| "serve x g st (FacadeDiscovery fa) w = in_facade (get_discovery st) fa w"
| "serve x g st (FacadeInventory fa) w = in_facade (get_application_inventory st) fa w"
| "serve x g st (FacadeGroups fa) w = in_facade (get_certificate_groups st) fa w"
| "serve x g st Restart w = restart w"

lemma in_facade_sound: "evolves facade_sound m \<Longrightarrow> world_sound w (in_facade m fa w)"
  unfolding evolves_def facade_sound_def in_facade_def by (metis facade.select_convs(1) facade.surjective facade.update_convs(1))

lemma call_sound: "world_sound w (serve x g st c w)"
proof -
  have run: "world_sound w (snd (m w))" if "evolves world_sound m" for m :: "'a op"
    using that unfolding evolves_def by blast
  show ?thesis
    by (cases c) (simp_all, (rule run in_facade_sound, (rule evolves_rules)+)+,
      simp add: world_sound_def restart_def cache_ok_def forward.evo_refl)
qed

end
