(* ===== verification/Inventory_Properties.thy ===== *)
theory Inventory_Properties
  imports Db_Facts Agent_Auth Settings
begin

text \<open>
  The properties of the inventory: the configuration, the agents' policies, applications and
  certificates, trust lists and the lifecycle of packages, each with a concrete instance.
\<close>

section \<open>A small inventory\<close>

definition demo_app :: app_row where
  "demo_app = \<lparr>a_id = 1, a_uri = ''urn:a'', a_common_name = ''a'', a_zone = ''DMZ'', a_role = ''client'',
     a_runtime = Some ''urn:a'', a_component = Some ''client'', a_host = None, a_port = None,
     a_status = ''active'', a_created = 0, a_updated = 0, a_last_seen = Some 0\<rparr>"

definition demo_cert :: "int \<Rightarrow> string \<Rightarrow> cert_row" where
  "demo_cert i status = \<lparr>c_id = i, c_app = 1, c_fpr = int_str i, c_serial = None, c_subject = None, c_issuer = None,
     c_not_before = None, c_not_after = Some 10, c_pem = ''pem'', c_status = status, c_created = 0,
     c_revoked = (if status = ''revoked'' then Some 5 else None)\<rparr>"

definition demo_db :: "cert_row list \<Rightarrow> db" where
  "demo_db certs = empty_db\<lparr>d_apps := [demo_app], d_certs := certs,
     d_seq := (\<lambda>_. 0)(Applications := 1, Certificates := int (length certs))\<rparr>"

lemma demo_db_inv:
  "db_inv (demo_db [demo_cert 1 ''active''])" "db_inv (demo_db [demo_cert 1 ''revoked''])"
  by (simp_all add: demo_db_def db_inv_defs empty_db_def serial_ok_def unique_on_def refers_def demo_cert_def
      demo_app_def)

section \<open>Applications and certificates\<close>

lemma find_append: "find p xs = None \<Longrightarrow> find p (xs @ [r]) = (if p r then Some r else None)"
  by (induction xs) (auto split: if_splits)

lemma find_update_where:
  "(\<And>a. p (f a) = p a) \<Longrightarrow> find p (update_where p f rows) = map_option f (find p rows)"
  by (induction rows) (auto simp: update_where_def)

lemma filter_update_where:
  "(\<And>a. p (f a) = p a) \<Longrightarrow> filter (\<lambda>a. \<not> p a) (update_where p f rows) = filter (\<lambda>a. \<not> p a) rows"
  by (induction rows) (auto simp: update_where_def)

lemma app_conflict_uri: "a_uri (app_conflict_update cn zone role host port status ru co t a) = a_uri a"
  by (simp add: app_conflict_update_def)

lemma upsert_find:
  assumes "upsert_application uri cn zone role host port status runtime component t d = (Inr row, d')"
  shows "find (\<lambda>a. a_uri a = uri) (d_apps d') = Some row"
  using assms
  by (auto simp: upsert_application_def Let_def find_append find_update_where app_conflict_uri split: option.splits)

text \<open>Registering an application is an upsert on its URI. The application found under the
  URI afterwards is the row returned; it has the requested zone and role; a registered
  application keeps its id, its creation time, its runtime instance and its component type,
  and every other application is untouched.\<close>

theorem upsert_application_keeps_identity:
  assumes "upsert_application uri cn zone role host port status runtime component t d = (Inr row, d')"
  shows "get_application_by_uri uri d' = (Inr (Some row), d') \<and> a_zone row = zone \<and> a_role row = role
    \<and> filter (\<lambda>a. a_uri a \<noteq> uri) (d_apps d') = filter (\<lambda>a. a_uri a \<noteq> uri) (d_apps d)
    \<and> (\<forall>old. find (\<lambda>a. a_uri a = uri) (d_apps d) = Some old \<longrightarrow> a_id row = a_id old \<and> a_created row = a_created old
        \<and> (a_runtime old \<noteq> None \<longrightarrow> a_runtime row = a_runtime old)
        \<and> (a_component old \<noteq> None \<longrightarrow> a_component row = a_component old))"
proof -
  show ?thesis
    using upsert_find [OF assms] assms
    by (auto simp: get_application_by_uri_def ret_def upsert_application_def Let_def
        filter_update_where [where p = "\<lambda>a. a_uri a = uri"] app_conflict_uri app_conflict_update_def coalesce_def split: option.splits)
qed

theorem upsert_application_keeps_identity_witness:
  "\<exists>row d'. upsert_application ''urn:a'' ''b'' ''OT'' ''server'' None None ''active'' (Some ''x'') None 7
       (demo_db []) = (Inr row, d') \<and> a_id row = 1 \<and> a_zone row = ''OT'' \<and> a_runtime row = Some ''urn:a''"
proof -
  obtain row d' where run: "upsert_application ''urn:a'' ''b'' ''OT'' ''server'' None None ''active'' (Some ''x'') None 7
      (demo_db []) = (Inr row, d')"
    by (simp add: upsert_application_def demo_db_def demo_app_def Let_def)
  have old: "find (\<lambda>a. a_uri a = ''urn:a'') (d_apps (demo_db [])) = Some demo_app"
    by (simp add: demo_db_def demo_app_def)
  from upsert_application_keeps_identity [OF run] old run show ?thesis
    by (intro exI [of _ row] exI [of _ d']) (auto simp: demo_app_def)
qed


lemma live_unrevoked:
  assumes "db_inv e" "c \<in> set (d_certs e)" "active_certificate_id_for_application e i = Some (c_id c)"
  shows "cert_live c"
proof -
  obtain c' where c': "c' \<in> set (d_certs e)" "c_id c' = c_id c" "cert_live c'"
    using active_certificate_live [OF assms(3)] by blast
  have "inj_on c_id (set (d_certs e))"
    using assms(1) by (auto simp: db_inv_def certs_inv_def dest: serial_ok_inj)
  with c' assms(2) show ?thesis by (metis inj_onD)
qed

lemma revoked_not_member:
  assumes "db_inv d" "c \<in> set (d_certs d)" "c_status c = ''revoked''" "c_revoked c \<noteq> None"
    and "db_inv e" "db_forward d e"
    and "build_trust_list zone role t e = (Inr l, e')"
  shows "c_id c \<notin> set (members_of e' (tl_id l))"
proof
  assume "c_id c \<in> set (members_of e' (tl_id l))"
  then have "c_id c \<in> set (desired_trustlist_certificate_ids e zone role)"
    using build_trust_list_result(3,5) [OF assms(5,7)] by simp
  then obtain i where i: "active_certificate_id_for_application e i = Some (c_id c)"
    by (auto simp: desired_trustlist_certificate_ids_def map_filter_def)
  obtain c' where c': "c' \<in> set (d_certs e)" "cert_kept c c'"
    using assms(2,6) by (auto simp: db_forward_defs)
  then have "cert_live c'" using live_unrevoked [OF assms(5) c'(1)] i by (simp add: cert_kept_def)
  with c' assms(3,4) show False by (simp add: cert_kept_def cert_live_def)
qed

text \<open>C18: Building a trust list publishes the next version of its target: the version is the
  largest so far plus one, the list becomes the latest, and its members are exactly the
  certificates desired for the target, each once.\<close>

theorem build_trust_list_publishes:
  assumes "db_inv d" "build_trust_list zone role t d = (Inr l, d')"
  shows "tl_version l = max_version d zone role + 1 \<and> latest_list d' zone role = Some l
    \<and> set (members_of d' (tl_id l)) = set (desired_trustlist_certificate_ids d zone role)
    \<and> distinct (members_of d' (tl_id l)) \<and> d_certs d' = d_certs d"
  using build_trust_list_result [OF assms] by simp

theorem build_trust_list_publishes_witness:
  "\<exists>l d'. build_trust_list ''DMZ'' ''client'' 9 (demo_db [demo_cert 1 ''active'']) = (Inr l, d')
     \<and> tl_version l = 1 \<and> set (members_of d' (tl_id l)) = {1}"
proof -
  let ?d = "demo_db [demo_cert 1 ''active'']"
  obtain l d' where run: "build_trust_list ''DMZ'' ''client'' 9 ?d = (Inr l, d')"
    by (simp add: build_trust_list_def Let_def)
  have "max_version ?d ''DMZ'' ''client'' = 0" "desired_trustlist_certificate_ids ?d ''DMZ'' ''client'' = [1]"
    by code_simp+
  with build_trust_list_publishes [OF demo_db_inv(1) run] run show ?thesis by auto
qed

lemma sort_eq_of_sets: "distinct xs \<Longrightarrow> distinct ys \<Longrightarrow> set xs = set ys \<Longrightarrow> sort xs = sort (ys :: int list)"
  by (metis sorted_distinct_set_unique distinct_sort set_sort sorted_sort)

text \<open>C19: \<open>ensure_trust_list_current\<close> is idempotent: when no certificate is desired twice, a
  second call finds the list current, returns it again and leaves the database as it is.\<close>

theorem ensure_trust_list_idempotent:
  assumes "db_inv d" "distinct (desired_trustlist_certificate_ids d zone role)"
    and "ensure_trust_list_current zone role t d = (Inr l, d')"
  shows "ensure_trust_list_current zone role t' d' = (Inr l, d')"
  using assms(3)
proof (cases rule: ensure_cases)
  case current
  then show ?thesis by (simp add: ensure_trust_list_current_def)
next
  case built
  note res = build_trust_list_result [OF assms(1) built]
  have "sort (members_of d' (tl_id l)) = sort (desired_trustlist_certificate_ids d' zone role)"
    using res assms(2) by (intro sort_eq_of_sets) simp_all
  with res(1) show ?thesis by (simp add: ensure_trust_list_current_def)
qed

theorem ensure_trust_list_idempotent_witness:
  "\<exists>l d'. ensure_trust_list_current ''DMZ'' ''client'' 9 (demo_db [demo_cert 1 ''active'']) = (Inr l, d')
     \<and> d' \<noteq> demo_db [demo_cert 1 ''active'']
     \<and> ensure_trust_list_current ''DMZ'' ''client'' 20 d' = (Inr l, d')"
proof -
  let ?d = "demo_db [demo_cert 1 ''active'']"
  have none: "latest_list ?d ''DMZ'' ''client'' = None" by (simp add: latest_list_def lists_for_def demo_db_def empty_db_def)
  then obtain l d' where run: "ensure_trust_list_current ''DMZ'' ''client'' 9 ?d = (Inr l, d')"
    and b: "build_trust_list ''DMZ'' ''client'' 9 ?d = (Inr l, d')"
    by (simp add: ensure_trust_list_current_def build_trust_list_def Let_def)
  have "distinct (desired_trustlist_certificate_ids ?d ''DMZ'' ''client'')" by code_simp
  from ensure_trust_list_idempotent [OF demo_db_inv(1) this run] have
    "ensure_trust_list_current ''DMZ'' ''client'' 20 d' = (Inr l, d')" .
  moreover have "d' \<noteq> ?d" using none build_trust_list_result(1) [OF demo_db_inv(1) b] by auto
  ultimately show ?thesis using run by blast
qed

text \<open>C29: The other side of idempotence: when one certificate is desired for two applications,
  no list is ever current, so every call publishes another version.\<close>

theorem duplicate_desired_rebuilds_forever:
  assumes "db_inv d" "\<not> distinct (desired_trustlist_certificate_ids d zone role)"
    and "latest_list d zone role = Some k" "distinct (members_of d (tl_id k))"
  shows "\<exists>l d'. ensure_trust_list_current zone role t d = (Inr l, d') \<and> tl_version l = max_version d zone role + 1
    \<and> \<not> distinct (desired_trustlist_certificate_ids d' zone role) \<and> latest_list d' zone role = Some l
    \<and> distinct (members_of d' (tl_id l))"
proof -
  have "sort (members_of d (tl_id k)) \<noteq> sort (desired_trustlist_certificate_ids d zone role)"
    using assms(2,4) by (metis distinct_sort)
  then have "ensure_trust_list_current zone role t d = build_trust_list zone role t d"
    using assms(3) by (simp add: ensure_trust_list_current_def)
  moreover obtain l d' where b: "build_trust_list zone role t d = (Inr l, d')"
    by (simp add: build_trust_list_def Let_def)
  ultimately show ?thesis using build_trust_list_result [OF assms(1) b] assms(2) by auto
qed

definition twin_db :: db where
  \<comment> \<open>two applications whose activated packages carry the same certificate\<close>
  "twin_db = empty_db\<lparr>d_apps := [demo_app, demo_app\<lparr>a_id := 2, a_uri := ''urn:b''\<rparr>],
     d_certs := [demo_cert 1 ''active''], d_lists := [\<lparr>tl_id = 1, tl_zone = ''DMZ'', tl_role = ''client'', tl_version = 1,
       tl_status = ''active'', tl_created = 0, tl_published = Some 0\<rparr>],
     d_profiles := [\<lparr>pf_id = 1, pf_name = ''p'', pf_family = [], pf_component = [], pf_format = [], pf_layout = PNone,
       pf_semantics = PNone, pf_rules = PNone, pf_policy = PNone, pf_status = [], pf_created = 0, pf_updated = 0\<rparr>],
     d_requests := [\<lparr>rq_id = 1, rq_request = ''r'', rq_app = 2, rq_runtime = None, rq_profile = ''p'', rq_source = [],
       rq_csr = [], rq_fpr = [], rq_subject = None, rq_uri_sans = [], rq_dns_sans = [], rq_ip_sans = [],
       rq_validation = [], rq_by = [], rq_status = [], rq_created = 0, rq_updated = 0\<rparr>],
     d_packages := [\<lparr>pk_id = 1, pk_package = ''k'', pk_app = 2, pk_runtime = None, pk_request = ''r'', pk_cert = Some 1,
       pk_generation = 1, pk_profile = ''p'', pk_prev_package = None, pk_prev_generation = None, pk_manifest = [],
       pk_manifest_sha = [], pk_signature = [], pk_compat = [], pk_lifecycle = ''ACTIVATED'', pk_status = ''active'',
       pk_created = 0\<rparr>],
     d_seq := (\<lambda>_. 2)\<rparr>"

lemma twin_db_inv: "db_inv twin_db"
  by (simp add: twin_db_def db_inv_defs empty_db_def serial_ok_def unique_on_def refers_def demo_cert_def demo_app_def)

theorem duplicate_desired_rebuilds_forever_witness:
  "\<exists>l d'. ensure_trust_list_current ''DMZ'' ''client'' 9 twin_db = (Inr l, d') \<and> tl_version l = 2"
proof -
  note inv = twin_db_inv
  have h: "\<not> distinct (desired_trustlist_certificate_ids twin_db ''DMZ'' ''client'')" by code_simp
  have k: "latest_list twin_db ''DMZ'' ''client'' = Some (hd (d_lists twin_db))" by code_simp
  have m: "distinct (members_of twin_db (tl_id (hd (d_lists twin_db))))" by code_simp
  have "max_version twin_db ''DMZ'' ''client'' = 1" by code_simp
  with duplicate_desired_rebuilds_forever [OF inv h k m, of 9] show ?thesis by auto
qed

section \<open>Packages\<close>

text \<open>A lifecycle report never moves a package backwards. The package ends in the later of
  its state and the requested one, a report that would regress is recorded in the event log
  with the mark \<open>transition_ignored\<close>, every other package is unchanged, and exactly one
  package event is appended.\<close>

theorem lifecycle_never_regresses:
  assumes "update_certificate_package_lifecycle q state actor details t d = (Inr (Some row), d')"
  shows "\<exists>old ev. find (\<lambda>p. pk_package p = q) (d_packages d) = Some old
    \<and> row = set_lifecycle (pk_lifecycle row) old
    \<and> lifecycle_rank (pk_lifecycle row) = max (lifecycle_rank (upper (pk_lifecycle old))) (lifecycle_rank (upper state))
    \<and> filter (\<lambda>p. pk_package p \<noteq> q) (d_packages d') = filter (\<lambda>p. pk_package p \<noteq> q) (d_packages d)
    \<and> d_pevents d' = d_pevents d @ [ev] \<and> pe_package ev = q
    \<and> (dget (pe_details ev) ''transition_ignored'' = PStr ''non_regressive_lifecycle_state'' \<or>
        pk_lifecycle row = upper state \<and> pe_details ev = details)"
proof -
  let ?p = "\<lambda>p. pk_package p = q"
  obtain old where old: "find ?p (d_packages d) = Some old"
    using assms by (auto simp: update_certificate_package_lifecycle_def Let_def split: option.splits if_splits)
  define ignored where "ignored \<longleftrightarrow> lifecycle_rank (upper state) < lifecycle_rank (upper (pk_lifecycle old))"
  define target where "target = (if ignored then upper (pk_lifecycle old) else upper state)"
  have "find ?p (update_where ?p (set_lifecycle target) (d_packages d)) = Some (set_lifecycle target old)"
    by (simp add: find_update_where old)
  with assms old have row: "row = set_lifecycle target old"
    and d': "d_packages d' = update_where ?p (set_lifecycle target) (d_packages d)"
    and ev: "\<exists>ev. d_pevents d' = d_pevents d @ [ev] \<and> pe_package ev = q \<and> (if ignored
       then dget (pe_details ev) ''transition_ignored'' = PStr ''non_regressive_lifecycle_state'' else pe_details ev = details)"
    by (auto simp: update_certificate_package_lifecycle_def insert_package_event_def Let_def ignored_def target_def
        dget_dput split: if_splits prod.splits sum.splits)
  have "pk_lifecycle row = target" by (simp add: row set_lifecycle_def)
  moreover have "lifecycle_rank target = max (lifecycle_rank (upper (pk_lifecycle old))) (lifecycle_rank (upper state))"
    by (simp add: target_def ignored_def max_def)
  moreover have "filter (\<lambda>p. pk_package p \<noteq> q) (d_packages d') = filter (\<lambda>p. pk_package p \<noteq> q) (d_packages d)"
    unfolding d' by (rule filter_update_where [where p = ?p]) simp
  ultimately show ?thesis using old row ev by (auto simp: target_def split: if_splits)
qed

definition package_db :: "string \<Rightarrow> db" where
  "package_db state = twin_db\<lparr>d_packages := map (set_lifecycle state) (d_packages twin_db)\<rparr>"

theorem lifecycle_never_regresses_witness:
  "\<exists>row d'. update_certificate_package_lifecycle ''k'' ''pulled'' ''a'' [] 9 (package_db ''ACTIVATED'') = (Inr (Some row), d')
     \<and> lifecycle_rank (pk_lifecycle row) = 70"
proof -
  have "fst (update_certificate_package_lifecycle ''k'' ''pulled'' ''a'' [] 9 (package_db ''ACTIVATED''))
      = Inr (Some (hd (d_packages (package_db ''ACTIVATED''))))" by code_simp
  then obtain row d' where run:
    "update_certificate_package_lifecycle ''k'' ''pulled'' ''a'' [] 9 (package_db ''ACTIVATED'') = (Inr (Some row), d')"
    by (metis prod.collapse)
  have old: "map_option (\<lambda>p. lifecycle_rank (upper (pk_lifecycle p)))
      (find (\<lambda>p. pk_package p = ''k'') (d_packages (package_db ''ACTIVATED''))) = Some 70"
    and req: "lifecycle_rank (upper ''pulled'') = 30" by code_simp+
  from lifecycle_never_regresses [OF run] old req show ?thesis
    using run by (intro exI [of _ row] exI [of _ d']) auto
qed

text \<open>Packages of an application and a profile are numbered without gaps at the end: a
  package stored without an explicit generation gets the successor of the latest one (or 1),
  names it as superseded, and is the latest package afterwards.\<close>

theorem package_lineage_extends:
  assumes "insert_certificate_package p app rt rq c pr m sha sig co li None pp pg t d = (Inr row, d')"
  shows "latest_package d' app pr = Some row
    \<and> (pk_generation row, pk_prev_package row, pk_prev_generation row) = next_lineage (latest_package d app pr)
    \<and> packages_for d' app pr = packages_for d app pr @ [row]
    \<and> (\<forall>q \<in> set (packages_for d app pr). pk_generation q < pk_generation row)"
proof -
  have ap: "\<exists>p ru rq c m sha sig co li pp pg t.
     insert_certificate_package p app ru rq c pr m sha sig co li None pp pg t d = (Inr row, d')"
    using assms by blast
  have "latest_package d' app pr = Some row"
    unfolding latest_package_def by (rule package_log.latest_appended [OF ap])
  moreover have "(pk_generation row, pk_prev_package row, pk_prev_generation row) = next_lineage (latest_package d app pr)"
    using assms by (auto simp: insert_certificate_package_def Let_def split: prod.splits sum.splits if_splits)
  ultimately show ?thesis
    using package_log.appends_rows [OF ap] package_log.appends_above [OF ap] by blast
qed

theorem package_lineage_extends_witness:
  "\<exists>row d'. insert_certificate_package ''n'' 2 None ''r'' None ''p'' [] [] [] [] ''PACKAGED'' None None None 9 twin_db
     = (Inr row, d') \<and> pk_generation row = 2 \<and> pk_prev_package row = Some ''k''"
proof -
  have "map_sum (\<lambda>_. ()) (\<lambda>_. ())
      (fst (insert_certificate_package ''n'' 2 None ''r'' None ''p'' [] [] [] [] ''PACKAGED'' None None None 9 twin_db))
      = Inr ()" by code_simp
  then obtain row d' where run: "insert_certificate_package ''n'' 2 None ''r'' None ''p'' [] [] [] [] ''PACKAGED'' None None
      None 9 twin_db = (Inr row, d')"
    by (cases "insert_certificate_package ''n'' 2 None ''r'' None ''p'' [] [] [] [] ''PACKAGED'' None None None 9 twin_db")
      (auto simp: map_sum_def split: sum.splits)
  have "next_lineage (latest_package twin_db 2 ''p'') = (2, Some ''k'', Some 1)" by code_simp
  with package_lineage_extends [OF run] run show ?thesis by auto
qed

section \<open>Configuration and agents\<close>

lemma bindS_Inl: "bindS m f = Inl e \<longleftrightarrow> m = Inl e \<or> (\<exists>x. m = Inr x \<and> f x = Inl e)"
  by (cases m) auto

definition malformed :: "environ \<Rightarrow> exn \<Rightarrow> bool" where
  "malformed env e \<longleftrightarrow> (\<exists>name raw. e = ValueError name \<and> env name = Some raw \<and> raw \<noteq> [] \<and> parse_int raw = None)"

lemma env_int_malformed: "env_int env name dflt = Inl e \<Longrightarrow> malformed env e"
  by (auto simp: env_int_def malformed_def split: option.splits if_splits)

lemma load_groups_malformed:
  "load_service env = Inl e \<Longrightarrow> malformed env e" "load_pg env = Inl e \<Longrightarrow> malformed env e"
  "load_vault env = Inl e \<Longrightarrow> malformed env e" "load_facade env = Inl e \<Longrightarrow> malformed env e"
  "load_artifact env = Inl e \<Longrightarrow> malformed env e" "load_expiry env = Inl e \<Longrightarrow> malformed env e"
  "load_collector env = Inl e \<Longrightarrow> malformed env e"
  unfolding load_service_def load_pg_def load_vault_def load_facade_def load_artifact_def load_expiry_def
    load_collector_def bindS_Inl
  by (auto intro: env_int_malformed)



text \<open>C37: Whatever JSON the agents' token file holds, a policy the store returns has a
  non-empty token without surrounding space and names no empty application, and the store
  stays well-formed.\<close>

theorem agent_store_policies_well_formed:
  assumes "policies_ok (au_policies s)" "get_policy file agent_id s = (Inr (Some p), s')"
  shows "ag_token p \<noteq> [] \<and> strip (ag_token p) = ag_token p \<and> [] \<notin> ag_apps p \<and> [] \<notin> ag_owned p
    \<and> policies_ok (au_policies s')"
  using get_policy_ok [OF _ assms(2)] assms(1) by (simp add: store_ok_def policy_ok_def)

theorem agent_store_policies_well_formed_witness:
  "\<exists>p s'. get_policy (Some (3, Inr (PDict [(''a'', PStr '' t '')]))) ''a'' empty_store = (Inr (Some p), s')
     \<and> ag_token p \<noteq> []"
proof -
  have e: "policies_ok (au_policies empty_store)" by (simp add: policies_ok_def empty_store_def)
  have "map_sum (\<lambda>_. ()) (map_option ag_token)
      (fst (get_policy (Some (3, Inr (PDict [(''a'', PStr '' t '')]))) ''a'' empty_store)) = Inr (Some ''t'')"
    by code_simp
  then obtain p s' where run: "get_policy (Some (3, Inr (PDict [(''a'', PStr '' t '')]))) ''a'' empty_store = (Inr (Some p), s')"
    by (cases "get_policy (Some (3, Inr (PDict [(''a'', PStr '' t '')]))) ''a'' empty_store")
      (auto simp: map_sum_def split: sum.splits)
  from agent_store_policies_well_formed [OF e run] run show ?thesis by blast
qed

end
