(* ===== verification/Scenarios.thy ===== *)
theory Scenarios
  imports Artifacts_Facts "HOL-Library.Code_Target_Nat"
begin

text \<open>
  A small concrete environment in which the theorems are exercised: third-party functions
  that can be computed, the default configuration, a signing key, a Vault that answers every
  request, and a world around a given database.
\<close>

definition sample_csr :: x509_csr where
  "sample_csr = \<lparr>x_csr_der = ''csr'', x_csr_subject = ''CN=a'', x_csr_signature_valid = True,
     x_csr_san = Some ([''urn:a''], [], []), x_csr_key_usage = Some (True, True, False),
     x_csr_eku = Some [''1.3.6.1.5.5.7.3.2'']\<rparr>"

definition sample_crl :: "string \<Rightarrow> x509_crl" where
  \<comment> \<open>a revocation list; the encoding \<open>old\<close> stands for one without \<open>nextUpdate\<close>\<close>
  "sample_crl der = \<lparr>xl_der = der, xl_issuer = ''CN=ca'', xl_last_update = 0,
     xl_next_update = (if der = ''old'' then None else Some (10 ^ 15))\<rparr>"

definition sample_ext :: ext where
  "sample_ext = \<lparr>k_sha256 = (\<lambda>s. ''h''), k_b64 = (\<lambda>s. s), k_b64decode = Some, k_sign = (\<lambda>key s. key),
     k_public_der = (\<lambda>k. k), k_public_pem = (\<lambda>k. k), k_private_pem = (\<lambda>k. k),
     k_load_private = (\<lambda>s. Some (s, True)),
     k_load_cert = (\<lambda>s. Some \<lparr>x_der = s, x_serial = 11, x_subject = ''CN=a'', x_issuer = ''CN=ca'',
        x_not_before = 0, x_not_after = 10 ^ 15\<rparr>),
     k_load_csr = (\<lambda>s. if s = ''csr'' then Some sample_csr else None),
     k_load_crl_der = (\<lambda>s. Some (sample_crl s)), k_load_crl_pem = (\<lambda>s. Some (sample_crl s)),
     k_json_loads = (\<lambda>s. None), k_exc_text = (\<lambda>e. []), k_parse_date = (\<lambda>s. None), k_parse_iso = (\<lambda>s. None),
     k_ip_private = (\<lambda>s. None)\<rparr>"

definition default_settings :: settings where
  "default_settings = (case load_settings (\<lambda>_. None) (\<lambda>_. None) of Inr s \<Rightarrow> s)"

definition sample_signer :: signer where
  "sample_signer = \<lparr>sg_key = ''k'', sg_key_id = ''id'', sg_ttl = 900, sg_public_pem = ''p'', sg_fingerprint = ''f''\<rparr>"

definition ok_reply :: reply where
  "ok_reply = \<lparr>r_status = 200, r_text = ''x'', r_body = ''x'',
     r_json = Some (PDict [(''auth'', PDict [(''client_token'', PStr ''t''), (''lease_duration'', PInt 3600)]),
       (''data'', PDict [(''ttl'', PInt 3600), (''certificate'', PStr ''c'')])]), r_ctype = []\<rparr>"

definition sealed_reply :: reply where
  "sealed_reply = ok_reply\<lparr>r_status := 503\<rparr>"

definition sample_world :: "db \<Rightarrow> world" where
  "sample_world d = \<lparr>w_db = d, w_conn = (\<lambda>_. True), w_calls = 0, w_clock = (\<lambda>_. 10 ^ 14), w_ticks = 0,
     w_uuid = (\<lambda>n. nat_str n), w_uuids = 0, w_vault = initial_vault_state, w_reply = (\<lambda>_. Inr ok_reply),
     w_requests = [], w_cache = (\<lambda>_. None), w_regen_at = (\<lambda>_. None), w_files = (\<lambda>_. Some ''s''),
     w_auth = empty_store, w_token_files = (\<lambda>_. None), w_token_reads = 0, w_started = True, w_last_crl = None\<rparr>"

text \<open>A trust list of the OT server without members, and its artifact, still valid for 900
  seconds.\<close>

definition sample_list :: list_row where
  "sample_list = \<lparr>tl_id = 1, tl_zone = ''OT'', tl_role = ''server'', tl_version = 1, tl_status = ''active'',
     tl_created = 0, tl_published = Some 0\<rparr>"

definition sample_artifact :: artifact_row where
  "sample_artifact = \<lparr>ta_id = 1, ta_zone = ''OT'', ta_role = ''server'', ta_version = 1, ta_revision = 1,
     ta_json = [(''zone'', PStr ''OT'')], ta_sha256 = ''h'', ta_signature = ''k'', ta_key_id = ''id'',
     ta_fingerprint = ''f'', ta_generated = 10 ^ 14, ta_expires = 10 ^ 14 + 900 * usec, ta_reason = ''cache_miss'',
     ta_created = 10 ^ 14\<rparr>"

definition artifact_db :: db where
  "artifact_db = empty_db\<lparr>d_lists := [sample_list], d_artifacts := [sample_artifact],
     d_seq := (\<lambda>_. 0)(TrustLists := 1, TrustArtifacts := 1)\<rparr>"

lemma artifact_db_inv: "db_inv artifact_db"
  by (simp add: artifact_db_def db_inv_defs empty_db_def serial_ok_def unique_on_def refers_def sample_list_def
      sample_artifact_def)

lemma sample_cache_ok: "cache_ok (sample_world d)"
  by (simp add: cache_ok_def sample_world_def)

lemma sample_world_db: "w_db (sample_world d) = d"
  by (simp add: sample_world_def)

text \<open>A computed result is turned into a run.\<close>

lemma run_of_value: "map_sum f g (fst r) = Inr y \<Longrightarrow> \<exists>x w'. r = (Inr x, w') \<and> g x = y"
  by (cases r; cases "fst r") auto

end
