(* ===== verification/Trust_Properties.thy ===== *)
theory Trust_Properties
  imports Scenarios
begin

text \<open>
  The properties of what the service signs and of its access to Vault: canonical JSON, the
  trust artifacts and their regeneration, the token, the seal state and the revocation lists.
\<close>

section \<open>Canonical JSON and signatures\<close>

text \<open>C15: Canonical JSON is a faithful encoding: two dictionaries have the same canonical bytes
  if and only if they map the same keys to values of the same canonical form, whatever the
  order in which the keys were inserted.\<close>

theorem canonical_json_faithful:
  assumes "json_ok (PDict a)" "json_ok (PDict b)" "distinct (map fst a)" "distinct (map fst b)"
  shows "canonical_json_bytes (PDict a) = canonical_json_bytes (PDict b) \<longleftrightarrow>
    (\<forall>k. map_option sort_keys (map_of a k) = map_option sort_keys (map_of b k))"
  by (rule canonical_dict_eq_iff [OF assms])

theorem canonical_json_faithful_witness:
  "canonical_json_bytes (PDict [(''b'', PInt 1), (''a'', PNone)]) = canonical_json_bytes (PDict [(''a'', PNone), (''b'', PInt 1)])
   \<and> canonical_json_bytes (PDict [(''b'', PInt 1)]) \<noteq> canonical_json_bytes (PDict [(''b'', PInt 2)])"
proof -
  have "canonical_json_bytes (PDict [(''b'', PInt 1), (''a'', PNone)]) = canonical_json_bytes (PDict [(''a'', PNone), (''b'', PInt 1)])"
    by (subst canonical_json_faithful) simp_all
  moreover have "canonical_json_bytes (PDict [(''b'', PInt 1)]) \<noteq> canonical_json_bytes (PDict [(''b'', PInt 2)])"
    by (subst canonical_json_faithful) simp_all
  ultimately show ?thesis by blast
qed

lemma payload_keys: "distinct (map fst (canonical_artifact_payload a))"
proof -
  have "distinct (signed_fields @ [''certificates'', ''signer''])" by code_simp
  then show ?thesis
    unfolding canonical_artifact_payload_def Let_def
    by (auto intro!: distinct_dput simp: comp_def)
qed

lemma payload_lookup:
  "k \<in> set signed_fields \<Longrightarrow> map_of (canonical_artifact_payload a) k = Some (dget a k)"
  "map_of (canonical_artifact_payload a) ''certificates'' = Some (dget_or a ''certificates'' (PList []))"
  "map_of (canonical_artifact_payload a) ''signer'' = Some (dget_or a ''signer'' (PDict []))"
  by (auto simp: signed_fields_def canonical_artifact_payload_def Let_def dput_def update_conv)

lemma canonical_bytes_ok: "canonical_json_bytes v = Inr b \<Longrightarrow> json_ok v"
  by (auto simp: canonical_json_bytes_def split: if_splits)

lemma same_payload_fields:
  assumes "canonical_json_bytes (PDict (canonical_artifact_payload a)) = Inr bytes"
    and "canonical_json_bytes (PDict (canonical_artifact_payload b)) = Inr bytes"
  shows "k \<in> set signed_fields \<Longrightarrow> sort_keys (dget a k) = sort_keys (dget b k)"
    "sort_keys (dget_or a ''certificates'' (PList [])) = sort_keys (dget_or b ''certificates'' (PList []))"
    "sort_keys (dget_or a ''signer'' (PDict [])) = sort_keys (dget_or b ''signer'' (PDict []))"
proof -
  have eq: "map_option sort_keys (map_of (canonical_artifact_payload a) k)
      = map_option sort_keys (map_of (canonical_artifact_payload b) k)" for k
    using canonical_dict_eq_iff [OF canonical_bytes_ok [OF assms(1)] canonical_bytes_ok [OF assms(2)]
        payload_keys payload_keys] assms by simp
  show "k \<in> set signed_fields \<Longrightarrow> sort_keys (dget a k) = sort_keys (dget b k)"
    using eq [of k] by (simp add: payload_lookup(1))
  show "sort_keys (dget_or a ''certificates'' (PList [])) = sort_keys (dget_or b ''certificates'' (PList []))"
    using eq [of "''certificates''"] by (simp add: payload_lookup(2))
  show "sort_keys (dget_or a ''signer'' (PDict [])) = sort_keys (dget_or b ''signer'' (PDict []))"
    using eq [of "''signer''"] by (simp add: payload_lookup(3))
qed



section \<open>Regeneration of trust artifacts\<close>


text \<open>C12: A request for an artifact returns the latest stored one. Its trust list is complete (the
  latest of its target, with exactly the desired members), the document returned is the stored
  document even when it comes from the cache, and at most one artifact was added: the next
  revision, of the list's version, with digest and signature over its canonical payload.\<close>

theorem artifact_request_outcome:
  assumes "get_or_regenerate_signed_artifact x g st zone role force src w = (Inr (Some (lst, row, art)), w')"
    and "db_inv (w_db w)" "cache_ok w"
  shows "list_complete (w_db w') zone role lst \<and> latest_artifact (w_db w') zone role = Some row \<and> art = ta_json row
    \<and> (d_artifacts (w_db w') = d_artifacts (w_db w) \<and> \<not> force \<or>
       d_artifacts (w_db w') = d_artifacts (w_db w) @ [row] \<and> ta_revision row = max_revision (w_db w) zone role + 1
         \<and> ta_version row = tl_version lst \<and> genuine_artifact x g row)"
  using get_or_regenerate_outcome(1) [OF assms] by (auto simp: artifact_outcome_def)

lemma served_run: "\<exists>t w'. get_or_regenerate_signed_artifact sample_ext sample_signer default_settings ''OT'' ''server'' False ''api''
    (sample_world artifact_db) = (Inr (Some t), w') \<and> ta_revision (fst (snd t)) = 1"
proof -
  have "map_sum (\<lambda>_. ()) (map_option (ta_revision \<circ> fst \<circ> snd)) (fst (get_or_regenerate_signed_artifact sample_ext
      sample_signer default_settings ''OT'' ''server'' False ''api'' (sample_world artifact_db))) = Inr (Some 1)"
    by code_simp
  from run_of_value [OF this] show ?thesis by auto
qed

theorem artifact_request_outcome_witness:
  "\<exists>lst row art w'. get_or_regenerate_signed_artifact sample_ext sample_signer default_settings ''OT'' ''server'' False ''api''
     (sample_world artifact_db) = (Inr (Some (lst, row, art)), w') \<and> art = ta_json row \<and> d_artifacts (w_db w') = [row]"
proof -
  obtain lst row art w' where run: "get_or_regenerate_signed_artifact sample_ext sample_signer default_settings ''OT''
      ''server'' False ''api'' (sample_world artifact_db) = (Inr (Some (lst, row, art)), w')" and r: "ta_revision row = 1"
    using served_run by (metis fst_conv prod.collapse snd_conv)
  have "max_revision artifact_db ''OT'' ''server'' = 1" by code_simp
  moreover have "latest_artifact (w_db w') ''OT'' ''server'' = Some row \<Longrightarrow> row \<in> set (d_artifacts (w_db w'))"
    by (rule latest_artifact_mem)
  ultimately have "art = ta_json row \<and> d_artifacts (w_db w') = [row]"
    using artifact_request_outcome [OF run] artifact_db_inv sample_cache_ok r
    by (auto simp: sample_world_db artifact_db_def)
  with run show ?thesis by blast
qed

end
