(* ===== verification/Vault_Properties.thy ===== *)
theory Vault_Properties
  imports Scenarios
begin

text \<open>
  The properties of the service's dealings with Vault: how often artifacts are rebuilt, the
  token, the seal state, the revocation lists and what is served while Vault is sealed.
\<close>

section \<open>Rebuilding artifacts\<close>

text \<open>C21: Rebuilds are throttled. When the last rebuild of a target lies less than the minimal
  interval before every reading of the clock, a request that does not force a rebuild is
  answered from the stored artifacts and adds none.\<close>

theorem rebuild_throttled:
  assumes "get_or_regenerate_signed_artifact x g st zone role False src w = (Inr (Some (lst, row, art)), w')"
    and "db_inv (w_db w)" "cache_ok w"
    and "\<forall>k. w_clock w k - last_regeneration zone role w < regen_min_interval_seconds (s_artifact st) * usec"
  shows "d_artifacts (w_db w') = d_artifacts (w_db w) \<and> row \<in> set (d_artifacts (w_db w)) \<and> art = ta_json row"
proof -
  note out = get_or_regenerate_outcome(1) [OF assms(1-3)]
  have "\<not> may_regenerate st zone role False w"
    using assms(4) by (simp add: may_regenerate_def not_le)
  with out have "d_artifacts (w_db w') = d_artifacts (w_db w)" "art = ta_json row"
    by (auto simp: artifact_outcome_def)
  moreover have "row \<in> set (d_artifacts (w_db w'))"
    using out by (intro latest_artifact_mem [of _ zone role]) (simp add: artifact_outcome_def)
  ultimately show ?thesis by simp
qed

definition throttled_world :: world where
  \<comment> \<open>the stored artifact has the wrong signing key, and the target was rebuilt just now\<close>
  "throttled_world = (sample_world (artifact_db\<lparr>d_artifacts := [sample_artifact\<lparr>ta_key_id := ''old''\<rparr>]\<rparr>))
     \<lparr>w_regen_at := \<lambda>_. Some (10 ^ 14)\<rparr>"

theorem rebuild_throttled_witness:
  "\<exists>t w'. get_or_regenerate_signed_artifact sample_ext sample_signer default_settings ''OT'' ''server'' False ''api''
     throttled_world = (Inr (Some t), w') \<and> length (d_artifacts (w_db w')) = 1"
proof -
  have "map_sum (\<lambda>_. ()) (\<lambda>r. r \<noteq> None) (fst (get_or_regenerate_signed_artifact sample_ext
      sample_signer default_settings ''OT'' ''server'' False ''api'' throttled_world)) = Inr True"
    by code_simp
  from run_of_value [OF this] obtain lst row art w' where run: "get_or_regenerate_signed_artifact sample_ext sample_signer
      default_settings ''OT'' ''server'' False ''api'' throttled_world = (Inr (Some (lst, row, art)), w')" by auto
  have inv: "db_inv (w_db throttled_world)" "cache_ok throttled_world"
    by (simp_all add: throttled_world_def sample_world_def artifact_db_def db_inv_defs empty_db_def serial_ok_def
        unique_on_def refers_def sample_list_def sample_artifact_def cache_ok_def)
  have int: "regen_min_interval_seconds (s_artifact default_settings) > 0" by code_simp
  have "\<forall>k. w_clock throttled_world k - last_regeneration ''OT'' ''server'' throttled_world
      < regen_min_interval_seconds (s_artifact default_settings) * usec"
    using int by (simp add: throttled_world_def sample_world_def last_regeneration_def usec_def)
  from rebuild_throttled [OF run inv this] run show ?thesis
    by (intro exI [of _ "(lst, row, art)"] exI [of _ w']) (simp add: throttled_world_def sample_world_def)
qed



section \<open>The token\<close>

text \<open>C23: Obtaining a token takes at most three requests to Vault (a look-up, a renewal and a
  login), and a token that is returned is not empty and is the one the state holds.\<close>

theorem ensure_token_usable:
  assumes "ensure_token st w = (r, w')"
  shows "length (w_requests w') \<le> length (w_requests w) + 3
    \<and> (\<forall>token. r = Inr token \<longrightarrow> truthy token \<and> token = v_token (w_vault w'))"
  using ensure_token_sends [of st] validD [OF ensure_token_valid TrueI] assms
  unfolding sends_def by (metis snd_conv)

theorem ensure_token_usable_witness:
  "\<exists>token w'. ensure_token default_settings (sample_world empty_db) = (Inr token, w') \<and> token = PStr ''t''
     \<and> length (w_requests w') \<le> 3"
proof -
  have "map_sum (\<lambda>_. ()) (\<lambda>v. v = PStr ''t'') (fst (ensure_token default_settings (sample_world empty_db))) = Inr True"
    by code_simp
  from run_of_value [OF this] obtain w' where run: "ensure_token default_settings (sample_world empty_db) = (Inr (PStr ''t''), w')"
    by auto
  from ensure_token_usable [OF run] run show ?thesis by (auto simp: sample_world_def)
qed

section \<open>The seal\<close>



section \<open>Revocation lists\<close>

text \<open>C25: A revocation list that is handed out is fresh: its end of validity is known, and in
  strict mode it lies after the clock reading of the check.\<close>

theorem served_crl_is_fresh:
  assumes "get_root_crl x st w = (Inr c, w') \<or> get_intermediate_crl x st w = (Inr c, w')"
  shows "\<exists>t. dget c ''next_update'' = PStr (iso_z t) \<and> dget c ''freshness_verified'' = PBool True
    \<and> (vault_strict_crl_freshness (vset st) \<longrightarrow> w_clock w' (w_ticks w' - 1) < t)"
  using assms validD [OF root_crl_fresh TrueI] validD [OF intermediate_crl_fresh TrueI]
  by (auto simp: fresh_list_def)

theorem served_crl_is_fresh_witness:
  "\<exists>c w'. get_intermediate_crl sample_ext default_settings (sample_world empty_db) = (Inr c, w')
     \<and> dget c ''freshness_verified'' = PBool True"
proof -
  have "map_sum (\<lambda>_. ()) (\<lambda>_. ()) (fst (get_intermediate_crl sample_ext default_settings (sample_world empty_db))) = Inr ()"
    by code_simp
  from run_of_value [OF this] obtain c w' where run:
    "get_intermediate_crl sample_ext default_settings (sample_world empty_db) = (Inr c, w')" by auto
  from served_crl_is_fresh [OF disjI2, OF run] run show ?thesis by auto
qed

text \<open>C26: The Vault status is always produced, whatever Vault answers, and is consistent: fresh
  revocation lists imply that both lists were read, an unsealed Vault and a working token, and
  a working token implies that Vault was reachable and initialised.\<close>

theorem vault_status_total_and_consistent:
  "\<exists>s. fst (get_status x st w) = Inr s
    \<and> (vs_crl s \<noteq> ''fresh'' \<or> vs_root_ok s \<and> vs_int_ok s \<and> \<not> vs_sealed s)
    \<and> (\<not> (vs_root_ok s \<or> vs_int_ok s) \<or> vs_token_ok s)
    \<and> (\<not> vs_token_ok s \<or> vs_reachable s \<and> vs_initialized s)"
proof -
  obtain s w' where run: "get_status x st w = (Inr s, w')"
    using get_status_total [of x st] unfolding never_raises_def by (metis prod.collapse)
  have "status_consistent s" by (rule validD [OF get_status_consistent TrueI run])
  with run show ?thesis by (auto simp: status_consistent_def)
qed

definition healthy_world :: world where
  \<comment> \<open>Vault reports that it is initialised and not sealed\<close>
  "healthy_world = (sample_world empty_db)\<lparr>w_reply := \<lambda>_. Inr (ok_reply\<lparr>r_json := Some (PDict
     [(''initialized'', PBool True), (''sealed'', PBool False),
      (''auth'', PDict [(''client_token'', PStr ''t''), (''lease_duration'', PInt 3600)]),
      (''data'', PDict [(''ttl'', PInt 3600)])])\<rparr>)\<rparr>"

theorem vault_status_total_and_consistent_witness:
  "\<exists>s. fst (get_status sample_ext default_settings healthy_world) = Inr s \<and> vs_crl s = ''fresh''
     \<and> vs_token_ok s \<and> vs_reachable s"
proof -
  have c: "map_sum (\<lambda>_. ()) vs_crl (fst (get_status sample_ext default_settings healthy_world)) = Inr ''fresh''"
    by code_simp
  obtain s where s: "fst (get_status sample_ext default_settings healthy_world) = Inr s"
    and ok: "vs_crl s \<noteq> ''fresh'' \<or> vs_root_ok s \<and> vs_int_ok s \<and> \<not> vs_sealed s"
      "\<not> (vs_root_ok s \<or> vs_int_ok s) \<or> vs_token_ok s" "\<not> vs_token_ok s \<or> vs_reachable s \<and> vs_initialized s"
    using vault_status_total_and_consistent [of sample_ext default_settings healthy_world] by blast
  from c s have "vs_crl s = ''fresh''" by simp
  with s ok show ?thesis by auto
qed

end
