(* ===== verification/Lifecycle_Properties.thy ===== *)
theory Lifecycle_Properties
  imports Scenarios Facade_Facts
begin

text \<open>
  The properties of issuing certificate packages and of the OPC UA facade in front of it.
\<close>

section \<open>A request that is issued\<close>

text \<open>With the database reachable, storing a package of values that JSON can express succeeds.\<close>

definition parts_ok :: "package_parts \<Rightarrow> bool" where
  "parts_ok parts \<longleftrightarrow> json_ok (pp_chain parts) \<and> json_ok (pp_crl parts) \<and> json_ok (PDict (pp_bundle parts))
     \<and> json_ok (PDict (pp_plan parts)) \<and> json_ok (PDict (rc_details (pp_compat parts))) \<and> json_ok (PDict (pp_files parts))"

lemma json_ok_member: "json_ok (PDict d) \<Longrightarrow> json_ok (dget_or d k (PDict []))"
  by (auto simp: dget_or_def split: option.splits dest!: map_of_SomeD)

lemma manifest_json_ok: "parts_ok parts \<Longrightarrow> json_ok (PDict (package_manifest ord g pid lin app rt issued parts t))"
  by (auto simp: package_manifest_def parts_ok_def compatibility_dict_def signer_identity_def strs_def opt_str_def
      opt_int_def json_ok_member simp del: json_ok.simps(5) split: prod.splits option.splits
      simp add: json_ok_dict_iff)

lemma json_ok_dput: "json_ok (PDict d) \<Longrightarrow> json_ok v \<Longrightarrow> json_ok (PDict (dput k v d))"
  unfolding dput_def json_ok_dict_iff by (induction d) auto

lemma sign_manifest_succeeds:
  assumes "json_ok (PDict m)"
  shows "\<exists>sha sig. sign_manifest x g m = Inr (dput ''manifest_sha256'' (PStr sha) m, sha, sig)"
proof -
  have stamped: "json_ok (PDict (dput k (PStr s) m))" for k s using assms by (rule json_ok_dput) simp
  have canonical: "json_ok (PDict d) \<Longrightarrow> json_ok (PDict (canonical_package_manifest d))" for d
    using json_ok_dput [of d "PStr []" "''manifest_sha256''"]
    by (simp add: canonical_package_manifest_def ddel_def json_ok_dict_iff list_all_iff)
  show ?thesis
    using canonical [OF assms] canonical [OF stamped]
    by (simp add: sign_manifest_def manifest_sha256_def canonical_json_bytes_def sign_canonical_payload_def Let_def)
qed

definition storable :: "csr_order \<Rightarrow> string \<Rightarrow> app_row \<Rightarrow> cert_row \<Rightarrow> db \<Rightarrow> string \<Rightarrow> bool" where
  \<comment> \<open>the references of the package exist and its identifier is new\<close>
  "storable ord rid app row d pid \<longleftrightarrow> a_id app \<in> app_ids d \<and> rid \<in> rq_request ` set (d_requests d)
     \<and> c_id row \<in> cert_ids d \<and> or_profile ord \<in> profile_names d \<and> pid \<notin> pk_package ` set (d_packages d)"

lemma insert_package_succeeds:
  assumes "storable ord rid app row d pid" "json_ok (PDict m)"
    and "gen = fst (next_lineage (latest_package d (a_id app) (or_profile ord)))"
  shows "\<exists>p. insert_certificate_package pid (a_id app) rt rid (Some (c_id row)) (or_profile ord) m sha sig co li
    (Some gen) pp pg t d = (Inr p, (bump CertificatePackages d)\<lparr>d_packages := d_packages d @ [p]\<rparr>)"
proof -
  have "(a_id app, or_profile ord, gen) \<notin> (\<lambda>p. (pk_app p, pk_profile p, pk_generation p)) ` set (d_packages d)"
    using next_lineage_above [of _ d "a_id app" "or_profile ord"] assms(3) by (force simp: packages_for_def)
  with assms(1,2) show ?thesis
    by (simp add: storable_def insert_certificate_package_def json_dumps_def Let_def del: json_ok.simps)
qed

definition connected :: "world \<Rightarrow> bool" where
  "connected w \<longleftrightarrow> w_conn w = (\<lambda>_. True)"

lemma on_db_connected:
  assumes "connected w"
  obtains w' where "on_db f w = (fst (f (w_clock w (w_ticks w)) (w_db w)), w')" "connected w'"
    "w_db w' = snd (f (w_clock w (w_ticks w)) (w_db w))" "w_uuid w' (w_uuids w') = w_uuid w (w_uuids w)"
  using assms by (simp add: connected_def on_db_def case_prod_beta)

lemma announce_succeeds:
  assumes "connected w" "json_ok (PDict details)"
  shows "\<exists>w'. announce_package ord rid pid details w = (Inr (), w')"
proof -
  obtain w1 where w1: "on_db (update_certificate_request_status rid ''PACKAGED'' None) w
      = (fst (update_certificate_request_status rid ''PACKAGED'' None (w_clock w (w_ticks w)) (w_db w)), w1)" "connected w1"
    by (rule on_db_connected [OF assms(1)])
  obtain w2 where w2: "on_db (insert_package_event pid ''certificate_package_created'' (or_by ord) details) w1
      = (fst (insert_package_event pid ''certificate_package_created'' (or_by ord) details (w_clock w1 (w_ticks w1))
           (w_db w1)), w2)" "connected w2"
    by (rule on_db_connected [OF w1(2)])
  obtain w3 where w3: "log_audit ''certificate_package_created'' (or_by ord) (''certificate_package:'' @ pid) details w2
      = (fst (audit ''certificate_package_created'' (or_by ord) (''certificate_package:'' @ pid) details
           (w_clock w2 (w_ticks w2)) (w_db w2)), w3)"
    unfolding log_audit_def by (rule on_db_connected [OF w2(2)])
  show ?thesis
    using w1(1) w2(1) w3 assms(2)
    by (simp add: announce_package_def set_request_status_def bindE_def ret_def audit_def insert_package_event_def
        update_certificate_request_status_def Let_def json_dumps_def del: json_ok.simps)
qed

lemma store_package_succeeds:
  assumes "connected w" "storable ord rid app row (w_db w) (w_uuid w (w_uuids w))" "parts_ok parts"
  shows "\<exists>p m w'. store_package x g ord rid app rt issued row parts w = (Inr (p, m), w')"
proof -
  let ?pid = "w_uuid w (w_uuids w)" and ?prev = "latest_package (w_db w) (a_id app) (or_profile ord)"
  obtain gen pp pg where lin: "next_lineage ?prev = (gen, pp, pg)" by (cases "next_lineage ?prev") auto
  obtain w1 where q: "query (get_latest_certificate_package_for_application (a_id app) (or_profile ord)) w = (Inr ?prev, w1)"
    "connected w1" "w_db w1 = w_db w" "w_uuid w1 (w_uuids w1) = ?pid"
    unfolding query_def
    by (rule on_db_connected [OF assms(1), of "\<lambda>_. get_latest_certificate_package_for_application (a_id app) (or_profile ord)"])
       (simp add: get_latest_certificate_package_for_application_def ret_def)
  define w3 where "w3 = (w1\<lparr>w_uuids := Suc (w_uuids w1)\<rparr>)\<lparr>w_ticks := Suc (w_ticks w1)\<rparr>"
  have w3: "connected w3" "w_db w3 = w_db w" using q by (simp_all add: w3_def connected_def)
  let ?m = "package_manifest ord g ?pid (gen, pp, pg) app rt issued parts (iso_z (w_clock w1 (w_ticks w1)))"
  obtain sha sig where s: "sign_manifest x g ?m = Inr (dput ''manifest_sha256'' (PStr sha) ?m, sha, sig)"
    using sign_manifest_succeeds [OF manifest_json_ok [OF assms(3)]] by blast
  let ?ins = "insert_certificate_package ?pid (a_id app) (Some rt) rid (Some (c_id row)) (or_profile ord)
    (dput ''manifest_sha256'' (PStr sha) ?m) sha (ps_signature sig) (rc_status (pp_compat parts)) ''PACKAGED'' (Some gen) pp pg"
  obtain p d where i: "?ins (w_clock w3 (w_ticks w3)) (w_db w3) = (Inr p, d)"
    using insert_package_succeeds [OF assms(2) json_ok_dput [OF manifest_json_ok [OF assms(3)]], of "PStr sha" gen]
      lin unfolding w3(2) by fastforce
  obtain w4 where w4: "on_db ?ins w3 = (Inr p, w4)" "connected w4"
    by (rule on_db_connected [OF w3(1), of ?ins]) (simp add: i)
  obtain w5 where "announce_package ord rid ?pid (package_details rid gen (pp_compat parts)) w4 = (Inr (), w5)"
    using announce_succeeds [OF w4(2)] by (fastforce simp: package_details_def)
  then have "store_package x g ord rid app rt issued row parts w = (Inr (p, dput ''manifest_sha256'' (PStr sha) ?m), w5)"
    using q(1) w4(1) s
    by (simp add: store_package_def bindE_def uuid4_hex_def now_us_def lin lift_sum_def ret_def w3_def q(4))
  then show ?thesis by blast
qed

lemma connected_prims [evolves_rules]:
  "evolves (same connected) now_us" "evolves (same connected) (http q)" "evolves (same connected) (read_text p)"
  "evolves (same connected) (upd_vault f)" "evolves (same connected) (on_db h)" "evolves (same connected) uuid4_hex"
  "evolves (same connected) (lift_sum r)" "evolves (same connected) (query m)" "evolves (same connected) (log_audit ty ac tg det)"
  by (simp_all add: evolves_def same_def connected_def now_us_def http_def read_text_def upd_vault_def updE_def on_db_def
      uuid4_hex_def lift_sum_def query_def log_audit_def Let_def split: option.splits prod.splits)

interpretation vault_connected: vault_neutral "same connected"
  by unfold_locales (rule frame.evo_refl frame.evo_trans connected_prims; assumption?)+

text \<open>The steps before the package is stored, as one operation.\<close>

definition prepare_package where
  "prepare_package x st ord =
     bindE (admit_order x ord) (\<lambda>(app, runtime, p, rid, request, info).
     bindE (issue_certificate x st ord rid info app) (\<lambda>(signed, issued, row).
     bindE (assemble_parts x st (adapter_for_profile p) info app signed issued) (\<lambda>parts.
       ret (rid, app, runtime, request, issued, row, parts))))"

lemma issue_prepared:
  assumes "prepare_package x st ord w = (Inr (rid, app, runtime, request, issued, row, parts), w1)"
    and "store_package x g ord rid app runtime issued row parts w1 = (Inr (package, manifest), w2)"
  shows "issue_certificate_package x st g ord w = (Inr \<lparr>ir_request = request, ir_certificate = row, ir_package = package,
    ir_manifest = manifest, ir_signature = package_signature_payload package\<rparr>, w2)"
  using assms unfolding prepare_package_def issue_certificate_package_def run_simps
  by (auto simp: bindE_def ret_def)

lemma prepare_connected: "evolves (same connected) (prepare_package x st ord)"
  unfolding prepare_package_def admit_order_def resolve_target_def admit_csr_def validate_order_def register_request_def
    issue_certificate_def sign_request_def signing_failed_def store_certificate_def set_request_status_def
    assemble_parts_def safe_ca_chain_def safe_crl_def safe_crl_bundle_def
  by (intro frame.combinators evolves_rules)

text \<open>An order that is issued in the sample environment.\<close>

definition plain_profile :: profile_row where
  "plain_profile = \<lparr>pf_id = 1, pf_name = ''p'', pf_family = [], pf_component = [], pf_format = [], pf_layout = PNone,
     pf_semantics = PNone, pf_rules = PNone, pf_policy = PNone, pf_status = ''active'', pf_created = 0, pf_updated = 0\<rparr>"

definition ot_client :: app_row where
  "ot_client = \<lparr>a_id = 1, a_uri = ''urn:a'', a_common_name = ''a'', a_zone = ''OT'', a_role = ''client'',
     a_runtime = Some ''urn:a'', a_component = Some ''client'', a_host = None, a_port = None,
     a_status = ''active'', a_created = 0, a_updated = 0, a_last_seen = Some 0\<rparr>"

definition enrolment_db :: db where
  "enrolment_db = empty_db\<lparr>d_apps := [ot_client], d_profiles := [plain_profile],
     d_seq := (\<lambda>_. 0)(Applications := 1, ComponentProfiles := 1)\<rparr>"

definition sample_order :: csr_order where
  "sample_order = \<lparr>or_uri = ''urn:a'', or_runtime = [], or_profile = ''p'', or_csr = ''csr'', or_ttl = [], or_by = ''b'',
     or_source = ''s'', or_allow_duplicate = False\<rparr>"

lemma sample_prepared:
  "case prepare_package sample_ext default_settings sample_order (sample_world enrolment_db) of
     (Inr (rid, app, runtime, request, issued, row, parts), w1) \<Rightarrow>
       storable sample_order rid app row (w_db w1) (w_uuid w1 (w_uuids w1)) \<and> parts_ok parts
   | _ \<Rightarrow> False"
  by code_simp

lemma sample_issued:
  "\<exists>r w'. issue_certificate_package sample_ext default_settings sample_signer sample_order (sample_world enrolment_db) = (Inr r, w')"
proof -
  obtain rid app runtime request issued row parts w1 where p: "prepare_package sample_ext default_settings sample_order
      (sample_world enrolment_db) = (Inr (rid, app, runtime, request, issued, row, parts), w1)"
    and ok: "storable sample_order rid app row (w_db w1) (w_uuid w1 (w_uuids w1))" "parts_ok parts"
    using sample_prepared by (auto split: prod.splits sum.splits)
  have "connected w1"
    using same_run [OF prepare_connected p] by (simp add: connected_def sample_world_def)
  from store_package_succeeds [OF this ok] issue_prepared [OF p] show ?thesis by blast
qed

section \<open>Issuing\<close>

text \<open>C11: Nothing is signed or stored unless the order is acceptable: when the application or
  its active profile does not exist, the request does not parse or is not signed by its own
  key, or the profile rejects it, issuing raises an error, no request is sent to Vault, and
  certificates and packages stay as they are.\<close>

theorem invalid_order_issues_nothing:
  assumes "\<not> acceptable x ord (w_db w)"
  shows "\<exists>e w'. issue_certificate_package x st g ord w = (Inl e, w') \<and> w_requests w' = w_requests w
    \<and> d_certs (w_db w') = d_certs (w_db w) \<and> d_packages (w_db w') = d_packages (w_db w)"
proof -
  obtain r w' where run: "issue_certificate_package x st g ord w = (r, w')" by fastforce
  with unacceptable_untouched [OF assms, of st g] show ?thesis by (auto simp: same_def untouched_def)
qed

theorem invalid_order_issues_nothing_witness:
  "\<exists>e w'. issue_certificate_package sample_ext default_settings sample_signer (sample_order\<lparr>or_uri := ''urn:b''\<rparr>)
     (sample_world enrolment_db) = (Inl e, w') \<and> w_requests w' = []"
proof -
  have "\<not> acceptable sample_ext (sample_order\<lparr>or_uri := ''urn:b''\<rparr>) (w_db (sample_world enrolment_db))"
    by (simp add: acceptable_def sample_order_def sample_world_def enrolment_db_def ot_client_def)
  from invalid_order_issues_nothing [OF this, of default_settings sample_signer] show ?thesis
    by (auto simp: sample_world_def)
qed



section \<open>The facade\<close>


definition sample_facade :: facade where
  "sample_facade = \<lparr>fa_world = sample_world enrolment_db, fa_sessions = (\<lambda>_. None), fa_enrollments = (\<lambda>_. None),
     fa_mono = (\<lambda>_. 0), fa_reads = 0\<rparr>"


text \<open>C31: The rate limiter admits at most the limit (and at least one request) per window. Over
  a run of requests of one session that starts a window and stays inside it, the first is
  admitted and no more than \<open>max 1 limit\<close> are.\<close>

theorem rate_limiter_bounds_a_window:
  assumes "case counter of None \<Rightarrow> True | Some k \<Rightarrow> window_usec \<le> t - rl_started k"
    and "\<forall>u \<in> set later. u < t + window_usec"
  shows "int (grants (admitted limit counter (t # later))) \<le> max 1 limit
    \<and> hd (admitted limit counter (t # later)) = (t, True)"
  using admitted_window [OF assms] by blast

theorem rate_limiter_bounds_a_window_witness:
  "grants (admitted 2 None [0, 1, 2, 3]) \<le> 2"
  using rate_limiter_bounds_a_window [where counter = None and t = 0 and later = "[1, 2, 3]" and limit = 2] by (simp add: window_usec_def)

end
