(* ===== verification/Rest_Facts.thy ===== *)
theory Rest_Facts
  imports Rest
begin

text \<open>
  The guards in front of the endpoints: what it takes to get past them, and that a request
  they refuse changes nothing but the audit log.
\<close>

section \<open>What the guards leave alone\<close>

definition auth_view where
  "auth_view (w :: world) = (w_token_files w, w_token_reads w, w_auth w, w_started w)"

lemma entitled_cong: "auth_view w' = auth_view w \<Longrightarrow>
   agent_entitled w' req access zone role uri = agent_entitled w req access zone role uri"
  by (simp add: agent_entitled_def agent_policy_of_def auth_view_def case_prod_beta)

lemma auth_view_prims [evolves_rules]:
  "evolves (same auth_view) (on_db f)" "evolves (same auth_view) (query m)" "evolves (same auth_view) now_us"
  "evolves (same auth_view) uuid4_hex" "evolves (same auth_view) (log_audit ty ac tg det)"
  by (auto simp: evolves_def same_def auth_view_def on_db_def query_def now_us_def uuid4_hex_def log_audit_def Let_def
      split: prod.splits)

lemma details_frames [evolves_rules]:
  "evolves (same auth_view) (client_cert_header_details x req)" "evolves (same core) (client_cert_header_details x req)"
  unfolding client_cert_header_details_def cert_days_remaining_def Let_def by (intro frame.combinators evolves_rules)+

lemma require_frames [evolves_rules]:
  "evolves (same auth_view) (require_https_mtls x st req)" "evolves (same core) (require_https_mtls x st req)"
  unfolding require_https_mtls_def by (intro frame.combinators evolves_rules)+

lemma authorize_frame [evolves_rules]: "evolves (same core) (authorize_agent_pull st req access zone role uri)"
  unfolding authorize_agent_pull_def tokens_file_now_def auth_failure_def policy_unavailable_def judge_policy_def
    not_authorized_def Let_def
  by (intro frame.combinators evolves_rules)

section \<open>Admission\<close>

definition certified :: "http_req \<Rightarrow> bool" where
  "certified req \<longleftrightarrow> is_https_edge req \<and> header req ''X-Client-Cert-Verify'' = ''SUCCESS''"

definition admitted :: "world \<Rightarrow> http_req \<Rightarrow> string \<Rightarrow> string option \<Rightarrow> bool" where
  "admitted w req access uri \<longleftrightarrow> certified req \<and> agent_entitled w req access None None uri"

definition turned_away :: "world \<Rightarrow> response \<Rightarrow> world \<Rightarrow> bool" where
  "turned_away w r w' \<longleftrightarrow> rs_status r \<in> {400, 401, 403, 404, 503} \<and> core w' = core w"

lemma api_error_status [simp]: "rs_status (api_error s m c) = s"
  by (simp add: api_error_def json_response_def)

lemma require_outcome:
  assumes "require_https_mtls x st req w = (Inr r, w')"
  shows "core w' = core w" "auth_view w' = auth_view w"
    "case r of None \<Rightarrow> certified req | Some resp \<Rightarrow> rs_status resp \<in> {401, 403}"
proof -
  show "core w' = core w" using assms by (rule same_run [rotated]) (rule evolves_rules)
  show "auth_view w' = auth_view w" using assms by (rule same_run [rotated]) (rule evolves_rules)
  show "case r of None \<Rightarrow> certified req | Some resp \<Rightarrow> rs_status resp \<in> {401, 403}"
    using assms unfolding require_https_mtls_def client_cert_header_details_def Let_def run_simps
    by (auto simp: json_response_def certified_def)
qed

lemma authorize_turns_away:
  assumes "authorize_agent_pull st req access zone role uri w = (Inr r, w')" "agent_auth_enabled (s_auth st)" "w_started w"
  shows "case r of None \<Rightarrow> agent_entitled w req access zone role uri | Some resp \<Rightarrow> turned_away w resp w'"
proof -
  have "core w' = core w" using assms(1) by (rule same_run [rotated]) (rule evolves_rules)
  then show ?thesis
    using authorize_outcome [OF assms(2,3,1)] by (auto simp: agent_checks_def turned_away_def)
qed

lemma started_view: "auth_view w' = auth_view w \<Longrightarrow> w_started w' = w_started w"
  by (simp add: auth_view_def)

lemma unless_run:
  "unless_refused gd m w = (Inr r, w') \<longleftrightarrow>
     gd w = (Inr (Some r), w') \<or> (\<exists>w1. gd w = (Inr None, w1) \<and> m w1 = (Inr r, w'))"
  "answer_unless gd n w = (Inr a, w') \<longleftrightarrow>
     (\<exists>resp. a = Inl resp \<and> gd w = (Inr (Some resp), w')) \<or> (\<exists>w1. gd w = (Inr None, w1) \<and> n w1 = (Inr a, w'))"
  unfolding unless_refused_def answer_unless_def run_simps by blast+

lemma refused_by_certificate:
  "require_https_mtls x st req w = (Inr (Some r), w') \<Longrightarrow> turned_away w r w'"
  using require_outcome by (fastforce simp: turned_away_def)

lemma refused_by_agent:
  assumes "agent_auth_enabled (s_auth st)" "w_started w" "core w1 = core w" "auth_view w1 = auth_view w"
    and "authorize_agent_pull st req access zone role uri w1 = (Inr (Some r), w')"
  shows "turned_away w r w'"
  using authorize_turns_away [OF assms(5,1)] assms(2,3) started_view [OF assms(4)] by (simp add: turned_away_def)

lemma passed:
  assumes "agent_auth_enabled (s_auth st)" "w_started w" "certified req" "auth_view w1 = auth_view w"
    and "authorize_agent_pull st req access None None uri w1 = (Inr None, w')"
  shows "admitted w req access uri"
  using authorize_turns_away [OF assms(5,1)] assms(2,3) started_view [OF assms(4)] entitled_cong [OF assms(4)]
  by (simp add: admitted_def)

lemma certified_passage:
  "require_https_mtls x st req w = (Inr None, w1) \<Longrightarrow> certified req \<and> core w1 = core w \<and> auth_view w1 = auth_view w"
  using require_outcome by fastforce

lemma agent_endpoint_guarded:
  assumes "agent_auth_enabled (s_auth st)" "w_started w" "agent_endpoint x st req access uri m w = (Inr r, w')"
  shows "admitted w req access uri \<or> turned_away w r w'"
  using assms(3) unfolding agent_endpoint_def unless_run
  using refused_by_certificate refused_by_agent [OF assms(1,2)] passed [OF assms(1,2)] certified_passage by metis

lemma agent_answer_guarded:
  assumes "agent_auth_enabled (s_auth st)" "w_started w" "agent_answer x st req access uri m w = (Inr a, w')"
  shows "admitted w req access uri \<or> (\<exists>r. a = Inl r \<and> turned_away w r w')"
  using assms(3) unfolding agent_answer_def unless_run
  using refused_by_certificate refused_by_agent [OF assms(1,2)] passed [OF assms(1,2)] certified_passage by metis

lemma application_query_frames:
  assumes "query (get_application_by_uri uri) w = (Inr found, w')"
  shows "core w' = core w \<and> auth_view w' = auth_view w"
proof
  show "core w' = core w" using assms by (rule same_run [rotated]) (intro evolves_rules; simp)
  show "auth_view w' = auth_view w" using assms by (rule same_run [rotated]) (rule evolves_rules)
qed

lemma component_route_guarded:
  assumes "agent_auth_enabled (s_auth st)" "w_started w" "rs_status missing = 404"
    and "component_route x st req access uri missing f w = (Inr r, w')"
  shows "admitted w req access (Some uri) \<or> turned_away w r w'"
proof -
  consider "turned_away w r w'" | w1 found w2 where "require_https_mtls x st req w = (Inr None, w1)"
      "query (get_application_by_uri uri) w1 = (Inr found, w2)"
      "(case found of None \<Rightarrow> ret missing
        | Some app \<Rightarrow> unless_refused (authorize_agent_pull st req access None None (Some uri)) (f app)) w2 = (Inr r, w')"
    using assms(4) refused_by_certificate unfolding component_route_def unless_run bindE_Inr by blast
  then show ?thesis
  proof cases
    case 2
    have frame: "certified req" "core w2 = core w" "auth_view w2 = auth_view w"
      using certified_passage [OF 2(1)] application_query_frames [OF 2(2)] by simp_all
    show ?thesis
    proof (cases found)
      case None
      with 2(3) frame assms(3) show ?thesis by (simp add: ret_run turned_away_def)
    next
      case (Some app)
      with 2(3) have "unless_refused (authorize_agent_pull st req access None None (Some uri)) (f app) w2 = (Inr r, w')"
        by simp
      then show ?thesis
        unfolding unless_run
        using refused_by_agent [OF assms(1,2) frame(2,3)] passed [OF assms(1,2) frame(1,3)] by metis
    qed
  qed blast
qed

lemma component_endpoint_guarded:
  assumes "agent_auth_enabled (s_auth st)" "w_started w" "component_endpoint x st req access uri f w = (Inr r, w')"
  shows "admitted w req access (Some uri) \<or> turned_away w r w'"
  using component_route_guarded [OF assms(1,2) _ assms(3) [unfolded component_endpoint_def]]
  by (simp add: unknown_application_def)

lemma reporting_endpoint_guarded:
  assumes "agent_auth_enabled (s_auth st)" "w_started w" "reporting_endpoint x st req uri body_uri m w = (Inr r, w')"
  shows "admitted w req ''lifecycle_write'' (Some uri) \<or> turned_away w r w'"
proof (cases "body_uri = uri")
  case True
  then have "component_endpoint x st req ''lifecycle_write'' uri (\<lambda>_. m) w = (Inr r, w')"
    using assms(3) by (simp add: reporting_endpoint_def component_endpoint_def component_route_def)
  from component_endpoint_guarded [OF assms(1,2) this] show ?thesis .
next
  case False
  then show ?thesis
    using assms(3) refused_by_certificate certified_passage
    unfolding reporting_endpoint_def unless_run
    by (fastforce simp: ret_run uri_mismatch_def turned_away_def)
qed

lemma package_endpoint_guarded:
  assumes "agent_auth_enabled (s_auth st)" "w_started w" "package_endpoint x st req access q f w = (Inr a, w')"
  shows "admitted w req access None \<or> (\<exists>r. a = Inl r \<and> turned_away w r w')"
  using agent_answer_guarded [OF assms(1,2)] assms(3) unfolding package_endpoint_def by blast

lemma enrollment_endpoint_guarded:
  assumes "agent_auth_enabled (s_auth st)" "w_started w" "enrollment_endpoint x st req b m w = (Inr r, w')"
  shows "admitted w req ''enrollment_submit'' (Some (en_uri b)) \<or> turned_away w r w'"
  using agent_endpoint_guarded [OF assms(1,2)] assms(3) unfolding enrollment_endpoint_def by blast

lemma rendered_run:
  "rendered m w = (Inr r, w') \<longleftrightarrow> (\<exists>a. m w = (Inr a, w') \<and> r = (case a of Inl e \<Rightarrow> e | Inr _ \<Rightarrow> json_response 200 []))"
  "as_response n w = (Inr r, w') \<longleftrightarrow> (\<exists>a. n w = (Inr a, w') \<and> r = (case a of Inl e \<Rightarrow> e | Inr p \<Rightarrow> json_response 200 p))"
  unfolding rendered_def as_response_def by (auto simp: bindE_Inr ret_run)

section \<open>The endpoints of agents\<close>

text \<open>The access an endpoint asks for, and the application it asks it for.\<close>

fun required_access :: "endpoint \<Rightarrow> (string \<times> string option) option" where
  "required_access Discovery = Some (''telemetry_read'', None)"
| "required_access DiscoveryProfiles = Some (''telemetry_read'', None)"
| "required_access DiscoveryGroups = Some (''telemetry_read'', None)"
| "required_access (ComponentIdentity u) = Some (''telemetry_read'', Some u)"
| "required_access (RenewalPolicy u) = Some (''telemetry_read'', Some u)"
| "required_access (RevocationStatus u) = Some (''telemetry_read'', Some u)"
| "required_access ComponentStatuses = Some (''telemetry_read'', None)"
| "required_access (ComponentEvents u n) =
     Some (if given_text u then (''lifecycle_read'', u) else (''telemetry_read'', None))"
| "required_access (ReportStatus u b) = Some (''lifecycle_write'', Some u)"
| "required_access (ReportEvent u b) = Some (''lifecycle_write'', Some u)"
| "required_access (ComponentLifecycle u) = Some (''lifecycle_read'', Some u)"
| "required_access (TrustVersion u) = Some (''lifecycle_read'', Some u)"
| "required_access (EnrollRest b) = Some (''enrollment_submit'', Some (en_uri b))"
| "required_access (EnrollComponent b) = Some (''enrollment_submit'', Some (en_uri b))"
| "required_access (RenewCertificate b) = Some (''enrollment_submit'', Some (en_uri b))"
| "required_access (RevokeCertificate b) = Some (''package_update'', None)"
| "required_access (EnrollmentRequest i) = Some (''package_read'', None)"
| "required_access (Packages u r p s n) = Some (''package_read'', None)"
| "required_access PackageTelemetry = Some (''package_read'', None)"
| "required_access (Package q) = Some (''package_read'', None)"
| "required_access (PackageHistory q) = Some (''package_read'', None)"
| "required_access (PackageEventList q n) = Some (''package_read'', None)"
| "required_access (ReportPackageEvent q b) = Some (''package_update'', None)"
| "required_access (PackageManifest q) = Some (''package_read'', None)"
| "required_access (PackageSignature q) = Some (''package_read'', None)"
| "required_access ep = None"

lemmas agent_route_defs = get_rest_discovery_def get_discovery_component_profiles_def
  get_discovery_certificate_groups_def get_component_identity_def get_component_renewal_policy_def
  get_component_revocation_status_def get_all_component_lifecycle_status_def get_component_lifecycle_events_def
  post_component_lifecycle_status_def post_component_lifecycle_event_def get_component_trust_version_def
  post_rest_csr_enrollment_def post_component_csr_enrollment_def renew_certificate_def post_revoke_certificate_def
  get_enrollment_request_def list_certificate_packages_endpoint_def get_package_lifecycle_telemetry_def
  get_certificate_package_endpoint_def get_certificate_package_history_def get_certificate_package_events_def
  post_certificate_package_event_def get_certificate_package_manifest_def
  get_certificate_package_manifest_signature_def get_component_lifecycle_def

lemma unregistered_status: "rs_status unregistered = 404"
  by (simp add: unregistered_def json_response_def)

lemma agent_route_guarded:
  assumes on: "agent_auth_enabled (s_auth st)" "w_started w"
    and "required_access ep = Some (access, uri)" "handle x g st ep req w = (Inr r, w')"
  shows "admitted w req access uri \<or> turned_away w r w'"
  using assms(3,4)
  by (cases ep)
     (auto simp: agent_route_defs rendered_run given_text_def split: if_splits option.splits
        dest!: component_route_guarded [OF on unregistered_status] agent_endpoint_guarded [OF on] agent_answer_guarded [OF on] component_endpoint_guarded [OF on]
          reporting_endpoint_guarded [OF on] package_endpoint_guarded [OF on] enrollment_endpoint_guarded [OF on])

end
