(* ===== verification/Revocation_Facts.thy ===== *)
theory Revocation_Facts
  imports Rest_Facts Inventory_Properties
begin

text \<open>
  What a successful revocation has done: the certificate is revoked, its packages have
  reached \<open>REVOKED\<close>, and the trust list and the signed artifact of its target are new and do
  without it.
\<close>

section \<open>Steps\<close>

text \<open>The service stays started.\<close>

lemma started_prims [evolves_rules]:
  "evolves (same w_started) (on_db f)" "evolves (same w_started) (query m)" "evolves (same w_started) now_us"
  "evolves (same w_started) uuid4_hex" "evolves (same w_started) (log_audit ty ac tg det)"
  "evolves (same w_started) (http q)" "evolves (same w_started) (read_text p)" "evolves (same w_started) (upd_vault h)"
  by (auto simp: evolves_def same_def on_db_def query_def now_us_def uuid4_hex_def log_audit_def http_def read_text_def
      upd_vault_def updE_def Let_def split: prod.splits option.splits)

interpretation vault_started: vault_neutral "same w_started"
  by unfold_locales (rule frame.evo_refl frame.evo_trans started_prims; assumption?)+

lemma sound_run: "evolves world_sound m \<Longrightarrow> m w = (r, w') \<Longrightarrow> world_sound w w'"
  unfolding evolves_def by (metis snd_conv)

lemma mapE_run:
  assumes "mapE f xs w = (Inr ys, w')" "x \<in> set xs" "\<And>z. evolves world_sound (f z)"
  shows "\<exists>u y u'. f x u = (Inr y, u') \<and> world_sound w u \<and> world_sound u' w'"
  using assms(1,2)
proof (induction xs arbitrary: w ys)
  case (Cons z zs)
  then obtain y1 w1 ys1 where z: "f z w = (Inr y1, w1)" and zs: "mapE f zs w1 = (Inr ys1, w')"
    by (auto simp: bindE_Inr ret_run)
  have s1: "world_sound w w1" using z assms(3) by (rule sound_run [rotated])
  have s2: "world_sound w1 w'" using zs wsound.mapE_evolves [OF assms(3)] by (rule sound_run [rotated])
  show ?case
  proof (cases "x = z")
    case True
    with z s2 show ?thesis using wsound.evo_refl [of w] by blast
  next
    case False
    with Cons.prems have "x \<in> set zs" by simp
    from Cons.IH [OF zs this] obtain u y u' where "f x u = (Inr y, u')" "world_sound w1 u" "world_sound u' w'" by blast
    with wsound.evo_trans [OF s1] show ?thesis by blast
  qed
qed simp

lemma serve_artifact_found:
  assumes "serve_artifact x g st zone role force src w = (Inr r, w')" "w_started w" "db_inv (w_db w)" "cache_ok w"
  shows "r \<noteq> None"
proof
  assume "r = None"
  then obtain l w1 certs w2 where e: "on_db (ensure_trust_list_current zone role) w = (Inr l, w1)" and
    q: "query (get_latest_trust_list_with_certs zone role) w1 = (Inr (None, certs), w2)"
    using assms(1,2) unfolding serve_artifact_def run_simps by auto
  from ensure_step(1) [OF e assms(3,4)] list_query(1) [OF q] show False by (simp add: list_complete_def)
qed

lemma get_or_regenerate_found:
  assumes "get_or_regenerate_signed_artifact x g st zone role force src w = (Inr r, w')" "w_started w"
    "db_inv (w_db w)" "cache_ok w"
  shows "\<exists>lst row art. r = Some (lst, row, art)"
proof (rule ccontr)
  assume "\<not> ?thesis"
  then have "r = None" by (cases r) auto
  then obtain w1 where "serve_artifact x g st zone role force src w = (Inr None, w1)"
    using assms(1) unfolding get_or_regenerate_signed_artifact_def run_simps by auto
  with serve_artifact_found [OF _ assms(2-4)] show False by blast
qed

text \<open>A package that has been reported revoked has at least that rank.\<close>

definition at_least_revoked :: "db \<Rightarrow> string \<Rightarrow> bool" where
  "at_least_revoked d q \<longleftrightarrow> (\<exists>p \<in> set (d_packages d). pk_package p = q \<and> 90 \<le> lifecycle_rank (upper (pk_lifecycle p)))"

lemma at_least_revoked_forward:
  assumes "at_least_revoked d q" "db_forward d e"
  shows "at_least_revoked e q"
proof -
  obtain p where p: "p \<in> set (d_packages d)" "pk_package p = q" "90 \<le> lifecycle_rank (upper (pk_lifecycle p))"
    using assms(1) by (auto simp: at_least_revoked_def)
  then obtain p' where "p' \<in> set (d_packages e)" "package_kept p p'" using assms(2) by (auto simp: db_forward_defs)
  with p show ?thesis by (auto simp: at_least_revoked_def package_kept_def)
qed

lemma upper_REVOKED: "upper ''REVOKED'' = ''REVOKED''" "lifecycle_rank ''REVOKED'' = 90"
  "''REVOKED'' \<in> set (map fst PACKAGE_LIFECYCLE_ORDER)"
  by code_simp+

lemma lifecycle_revokes:
  assumes "update_certificate_package_lifecycle q ''REVOKED'' actor details t d = (Inr row, d')"
    and "p \<in> set (d_packages d)" "pk_package p = q"
  shows "at_least_revoked d' q"
proof -
  let ?p = "\<lambda>p. pk_package p = q"
  obtain old where old: "find ?p (d_packages d) = Some old"
    using assms(2,3) by (cases "find ?p (d_packages d)") (auto simp: find_None_iff)
  define target where "target = (if 90 < lifecycle_rank (upper (pk_lifecycle old)) then upper (pk_lifecycle old) else ''REVOKED'')"
  have d': "d_packages d' = update_where ?p (set_lifecycle target) (d_packages d)"
    using assms(1) old upper_REVOKED
    by (auto simp: update_certificate_package_lifecycle_def insert_package_event_def Let_def target_def
        split: if_splits prod.splits sum.splits)
  have mem: "set_lifecycle target old \<in> set (d_packages d')" "?p (set_lifecycle target old)"
    using old unfolding d' set_update_where by (force dest: find_SomeD)+
  have "90 \<le> lifecycle_rank (upper (pk_lifecycle (set_lifecycle target old)))"
    by (simp add: set_lifecycle_def target_def upper_REVOKED)
  then show ?thesis using mem unfolding at_least_revoked_def by (intro bexI [OF _ mem(1)]) simp
qed

section \<open>The revocation\<close>

definition is_revoked :: "db \<Rightarrow> int \<Rightarrow> bool" where
  "is_revoked d i \<longleftrightarrow> (\<exists>c \<in> set (d_certs d). c_id c = i \<and> c_status c = ''revoked'' \<and> c_revoked c \<noteq> None)"

lemma is_revoked_forward:
  assumes "is_revoked d i" "db_forward d e"
  shows "is_revoked e i"
proof -
  obtain c where c: "c \<in> set (d_certs d)" "c_id c = i" "c_status c = ''revoked''" "c_revoked c \<noteq> None"
    using assms(1) by (auto simp: is_revoked_def)
  then obtain c' where "c' \<in> set (d_certs e)" "cert_kept c c'" using assms(2) by (auto simp: db_forward_defs)
  with c show ?thesis by (auto simp: is_revoked_def cert_kept_def)
qed

lemma mark_revokes:
  assumes "mark_certificate_revoked i t d = (Inr found, d')" "c \<in> set (d_certs d)" "c_id c = i"
  shows "is_revoked d' i"
proof -
  have "d_certs d' = update_where (\<lambda>c. c_id c = i) (revoke_row t) (d_certs d)"
    using assms(1) by (auto simp: mark_certificate_revoked_def Let_def)
  then have "revoke_row t c \<in> set (d_certs d')" using assms(2,3) by (auto simp: set_update_where)
  moreover have "c_id (revoke_row t c) = i \<and> c_status (revoke_row t c) = ''revoked'' \<and> c_revoked (revoke_row t c) \<noteq> None"
    using assms(3) by (simp add: revoke_row_def coalesce_def split: option.splits)
  ultimately show ?thesis unfolding is_revoked_def by blast
qed

lemma revoked_undesired:
  assumes "db_inv d" "is_revoked d i"
  shows "i \<notin> set (desired_trustlist_certificate_ids d zone role)"
proof
  assume "i \<in> set (desired_trustlist_certificate_ids d zone role)"
  then obtain k where k: "active_certificate_id_for_application d k = Some i"
    by (auto simp: desired_trustlist_certificate_ids_def map_filter_def)
  obtain c where c: "c \<in> set (d_certs d)" "c_id c = i" "c_status c = ''revoked''"
    using assms(2) by (auto simp: is_revoked_def)
  with live_unrevoked [OF assms(1) c(1)] k show False by (simp add: cert_live_def)
qed

text \<open>The target's list and artifact are of the same version, and the list is complete.\<close>

definition freshly_published :: "db \<Rightarrow> string \<Rightarrow> string \<Rightarrow> bool" where
  "freshly_published d zone role \<longleftrightarrow> (\<exists>l row. list_complete d zone role l
     \<and> latest_artifact d zone role = Some row \<and> ta_version row = tl_version l)"

lemma freshly_published_core:
  assumes "freshly_published (w_db w) zone role" "core w' = core w"
  shows "freshly_published (w_db w') zone role"
  using assms(1) unfolding freshly_published_def
  using list_complete_cong [OF core_trust_part [OF assms(2)]] latest_artifact_cong [OF core_artifacts [OF assms(2)]] by metis

lemma forced_publishes:
  assumes "get_or_regenerate_signed_artifact x g st zone role True src w = (Inr r, w')" "w_started w"
    "db_inv (w_db w)" "cache_ok w"
  shows "freshly_published (w_db w') zone role"
proof -
  obtain lst row art where r: "r = Some (lst, row, art)" using get_or_regenerate_found [OF assms] by blast
  from get_or_regenerate_outcome(1) [OF assms(1) [unfolded r] assms(3,4)] show ?thesis
    by (auto simp: artifact_outcome_def freshly_published_def)
qed

definition revocation_done :: "db \<Rightarrow> cert_view \<Rightarrow> string list \<Rightarrow> world \<Rightarrow> bool" where
  "revocation_done d v ids w' \<longleftrightarrow> (case v of (c, a) \<Rightarrow> is_revoked (w_db w') (c_id c)
     \<and> (\<forall>p \<in> set (d_packages d). pk_package p \<in> set ids \<longrightarrow> at_least_revoked (w_db w') (pk_package p))
     \<and> freshly_published (w_db w') (a_zone a) (a_role a) \<and> db_inv (w_db w'))"

lemma revocation_done_core:
  assumes "revocation_done d v ids w" "core w' = core w" "db_inv (w_db w')"
  shows "revocation_done d v ids w'"
proof -
  have "tables (w_db w') = tables (w_db w)" using assms(2) by (simp add: core_def)
  from tables_eqD [OF this] assms freshly_published_core [OF _ assms(2)] show ?thesis
    by (auto simp: revocation_done_def is_revoked_def at_least_revoked_def)
qed

lemma revoke_in_vault_frames [evolves_rules]:
  "evolves (same w_started) (revoke_in_vault st c serial)" "evolves (same core) (revoke_in_vault st c serial)"
  unfolding revoke_in_vault_def by (intro frame.combinators evolves_rules)+

lemma revoke_package_frame [evolves_rules]: "evolves (same w_started) (revoke_package c b actor cid q)"
  unfolding revoke_package_def by (intro frame.combinators evolves_rules)

lemma revoke_package_result:
  assumes "revoke_package c b actor cid q w = (Inr y, w')" "p \<in> set (d_packages (w_db w))" "pk_package p = q"
  shows "at_least_revoked (w_db w') q"
  using assms lifecycle_revokes unfolding revoke_package_def run_simps on_db_run by fastforce

lemma package_stays:
  assumes "p \<in> set (d_packages d)" "db_forward d e"
  shows "\<exists>p' \<in> set (d_packages e). pk_package p' = pk_package p"
  using assms by (force simp: db_forward_defs package_kept_def)

lemma carry_out_result:
  assumes run: "carry_out_revocation x g st (c, a) ids b actor cid serial w = (Inr rv, w')"
    and inv: "db_inv (w_db w)" "cache_ok w" and start: "w_started w" and c: "c \<in> set (d_certs (w_db w))"
  shows "revocation_done (w_db w) (c, a) ids w'"
proof -
  obtain al tm w1 marked w2 ys w3 l w4 found w5 crl w6 where
    v: "revoke_in_vault st c serial w = (Inr (al, tm), w1)" and
    m: "on_db (mark_certificate_revoked (c_id c)) w1 = (Inr marked, w2)" and
    p: "mapE (revoke_package c b actor cid) ids w2 = (Inr ys, w3)" and
    t: "on_db (build_trust_list (a_zone a) (a_role a)) w3 = (Inr l, w4)" and
    r: "get_or_regenerate_signed_artifact x g st (a_zone a) (a_role a) True ''api'' w4 = (Inr found, w5)" and
    k: "get_intermediate_crl x st w5 = (Inr crl, w6)" and w': "w' = w6"
    using run unfolding carry_out_revocation_def prod.case run_simps by auto
  have s1: "world_sound w w1" using v revocation_parts_sound(3) by (rule sound_run [rotated])
  have s2: "world_sound w1 w2" using m by (rule sound_run [rotated]) (intro evolves_rules)
  have s3: "world_sound w2 w3" using p by (rule sound_run [rotated]) (intro wsound.combinators evolves_rules)
  have s4: "world_sound w3 w4" using t by (rule sound_run [rotated]) (intro evolves_rules)
  have s5: "world_sound w4 w5" using r by (rule sound_run [rotated]) (intro evolves_rules)
  have s6: "world_sound w5 w6" using k by (rule sound_run [rotated]) (intro evolves_rules)
  note s = s1 s2 s3 s4 s5 s6
  have i1: "db_inv (w_db w1)" "cache_ok w1" "db_forward (w_db w) (w_db w1)" using s(1) inv by (auto simp: world_sound_def)
  have i2: "db_inv (w_db w2)" "cache_ok w2" "db_forward (w_db w1) (w_db w2)" using s(2) i1 by (auto simp: world_sound_def)
  have i3: "db_inv (w_db w3)" "cache_ok w3" "db_forward (w_db w2) (w_db w3)" using s(3) i2 by (auto simp: world_sound_def)
  have i4: "db_inv (w_db w4)" "cache_ok w4" "db_forward (w_db w3) (w_db w4)" using s(4) i3 by (auto simp: world_sound_def)
  have i5: "db_inv (w_db w5)" "db_forward (w_db w4) (w_db w5)" using s(5) i4 by (auto simp: world_sound_def)
  have i6: "db_inv (w_db w6)" "db_forward (w_db w5) (w_db w6)" using s(6) i5 by (auto simp: world_sound_def)
  have "tables (w_db w1) = tables (w_db w)" using same_run [OF revoke_in_vault_frames(2) v] by (simp add: core_def)
  from tables_eqD(2) [OF this] have "c \<in> set (d_certs (w_db w1))" using c by simp
  then have "is_revoked (w_db w2) (c_id c)" using m mark_revokes unfolding on_db_run by fastforce
  then have revoked: "is_revoked (w_db w6) (c_id c)" using i3(3) i4(3) i5(2) i6(2) is_revoked_forward by blast
  have packages: "at_least_revoked (w_db w6) (pk_package q)"
    if q: "q \<in> set (d_packages (w_db w))" "pk_package q \<in> set ids" for q
  proof -
    obtain u y u' where u: "revoke_package c b actor cid (pk_package q) u = (Inr y, u')" "world_sound w2 u" "world_sound u' w3"
      using mapE_run [OF p q(2)] revocation_parts_sound(4) by blast
    have fu: "db_forward (w_db w) (w_db u)" "db_inv (w_db u)"
      using u(2) i2 i1(3) forward.evo_trans by (auto simp: world_sound_def)
    then obtain q' where "q' \<in> set (d_packages (w_db u))" "pk_package q' = pk_package q" using package_stays q(1) by blast
    from revoke_package_result [OF u(1) this] have "at_least_revoked (w_db u') (pk_package q)" .
    moreover have "db_inv (w_db u')"
      using sound_run [OF revocation_parts_sound(4) u(1)] fu(2) by (auto simp: world_sound_def)
    moreover from this have "db_forward (w_db u') (w_db w3)" using u(3) by (simp add: world_sound_def)
    ultimately show ?thesis using i4(3) i5(2) i6(2) at_least_revoked_forward by blast
  qed
  have "w_started w4"
    using start same_run [OF revoke_in_vault_frames(1) v] same_run [OF started_prims(1) m]
      same_run [OF frame.mapE_evolves [OF revoke_package_frame] p] same_run [OF started_prims(1) t] by simp
  from forced_publishes [OF r this i4(1,2)] have "freshly_published (w_db w5) (a_zone a) (a_role a)" .
  moreover have core6: "core w6 = core w5" using k by (rule same_run [rotated]) (intro evolves_rules)
  ultimately have "freshly_published (w_db w6) (a_zone a) (a_role a)"
    using freshly_published_core core6 by blast
  with revoked packages i6(1) w' show ?thesis by (simp add: revocation_done_def)
qed

section \<open>The endpoint\<close>

text \<open>Every refusal and every failure answers with another status than 200.\<close>

lemma not_ok_status [simp]: "rs_status vault_sealed_response = 503"
  by (simp add: vault_sealed_response_def json_response_def)

lemma revocation_failed_status:
  "revocation_failed c actor cid e w = (Inr r, w') \<Longrightarrow> rs_status r \<noteq> 200"
  unfolding revocation_failed_def run_simps by (auto simp: ret_run bindE_Inr split: if_splits)

lemma audited_json:
  assumes "log_audit ty ac tg det w = (Inr u, w')"
  shows "json_ok (PDict det)" "core w' = core w" "world_sound w w'" "auth_view w' = auth_view w"
proof -
  show "json_ok (PDict det)"
    using assms unfolding log_audit_def on_db_run
    by (auto simp: audit_def json_dumps_def simp del: json_ok.simps split: sum.splits if_splits)
  show "core w' = core w" using assms by (rule same_run [rotated]) (rule evolves_rules)
  show "world_sound w w'" using assms by (rule sound_run [rotated]) (rule evolves_rules)
  show "auth_view w' = auth_view w" using assms by (rule same_run [rotated]) (rule evolves_rules)
qed

lemma revoke_found_ok:
  assumes "revoke_found x g st (c, a) sel b actor cid w = (Inr r, w')" "rs_status r = 200"
  obtains packages w1 w2 rv w3 where
    "query (list_certificate_packages_for_certificate (c_id c)) w = (Inr packages, w1)"
    "core w2 = core w1" "world_sound w1 w2"
    "carry_out_revocation x g st (c, a) (revoked_packages packages sel) b actor cid
       (strip (case c_serial c of None \<Rightarrow> [] | Some s \<Rightarrow> s)) w2 = (Inr rv, w3)"
    "r = revocation_response (c, a) (revoked_packages packages sel) rv" "json_ok (rv_time rv)"
    "core w' = core w3" "world_sound w3 w'"
proof -
  let ?serial = "strip (case c_serial c of None \<Rightarrow> [] | Some s \<Rightarrow> s)"
  have serial: "?serial \<noteq> []"
    using assms by (auto simp: revoke_found_def Let_def ret_run)
  obtain packages w1 w2 where
    q: "query (list_certificate_packages_for_certificate (c_id c)) w = (Inr packages, w1)" and
    l: "log_audit ''certificate_revocation_requested'' actor (''certificate:'' @ int_str (c_id c))
      (revocation_details c (revoked_packages packages sel) b cid) w1 = (Inr (), w2)" and
    t: "tryE (carry_out_revocation x g st (c, a) (revoked_packages packages sel) b actor cid ?serial)
      (revocation_failed c actor cid) (announce_revocation (c, a) (revoked_packages packages sel) b actor cid) w2 = (Inr r, w')"
    using assms(1) unfolding revoke_found_def Let_def prod.case if_not_P [OF serial] bindE_Inr by auto
  obtain rv w3 where
    r: "carry_out_revocation x g st (c, a) (revoked_packages packages sel) b actor cid ?serial w2 = (Inr rv, w3)" and
    n: "announce_revocation (c, a) (revoked_packages packages sel) b actor cid rv w3 = (Inr r, w')"
    using t revocation_failed_status assms(2) unfolding tryE_run by blast
  obtain w4 where
    a1: "log_audit ''certificate_revocation_crl_refreshed'' actor (''certificate:'' @ int_str (c_id c))
      (refreshed_details (c, a) (revoked_packages packages sel) b cid rv) w3 = (Inr (), w4)" and
    a2: "log_audit ''certificate_revoked'' actor (''certificate:'' @ int_str (c_id c))
      (revocation_details c (revoked_packages packages sel) b cid) w4 = (Inr (), w')" and
    e: "r = revocation_response (c, a) (revoked_packages packages sel) rv"
    using n unfolding announce_revocation_def Let_def fst_conv bindE_Inr ret_run by auto
  have "json_ok (rv_time rv)" using audited_json(1) [OF a1] by (simp add: refreshed_details_def)
  moreover have "core w' = core w3" using audited_json(2) [OF a1] audited_json(2) [OF a2] by simp
  moreover have "world_sound w3 w'" using audited_json(3) [OF a1] audited_json(3) [OF a2] by (rule wsound.evo_trans)
  ultimately show ?thesis using that [OF q audited_json(2,3) [OF l] r e] by blast
qed

end
