(* ===== verification/Revocation_Scenario.thy ===== *)
theory Revocation_Scenario
  imports Revocation_Facts Scenarios
begin

text \<open>
  A revocation in the sample environment, step by step: a verified request, a Vault that
  answers every call, and a database with one application and its active certificate.
\<close>

section \<open>Evaluation\<close>

text \<open>The texts of times are left unevaluated.\<close>

declare iso_z_def [code del] isoformat_def [code del]

lemma step_value: "fst r = Inr a \<Longrightarrow> r = (Inr a, snd r)"
  by (cases r) simp

lemma some_step: "map_sum id f (fst r) = Inr b \<Longrightarrow> \<exists>a. r = (Inr a, snd r) \<and> f a = b"
  by (cases r; cases "fst r") auto

section \<open>The scenario\<close>

definition revoke_req :: http_req where
  "revoke_req = \<lparr>hr_client = None, hr_path = ''/'',
     hr_headers = [''X-Forwarded-Proto'' \<mapsto> ''https'', ''X-Client-Cert-Verify'' \<mapsto> ''SUCCESS''], hr_correlation = []\<rparr>"

definition revoke_order :: revoke_body where
  "revoke_order = \<lparr>vb_certificate = Some 1, vb_package = None, vb_fingerprint = None, vb_operator = Some ''o'',
     vb_reason = ''r''\<rparr>"

definition revoke_reply :: reply where
  "revoke_reply = ok_reply\<lparr>r_json := Some (PDict [(''sealed'', PBool False), (''initialized'', PBool False),
     (''data'', PDict [(''revocation_time'', PInt 9)]),
     (''auth'', PDict [(''client_token'', PStr ''t''), (''lease_duration'', PInt 3600)])])\<rparr>"

definition serial_cert :: cert_row where
  "serial_cert = (demo_cert 1 ''active'')\<lparr>c_serial := Some ''0b''\<rparr>"

definition revoke_world :: world where
  "revoke_world = sample_world (demo_db [serial_cert])\<lparr>w_reply := (\<lambda>_. Inr revoke_reply)\<rparr>"

text \<open>The worlds between the steps.\<close>

definition rw1 :: world where
  "rw1 = snd (require_https_mtls sample_ext default_settings revoke_req revoke_world)"
definition rw2 :: world where
  "rw2 = snd (authorize_agent_pull default_settings revoke_req ''package_update'' None None None rw1)"
definition rw3 :: world where
  "rw3 = snd (require_vault_unsealed sample_ext default_settings rw2)"
definition rw4 :: world where
  "rw4 = snd (correlation_id revoke_req rw3)"
definition rw5 :: world where
  "rw5 = snd (resolve_revoke_certificate revoke_order rw4)"
definition rw6 :: world where
  "rw6 = snd (query (list_certificate_packages_for_certificate 1) rw5)"
definition rw7 :: world where
  "rw7 = snd (log_audit ''certificate_revocation_requested'' ''o'' ''certificate:1''
  (revocation_details serial_cert [] revoke_order ''0'') rw6)"
definition rw8 :: world where
  "rw8 = snd (revoke_in_vault default_settings serial_cert ''0b'' rw7)"
definition rw9 :: world where
  "rw9 = snd (on_db (mark_certificate_revoked 1) rw8)"
definition rw10 :: world where
  "rw10 = snd (on_db (build_trust_list ''DMZ'' ''client'') rw9)"
definition rw11 :: world where
  "rw11 = snd (get_or_regenerate_signed_artifact sample_ext sample_signer default_settings ''DMZ'' ''client'' True ''api'' rw10)"
definition rw12 :: world where
  "rw12 = snd (get_intermediate_crl sample_ext default_settings rw11)"

lemma guards_passed:
  "fst (require_https_mtls sample_ext default_settings revoke_req revoke_world) = Inr None"
  "fst (authorize_agent_pull default_settings revoke_req ''package_update'' None None None rw1) = Inr None"
  "fst (require_vault_unsealed sample_ext default_settings rw2) = Inr None"
  by code_simp+

lemma resolved:
  "map_sum id fst (fst (correlation_id revoke_req rw3)) = Inr ''0''"
  "fst (resolve_revoke_certificate revoke_order rw4) = Inr (Some (serial_cert, demo_app), None)"
  "fst (query (list_certificate_packages_for_certificate 1) rw5) = Inr []"
  by code_simp+

lemma recorded:
  "fst (log_audit ''certificate_revocation_requested'' ''o'' ''certificate:1''
    (revocation_details serial_cert [] revoke_order ''0'') rw6) = Inr ()"
  "fst (revoke_in_vault default_settings serial_cert ''0b'' rw7) = Inr (False, PInt 9)"
  "map_sum id (\<lambda>_. ()) (fst (on_db (mark_certificate_revoked 1) rw8)) = Inr ()"
  "map_sum id (\<lambda>_. ()) (fst (on_db (build_trust_list ''DMZ'' ''client'') rw9)) = Inr ()"
  by code_simp+

lemma signed_again: "map_sum id (\<lambda>_. ()) (fst (get_or_regenerate_signed_artifact sample_ext sample_signer
    default_settings ''DMZ'' ''client'' True ''api'' rw10)) = Inr ()"
  by code_simp

lemma crl_fetched: "(case get_intermediate_crl sample_ext default_settings rw11 of
     (r, w) \<Rightarrow> (map_sum id (\<lambda>p. map_sum id (\<lambda>_. ()) (crl_sha256_from_vault_payload sample_ext p)) r, w_conn w n))
   = (Inr (Inr ()), True)"
  by code_simp

lemma sample_carried:
  "\<exists>rv w'. carry_out_revocation sample_ext sample_signer default_settings (serial_cert, demo_app) [] revoke_order ''o'' ''0''
     ''0b'' rw7 = (Inr rv, w') \<and> rv_time rv = PInt 9 \<and> (\<forall>n. w_conn w' n)"
proof -
  obtain r8 where r8: "on_db (mark_certificate_revoked 1) rw8 = (Inr r8, rw9)"
    using some_step [OF recorded(3)] unfolding rw9_def by blast
  obtain r9 where r9: "on_db (build_trust_list ''DMZ'' ''client'') rw9 = (Inr r9, rw10)"
    using some_step [OF recorded(4)] unfolding rw10_def by blast
  obtain r10 where r10: "get_or_regenerate_signed_artifact sample_ext sample_signer default_settings ''DMZ'' ''client'' True
      ''api'' rw10 = (Inr r10, rw11)"
    using some_step [OF signed_again] unfolding rw11_def by blast
  obtain p where r11: "get_intermediate_crl sample_ext default_settings rw11 = (Inr p, rw12)"
    and sha: "map_sum id (\<lambda>_. ()) (crl_sha256_from_vault_payload sample_ext p) = Inr ()"
    using crl_fetched some_step [of _ "get_intermediate_crl sample_ext default_settings rw11"] unfolding rw12_def
    by (fastforce split: prod.splits)
  have conn: "\<forall>n. w_conn rw12 n"
  proof
    show "w_conn rw12 n" for n
      using crl_fetched [of n] unfolding rw12_def by (cases "get_intermediate_crl sample_ext default_settings rw11") simp
  qed
  obtain h where h: "crl_sha256_from_vault_payload sample_ext p = Inr h"
    using sha by (cases "crl_sha256_from_vault_payload sample_ext p") auto
  have "c_id serial_cert = 1" "a_zone demo_app = ''DMZ''" "a_role demo_app = ''client''"
    by (simp_all add: serial_cert_def demo_cert_def demo_app_def)
  with conn r8 r9 r10 r11 h step_value [OF recorded(2)] show ?thesis
    by (simp add: carry_out_revocation_def bindE_def ret_def lift_sum_def flip: rw8_def)
qed

lemma announce_ok:
  assumes "json_ok (rv_time rv)" "\<And>n. w_conn w n"
  shows "\<exists>r w'. announce_revocation v ids b actor cid rv w = (Inr r, w') \<and> rs_status r = 200"
proof -
  have "json_ok (PDict (refreshed_details v ids b cid rv))" "json_ok (PDict (revocation_details (fst v) ids b cid))"
    using assms by (auto simp: refreshed_details_def revocation_details_def strs_def split: prod.splits)
  then show ?thesis
    using assms(2) by (simp add: announce_revocation_def Let_def log_audit_def on_db_def audit_def json_dumps_def bindE_def ret_def
        revocation_response_def json_response_def split: prod.splits)
qed

lemma sample_revoked:
  "\<exists>r w'. post_revoke_certificate sample_ext sample_signer default_settings revoke_req revoke_order revoke_world = (Inr r, w')
     \<and> rs_status r = 200"
proof -
  obtain rv w' where carried: "carry_out_revocation sample_ext sample_signer default_settings (serial_cert, demo_app) []
      revoke_order ''o'' ''0'' ''0b'' rw7 = (Inr rv, w')" and time: "rv_time rv = PInt 9"
    and conn: "\<And>n. w_conn w' n"
    using sample_carried by blast
  have "json_ok (rv_time rv)" using time by simp
  from announce_ok [OF this conn] obtain r w'' where
    last: "announce_revocation (serial_cert, demo_app) [] revoke_order ''o'' ''0'' rv w' = (Inr r, w'')" "rs_status r = 200"
    by blast
  obtain req' where cid: "correlation_id revoke_req rw3 = (Inr (''0'', req'), rw4)"
    using some_step [OF resolved(1)] unfolding rw4_def by force
  have "c_id serial_cert = 1" "strip (case c_serial serial_cert of None \<Rightarrow> [] | Some s \<Rightarrow> s) = ''0b''"
    "given_text (vb_operator revoke_order)" "vb_operator revoke_order = Some ''o''" "''certificate:'' @ int_str 1 = ''certificate:1''"
    by code_simp+
  with last carried step_value [OF resolved(3)] step_value [OF recorded(1)]
  have "revoke_found sample_ext sample_signer default_settings (serial_cert, demo_app) None revoke_order ''o'' ''0'' rw5 = (Inr r, w'')"
    by (simp add: revoke_found_def Let_def bindE_def tryE_def revoked_packages_def flip: rw6_def rw7_def)
  with cid step_value [OF guards_passed(1)] step_value [OF guards_passed(2)] step_value [OF guards_passed(3)]
    step_value [OF resolved(2)] \<open>given_text (vb_operator revoke_order)\<close> \<open>vb_operator revoke_order = Some ''o''\<close>
  have "post_revoke_certificate sample_ext sample_signer default_settings revoke_req revoke_order revoke_world = (Inr r, w'')"
    by (simp add: post_revoke_certificate_def agent_endpoint_def unless_refused_def bindE_def tryE_def ret_def
        flip: rw1_def rw2_def rw3_def rw5_def)
  with last(2) show ?thesis by blast
qed

end
