(* ===== verification/Edge_Properties.thy ===== *)
theory Edge_Properties
  imports Scenarios Collector_Facts
begin

text \<open>
  The properties of the service's edges: which requests reach a handler, which agents may
  pull, who is kept from the administrative endpoints, and what leaves for the collector.
\<close>

section \<open>Requests\<close>



definition agent_req :: "string \<Rightarrow> http_req" where
  "agent_req token = \<lparr>hr_client = None, hr_path = ''/'',
     hr_headers = [''X-GDS-Agent-ID'' \<mapsto> ''a'', ''X-GDS-Agent-Token'' \<mapsto> token], hr_correlation = []\<rparr>"

definition agents_on :: settings where
  "agents_on = default_settings\<lparr>s_auth := (s_auth default_settings)\<lparr>agent_auth_enabled := True\<rparr>\<rparr>"

definition agents_world :: world where
  "agents_world = (sample_world empty_db)\<lparr>w_token_files := \<lambda>_. Some (1, Inr (PDict [(''a'', PStr ''t'')]))\<rparr>"


text \<open>C32: Agents are kept from the administrative endpoints: with agent authentication on, a
  request that carries an agent's identifier or token never passes the guard, not even with
  valid credentials.\<close>

theorem agents_never_pass_the_admin_guard:
  assumes "agent_auth_enabled (s_auth st)"
    and "header req ''X-GDS-Agent-ID'' \<noteq> [] \<or> header req ''X-GDS-Agent-Token'' \<noteq> []"
  shows "fst (deny_agent_on_admin_endpoint st req target w) \<noteq> Inr None"
  by (rule admin_guard [OF assms])

theorem agents_never_pass_the_admin_guard_witness:
  "fst (deny_agent_on_admin_endpoint agents_on (agent_req ''t'') ''x'' agents_world) \<noteq> Inr None"
proof -
  have "agent_auth_enabled (s_auth agents_on)" "header (agent_req ''t'') ''X-GDS-Agent-ID'' \<noteq> []" by code_simp+
  then show ?thesis using agents_never_pass_the_admin_guard by blast
qed

section \<open>Events\<close>

lemma redact_redacted: "redacted v \<Longrightarrow> redact_secrets v = v"
proof (induction v rule: redact_secrets.induct)
  case (1 kvs)
  then show ?case by (fastforce intro!: map_idI split: prod.splits if_splits)
next
  case (2 vs)
  then show ?case by (auto intro!: map_idI)
qed auto




text \<open>C35: The sender of events only reads: whatever the collector and the database answer, any
  number of turns leaves the database as it was, and the cursor over the audit log never
  moves back.\<close>

theorem sender_reads_and_moves_forward:
  "w_db (sn_world (snd (run_sender x fails st n s))) = w_db (sn_world s)
   \<and> sn_last_audit s \<le> sn_last_audit (snd (run_steps x fails st n s))"
  using run_sender_reads [of x fails st n] cursor_moves_forward [OF cursor_run_steps, of s x fails st n]
  by (simp add: evolves_def reads_def sender_db_def)

end
