(* ===== verification/Api_Properties.thy ===== *)
theory Api_Properties
  imports Revocation_Scenario Edge_Properties
begin

text \<open>
  The properties of the REST endpoints: who gets past their guards, what a revocation has
  done when it answers, telemetry and the advice components poll.
\<close>

section \<open>Agents\<close>



section \<open>Revocation\<close>

lemma vault_guard_passed:
  assumes "require_vault_unsealed x st w = (Inr None, w')"
  shows "w_started w" "core w' = core w" "world_sound w w'"
proof -
  show "w_started w" using assms unfolding require_vault_unsealed_def run_simps by (auto split: if_splits)
  have "evolves (same core) (require_vault_unsealed x st)"
    unfolding require_vault_unsealed_def by (intro frame.combinators evolves_rules)
  with assms show "core w' = core w" by (rule same_run [rotated])
  show "world_sound w w'" using assms by (rule sound_run [rotated]) (rule evolves_rules)
qed

lemma correlation_run:
  assumes "correlation_id req w = (Inr y, w')"
  shows "core w' = core w" "world_sound w w'"
proof -
  have "evolves (same core) (correlation_id req)"
    unfolding correlation_id_def by (intro frame.combinators evolves_rules)
  with assms show "core w' = core w" by (rule same_run [rotated])
  show "world_sound w w'" using assms by (rule sound_run [rotated]) (rule evolves_rules)
qed

abbreviation cert_views :: "db \<Rightarrow> cert_view set" where
  "cert_views d \<equiv> set (join_apps c_app (d_certs d) (d_apps d))"

lemma certificate_queries:
  "query (get_certificate i) w = (Inr (Some v), w') \<Longrightarrow> v \<in> cert_views (w_db w)"
  "query (get_certificate_by_fingerprint f) w = (Inr (Some v), w') \<Longrightarrow> v \<in> cert_views (w_db w)"
  by (drule query_run; auto simp: get_certificate_def get_certificate_by_fingerprint_def ret_def find_Some_iff;
      metis nth_mem)+

lemma resolve_run:
  assumes "resolve_revoke_certificate b w = (Inr (Some v, sel), w')"
  shows "v \<in> cert_views (w_db w)" "core w' = core w" "world_sound w w'"
    "\<And>i. vb_certificate b = Some i \<Longrightarrow> i \<noteq> 0 \<Longrightarrow> c_id (fst v) = i"
proof -
  have db: "query (get_certificate_package q) w = (Inr y, w1) \<Longrightarrow> w_db w1 = w_db w" for q y w1
    by (drule query_run) simp_all
  have "query (get_certificate i) u = (Inr (Some v), w') \<Longrightarrow> c_id (fst v) = i" for i u
    by (drule query_run) (auto simp: get_certificate_def ret_def dest!: find_SomeD)
  then show "vb_certificate b = Some i \<Longrightarrow> i \<noteq> 0 \<Longrightarrow> c_id (fst v) = i" for i
    using assms unfolding resolve_revoke_certificate_def run_simps
    by (auto simp: selectors_given_def given_id_def split: if_splits)
  show "v \<in> cert_views (w_db w)"
    using assms certificate_queries db unfolding resolve_revoke_certificate_def run_simps
    by (auto; metis)
  have "evolves (same core) (resolve_revoke_certificate b)"
    unfolding resolve_revoke_certificate_def by (intro frame.combinators evolves_rules; simp)
  with assms show "core w' = core w" by (rule same_run [rotated])
  show "world_sound w w'" using assms by (rule sound_run [rotated]) (rule evolves_rules)
qed

lemma authorize_run:
  assumes "authorize_agent_pull st req access zone role uri w = (r, w')"
  shows "core w' = core w" "world_sound w w'"
proof -
  show "core w' = core w" using assms by (rule same_run [rotated]) (rule evolves_rules)
  show "world_sound w w'" using assms by (rule sound_run [rotated]) (rule evolves_rules)
qed

lemma refusals_not_ok:
  "require_https_mtls x st req w = (Inr (Some r), w') \<Longrightarrow> rs_status r \<noteq> 200"
  "authorize_agent_pull st req access zone role uri w = (Inr (Some r), w') \<Longrightarrow> rs_status r \<noteq> 200"
  "require_vault_unsealed x st w = (Inr (Some r), w') \<Longrightarrow> rs_status r \<noteq> 200"
proof -
  show "require_https_mtls x st req w = (Inr (Some r), w') \<Longrightarrow> rs_status r \<noteq> 200"
    using require_outcome(3) by fastforce
  show "require_vault_unsealed x st w = (Inr (Some r), w') \<Longrightarrow> rs_status r \<noteq> 200"
    unfolding require_vault_unsealed_def run_simps tryE_run by (auto simp: json_response_def split: if_splits)
  assume run: "authorize_agent_pull st req access zone role uri w = (Inr (Some r), w')"
  have on: "agent_auth_enabled (s_auth st)"
    by (rule ccontr) (use run in \<open>simp add: authorize_agent_pull_def Let_def ret_run\<close>)
  show "rs_status r \<noteq> 200"
  proof (cases "w_started w")
    case True
    from authorize_outcome [OF on this run] show ?thesis by (auto simp: agent_checks_def)
  next
    case False
    with run on show ?thesis by (auto simp: authorize_agent_pull_def Let_def bindE_Inr getE_run ret_run json_response_def)
  qed
qed

lemma value_error_run:
  "(case e of ValueError m \<Rightarrow> ret (f m) | _ \<Rightarrow> raise e) w = (Inr y, w') \<Longrightarrow> \<exists>m. e = ValueError m \<and> y = f m"
  by (cases e) (auto simp: ret_run raise_run)

lemma unless_ok:
  assumes "unless_refused gd m w = (Inr r, w')" "\<And>u. gd w \<noteq> (Inr (Some r), u)"
  shows "\<exists>w1. gd w = (Inr None, w1) \<and> m w1 = (Inr r, w')"
  using assms unless_run(1) by metis

lemma revoke_endpoint_ok:
  assumes "post_revoke_certificate x g st req b w = (Inr r, w')" "rs_status r = 200"
  obtains c a sel actor cid w1 where "(c, a) \<in> cert_views (w_db w)" "core w1 = core w" "world_sound w w1" "w_started w"
    "revoke_found x g st (c, a) sel b actor cid w1 = (Inr r, w')"
    "\<And>i. vb_certificate b = Some i \<Longrightarrow> i \<noteq> 0 \<Longrightarrow> c_id c = i"
proof -
  let ?actor = "if given_text (vb_operator b) then the (vb_operator b) else agent_id_from_request req"
  let ?rest = "bindE (correlation_id req) (\<lambda>(cid, _). bindE (tryE (resolve_revoke_certificate b)
           (\<lambda>e. case e of ValueError m \<Rightarrow> ret (Inl (api_error 400 m m)) | _ \<Rightarrow> raise e)
           (\<lambda>found. ret (Inr found))) (\<lambda>found. case found of
         Inl r \<Rightarrow> ret r
       | Inr (None, _) \<Rightarrow> ret (api_error 404 ''certificate not found'' ''certificate_not_found'')
       | Inr (Some v, selected) \<Rightarrow> revoke_found x g st v selected b ?actor cid))"
  have run: "unless_refused (require_https_mtls x st req)
      (unless_refused (authorize_agent_pull st req ''package_update'' None None None)
        (unless_refused (require_vault_unsealed x st) ?rest)) w = (Inr r, w')"
    using assms(1) unfolding post_revoke_certificate_def agent_endpoint_def Let_def .
  obtain w1 where g1: "require_https_mtls x st req w = (Inr None, w1)" and
    r1: "unless_refused (authorize_agent_pull st req ''package_update'' None None None)
        (unless_refused (require_vault_unsealed x st) ?rest) w1 = (Inr r, w')"
    using unless_ok [OF run] refusals_not_ok(1) assms(2) by blast
  obtain w2 where g2: "authorize_agent_pull st req ''package_update'' None None None w1 = (Inr None, w2)" and
    r2: "unless_refused (require_vault_unsealed x st) ?rest w2 = (Inr r, w')"
    using unless_ok [OF r1] refusals_not_ok(2) assms(2) by blast
  obtain w3 where g3: "require_vault_unsealed x st w2 = (Inr None, w3)" and rest: "?rest w3 = (Inr r, w')"
    using unless_ok [OF r2] refusals_not_ok(3) assms(2) by blast
  obtain y w4 where k0: "correlation_id req w3 = (Inr y, w4)" and
    r4: "(case y of (cid, _) \<Rightarrow> bindE (tryE (resolve_revoke_certificate b)
           (\<lambda>e. case e of ValueError m \<Rightarrow> ret (Inl (api_error 400 m m)) | _ \<Rightarrow> raise e)
           (\<lambda>found. ret (Inr found))) (\<lambda>found. case found of
         Inl r \<Rightarrow> ret r
       | Inr (None, _) \<Rightarrow> ret (api_error 404 ''certificate not found'' ''certificate_not_found'')
       | Inr (Some v, selected) \<Rightarrow> revoke_found x g st v selected b ?actor cid)) w4 = (Inr r, w')"
    using iffD1 [OF bindE_Inr rest] by blast
  obtain cid req' where y: "y = (cid, req')" by (cases y)
  note k = k0 [unfolded y]
  obtain found w5 where
    t: "tryE (resolve_revoke_certificate b) (\<lambda>e. case e of ValueError m \<Rightarrow> ret (Inl (api_error 400 m m)) | _ \<Rightarrow> raise e)
           (\<lambda>found. ret (Inr found)) w4 = (Inr found, w5)" and
    c: "(case found of Inl r \<Rightarrow> ret r
       | Inr (None, _) \<Rightarrow> ret (api_error 404 ''certificate not found'' ''certificate_not_found'')
       | Inr (Some v, selected) \<Rightarrow> revoke_found x g st v selected b ?actor cid) w5 = (Inr r, w')"
    using iffD1 [OF bindE_Inr r4 [unfolded y prod.case]] by blast
  have "\<exists>e. found = Inl (api_error 400 e e)" if "found = Inl resp" for resp
    using t that unfolding tryE_run ret_run by (auto dest!: value_error_run)
  with c assms(2) obtain p sel where found: "found = Inr (p, sel)"
    by (cases found) (auto simp: ret_run)
  with c assms(2) obtain v where p: "p = Some v" by (cases p) (auto simp: ret_run)
  have run: "resolve_revoke_certificate b w4 = (Inr (Some v, sel), w5)"
    using t unfolding found p tryE_run ret_run by (auto dest!: value_error_run)
  have core: "core w1 = core w" "core w2 = core w1" "core w3 = core w2" "core w4 = core w3" "core w5 = core w4"
    using certified_passage [OF g1] authorize_run [OF g2] vault_guard_passed [OF g3] correlation_run [OF k]
      resolve_run [OF run] by simp_all
  have "world_sound w w1" using g1 by (rule sound_run [rotated]) (rule evolves_rules)
  then have sound: "world_sound w w5"
    using authorize_run(2) [OF g2] vault_guard_passed(3) [OF g3] correlation_run(2) [OF k] resolve_run(3) [OF run]
      wsound.evo_trans by blast
  have "tables (w_db w4) = tables (w_db w)" "w_started w" using core vault_guard_passed(1) [OF g3] by (auto simp: core_def)
  moreover obtain c a where v: "v = (c, a)" by (cases v)
  ultimately have "(c, a) \<in> cert_views (w_db w)" using resolve_run(1) [OF run] tables_eqD(1,2) by metis
  then show ?thesis using that sound core c v resolve_run(4) [OF run] \<open>w_started w\<close> by (simp add: found p)
qed





end
