(* ===== verification/Agent_Core.thy ===== *)
theory Agent_Core
  imports Vault
begin

text \<open>
  The shared part of \<open>gds-agent/app/main.py\<close>, the agent that pulls trust material for the
  OPC UA runtimes of a zone: the environment, operations on untyped JSON values, the
  catalogue of runtimes, the canonical documents and the index of certificates. The agent is
  a program of its own; functions it shares in name with the service carry the suffix
  \<open>_agent\<close>.
\<close>

section \<open>Environment\<close>

definition env_agent :: "environ \<Rightarrow> string \<Rightarrow> string \<Rightarrow> string" where
  "env_agent env name dflt = (case env name of None \<Rightarrow> dflt | Some v \<Rightarrow> if v = [] then dflt else v)"

definition env_int_agent :: "environ \<Rightarrow> string \<Rightarrow> int \<Rightarrow> exn + int" where
  "env_int_agent env name dflt = (case env name of None \<Rightarrow> Inr dflt
     | Some v \<Rightarrow> if v = [] then Inr dflt
         else case parse_int v of None \<Rightarrow> Inl (ValueError ''int'') | Some i \<Rightarrow> Inr i)"

definition env_bool_agent :: "environ \<Rightarrow> string \<Rightarrow> bool \<Rightarrow> bool" where
  "env_bool_agent env name dflt = (case env name of None \<Rightarrow> dflt
     | Some v \<Rightarrow> lower (strip v) \<in> {''1'', ''true'', ''yes'', ''on''})"

section \<open>Untyped values\<close>

text \<open>What Python does with a value of unexpected type: \<open>v.get\<close>, \<open>v[k]\<close>, \<open>k in v\<close>, \<open>for x in v\<close>,
  \<open>len(v)\<close>, \<open>v.encode()\<close> and the use of a value as the key of a dictionary.\<close>

definition need_dict :: "pyval \<Rightarrow> exn + pydict" where
  "need_dict v = (case v of PDict d \<Rightarrow> Inr d | _ \<Rightarrow> Inl (AttributeError ''get''))"

definition need_str :: "pyval \<Rightarrow> exn + string" where
  "need_str v = (case v of PStr s \<Rightarrow> Inr s | _ \<Rightarrow> Inl (AttributeError ''str''))"

definition py_index :: "pyval \<Rightarrow> string \<Rightarrow> exn + pyval" where
  "py_index v k = (case v of
     PDict d \<Rightarrow> (case map_of d k of None \<Rightarrow> Inl (KeyError k) | Some y \<Rightarrow> Inr y)
   | _ \<Rightarrow> Inl (TypeError ''subscript''))"

definition py_in :: "string \<Rightarrow> pyval \<Rightarrow> exn + bool" where
  "py_in k v = (case v of
     PStr s \<Rightarrow> Inr (str_contains k s)
   | PList vs \<Rightarrow> Inr (PStr k \<in> set vs)
   | PDict d \<Rightarrow> Inr (dmem k d)
   | _ \<Rightarrow> Inl (TypeError ''not iterable''))"

definition py_iter :: "pyval \<Rightarrow> exn + pyval list" where
  "py_iter v = (case v of
     PList vs \<Rightarrow> Inr vs
   | PDict d \<Rightarrow> Inr (map (PStr \<circ> fst) d)
   | PStr s \<Rightarrow> Inr (map (\<lambda>c. PStr [c]) s)
   | _ \<Rightarrow> Inl (TypeError ''not iterable''))"

definition py_len :: "pyval \<Rightarrow> exn + nat" where
  "py_len v = (case v of
     PList vs \<Rightarrow> Inr (length vs) | PDict d \<Rightarrow> Inr (length d) | PStr s \<Rightarrow> Inr (length s)
   | _ \<Rightarrow> Inl (TypeError ''len''))"

definition dicts_of :: "pyval \<Rightarrow> pydict list" where
  \<comment> \<open>the objects of a list; nothing of any other value\<close>
  "dicts_of v = (case v of PList vs \<Rightarrow> map as_dict (filter is_dict vs) | _ \<Rightarrow> [])"

definition hashable_key :: "pyval \<Rightarrow> bool" where
  "hashable_key v = (case v of PList _ \<Rightarrow> False | PDict _ \<Rightarrow> False | _ \<Rightarrow> True)"

fun mapS :: "('a \<Rightarrow> exn + 'b) \<Rightarrow> 'a list \<Rightarrow> exn + 'b list" where
  "mapS f [] = Inr []"
| "mapS f (x # xs) = bindS (f x) (\<lambda>y. bindS (mapS f xs) (\<lambda>ys. Inr (y # ys)))"

definition ensureS :: "bool \<Rightarrow> exn \<Rightarrow> exn + unit" where
  \<comment> \<open>\<open>if not b: raise e\<close>\<close>
  "ensureS b e = (if b then Inr () else Inl e)"

definition guardS :: "exn + unit \<Rightarrow> exn + 'a \<Rightarrow> exn + 'a" where
  \<comment> \<open>one check after the other\<close>
  "guardS check rest = bindS check (\<lambda>_. rest)"

lemma ensureS_Inr [simp]: "ensureS b e = Inr u \<longleftrightarrow> b"
  by (simp add: ensureS_def)

lemma guardS_Inr [simp]: "guardS c m = Inr y \<longleftrightarrow> c = Inr () \<and> m = Inr y"
  by (cases c) (auto simp: guardS_def)

lemma mapS_Inr: "mapS f xs = Inr ys \<longleftrightarrow> list_all2 (\<lambda>x y. f x = Inr y) xs ys"
  by (induction xs arbitrary: ys) (auto simp: bindS_Inr list_all2_Cons1)

section \<open>Texts\<close>

definition parse_runtime_targets :: "string \<Rightarrow> string list" where
  "parse_runtime_targets raw = filter (\<lambda>p. p \<noteq> []) (map strip (split_on (CHR '','') raw))"

definition parse_csv :: "string \<Rightarrow> string list" where
  "parse_csv raw = map strip (filter (\<lambda>p. strip p \<noteq> []) (split_on (CHR '','') raw))"

definition parse_rfc3339_utc :: "ext \<Rightarrow> string \<Rightarrow> exn + int" where
  "parse_rfc3339_utc x value = (case k_parse_iso x (replace_all ''Z'' ''+00:00'' value) of
     None \<Rightarrow> Inl (ValueError ''isoformat'') | Some t \<Rightarrow> Inr t)"

definition truncate_text_agent :: "string \<Rightarrow> int \<Rightarrow> string" where
  "truncate_text_agent value max_len =
     (if max_len \<le> 0 \<or> int (length value) \<le> max_len then value
      else take (nat max_len) value @ ''...[truncated]'')"

fun scrub :: "pyval \<Rightarrow> pyval" where
  "scrub (PDict kvs) = PDict (map (\<lambda>(k, v). (k,
     if lower k \<in> set [''pem'', ''ca_chain_pem'', ''crl_base64'', ''token'', ''vault_token'', ''role_id'', ''secret_id'',
          ''private_key''] then PStr ''[redacted]'' else scrub v)) kvs)"
| "scrub (PList vs) = PList (map scrub vs)"
| "scrub v = v"

definition sanitize_payload :: "pydict \<Rightarrow> pyval" where
  "sanitize_payload payload = scrub (PDict payload)"

section \<open>Canonical documents\<close>

definition canonical_json_bytes_agent :: "pyval \<Rightarrow> exn + string" where
  "canonical_json_bytes_agent payload =
     (if json_ok payload then Inr (json_enc (sort_keys payload)) else Inl (TypeError ''not JSON serializable''))"

definition canonical_package_manifest_agent :: "pydict \<Rightarrow> pydict" where
  "canonical_package_manifest_agent manifest = ddel ''signature'' (dput ''manifest_sha256'' (PStr []) manifest)"

definition package_manifest_sha256 :: "ext \<Rightarrow> pydict \<Rightarrow> exn + string" where
  "package_manifest_sha256 x manifest =
     bindS (canonical_json_bytes_agent (PDict (canonical_package_manifest_agent manifest))) (\<lambda>b. Inr (k_sha256 x b))"

definition canonical_artifact_payload_agent :: "pydict \<Rightarrow> pydict" where
  "canonical_artifact_payload_agent artifact =
     (let payload = [(''artifact_type'', dget artifact ''artifact_type''), (''schema_version'', dget artifact ''schema_version''),
            (''zone'', dget artifact ''zone''), (''role'', dget artifact ''role''), (''version'', dget artifact ''version''),
            (''artifact_revision'', dget artifact ''artifact_revision''),
            (''artifact_reason'', dget artifact ''artifact_reason''), (''generated_at'', dget artifact ''generated_at''),
            (''expires_at'', dget artifact ''expires_at''), (''ca_chain_pem'', dget artifact ''ca_chain_pem''),
            (''crl_base64'', dget artifact ''crl_base64''),
            (''certificates'', dget_or artifact ''certificates'' (PList [])),
            (''signer'', dget_or artifact ''signer'' (PDict []))];
          payload1 = (if dmem ''crl_bundle'' artifact
            then dput ''crl_bundle'' (dget_or artifact ''crl_bundle'' (PDict [])) payload else payload)
      in if dmem ''crl_metadata'' artifact
         then dput ''crl_metadata'' (dget_or artifact ''crl_metadata'' (PDict [])) payload1 else payload1)"

definition normalize_signed_artifact_for_verification :: "pydict \<Rightarrow> pydict" where
  "normalize_signed_artifact_for_verification artifact = ddel ''ttl_remaining_seconds'' artifact"

end
