(* ===== verification/Agent_Verify.thy ===== *)
theory Agent_Verify
  imports Agent_Core
begin

text \<open>
  What the agent checks before it believes anything: the trust anchor of the service, signed
  trust list artifacts, certificate packages, and the content of a trust list.
\<close>

section \<open>Public keys\<close>

text \<open>Third-party functions on keys: \<open>load_pem_public_key\<close> (the key and whether it is an Ed25519
  key), its DER encoding, and the verification of a signature over a message.\<close>

record agent_ext =
  v_load_public :: "string \<Rightarrow> (string \<times> bool) option"
  v_public_der :: "string \<Rightarrow> string"
  v_verify :: "string \<Rightarrow> string \<Rightarrow> string \<Rightarrow> bool"

abbreviation malformed :: "string \<Rightarrow> exn" where
  "malformed m \<equiv> ArtifactVerificationError ''malformed_artifact'' m"

section \<open>The trust anchor\<close>

definition check_trust_anchor :: "pyval \<Rightarrow> exn + pyval" where
  "check_trust_anchor anchor =
     bindS (mapS (\<lambda>key. bindS (py_in key anchor) (\<lambda>found.
         ensureS found (malformed (''trust anchor missing field: '' @ key))))
       [''key_id'', ''algorithm'', ''public_key_pem'', ''fingerprint_sha256'']) (\<lambda>_.
     bindS (py_index anchor ''algorithm'') (\<lambda>alg.
       guardS (ensureS (lower (py_str alg) = ''ed25519'')
         (ArtifactVerificationError ''unsupported_signer'' (''unsupported trust anchor algorithm: '' @ py_str alg)))
       (Inr anchor)))"

definition verify_trust_anchor_fingerprint ::
  "ext \<Rightarrow> agent_ext \<Rightarrow> pydict \<Rightarrow> string \<Rightarrow> exn + (string \<times> string)" where
  "verify_trust_anchor_fingerprint x y anchor pinned =
     bindS (py_index (PDict anchor) ''public_key_pem'') (\<lambda>p. bindS (need_str p) (\<lambda>pem.
       case v_load_public y pem of
         None \<Rightarrow> Inl (ValueError ''public key'')
       | Some (pub, ed25519) \<Rightarrow>
         guardS (ensureS ed25519
           (ArtifactVerificationError ''unsupported_signer'' ''trust anchor public key is not Ed25519''))
         (let fp = sha256_hex x (v_public_der y pub) in
          guardS (ensureS (lower fp = lower (get_str anchor ''fingerprint_sha256''))
            (ArtifactVerificationError ''signer_fingerprint_mismatch''
               ''trust anchor fingerprint mismatch with provided public key''))
          (guardS (ensureS (pinned = [] \<or> lower fp = lower pinned)
            (ArtifactVerificationError ''signer_fingerprint_mismatch''
               ''trust anchor fingerprint does not match pinned fingerprint''))
          (Inr (pub, fp))))))"

section \<open>Signed artifacts\<close>

definition text_mismatch :: "string \<Rightarrow> pyval \<Rightarrow> string \<Rightarrow> string" where
  "text_mismatch what found expected = ''artifact '' @ what @ '' mismatch: '' @ py_str found @ '' != '' @ expected"

definition artifact_head_ok :: "pydict \<Rightarrow> string \<Rightarrow> string \<Rightarrow> exn + unit" where
  "artifact_head_ok artifact zone role =
     guardS (ensureS (dget artifact ''zone'' = PStr zone) (malformed (text_mismatch ''zone'' (dget artifact ''zone'') zone)))
     (guardS (ensureS (dget artifact ''role'' = PStr role) (malformed (text_mismatch ''role'' (dget artifact ''role'') role)))
     (guardS (ensureS (lower (get_str artifact ''artifact_type'') = ''opcua_trustlist'')
        (malformed ''artifact_type must be opcua_trustlist''))
     (ensureS (dget artifact ''artifact_revision'' \<noteq> PNone) (malformed ''artifact_revision missing from artifact''))))"

definition artifact_signer_ok :: "pydict \<Rightarrow> string \<Rightarrow> exn + unit" where
  "artifact_signer_ok artifact fp =
     bindS (need_dict (dget_or artifact ''signer'' (PDict []))) (\<lambda>signer.
       let alg = lower (get_str signer ''algorithm'') in
       guardS (ensureS (alg = [] \<or> alg = ''ed25519'') (ArtifactVerificationError ''unsupported_signer''
          (''unsupported artifact signer algorithm: '' @ py_str (dget signer ''algorithm''))))
       (ensureS (lower (get_str signer ''fingerprint_sha256'') = lower fp)
          (ArtifactVerificationError ''signer_fingerprint_mismatch''
             ''artifact signer fingerprint does not match pinned trust anchor'')))"

definition signature_signer_ok :: "pydict \<Rightarrow> string \<Rightarrow> exn + unit" where
  "signature_signer_ok signature fp =
     bindS (need_dict (dget_or signature ''signer'' (PDict []))) (\<lambda>signer.
       let alg = lower (get_str signer ''algorithm''); sfp = lower (get_str signer ''fingerprint_sha256'') in
       guardS (ensureS (alg = [] \<or> alg = ''ed25519'') (ArtifactVerificationError ''unsupported_signer''
          (''unsupported signature signer algorithm: '' @ py_str (dget signer ''algorithm''))))
       (ensureS (sfp = [] \<or> sfp = lower fp)
          (ArtifactVerificationError ''signer_fingerprint_mismatch''
             ''signature signer fingerprint does not match pinned trust anchor'')))"

definition numbers_agree :: "pydict \<Rightarrow> pydict \<Rightarrow> string \<Rightarrow> string \<Rightarrow> exn + unit" where
  "numbers_agree signature artifact k message =
     (if dget signature k = PNone then Inr ()
      else bindS (py_int (dget signature k)) (\<lambda>i. bindS (py_int (dget artifact k)) (\<lambda>j.
             ensureS (i = j) (malformed message))))"

definition times_agree :: "ext \<Rightarrow> pydict \<Rightarrow> pydict \<Rightarrow> string \<Rightarrow> exn + unit" where
  "times_agree x signature artifact k =
     (if \<not> truthy (dget signature k) then Inr ()
      else bindS (parse_rfc3339_utc x (py_str (dget signature k))) (\<lambda>s.
           bindS (parse_rfc3339_utc x (py_str (dget artifact k))) (\<lambda>a.
             ensureS (s = a) (malformed (''signature '' @ k @ '' does not match artifact '' @ k)))))"

definition detached_signature :: "ext \<Rightarrow> pydict \<Rightarrow> exn + string" where
  "detached_signature x signature =
     (let v = dget signature ''signature_base64'' in
      if \<not> truthy v then Inl (malformed ''missing detached signature'')
      else case (case v of PStr s \<Rightarrow> k_b64decode x s | PBytes s \<Rightarrow> k_b64decode x s | _ \<Rightarrow> None) of
        None \<Rightarrow> Inl (malformed ''invalid detached signature encoding'')
      | Some sig \<Rightarrow> Inr sig)"

definition verify_signed_artifact ::
  "ext \<Rightarrow> agent_ext \<Rightarrow> pydict \<Rightarrow> pydict \<Rightarrow> string \<Rightarrow> string \<Rightarrow> string \<Rightarrow> string \<Rightarrow> exn + (string \<times> nat)" where
  "verify_signed_artifact x y artifact0 signature zone role pub fp =
     (let artifact = normalize_signed_artifact_for_verification artifact0 in
      guardS (artifact_head_ok artifact zone role)
      (guardS (artifact_signer_ok artifact fp)
      (guardS (signature_signer_ok signature fp)
      (bindS (canonical_json_bytes_agent (PDict (canonical_artifact_payload_agent artifact))) (\<lambda>canonical.
        let digest = sha256_hex x canonical; declared = lower (get_str signature ''artifact_sha256'') in
        guardS (ensureS (declared = [] \<or> declared = lower digest)
          (ArtifactVerificationError ''canonical_hash_mismatch'' ''artifact hash mismatch''))
        (guardS (numbers_agree signature artifact ''version'' ''signature version does not match artifact version'')
        (guardS (numbers_agree signature artifact ''artifact_revision''
           ''signature artifact_revision does not match artifact artifact_revision'')
        (guardS (times_agree x signature artifact ''generated_at'')
        (guardS (times_agree x signature artifact ''expires_at'')
        (bindS (detached_signature x signature) (\<lambda>sig.
         guardS (ensureS (v_verify y pub sig canonical)
           (ArtifactVerificationError ''signature_invalid'' ''detached signature verification failed''))
         (Inr (digest, length canonical)))))))))))))"

section \<open>Certificate packages\<close>

definition package_signer_ok :: "pydict \<Rightarrow> string \<Rightarrow> exn + unit" where
  "package_signer_ok manifest fp =
     (case dget_or manifest ''signer'' (PDict []) of
       PDict signer \<Rightarrow>
         guardS (ensureS (lower (get_str signer ''algorithm'') = ''ed25519'')
           (ArtifactVerificationError ''unsupported_signer'' ''unsupported package signer algorithm''))
         (ensureS (lower (get_str signer ''fingerprint_sha256'') = lower fp)
           (ArtifactVerificationError ''signer_fingerprint_mismatch''
              ''package signer fingerprint does not match pinned trust anchor''))
     | _ \<Rightarrow> Inl (ArtifactVerificationError ''malformed_package'' ''missing package signer''))"

definition file_hash_ok :: "string \<times> pyval \<Rightarrow> bool" where
  "file_hash_ok kv = (case snd kv of PStr v \<Rightarrow> length v = 64 | _ \<Rightarrow> False)"

definition file_tree_ok :: "pydict \<Rightarrow> exn + unit" where
  "file_tree_ok manifest =
     (case dget_or manifest ''files_sha256'' (PDict []) of
       PDict files \<Rightarrow> ensureS (list_all file_hash_ok files)
         (ArtifactVerificationError ''malformed_package'' ''invalid package file hash tree'')
     | _ \<Rightarrow> Inl (ArtifactVerificationError ''malformed_package'' ''files_sha256 must be an object''))"

definition manifest_signature_ok :: "ext \<Rightarrow> agent_ext \<Rightarrow> pydict \<Rightarrow> pydict \<Rightarrow> string \<Rightarrow> string \<Rightarrow> exn + unit" where
  "manifest_signature_ok x y manifest signature pub fp =
     bindS (need_dict (dget_or signature ''signer'' (PDict []))) (\<lambda>signer.
       guardS (ensureS (lower (get_str signer ''fingerprint_sha256'') = lower fp)
         (ArtifactVerificationError ''signer_fingerprint_mismatch''
            ''package signature signer fingerprint does not match pinned trust anchor''))
       (let b64 = strip (get_str signature ''signature_base64'') in
        guardS (ensureS (b64 \<noteq> []) (ArtifactVerificationError ''malformed_package'' ''missing package manifest signature''))
        (case k_b64decode x b64 of
           None \<Rightarrow> Inl (ValueError ''base64'')
         | Some sig \<Rightarrow> bindS (canonical_json_bytes_agent (PDict (canonical_package_manifest_agent manifest))) (\<lambda>bytes.
             ensureS (v_verify y pub sig bytes)
               (ArtifactVerificationError ''signature_invalid'' ''package manifest signature verification failed'')))))"

definition verify_certificate_package_manifest ::
  "ext \<Rightarrow> agent_ext \<Rightarrow> pydict \<Rightarrow> pydict \<Rightarrow> string \<Rightarrow> string \<Rightarrow> exn + string" where
  "verify_certificate_package_manifest x y manifest signature pub fp =
     guardS (ensureS (dget manifest ''schema'' = PStr ''labshock_certificate_package_v1'')
       (ArtifactVerificationError ''malformed_package'' ''unsupported package schema''))
     (guardS (ensureS (strip (get_str manifest ''package_id'') \<noteq> [])
       (ArtifactVerificationError ''malformed_package'' ''missing package_id''))
     (guardS (package_signer_ok manifest fp)
     (guardS (ensureS (lower (get_str signature ''manifest_sha256'') = lower (get_str manifest ''manifest_sha256''))
       (ArtifactVerificationError ''canonical_hash_mismatch'' ''package signature hash does not match manifest hash''))
     (bindS (package_manifest_sha256 x manifest) (\<lambda>digest.
       guardS (ensureS (lower digest = lower (get_str manifest ''manifest_sha256''))
         (ArtifactVerificationError ''canonical_hash_mismatch'' ''package manifest hash mismatch''))
       (guardS (file_tree_ok manifest)
       (guardS (manifest_signature_ok x y manifest signature pub fp)
       (Inr digest))))))))"

section \<open>The content of a trust list\<close>

definition parse_and_fingerprint_pem :: "ext \<Rightarrow> pyval \<Rightarrow> exn + string" where
  "parse_and_fingerprint_pem x v = bindS (need_str v) (\<lambda>pem. case k_load_cert x pem of
     None \<Rightarrow> Inl (ParseError ''certificate'') | Some cert \<Rightarrow> Inr (k_sha256 x (x_der cert)))"

definition parse_not_after_pem :: "ext \<Rightarrow> pyval \<Rightarrow> exn + string" where
  "parse_not_after_pem x v = bindS (need_str v) (\<lambda>pem. case k_load_cert x pem of
     None \<Rightarrow> Inl (ParseError ''certificate'') | Some cert \<Rightarrow> Inr (isoformat (x_not_after cert)))"

definition entry_ok :: "ext \<Rightarrow> pyval \<Rightarrow> exn + unit" where
  "entry_ok x cert =
     guardS (bindS (mapS (\<lambda>key. bindS (py_in key cert) (\<lambda>found.
         ensureS found (ValueError (''certificate entry missing field: '' @ key))))
         [''application_uri'', ''common_name'', ''fingerprint_sha256'', ''pem'']) (\<lambda>_. Inr ()))
     (bindS (py_index cert ''pem'') (\<lambda>pem. bindS (parse_and_fingerprint_pem x pem) (\<lambda>actual.
      bindS (py_index cert ''fingerprint_sha256'') (\<lambda>declared.
        ensureS (lower actual = lower (py_str declared)) (ValueError ''certificate fingerprint mismatch'')))))"

definition decode_crl :: "ext \<Rightarrow> pyval \<Rightarrow> exn + string" where
  \<comment> \<open>\<open>base64.b64decode\<close>, then \<open>x509.load_der_x509_crl\<close>; the bytes of the list\<close>
  "decode_crl x v = (case v of
     PStr s \<Rightarrow> (case k_b64decode x s of
         None \<Rightarrow> Inl (ValueError ''base64'')
       | Some der \<Rightarrow> if k_load_crl_der x der = None then Inl (ParseError ''crl'') else Inr der)
   | _ \<Rightarrow> Inl (TypeError ''base64''))"

definition validate_trustlist_payload :: "ext \<Rightarrow> pydict \<Rightarrow> string \<Rightarrow> string \<Rightarrow> exn + unit" where
  "validate_trustlist_payload x payload zone role =
     guardS (ensureS (dget payload ''zone'' = PStr zone) (ValueError ''zone mismatch in trustlist payload''))
     (guardS (ensureS (dget payload ''role'' = PStr role) (ValueError ''role mismatch in trustlist payload''))
     (guardS (ensureS (dmem ''ca_chain_pem'' payload \<and> dmem ''crl_base64'' payload \<and> dmem ''certificates'' payload)
        (ValueError ''trustlist payload missing required fields''))
     (bindS (py_in ''BEGIN CERTIFICATE'' (dget payload ''ca_chain_pem'')) (\<lambda>found.
        guardS (ensureS found (ValueError ''ca_chain_pem does not contain PEM certificate text''))
        (bindS (py_iter (dget payload ''certificates'')) (\<lambda>certs.
         bindS (mapS (entry_ok x) certs) (\<lambda>_.
         bindS (decode_crl x (dget payload ''crl_base64'')) (\<lambda>_. Inr ()))))))))"

end
