(* ===== verification/Agent_World.thy ===== *)
theory Agent_World
  imports Agent_Verify
begin

text \<open>
  The state of the agent's process and of what it touches: its files, the requests it has
  sent and the events it has forwarded, with the clock, the random identifiers, the answers of
  the network and the success of writes as streams, so that a theorem holds for every
  behaviour of the environment. A file holds bytes, or a document written as JSON, which
  reads back as the same document.
\<close>

section \<open>State\<close>

datatype content = Bytes string | Json pyval

record ag_request =
  gq_method :: string
  gq_url :: string
  gq_headers :: "(string \<times> string) list"
  gq_body :: pyval

record agent_state =
  g_files :: "(string \<times> content) list"
  g_dirs :: "string list"
  g_writable :: "nat \<Rightarrow> bool"
  g_writes :: nat
  g_clock :: "nat \<Rightarrow> int"
  g_ticks :: nat
  g_uuid :: "nat \<Rightarrow> string"
  g_uuids :: nat
  g_reply :: "nat \<Rightarrow> exn + reply"
  g_sent :: "ag_request list"
  g_events :: "pydict list"
  g_last_sent :: "string \<Rightarrow> int option"
  g_last_health :: "string \<Rightarrow> int option"
  g_within_rate :: "nat \<Rightarrow> bool"
  g_draws :: nat

type_synonym 'a ag = "(agent_state, 'a) eff"

section \<open>Primitives\<close>

definition utc_now :: "int ag" where
  "utc_now w = (Inr (g_clock w (g_ticks w)), w\<lparr>g_ticks := Suc (g_ticks w)\<rparr>)"

definition iso_now_z :: "string ag" where
  "iso_now_z = bindE utc_now (\<lambda>t. ret (iso_z t))"

definition new_uuid :: "string ag" where
  "new_uuid w = (Inr (g_uuid w (g_uuids w)), w\<lparr>g_uuids := Suc (g_uuids w)\<rparr>)"

definition lift :: "exn + 'a \<Rightarrow> 'a ag" where
  "lift r w = (r, w)"

definition send_request :: "ag_request \<Rightarrow> reply ag" where
  "send_request q w = (g_reply w (length (g_sent w)), w\<lparr>g_sent := g_sent w @ [q]\<rparr>)"

definition join :: "string \<Rightarrow> string \<Rightarrow> string" where
  \<comment> \<open>\<open>Path(p) / q\<close> for a relative \<open>q\<close>\<close>
  "join p q = p @ CHR ''/'' # q"

definition path_join :: "string \<Rightarrow> string \<Rightarrow> string" where
  \<comment> \<open>\<open>Path(p) / q\<close>; an absolute \<open>q\<close> is taken as it is\<close>
  "path_join p q = (if starts_with q ''/'' then q else join p q)"

definition under :: "string \<Rightarrow> string \<Rightarrow> bool" where
  "under dir p \<longleftrightarrow> starts_with p (dir @ ''/'')"

definition is_file :: "string \<Rightarrow> agent_state \<Rightarrow> bool" where
  "is_file p w \<longleftrightarrow> map_of (g_files w) p \<noteq> None"

definition is_dir :: "string \<Rightarrow> agent_state \<Rightarrow> bool" where
  "is_dir p w \<longleftrightarrow> p \<in> set (g_dirs w) \<or> list_ex (under p \<circ> fst) (g_files w)"

definition path_exists :: "string \<Rightarrow> agent_state \<Rightarrow> bool" where
  "path_exists p w \<longleftrightarrow> is_file p w \<or> is_dir p w"

definition make_dir :: "string \<Rightarrow> unit ag" where
  "make_dir p = updE (\<lambda>w. w\<lparr>g_dirs := p # g_dirs w\<rparr>)"

definition json_of_file :: "ext \<Rightarrow> content \<Rightarrow> exn + pyval" where
  "json_of_file x f = (case f of Json v \<Rightarrow> Inr v
     | Bytes s \<Rightarrow> (case k_json_loads x s of None \<Rightarrow> Inl JSONDecodeError | Some v \<Rightarrow> Inr v))"

definition read_file :: "string \<Rightarrow> content ag" where
  "read_file p = bindE (getE (\<lambda>w. map_of (g_files w) p)) (\<lambda>f. case f of
     None \<Rightarrow> raise (OSError ''no such file'') | Some f \<Rightarrow> ret f)"

definition read_json :: "ext \<Rightarrow> string \<Rightarrow> pyval ag" where
  \<comment> \<open>\<open>json.loads(path.read_text(encoding="utf-8"))\<close>\<close>
  "read_json x p = bindE (read_file p) (\<lambda>f. lift (json_of_file x f))"

definition load_json_if_exists :: "ext \<Rightarrow> string \<Rightarrow> pyval ag" where
  "load_json_if_exists x p = bindE (getE (path_exists p)) (\<lambda>found. if found then read_json x p else ret PNone)"

text \<open>The file is replaced as a whole, or the write fails and the file is as before.\<close>

definition atomic_write :: "string \<Rightarrow> content \<Rightarrow> unit ag" where
  "atomic_write p f w =
     (let w1 = w\<lparr>g_writes := Suc (g_writes w)\<rparr> in
      if g_writable w (g_writes w) then (Inr (), w1\<lparr>g_files := AList.update p f (g_files w)\<rparr>)
      else (Inl (OSError ''write''), w1))"

definition write_json_artifact :: "string \<Rightarrow> pydict \<Rightarrow> unit ag" where
  "write_json_artifact p payload =
     (if json_ok (PDict payload) then atomic_write p (Json (PDict payload))
      else raise (TypeError ''not JSON serializable''))"

definition dated_name :: "string \<Rightarrow> string \<Rightarrow> string" where
  \<comment> \<open>\<open>f"{at.replace(':', '').replace('-', '')}_{id}.json"\<close>\<close>
  "dated_name at i = filter (\<lambda>c. c \<noteq> CHR '':'' \<and> c \<noteq> CHR ''-'') at @ ''_'' @ i @ ''.json''"

definition json_files_in :: "string \<Rightarrow> agent_state \<Rightarrow> string list" where
  \<comment> \<open>\<open>sorted(dir.glob("*.json"))\<close>\<close>
  "json_files_in dir w = sort (filter (\<lambda>p. under dir p \<and> CHR ''/'' \<notin> set (drop (length dir + 1) p)
     \<and> drop (length p - 5) p = ''.json'' \<and> length dir + 6 \<le> length p) (map fst (g_files w)))"

definition find_latest_json_for_target :: "ext \<Rightarrow> string \<Rightarrow> string \<Rightarrow> (string \<times> pyval) option ag" where
  \<comment> \<open>the path and the document, \<open>PNone\<close> when it cannot be read\<close>
  "find_latest_json_for_target x base target =
     bindE (getE (json_files_in (join base target))) (\<lambda>files.
       if files = [] then ret None
       else catchE (bindE (read_json x (last files)) (\<lambda>v. ret (Some (last files, v))))
              (\<lambda>_. ret (Some (last files, PNone))))"

end
