(* ===== verification/Agent_Report.thy ===== *)
theory Agent_Report
  imports Agent_World
begin

text \<open>
  The comparison of two trust lists: the index of certificates by application, the report of
  differences with its risk level, and the entries a preview would keep.
\<close>

section \<open>The index\<close>

record cert_entry =
  ce_name :: pyval
  ce_fpr :: pyval
  ce_pem :: pyval
  ce_not_after :: "string option"

type_synonym cert_index = "(pyval \<times> cert_entry) list"

definition index_entry :: "ext \<Rightarrow> pydict \<Rightarrow> cert_entry" where
  "index_entry x c = \<lparr>ce_name = dget c ''common_name'', ce_fpr = dget c ''fingerprint_sha256'', ce_pem = dget c ''pem'',
     ce_not_after = (if truthy (dget c ''pem'') then (case parse_not_after_pem x (dget c ''pem'') of
        Inl _ \<Rightarrow> None | Inr t \<Rightarrow> Some t) else None)\<rparr>"

definition index_errors :: "ext \<Rightarrow> pydict \<Rightarrow> string list" where
  "index_errors x c = (if truthy (dget c ''pem'') \<and> ce_not_after (index_entry x c) = None
     then [''malformed_certificate_entry:'' @ py_str (dget c ''application_uri'')] else [])"

definition add_to_index :: "ext \<Rightarrow> pyval \<Rightarrow> cert_index \<times> string list \<Rightarrow> exn + cert_index \<times> string list" where
  \<comment> \<open>a later entry of the same application replaces the earlier one\<close>
  "add_to_index x v acc = bindS (need_dict v) (\<lambda>c.
     let uri = dget c ''application_uri'' in
     if \<not> truthy uri then Inr acc
     else if \<not> hashable_key uri then Inl (TypeError ''unhashable'')
     else Inr (AList.update uri (index_entry x c) (fst acc), snd acc @ index_errors x c))"

fun foldS :: "('a \<Rightarrow> 'b \<Rightarrow> exn + 'b) \<Rightarrow> 'a list \<Rightarrow> 'b \<Rightarrow> exn + 'b" where
  "foldS f [] acc = Inr acc"
| "foldS f (v # vs) acc = bindS (f v acc) (foldS f vs)"

definition build_cert_index :: "ext \<Rightarrow> pyval list \<Rightarrow> exn + cert_index \<times> string list" where
  "build_cert_index x certs = foldS (add_to_index x) certs ([], [])"

definition cert_view_agent :: "pyval \<Rightarrow> cert_entry \<Rightarrow> pydict" where
  "cert_view_agent uri c = [(''application_uri'', uri), (''common_name'', ce_name c), (''fingerprint_sha256'', ce_fpr c),
     (''not_after'', opt_str (ce_not_after c))]"

definition entry_at :: "cert_index \<Rightarrow> pyval \<Rightarrow> cert_entry" where
  \<comment> \<open>\<open>idx[uri]\<close> for a key of the index\<close>
  "entry_at idx uri = the (map_of idx uri)"

text \<open>\<open>sorted(keys)\<close>: application URIs are texts; keys of another type are ordered only when there
  is at most one.\<close>

definition text_of :: "pyval \<Rightarrow> string" where
  "text_of v = (case v of PStr s \<Rightarrow> s | _ \<Rightarrow> [])"

definition sorted_keys :: "pyval list \<Rightarrow> exn + pyval list" where
  "sorted_keys ks = (if length ks \<le> 1 then Inr ks
     else if list_all is_str ks then Inr (sort_key text_of ks) else Inl (TypeError ''unorderable''))"

section \<open>Changes\<close>

definition fingerprint_owner :: "cert_index \<Rightarrow> pyval \<Rightarrow> pyval option" where
  \<comment> \<open>\<open>{fingerprint: uri}\<close>: the last application of the index with a fingerprint\<close>
  "fingerprint_owner idx fpr = map_option fst (find (\<lambda>(uri, c). ce_fpr c = fpr) (rev idx))"

definition fingerprints :: "cert_index \<Rightarrow> pyval list" where
  "fingerprints idx = remdups (filter truthy (map (ce_fpr \<circ> snd) idx))"

definition moved :: "(pyval list \<Rightarrow> pyval list) \<Rightarrow> cert_index \<Rightarrow> cert_index \<Rightarrow> (pyval \<times> pyval \<times> pyval) list" where
  \<comment> \<open>fingerprint, old and new application; \<open>order\<close> is the order in which Python iterates the set\<close>
  "moved order prev new = List.map_filter (\<lambda>f. case (fingerprint_owner prev f, fingerprint_owner new f) of
       (Some a, Some b) \<Rightarrow> if a \<noteq> b then Some (f, a, b) else None
     | _ \<Rightarrow> None) (order (filter (\<lambda>f. f \<in> set (fingerprints new)) (fingerprints prev)))"

definition moved_dict :: "pyval \<times> pyval \<times> pyval \<Rightarrow> pydict" where
  "moved_dict m = (case m of (f, a, b) \<Rightarrow> [(''change_type'', PStr ''application_uri_changed''),
     (''previous_application_uri'', a), (''new_application_uri'', b), (''fingerprint_sha256'', f)])"

definition lower_or_empty :: "pyval \<Rightarrow> exn + string" where
  \<comment> \<open>\<open>(value or "").lower()\<close>\<close>
  "lower_or_empty v = (if truthy v then bindS (need_str v) (\<lambda>s. Inr (lower s)) else Inr [])"

definition not_after_kind :: "string option \<Rightarrow> string option \<Rightarrow> string" where
  "not_after_kind before after = (case (before, after) of
     (Some b, Some a) \<Rightarrow> if b = [] \<or> a = [] then ''not_after_changed''
       else if b < a then ''not_after_extended'' else ''not_after_reduced''
   | _ \<Rightarrow> ''not_after_changed'')"

definition entry_changes :: "pyval \<Rightarrow> cert_entry \<Rightarrow> cert_entry \<Rightarrow> exn + pydict list" where
  "entry_changes uri before after =
     bindS (lower_or_empty (ce_fpr before)) (\<lambda>f1. bindS (lower_or_empty (ce_fpr after)) (\<lambda>f2. Inr (
       (if f1 \<noteq> f2 then [[(''change_type'', PStr ''fingerprint_changed''), (''application_uri'', uri),
          (''previous_fingerprint_sha256'', ce_fpr before), (''new_fingerprint_sha256'', ce_fpr after)]] else []) @
       (if ce_name before \<noteq> ce_name after then [[(''change_type'', PStr ''common_name_changed''), (''application_uri'', uri),
          (''previous_common_name'', ce_name before), (''new_common_name'', ce_name after)]] else []) @
       (if ce_not_after before \<noteq> ce_not_after after
        then [[(''change_type'', PStr (not_after_kind (ce_not_after before) (ce_not_after after))), (''application_uri'', uri),
          (''previous_not_after'', opt_str (ce_not_after before)), (''new_not_after'', opt_str (ce_not_after after))]]
        else []))))"

section \<open>The report\<close>

record diff =
  df_added :: "pydict list"
  df_removed :: "pydict list"
  df_changed :: "pydict list"
  df_ca_changed :: bool
  df_crl_changed :: bool
  df_risk :: string
  df_advice :: string
  df_reasons :: "string list"
  df_previous :: pyval
  df_new :: pyval
  df_id :: string
  df_at :: string

definition change_types :: "pydict list \<Rightarrow> pyval set" where
  "change_types changed = set (map (\<lambda>c. dget c ''change_type'') changed)"

definition alarming :: "pyval set" where
  "alarming = {PStr ''fingerprint_changed'', PStr ''common_name_changed'', PStr ''application_uri_changed'',
     PStr ''not_after_reduced''}"

definition risk_of :: "string list \<Rightarrow> pydict list \<Rightarrow> pydict list \<Rightarrow> pydict list \<Rightarrow> bool \<Rightarrow> string \<times> string" where
  "risk_of reasons added removed changed ca_changed =
     (if reasons \<noteq> [] then (''CRITICAL'',
        ''Do not enforce runtime trust. Investigate control-plane data integrity immediately.'')
      else if removed \<noteq> [] \<or> ca_changed \<or> change_types changed \<inter> alarming \<noteq> {}
      then (''HIGH'', ''Operator review required before any runtime trust enforcement.'')
      else if added \<noteq> [] \<or> PStr ''not_after_extended'' \<in> change_types changed
      then (''MEDIUM'', ''Review additions/expiry changes and validate expected maintenance activity.'')
      else (''LOW'', ''No action required. Continue monitoring.''))"

definition certs_of :: "pydict option \<Rightarrow> exn + pyval list" where
  \<comment> \<open>\<open>doc.get("certificates", []) if doc else []\<close>, an empty document counting as none\<close>
  "certs_of doc = (case doc of None \<Rightarrow> Inr [] | Some d \<Rightarrow>
     if d = [] then Inr [] else py_iter (dget_or d ''certificates'' (PList [])))"

definition content_reasons :: "pydict option \<Rightarrow> exn + string list" where
  "content_reasons current = (case current of None \<Rightarrow> Inr [] | Some d \<Rightarrow>
     if d = [] then Inr [] else
     bindS (py_len (dget_or d ''certificates'' (PList []))) (\<lambda>n.
     bindS (if dmem ''ca_chain_pem'' d then py_in ''BEGIN CERTIFICATE'' (py_or (dget d ''ca_chain_pem'') (PStr [])) else Inr True)
       (\<lambda>chain. Inr ((if n = 0 then [''trust_list_empty''] else []) @ (if \<not> chain then [''ca_chain_missing''] else [])))))"

definition diff_of ::
  "ext \<Rightarrow> (pyval list \<Rightarrow> pyval list) \<Rightarrow> cert_index \<times> string list \<Rightarrow> cert_index \<times> string list \<Rightarrow> bool \<Rightarrow> bool \<Rightarrow>
   string list \<Rightarrow> exn + diff" where
  \<comment> \<open>the two indexes with their parse errors; the reasons are those known before the parse errors\<close>
  "diff_of x order prev new ca_changed crl_changed reasons =
     (let pi = fst prev; ni = fst new; m = moved order pi ni;
          both = filter (\<lambda>k. k \<in> set (map fst ni)) (map fst pi);
          gained = filter (\<lambda>k. k \<notin> set (map fst pi) \<and> k \<notin> set (map (snd \<circ> snd) m)) (map fst ni);
          lost = filter (\<lambda>k. k \<notin> set (map fst ni) \<and> k \<notin> set (map (fst \<circ> snd) m)) (map fst pi)
      in bindS (ensureS (list_all hashable_key (fingerprints pi @ fingerprints ni)) (TypeError ''unhashable'')) (\<lambda>_.
         bindS (sorted_keys both) (\<lambda>common.
         bindS (mapS (\<lambda>k. entry_changes k (entry_at pi k) (entry_at ni k)) common) (\<lambda>per_entry.
         bindS (sorted_keys gained) (\<lambda>g. bindS (sorted_keys lost) (\<lambda>l.
           let added = map (\<lambda>k. cert_view_agent k (entry_at ni k)) g;
               removed = map (\<lambda>k. cert_view_agent k (entry_at pi k)) l;
               changed = map moved_dict m @ concat per_entry;
               all_reasons = reasons @ snd prev @ snd new;
               (risk, advice) = risk_of all_reasons added removed changed ca_changed
           in Inr \<lparr>df_added = added, df_removed = removed, df_changed = changed, df_ca_changed = ca_changed,
                df_crl_changed = crl_changed, df_risk = risk, df_advice = advice, df_reasons = all_reasons,
                df_previous = PNone, df_new = PNone, df_id = [], df_at = []\<rparr>))))))"

definition version_of :: "pydict option \<Rightarrow> pyval" where
  "version_of doc = (case doc of None \<Rightarrow> PNone | Some d \<Rightarrow> dget d ''version'')"

definition build_diff_report ::
  "ext \<Rightarrow> (pyval list \<Rightarrow> pyval list) \<Rightarrow> pydict option \<Rightarrow> pydict option \<Rightarrow> bool \<Rightarrow> bool \<Rightarrow> string list \<Rightarrow> diff ag" where
  "build_diff_report x order previous current ca_changed crl_changed critical_reasons =
     bindE (lift (bindS (certs_of previous) (\<lambda>pc. bindS (certs_of current) (\<lambda>nc.
        bindS (build_cert_index x pc) (\<lambda>pi. bindS (build_cert_index x nc) (\<lambda>ni.
        bindS (content_reasons current) (\<lambda>more.
          diff_of x order pi ni ca_changed crl_changed (critical_reasons @ more)))))))) (\<lambda>d.
     bindE new_uuid (\<lambda>i.
     bindE utc_now (\<lambda>now.
       ret (d\<lparr>df_previous := version_of previous, df_new := version_of current, df_id := i, df_at := isoformat now\<rparr>))))"

definition diff_dict :: "string \<Rightarrow> string \<Rightarrow> diff \<Rightarrow> pydict" where
  "diff_dict zone role d = [(''diff_id'', PStr (df_id d)), (''generated_at'', PStr (df_at d)), (''zone'', PStr zone),
     (''role'', PStr role), (''previous_version'', df_previous d), (''new_version'', df_new d),
     (''added'', PList (map PDict (df_added d))), (''removed'', PList (map PDict (df_removed d))),
     (''changed'', PList (map PDict (df_changed d))), (''ca_chain_changed'', PBool (df_ca_changed d)),
     (''crl_changed'', PBool (df_crl_changed d)), (''risk_level'', PStr (df_risk d)),
     (''recommendation'', PStr (df_advice d)), (''critical_reasons'', PList (map PStr (df_reasons d)))]"

section \<open>What a preview would keep\<close>

definition listed_certs :: "pydict \<Rightarrow> pyval list" where
  "listed_certs doc = (case dget_or doc ''certificates'' (PList []) of PList vs \<Rightarrow> vs | _ \<Rightarrow> [])"

definition kept_entry :: "cert_entry \<Rightarrow> cert_entry \<Rightarrow> bool" where
  "kept_entry before after \<longleftrightarrow> lower (py_str (ce_fpr before)) = lower (py_str (ce_fpr after))
     \<and> ce_name before = ce_name after \<and> ce_not_after before = ce_not_after after"

definition compute_would_keep :: "ext \<Rightarrow> pydict option \<Rightarrow> pydict \<Rightarrow> exn + pydict list" where
  "compute_would_keep x previous current = (case previous of
     None \<Rightarrow> Inr []
   | Some prev \<Rightarrow> if prev = [] then Inr [] else
       bindS (build_cert_index x (listed_certs prev)) (\<lambda>(pi, _).
       bindS (build_cert_index x (listed_certs current)) (\<lambda>(ni, _).
       bindS (sorted_keys (filter (\<lambda>k. k \<in> set (map fst ni)) (map fst pi))) (\<lambda>common.
         Inr (map (\<lambda>k. cert_view_agent k (entry_at ni k))
           (filter (\<lambda>k. kept_entry (entry_at pi k) (entry_at ni k)) common))))))"

end
