(* ===== verification/Agent_Telemetry.thy ===== *)
theory Agent_Telemetry
  imports Agent_Report
begin

text \<open>
  What the agent forwards to the OT collector: the policy that decides, with suppression of
  repeated events, and the shape of a forwarded event. The sampling decision is a draw of the
  environment: whether the random number is within the configured rate.
\<close>

section \<open>Policy\<close>

definition always_forward_hints :: "string list" where
  "always_forward_hints = [''agent_start'', ''agent_stop'', ''runtime_write_deprecated_use_native_client'',
     ''target_not_managed_by_agent_zone'', ''trust_anchor_mismatch'', ''certificate_package_rejected'',
     ''package_activation_failed'', ''renew_runtime_certificate_failed'', ''signed_artifact_validation_failed'',
     ''approval_denied'', ''approval_expired'', ''blackout_active'', ''maintenance_window_closed'', ''vault_sealed'',
     ''crl_stale'', ''policy_violation'']"

definition security_categories :: "string list" where
  "security_categories = [''security'', ''policy_audit'', ''access_control'', ''error'', ''sensitive_operator_action'',
     ''pki_lifecycle'', ''certificate_lifecycle'']"

definition health_categories :: "string list" where
  "health_categories = [''system_health'', ''lifecycle'', ''pki_trust_sync'']"

definition telemetry_policy_enabled :: "environ \<Rightarrow> bool" where
  "telemetry_policy_enabled env = env_bool_agent env ''GDS_AGENT_OT_TELEMETRY_ENABLED''
     (env_bool_agent env ''LABSHOCK_OT_TELEMETRY_ENABLED'' True)"

definition telemetry_policy_mode :: "environ \<Rightarrow> string" where
  "telemetry_policy_mode env =
     (let mode = lower (strip (env_agent env ''GDS_AGENT_OT_TELEMETRY_MODE''
           (env_agent env ''LABSHOCK_OT_TELEMETRY_MODE'' ''security_only''))) in
      if mode \<in> {''debug_all'', ''security_only'', ''sampled_operations'', ''off''} then mode else ''security_only'')"

definition telemetry_dedup_window_seconds :: "environ \<Rightarrow> exn + int" where
  "telemetry_dedup_window_seconds env =
     bindS (env_int_agent env ''LABSHOCK_OT_COLLECTOR_DEDUP_WINDOW_SECONDS'' 60) (\<lambda>dflt.
     bindS (env_int_agent env ''GDS_AGENT_OT_COLLECTOR_DEDUP_WINDOW_SECONDS'' dflt) (\<lambda>v. Inr (max 0 v)))"

definition telemetry_health_summary_seconds :: "environ \<Rightarrow> exn + int" where
  "telemetry_health_summary_seconds env =
     bindS (env_int_agent env ''LABSHOCK_OT_HEALTH_SUMMARY_SECONDS'' 300) (\<lambda>dflt.
     bindS (env_int_agent env ''GDS_AGENT_OT_COLLECTOR_HEALTH_SUMMARY_SECONDS'' dflt) (\<lambda>v. Inr (max 1 v)))"

definition event_key :: "string \<Rightarrow> string \<Rightarrow> string \<Rightarrow> pydict \<Rightarrow> pydict \<Rightarrow> string" where
  "event_key category message severity tags raw =
     category @ ''|'' @ severity @ ''|'' @ message @ ''|'' @ get_str tags ''target'' @ ''|'' @ get_str raw ''error_code''"

definition is_security_event :: "string \<Rightarrow> string \<Rightarrow> string \<Rightarrow> pydict \<Rightarrow> pydict \<Rightarrow> bool" where
  "is_security_event category severity message raw tags \<longleftrightarrow>
     category \<in> set security_categories \<or> severity \<in> {''warning'', ''error'', ''critical''} \<or>
     list_ex (\<lambda>hint. str_contains hint
       (lower (message @ '' '' @ get_str raw ''event_type'' @ '' '' @ get_str raw ''error_code''))) always_forward_hints \<or>
     lower (get_str tags ''sensitive_action'') = ''true''"

definition remember :: "string \<Rightarrow> int \<Rightarrow> unit ag" where
  "remember key now = updE (\<lambda>w. w\<lparr>g_last_sent := (g_last_sent w)(key \<mapsto> now)\<rparr>)"

definition draw :: "bool ag" where
  "draw w = (Inr (g_within_rate w (g_draws w)), w\<lparr>g_draws := Suc (g_draws w)\<rparr>)"

definition recent :: "int option \<Rightarrow> int \<Rightarrow> int \<Rightarrow> bool" where
  \<comment> \<open>within the last \<open>seconds\<close>\<close>
  "recent before now seconds = (case before of None \<Rightarrow> False | Some t \<Rightarrow> now - t < seconds * usec)"

definition accept :: "string \<Rightarrow> int \<Rightarrow> string \<Rightarrow> (bool \<times> string) ag" where
  "accept key now reason = bindE (remember key now) (\<lambda>_. ret (True, reason))"

definition health_decision :: "environ \<Rightarrow> string \<Rightarrow> string \<Rightarrow> int \<Rightarrow> (bool \<times> string) ag" where
  "health_decision env health_key key now =
     bindE (lift (telemetry_health_summary_seconds env)) (\<lambda>interval.
     bindE (getE (\<lambda>w. g_last_health w health_key)) (\<lambda>before.
       if recent before now interval then ret (False, ''health_rate_limited'')
       else bindE (updE (\<lambda>w. w\<lparr>g_last_health := (g_last_health w)(health_key \<mapsto> now)\<rparr>))
              (\<lambda>_. accept key now ''health_summary'')))"

definition telemetry_decision :: "environ \<Rightarrow> string \<Rightarrow> string \<Rightarrow> string \<Rightarrow> pydict \<Rightarrow> pydict \<Rightarrow> (bool \<times> string) ag" where
  "telemetry_decision env category severity message raw tags =
     (let mode = telemetry_policy_mode env; key = event_key category message severity tags raw in
      if \<not> telemetry_policy_enabled env then ret (False, ''telemetry_disabled'')
      else if mode = ''off'' then ret (False, ''mode_off'')
      else bindE utc_now (\<lambda>now.
           bindE (lift (telemetry_dedup_window_seconds env)) (\<lambda>window.
           bindE (getE (\<lambda>w. g_last_sent w key)) (\<lambda>before.
             if 0 < window \<and> recent before now window then ret (False, ''dedup_suppressed'')
             else if mode = ''debug_all'' then accept key now ''mode_debug_all''
             else if is_security_event category severity message raw tags then accept key now ''security_event''
             else if category \<in> set health_categories
             then health_decision env (category @ ''|'' @ severity @ ''|'' @ message) key now
             else if mode = ''sampled_operations''
             then bindE draw (\<lambda>within. if within then accept key now ''sampled'' else ret (False, ''sampled_drop''))
             else ret (False, ''security_only_drop'')))))"

section \<open>Events\<close>

definition normalize_severity_for_diff :: "string \<Rightarrow> string" where
  "normalize_severity_for_diff risk = (if risk = ''LOW'' then ''info''
     else if risk \<in> {''MEDIUM'', ''HIGH''} then ''warning'' else ''critical'')"

definition to_raw_string :: "pydict \<Rightarrow> int \<Rightarrow> string" where
  "to_raw_string raw max_len = truncate_text_agent
     (let v = sanitize_payload raw in
      if json_ok v then json_enc v
      else CHR ''{'' # json_str ''error'' @ '':'' @ json_str ''raw_payload_serialization_failed'' @ ''}'') max_len"

record limits =
  lm_message :: int
  lm_raw :: int
  lm_bytes :: int

record origin =
  og_enabled :: bool
  og_url :: string
  og_zone :: string
  og_ip :: string
  og_host :: string
  og_limits :: limits

definition field_or :: "pydict \<Rightarrow> string \<Rightarrow> string \<Rightarrow> pyval" where
  "field_or event k dflt = py_or (dget event k) (PStr dflt)"

definition collector_event :: "limits \<Rightarrow> string \<Rightarrow> string \<Rightarrow> pydict \<Rightarrow> pydict" where
  \<comment> \<open>\<open>fresh_id\<close> and \<open>now\<close> stand in for a missing identifier and time stamp\<close>
  "collector_event lm fresh_id now event =
     [(''id'', field_or event ''id'' fresh_id), (''timestamp'', field_or event ''timestamp'' now),
      (''zone'', field_or event ''zone'' ''OT''), (''source_type'', field_or event ''source_type'' ''gds-agent''),
      (''asset_name'', field_or event ''asset_name'' ''OT GDS Agent''), (''asset_ip'', field_or event ''asset_ip'' ''0.0.0.0''),
      (''severity'', field_or event ''severity'' ''info''), (''protocol'', field_or event ''protocol'' ''http''),
      (''event_category'', field_or event ''event_category'' ''pki_trust_sync''),
      (''message'', PStr (truncate_text_agent (py_str (field_or event ''message'' ''gds-agent event'')) (lm_message lm))),
      (''raw'', PStr (to_raw_string (as_dict (dget event ''raw'')) (lm_raw lm))),
      (''tags'', py_or (dget event ''tags'') (PDict []))]"

definition shrink_payload :: "limits \<Rightarrow> pydict \<Rightarrow> pydict" where
  "shrink_payload lm payload =
     (if int (length (json_enc (PDict payload))) > lm_bytes lm
      then dput ''tags'' (PDict (dput ''payload_truncated'' (PStr ''true'') (as_dict (dget payload ''tags''))))
             (dput ''raw'' (PStr (truncate_text_agent (get_str payload ''raw'') (max 256 (lm_raw lm div 2)))) payload)
      else payload)"

definition normalize_for_ot_collector :: "limits \<Rightarrow> pydict \<Rightarrow> pydict ag" where
  "normalize_for_ot_collector lm event =
     bindE (if truthy (dget event ''id'') then ret [] else new_uuid) (\<lambda>fresh_id.
     bindE (if truthy (dget event ''timestamp'') then ret [] else iso_now_z) (\<lambda>now.
     let payload = collector_event lm fresh_id now event in
     if json_ok (PDict payload) then ret (shrink_payload lm payload) else raise (TypeError ''not JSON serializable'')))"

definition tag_payload :: "origin \<Rightarrow> string \<Rightarrow> pydict \<Rightarrow> pydict" where
  "tag_payload og reason tags =
     (let base = [(''component'', PStr ''labshock_ot_gds_agent''), (''source_type'', PStr ''gds_agent''), (''zone'', PStr (og_zone og)),
        (''collector_decision'', PStr ''forward''), (''reason'', PStr reason), (''gds_control_plane'', PStr (og_host og)),
        (''trustlist_zone'', dget_or tags ''trustlist_zone'' (PStr [])), (''trustlist_role'', dget_or tags ''trustlist_role'' (PStr [])),
        (''risk_level'', dget_or tags ''risk_level'' (PStr [])), (''diff_id'', dget_or tags ''diff_id'' (PStr [])),
        (''collector_decision_hint'', PStr ''store_forward'')]
      in base @ filter (\<lambda>(k, _). \<not> dmem k base) tags)"

text \<open>A failure of the collector is logged and otherwise ignored.\<close>

definition deliver :: "origin \<Rightarrow> pydict \<Rightarrow> unit ag" where
  "deliver og payload =
     bindE (updE (\<lambda>w. w\<lparr>g_events := g_events w @ [payload]\<rparr>)) (\<lambda>_.
     catchE (bindE (send_request \<lparr>gq_method = ''POST'', gq_url = og_url og, gq_headers = [], gq_body = PDict payload\<rparr>)
       (\<lambda>_. ret ())) (\<lambda>_. ret ()))"

definition forward_ot_collector_event ::
  "environ \<Rightarrow> origin \<Rightarrow> string \<Rightarrow> string \<Rightarrow> string \<Rightarrow> pydict \<Rightarrow> pydict \<Rightarrow> unit ag" where
  "forward_ot_collector_event env og severity category message raw tags =
     (if \<not> og_enabled og then ret ()
      else bindE (telemetry_decision env category severity message raw tags) (\<lambda>(allow, reason).
        if \<not> allow then ret ()
        else bindE new_uuid (\<lambda>i. bindE iso_now_z (\<lambda>now.
          bindE (normalize_for_ot_collector (og_limits og)
            [(''id'', PStr i), (''timestamp'', PStr now), (''zone'', PStr (og_zone og)), (''source_type'', PStr ''gds_agent''),
             (''asset_name'', PStr ''OT GDS Agent''), (''asset_ip'', PStr (og_ip og)), (''severity'', PStr severity),
             (''protocol'', PStr ''http''), (''event_category'', PStr category), (''message'', PStr message),
             (''raw'', PDict raw), (''tags'', PDict (tag_payload og reason tags))]) (deliver og)))))"

end
