(* ===== verification/Agent_Sync.thy ===== *)
theory Agent_Sync
  imports Agent_Telemetry
begin

text \<open>
  The synchronisation cycle of the agent in signed mode: for every target the signed artifact
  is fetched, verified, checked against the cached trust list and cached itself; the first
  verified artifact also renews the PKI bundle. Then the service's telemetry is pulled.
\<close>

section \<open>Requests\<close>

definition build_agent_auth_headers :: "bool \<Rightarrow> string \<Rightarrow> string \<Rightarrow> (string \<times> string) list" where
  "build_agent_auth_headers enabled agent_id token =
     (if \<not> enabled then [] else [(''X-GDS-Agent-ID'', agent_id), (''X-GDS-Agent-Token'', token)])"

record gds =
  gd_url :: string
  gd_headers :: "(string \<times> string) list"

definition get_gds :: "gds \<Rightarrow> string \<Rightarrow> reply ag" where
  "get_gds gd p = send_request \<lparr>gq_method = ''GET'', gq_url = gd_url gd @ p, gq_headers = gd_headers gd, gq_body = PNone\<rparr>"

definition reply_ok :: "reply \<Rightarrow> unit ag" where
  \<comment> \<open>\<open>raise_for_status\<close>\<close>
  "reply_ok res = (if 200 \<le> r_status res \<and> r_status res \<le> 299 then ret () else raise (HTTPStatusError (r_status res)))"

definition reply_json :: "reply \<Rightarrow> pyval ag" where
  "reply_json res = (case r_json res of None \<Rightarrow> raise JSONDecodeError | Some v \<Rightarrow> ret v)"

definition load_trust_anchor :: "gds \<Rightarrow> pyval ag" where
  "load_trust_anchor gd =
     bindE (get_gds gd ''/api/v1/signing/trust-anchor'') (\<lambda>res. bindE (reply_ok res) (\<lambda>_.
     bindE (reply_json res) (\<lambda>anchor. lift (check_trust_anchor anchor))))"

definition get_existing :: "gds \<Rightarrow> string \<Rightarrow> pyval ag" where
  \<comment> \<open>a document; 404 is a \<open>FileNotFoundError\<close>\<close>
  "get_existing gd p = bindE (get_gds gd p) (\<lambda>res.
     if r_status res = 404 then raise (OSError ''not found'')
     else bindE (reply_ok res) (\<lambda>_. reply_json res))"

definition artifact_url :: "string \<Rightarrow> string \<Rightarrow> string" where
  "artifact_url zone role = ''/api/v1/trustlists/'' @ zone @ ''/'' @ role @ ''/artifact''"

definition fetch_signed_artifact :: "gds \<Rightarrow> string \<Rightarrow> string \<Rightarrow> (pyval \<times> pyval) ag" where
  "fetch_signed_artifact gd zone role =
     bindE (get_existing gd (artifact_url zone role)) (\<lambda>artifact.
     bindE (get_existing gd (artifact_url zone role @ ''.sig'')) (\<lambda>signature. ret (artifact, signature)))"

definition fetch_canonical_artifact_view :: "gds \<Rightarrow> string \<Rightarrow> string \<Rightarrow> pyval ag" where
  "fetch_canonical_artifact_view gd zone role =
     bindE (get_existing gd (artifact_url zone role @ ''/canonical'')) (\<lambda>payload.
     bindE (lift (mapS (\<lambda>key. bindS (py_in key payload) (\<lambda>found.
         ensureS found (malformed (''canonical endpoint missing field: '' @ key))))
       [''canonical_sha256'', ''canonical_payload''])) (\<lambda>_. ret payload))"

definition url_scheme :: "string \<Rightarrow> string" where
  \<comment> \<open>\<open>urlparse(url).scheme\<close>\<close>
  "url_scheme url = (let s = lower (takeWhile (\<lambda>c. c \<noteq> CHR '':'') url) in
     if CHR '':'' \<in> set url \<and> s \<noteq> [] \<and> CHR ''a'' \<le> hd s \<and> hd s \<le> CHR ''z'' \<and>
        list_all (\<lambda>c. CHR ''a'' \<le> c \<and> c \<le> CHR ''z'' \<or> is_digit c \<or> c \<in> {CHR ''+'', CHR ''-'', CHR ''.''}) s
     then s else [])"

definition gds_transport_metadata :: "environ \<Rightarrow> string \<Rightarrow> pydict" where
  "gds_transport_metadata env base_url = [(''control_plane_scheme'', PStr (str_or (url_scheme base_url) ''http'')),
     (''mtls_enabled'', PBool (env_bool_agent env ''GDS_AGENT_MTLS_ENABLED'' False))]"

section \<open>The PKI bundle\<close>

record setting =
  se_ext :: ext
  se_keys :: agent_ext
  se_env :: environ
  se_origin :: origin
  se_gds :: gds
  se_trust_dir :: string
  se_pki_dir :: string
  se_diff_dir :: string
  se_telemetry_dir :: string
  se_pinned :: string
  se_debug :: bool
  se_cycle :: string
  se_order :: "pyval list \<Rightarrow> pyval list"

text \<open>What a cycle is run with; \<open>se_order\<close> is the order in which sets are iterated.\<close>

definition report_event :: "setting \<Rightarrow> string \<Rightarrow> string \<Rightarrow> string \<Rightarrow> pydict \<Rightarrow> pydict \<Rightarrow> unit ag" where
  "report_event se = forward_ot_collector_event (se_env se) (se_origin se)"

definition write_reported :: "setting \<Rightarrow> string \<Rightarrow> content \<Rightarrow> string \<Rightarrow> pydict \<Rightarrow> pydict \<Rightarrow> pydict \<Rightarrow> unit ag" where
  \<comment> \<open>a write whose outcome is forwarded; its failure is raised again\<close>
  "write_reported se p c what raw extra tags =
     catchE (bindE (atomic_write p c) (\<lambda>_.
         report_event se ''info'' ''pki_trust_sync'' (''cache_write_success '' @ what) (raw @ extra) tags))
       (\<lambda>e. bindE (report_event se ''warning'' ''gds_agent_error'' (''cache_write_failure '' @ what)
           (raw @ [(''error'', PStr (k_exc_text (se_ext se) e))]) tags) (\<lambda>_. raise e))"

definition safe_write_pki_bundle :: "setting \<Rightarrow> string \<Rightarrow> string \<Rightarrow> content option \<Rightarrow> content option \<Rightarrow> (bool \<times> bool) ag" where
  "safe_write_pki_bundle se ca_chain crl_der old_ca old_crl =
     (let ca_path = join (se_pki_dir se) ''ca-chain.pem''; crl_path = join (se_pki_dir se) ''crl.der'';
          ca_changed = (old_ca \<noteq> None \<and> old_ca \<noteq> Some (Bytes ca_chain));
          crl_changed = (old_crl \<noteq> None \<and> old_crl \<noteq> Some (Bytes crl_der))
      in bindE (write_reported se ca_path (Bytes ca_chain) ''ca-chain.pem'' [(''path'', PStr ca_path)] [] []) (\<lambda>_.
         bindE (write_reported se crl_path (Bytes crl_der) ''crl.der'' [(''path'', PStr crl_path)] [] []) (\<lambda>_.
         bindE (if ca_changed then report_event se ''warning'' ''pki_validation'' ''ca_chain_changed''
                  [(''ca_chain_changed'', PBool True)] [(''risk_level'', PStr ''HIGH'')] else ret ()) (\<lambda>_.
         bindE (if crl_changed then report_event se ''warning'' ''pki_validation'' ''crl_changed''
                  [(''crl_changed'', PBool True)] [(''risk_level'', PStr ''HIGH'')] else ret ()) (\<lambda>_.
         ret (ca_changed, crl_changed))))))"

section \<open>One target\<close>

record progress =
  pg_ca_changed :: bool
  pg_crl_changed :: bool
  pg_written :: bool

definition trustlist_path :: "setting \<Rightarrow> string \<Rightarrow> string \<Rightarrow> string" where
  "trustlist_path se zone role = join (se_trust_dir se) (zone @ ''_'' @ role @ ''.json'')"

definition signed_under :: "string \<Rightarrow> pydict \<Rightarrow> exn + bool" where
  \<comment> \<open>\<open>prev_signed_compatible\<close>: a signed trust list under the key with fingerprint \<open>fp\<close>\<close>
  "signed_under fp prev =
     bindS (if truthy (dget prev ''signer'') then need_dict (dget prev ''signer'') else Inr []) (\<lambda>signer.
       Inr (lower (get_str prev ''artifact_type'') = ''opcua_trustlist''
         \<and> lower (get_str signer ''fingerprint_sha256'') = lower fp \<and> dget prev ''artifact_revision'' \<noteq> PNone))"

definition previous_trustlist :: "setting \<Rightarrow> string \<Rightarrow> string \<Rightarrow> string \<Rightarrow> (pydict \<times> bool) ag" where
  \<comment> \<open>the cached document, empty when there is none, and whether it is a signed one under the same key\<close>
  "previous_trustlist se zone role fp =
     bindE (load_json_if_exists (se_ext se) (trustlist_path se zone role)) (\<lambda>v.
       if \<not> truthy v then ret ([], False)
       else bindE (lift (need_dict v)) (\<lambda>prev.
         bindE (lift (signed_under fp prev)) (\<lambda>compatible. ret (prev, compatible))))"

definition debug_check :: "setting \<Rightarrow> string \<Rightarrow> string \<Rightarrow> string \<Rightarrow> nat \<Rightarrow> nat ag" where
  \<comment> \<open>the signed length to report\<close>
  "debug_check se zone role digest n =
     (if \<not> se_debug se then ret n
      else bindE (fetch_canonical_artifact_view (se_gds se) zone role) (\<lambda>v.
        bindE (lift (need_dict v)) (\<lambda>view.
          let sha = lower (get_str view ''canonical_sha256'') in
          if sha \<noteq> [] \<and> sha \<noteq> lower digest
          then raise (ArtifactVerificationError ''canonical_hash_mismatch''
                 (''canonical hash mismatch agent='' @ digest @ '' gds='' @ sha))
          else ret (length (get_str view ''canonical_payload'')))))"

definition cached_pair :: "pydict \<Rightarrow> bool \<Rightarrow> exn + (int \<times> int) option" where
  \<comment> \<open>version and revision of a compatible cached list that has both\<close>
  "cached_pair prev compatible =
     (if \<not> compatible then Inr None
      else bindS (if dget prev ''version'' = PNone then Inr None
             else bindS (py_int (dget prev ''version'')) (\<lambda>i. Inr (Some i))) (\<lambda>v.
           bindS (py_int (dget prev ''artifact_revision'')) (\<lambda>r.
             Inr (case v of None \<Rightarrow> None | Some i \<Rightarrow> Some (i, r)))))"

definition not_replayed :: "pydict \<Rightarrow> bool \<Rightarrow> pydict \<Rightarrow> exn + int \<times> int" where
  \<comment> \<open>version and revision of the artifact, not behind those of the cached list\<close>
  "not_replayed prev compatible artifact =
     bindS (cached_pair prev compatible) (\<lambda>before.
     bindS (py_int (dget artifact ''version'')) (\<lambda>v.
     bindS (py_int (dget artifact ''artifact_revision'')) (\<lambda>r.
       case before of
         None \<Rightarrow> Inr (v, r)
       | Some b \<Rightarrow> if (v, r) < b then Inl (ValueError ''replay_detected tuple_regression'') else Inr (v, r))))"

record accepted_artifact =
  aa_doc :: pydict
  aa_digest :: string
  aa_signed_len :: nat
  aa_len :: nat
  aa_version :: int
  aa_revision :: int
  aa_crl :: string

definition obtain_artifact ::
  "setting \<Rightarrow> string \<Rightarrow> string \<Rightarrow> string \<Rightarrow> string \<Rightarrow> pydict \<Rightarrow> bool \<Rightarrow> accepted_artifact ag" where
  \<comment> \<open>fetched, verified, valid, not expired and not a replay\<close>
  "obtain_artifact se pub fp zone role prev compatible = (let x = se_ext se in
     bindE (fetch_signed_artifact (se_gds se) zone role) (\<lambda>(av, sv).
     bindE (lift (need_dict av)) (\<lambda>artifact.
     bindE (lift (need_dict sv)) (\<lambda>signature.
     bindE (lift (verify_signed_artifact x (se_keys se) artifact signature zone role pub fp)) (\<lambda>(digest, n).
     bindE (debug_check se zone role digest n) (\<lambda>signed_len.
     bindE (lift (validate_trustlist_payload x artifact zone role)) (\<lambda>_.
     bindE (lift (parse_rfc3339_utc x (get_str artifact ''expires_at''))) (\<lambda>expires_at.
     bindE utc_now (\<lambda>now.
     if expires_at < now then raise (ValueError ''signed trustlist artifact expired'')
     else bindE (lift (not_replayed prev compatible artifact)) (\<lambda>(v, r).
     bindE (lift (decode_crl x (dget artifact ''crl_base64''))) (\<lambda>crl.
       ret \<lparr>aa_doc = artifact, aa_digest = digest, aa_signed_len = signed_len, aa_len = n, aa_version = v,
         aa_revision = r, aa_crl = crl\<rparr>)))))))))))"

definition renew_bundle :: "setting \<Rightarrow> content option \<Rightarrow> content option \<Rightarrow> progress \<Rightarrow> accepted_artifact \<Rightarrow> progress ag" where
  "renew_bundle se old_ca old_crl pg a =
     (if pg_written pg then ret pg
      else bindE (lift (need_str (dget (aa_doc a) ''ca_chain_pem''))) (\<lambda>ca.
           bindE (safe_write_pki_bundle se ca (aa_crl a) old_ca old_crl) (\<lambda>(ca_changed, crl_changed).
             ret \<lparr>pg_ca_changed = ca_changed, pg_crl_changed = crl_changed, pg_written = True\<rparr>)))"

definition target_tags :: "string \<Rightarrow> string \<Rightarrow> pydict" where
  "target_tags zone role = [(''trustlist_zone'', PStr zone), (''trustlist_role'', PStr role)]"

definition announce_verified :: "setting \<Rightarrow> string \<Rightarrow> string \<Rightarrow> string \<Rightarrow> accepted_artifact \<Rightarrow> unit ag" where
  "announce_verified se fp zone role a =
     report_event se ''info'' ''pki_validation'' ''signed_artifact_verified''
       (dmerge [(''zone'', PStr zone), (''role'', PStr role), (''version'', PInt (aa_version a)),
         (''artifact_revision'', PInt (aa_revision a)), (''artifact_reason'', dget (aa_doc a) ''artifact_reason''),
         (''ttl_remaining_seconds'', dget (aa_doc a) ''ttl_remaining_seconds''), (''trust_anchor_fingerprint'', PStr fp),
         (''canonical_sha256'', PStr (aa_digest a)), (''signed_payload_length'', PInt (int (aa_signed_len a))),
         (''verifier_payload_length'', PInt (int (aa_len a))), (''sync_cycle_id'', PStr (se_cycle se))]
         (gds_transport_metadata (se_env se) (gd_url (se_gds se))))
       (target_tags zone role @ [(''sync_cycle_id'', PStr (se_cycle se)), (''correlation_id'', PStr (se_cycle se)),
         (''agent_id'', PStr (env_agent (se_env se) ''GDS_AGENT_ID'' ''ot-gds-agent'')),
         (''artifact_revision'', PStr (int_str (aa_revision a)))])"

definition report_path :: "setting \<Rightarrow> string \<Rightarrow> string \<Rightarrow> diff \<Rightarrow> string" where
  "report_path se zone role d = join (join (join (se_diff_dir se) zone) role) (dated_name (df_at d) (df_id d))"

definition failure_code_of :: "exn \<Rightarrow> string" where
  "failure_code_of e = (case e of ArtifactVerificationError code _ \<Rightarrow> code | _ \<Rightarrow> ''malformed_artifact'')"

definition risk_tags :: "string \<Rightarrow> string \<Rightarrow> string \<Rightarrow> diff \<Rightarrow> pydict" where
  "risk_tags zone role risk d = target_tags zone role @ [(''risk_level'', PStr risk), (''diff_id'', PStr (df_id d))]"

definition artifact_rejected :: "setting \<Rightarrow> string \<Rightarrow> string \<Rightarrow> pydict option \<Rightarrow> progress \<Rightarrow> exn \<Rightarrow> progress ag" where
  "artifact_rejected se zone role previous pg e =
     (let code = failure_code_of e;
          reason = ''signed_artifact_validation_failed:'' @ code @ '':'' @ k_exc_text (se_ext se) e in
      bindE (build_diff_report (se_ext se) (se_order se) previous None (pg_ca_changed pg) (pg_crl_changed pg) [reason]) (\<lambda>d.
      bindE (write_json_artifact (report_path se zone role d) (diff_dict zone role d)) (\<lambda>_.
      bindE (report_event se ''critical'' ''pki_validation'' ''signed_artifact_verification_failed''
        [(''zone'', PStr zone), (''role'', PStr role), (''failure_code'', PStr code),
         (''critical_reasons'', PList (map PStr (df_reasons d)))] (risk_tags zone role ''CRITICAL'' d)) (\<lambda>_.
      ret pg))))"

definition report_difference :: "setting \<Rightarrow> string \<Rightarrow> string \<Rightarrow> pydict \<Rightarrow> accepted_artifact \<Rightarrow> diff \<Rightarrow> unit ag" where
  "report_difference se zone role prev a d =
     bindE (report_event se (normalize_severity_for_diff (df_risk d)) ''trustlist_diff'' ''trustlist_diff_detected''
       [(''zone'', PStr zone), (''role'', PStr role), (''previous_version'', df_previous d), (''new_version'', df_new d),
        (''previous_artifact_revision'', dget prev ''artifact_revision''),
        (''new_artifact_revision'', dget (aa_doc a) ''artifact_revision''),
        (''artifact_reason'', dget (aa_doc a) ''artifact_reason''), (''added_count'', PInt (int (length (df_added d)))),
        (''removed_count'', PInt (int (length (df_removed d)))), (''changed_count'', PInt (int (length (df_changed d)))),
        (''ca_chain_changed'', PBool (df_ca_changed d)), (''crl_changed'', PBool (df_crl_changed d))]
       (risk_tags zone role (df_risk d) d)) (\<lambda>_.
     if df_risk d = ''CRITICAL''
     then report_event se ''critical'' ''gds_agent_error'' ''critical_diff_detected''
       [(''zone'', PStr zone), (''role'', PStr role), (''critical_reasons'', PList (map PStr (df_reasons d)))]
       (risk_tags zone role (df_risk d) d)
     else ret ())"

definition artifact_synced ::
  "setting \<Rightarrow> string \<Rightarrow> string \<Rightarrow> pydict \<Rightarrow> pydict option \<Rightarrow> progress \<Rightarrow> accepted_artifact \<Rightarrow> progress ag" where
  "artifact_synced se zone role prev previous pg a =
     bindE (build_diff_report (se_ext se) (se_order se) previous (Some (aa_doc a)) (pg_ca_changed pg) (pg_crl_changed pg) [])
       (\<lambda>d. bindE (write_json_artifact (report_path se zone role d) (diff_dict zone role d)) (\<lambda>_.
      bindE (report_difference se zone role prev a d) (\<lambda>_.
      bindE (write_reported se (trustlist_path se zone role) (Json (PDict (aa_doc a))) ''trustlist''
        [(''path'', PStr (trustlist_path se zone role)), (''zone'', PStr zone), (''role'', PStr role)]
        [(''version'', dget (aa_doc a) ''version'')] (target_tags zone role)) (\<lambda>_.
      ret pg))))"

definition sync_target ::
  "setting \<Rightarrow> string \<Rightarrow> string \<Rightarrow> content option \<Rightarrow> content option \<Rightarrow> string \<times> string \<Rightarrow> progress \<Rightarrow> progress ag" where
  "sync_target se pub fp old_ca old_crl target pg = (case target of (zone, role) \<Rightarrow>
     bindE (previous_trustlist se zone role fp) (\<lambda>(prev, compatible).
     let previous = (if compatible then Some prev else None); failed = artifact_rejected se zone role previous in
     tryE (obtain_artifact se pub fp zone role prev compatible) (failed pg) (\<lambda>a.
     tryE (renew_bundle se old_ca old_crl pg a) (failed pg) (\<lambda>pg'.
     tryE (announce_verified se fp zone role a) (failed pg') (\<lambda>_.
       artifact_synced se zone role prev previous pg' a)))))"

fun sync_targets ::
  "setting \<Rightarrow> string \<Rightarrow> string \<Rightarrow> content option \<Rightarrow> content option \<Rightarrow> (string \<times> string) list \<Rightarrow> progress \<Rightarrow> progress ag" where
  "sync_targets se pub fp old_ca old_crl [] pg = ret pg"
| "sync_targets se pub fp old_ca old_crl (t # ts) pg =
     bindE (sync_target se pub fp old_ca old_crl t pg) (sync_targets se pub fp old_ca old_crl ts)"

end
