(* ===== verification/Agent_Cycle.thy ===== *)
theory Agent_Cycle
  imports Agent_Sync
begin

text \<open>
  The rest of a cycle: the service's telemetry, the cycle as a whole, and the certificate
  packages that are pulled, verified, cached and reported.
\<close>

section \<open>Telemetry of the service\<close>

definition get_document :: "gds \<Rightarrow> string \<Rightarrow> pyval ag" where
  "get_document gd p = bindE (get_gds gd p) (\<lambda>res. bindE (reply_ok res) (\<lambda>_. reply_json res))"

definition pull_gds_telemetry :: "gds \<Rightarrow> pydict ag" where
  "pull_gds_telemetry gd = mapE (\<lambda>(name, p). bindE (get_document gd p) (\<lambda>v. ret (name, v)))
     [(''mtls_metrics'', ''/api/v1/mtls/metrics''), (''certificate_telemetry'', ''/api/v1/certificates/telemetry''),
      (''certificate_drift'', ''/api/v1/certificates/drift''), (''component_lifecycle_status'', ''/api/v1/components/status'')]"

record forwarded =
  fw_severity :: string
  fw_message :: string
  fw_raw :: pydict
  fw_tags :: pydict

definition expiring :: "pydict \<Rightarrow> bool" where
  "expiring cert \<longleftrightarrow> (let status = lower (get_str cert ''status'') in
     dget cert ''operational'' \<noteq> PBool False \<and> (status = [] \<or> status = ''active'') \<and> \<not> truthy (dget cert ''revoked_at'')
     \<and> py_str (dget_or cert ''expiry_state'' (PStr ''unknown'')) \<in> {''warning'', ''critical'', ''expired''})"

definition expiry_event :: "pydict \<Rightarrow> forwarded" where
  "expiry_event cert = (let state = py_str (dget_or cert ''expiry_state'' (PStr ''unknown'')); w = (state = ''warning'') in
     \<lparr>fw_severity = (if w then ''warning'' else ''critical''),
      fw_message = (if w then ''certificate_expiry_warning'' else ''certificate_expiry_critical''),
      fw_raw = [(''application_uri'', dget cert ''application_uri''), (''common_name'', dget cert ''common_name''),
        (''fingerprint_sha256'', dget cert ''fingerprint_sha256''), (''serial_number'', dget cert ''serial_number''),
        (''days_remaining'', dget cert ''days_remaining''), (''expiry_state'', PStr state)],
      fw_tags = [(''application_uri'', PStr (get_str cert ''application_uri'')),
        (''certificate_serial'', PStr (get_str cert ''serial_number'')),
        (''mtls_fingerprint_sha256'', PStr (get_str cert ''fingerprint_sha256'')),
        (''risk_level'', PStr (if w then ''MEDIUM'' else ''CRITICAL''))]\<rparr>)"

definition telemetry_cert_events :: "pydict \<Rightarrow> forwarded list" where
  "telemetry_cert_events telemetry = (case dget_or telemetry ''certificates'' (PList []) of
     PList certs \<Rightarrow> map expiry_event (filter expiring (map as_dict (filter is_dict certs)))
   | _ \<Rightarrow> [])"

definition component_alert :: "pydict \<Rightarrow> (string \<times> string \<times> pydict) option" where
  \<comment> \<open>severity, message and what the alert adds to the document\<close>
  "component_alert component =
     (if dget component ''private_key_exported'' = PBool True \<or> dget component ''private_key_touched'' = PBool True
      then Some (''critical'', ''component_private_key_policy_violation_reported'',
        [(''private_key_exported'', dget component ''private_key_exported''),
         (''private_key_touched'', dget component ''private_key_touched'')])
      else if dget component ''crl_freshness_verified'' = PBool False
      then Some (''warning'', ''component_crl_freshness_not_verified'', [])
      else if lower (get_or_empty component ''last_renewal_status'') = ''failed''
      then Some (''warning'', ''component_renewal_failed'', [])
      else if lower (get_or_empty component ''last_apply_status'') = ''failed''
      then Some (''warning'', ''component_trust_apply_failed'', [])
      else None)"

definition cycle_tags :: "setting \<Rightarrow> pydict" where
  "cycle_tags se = [(''sync_cycle_id'', PStr (se_cycle se)), (''correlation_id'', PStr (se_cycle se))]"

definition forward_component :: "setting \<Rightarrow> pydict \<Rightarrow> unit ag" where
  "forward_component se component =
     (let uri = get_or_empty component ''application_uri''; target = get_or_empty component ''target'' in
      case component_alert component of
        None \<Rightarrow> ret ()
      | Some (severity, message, extra) \<Rightarrow> report_event se severity ''pki_lifecycle'' message
          ([(''sync_cycle_id'', PStr (se_cycle se)), (''application_uri'', PStr uri), (''target'', PStr target)] @ extra)
          (cycle_tags se @ [(''application_uri'', PStr uri),
             (''risk_level'', PStr (if severity = ''critical'' then ''CRITICAL'' else ''MEDIUM''))]))"

definition list_len :: "pyval \<Rightarrow> int" where
  "list_len v = (case v of PList vs \<Rightarrow> int (length vs) | _ \<Rightarrow> 0)"

definition persist_and_forward_gds_telemetry :: "setting \<Rightarrow> unit ag" where
  "persist_and_forward_gds_telemetry se =
     bindE (pull_gds_telemetry (se_gds se)) (\<lambda>pulled.
     bindE iso_now_z (\<lambda>pulled_at.
     let payload = pulled @ [(''pulled_at'', PStr pulled_at), (''sync_cycle_id'', PStr (se_cycle se))];
         out = join (se_telemetry_dir se) (dated_name pulled_at (se_cycle se));
         metrics = as_dict (dget payload ''mtls_metrics''); drift = as_dict (dget payload ''certificate_drift'');
         certs = as_dict (dget payload ''certificate_telemetry'');
         status = as_dict (dget payload ''component_lifecycle_status'') in
     bindE (write_json_artifact out payload) (\<lambda>_.
     bindE (report_event se ''info'' ''pki_trust_sync'' ''gds_telemetry_pulled''
       [(''sync_cycle_id'', PStr (se_cycle se)), (''mtls_success_count'', dget metrics ''success_count''),
        (''mtls_failure_count'', dget metrics ''failure_count''), (''certificate_drift_count'', dget drift ''drift_count''),
        (''component_status_count'', PInt (list_len (dget status ''components''))), (''telemetry_path'', PStr out)]
       (cycle_tags se)) (\<lambda>_.
     bindE (lift (py_int (py_or (dget drift ''drift_count'') (PInt 0)))) (\<lambda>n.
     bindE (if 0 < n then report_event se ''warning'' ''pki_validation'' ''certificate_inventory_drift_detected''
         [(''sync_cycle_id'', PStr (se_cycle se)), (''drift_count'', dget drift ''drift_count''),
          (''items'', dget_or drift ''items'' (PList []))] (cycle_tags se @ [(''risk_level'', PStr ''MEDIUM'')])
       else ret ()) (\<lambda>_.
     bindE (forE (dicts_of (dget status ''components'')) (forward_component se)) (\<lambda>_.
     forE (telemetry_cert_events certs) (\<lambda>f.
       report_event se (fw_severity f) ''pki_validation'' (fw_message f)
         ((''sync_cycle_id'', PStr (se_cycle se)) # fw_raw f) (fw_tags f @ cycle_tags se)))))))))"

section \<open>The cycle\<close>

definition read_if_exists :: "string \<Rightarrow> content option ag" where
  "read_if_exists p = bindE (getE (path_exists p)) (\<lambda>found.
     if found then bindE (read_file p) (\<lambda>f. ret (Some f)) else ret None)"

definition pinned_anchor :: "setting \<Rightarrow> (string \<times> string) ag" where
  \<comment> \<open>the service's key and its fingerprint\<close>
  "pinned_anchor se =
     bindE (load_trust_anchor (se_gds se)) (\<lambda>v. bindE (lift (need_dict v)) (\<lambda>anchor.
       lift (verify_trust_anchor_fingerprint (se_ext se) (se_keys se) anchor (se_pinned se))))"

definition run_sync_cycle_signed :: "setting \<Rightarrow> (string \<times> string) list \<Rightarrow> bool ag" where
  "run_sync_cycle_signed se targets =
     bindE (pinned_anchor se) (\<lambda>(pub, fp).
     bindE (read_if_exists (join (se_pki_dir se) ''ca-chain.pem'')) (\<lambda>old_ca.
     bindE (read_if_exists (join (se_pki_dir se) ''crl.der'')) (\<lambda>old_crl.
     bindE (sync_targets se pub fp old_ca old_crl targets
       \<lparr>pg_ca_changed = False, pg_crl_changed = False, pg_written = False\<rparr>) (\<lambda>_.
     bindE (persist_and_forward_gds_telemetry se) (\<lambda>_. ret True)))))"

definition fetch_verified_signed_artifact :: "setting \<Rightarrow> string \<Rightarrow> string \<Rightarrow> string \<Rightarrow> string \<Rightarrow> pydict ag" where
  "fetch_verified_signed_artifact se pub fp zone role = (let x = se_ext se in
     bindE (fetch_signed_artifact (se_gds se) zone role) (\<lambda>(av, sv).
     bindE (lift (need_dict av)) (\<lambda>artifact.
     bindE (lift (need_dict sv)) (\<lambda>signature.
     bindE (lift (verify_signed_artifact x (se_keys se) artifact signature zone role pub fp)) (\<lambda>(digest, n).
     bindE (debug_check se zone role digest n) (\<lambda>_.
     bindE (lift (validate_trustlist_payload x artifact zone role)) (\<lambda>_.
     bindE (lift (parse_rfc3339_utc x (get_str artifact ''expires_at''))) (\<lambda>expires_at.
     bindE utc_now (\<lambda>now.
     if expires_at < now then raise (malformed ''signed trustlist artifact expired'')
     else ret artifact)))))))))"

section \<open>Certificate packages\<close>

definition package_url :: "string \<Rightarrow> string \<Rightarrow> string" where
  "package_url package_id p = ''/api/v1/packages/'' @ package_id @ p"

definition fetch_certificate_package :: "gds \<Rightarrow> string \<Rightarrow> (pyval \<times> pyval) ag" where
  "fetch_certificate_package gd package_id =
     bindE (get_gds gd (package_url package_id ''/manifest'')) (\<lambda>m. bindE (reply_ok m) (\<lambda>_.
     bindE (get_gds gd (package_url package_id ''/manifest.sig'')) (\<lambda>s. bindE (reply_ok s) (\<lambda>_.
     bindE (reply_json m) (\<lambda>manifest. bindE (reply_json s) (\<lambda>signature. ret (manifest, signature)))))))"

definition report_certificate_package_lifecycle ::
  "gds \<Rightarrow> string \<Rightarrow> string \<Rightarrow> pydict \<Rightarrow> string option \<Rightarrow> unit ag" where
  \<comment> \<open>failures are logged only\<close>
  "report_certificate_package_lifecycle gd package_id state details event_type =
     (let name = str_or (case event_type of None \<Rightarrow> [] | Some s \<Rightarrow> s) (''package_'' @ lower state);
          body = PDict [(''lifecycle_state'', PStr state), (''event_type'', PStr name), (''details'', PDict details)] in
      if json_ok body
      then catchE (bindE (send_request \<lparr>gq_method = ''POST'', gq_url = gd_url gd @ package_url package_id ''/events'',
               gq_headers = gd_headers gd, gq_body = body\<rparr>) (\<lambda>_. ret ())) (\<lambda>_. ret ())
      else ret ())"

definition compatibility_of :: "pydict \<Rightarrow> exn + pydict" where
  \<comment> \<open>\<open>manifest.get("compatibility") or {}\<close>\<close>
  "compatibility_of manifest =
     (if truthy (dget manifest ''compatibility'') then need_dict (dget manifest ''compatibility'') else Inr [])"

definition cache_certificate_package :: "string \<Rightarrow> pydict \<Rightarrow> pydict \<Rightarrow> string ag" where
  "cache_certificate_package package_dir manifest signature =
     bindE (lift (py_index (PDict manifest) ''package_id'')) (\<lambda>i.
     let out_dir = path_join package_dir (py_str i) in
     bindE (write_json_artifact (join out_dir ''manifest.json'') manifest) (\<lambda>_.
     bindE (write_json_artifact (join out_dir ''manifest.sig.json'') signature) (\<lambda>_.
     bindE new_uuid (\<lambda>plan_id. bindE iso_now_z (\<lambda>now.
     bindE (lift (compatibility_of manifest)) (\<lambda>compatibility.
     bindE (write_json_artifact (join out_dir ''activation-plan-preview.json'')
       [(''plan_id'', PStr plan_id), (''created_at'', PStr now), (''source'', PStr ''certificate_package''),
        (''package_id'', PStr (py_str i)), (''generation'', dget manifest ''generation''),
        (''runtime_instance_id'', dget manifest ''runtime_instance_id''), (''profile_name'', dget manifest ''profile_name''),
        (''compatibility_status'', dget compatibility ''status''),
        (''status'', PStr (if dget compatibility ''status'' = PStr ''INCOMPATIBLE'' then ''blocked_incompatible''
           else ''package_verified_dry_run_only'')),
        (''runtime_write_enabled'', PBool False), (''dry_run_only'', PBool True),
        (''install_plan'', dget manifest ''install_plan''), (''rollback_metadata'', dget manifest ''rollback_metadata'')])
     (\<lambda>_. ret out_dir)))))))"

definition report_packages :: "setting \<Rightarrow> string \<Rightarrow> string \<Rightarrow> pydict \<Rightarrow> unit ag" where
  "report_packages se package_id state details =
     report_certificate_package_lifecycle (se_gds se) package_id state
       (details @ [(''sync_cycle_id'', PStr (se_cycle se))]) None"

definition pull_package :: "setting \<Rightarrow> string \<Rightarrow> string \<Rightarrow> string \<Rightarrow> string \<Rightarrow> unit ag" where
  "pull_package se package_dir pub fp package_id =
     bindE (fetch_certificate_package (se_gds se) package_id) (\<lambda>(mv, sv).
     bindE (lift (need_dict mv)) (\<lambda>manifest.
     let generation = (''generation'', dget manifest ''generation'') in
     bindE (report_packages se package_id ''PULLED'' [generation, (''manifest_sha256'', dget manifest ''manifest_sha256'')]) (\<lambda>_.
     bindE (lift (need_dict sv)) (\<lambda>signature.
     bindE (lift (verify_certificate_package_manifest (se_ext se) (se_keys se) manifest signature pub fp)) (\<lambda>digest.
     bindE (cache_certificate_package package_dir manifest signature) (\<lambda>out_dir.
     bindE (lift (compatibility_of manifest)) (\<lambda>compatibility.
     let status = py_str (dget_or compatibility ''status'' (PStr ''UNKNOWN'')) in
     bindE (report_packages se package_id ''VERIFIED'' [generation, (''manifest_sha256'', PStr digest),
       (''compatibility_status'', PStr status)]) (\<lambda>_.
     bindE (report_packages se package_id ''STAGED'' [generation, (''cache_dir'', PStr out_dir),
       (''activation_plan_preview'', PStr (join out_dir ''activation-plan-preview.json'')),
       (''runtime_write_enabled'', PBool False), (''dry_run_only'', PBool True)]) (\<lambda>_.
     report_event se (if status = ''INCOMPATIBLE'' then ''warning'' else ''info'') ''pki_trust_sync''
       ''certificate_package_verified''
       [(''package_id'', PStr package_id), generation, (''manifest_sha256'', PStr digest), (''cache_dir'', PStr out_dir),
        (''compatibility_status'', PStr status), (''runtime_write_enabled'', PBool False), (''dry_run_only'', PBool True),
        (''sync_cycle_id'', PStr (se_cycle se))]
       ([(''risk_level'', PStr (get_str compatibility ''risk_level'')),
         (''application_uri'', PStr (get_str manifest ''application_uri''))] @ cycle_tags se))))))))))"

definition package_failure_code :: "exn \<Rightarrow> string" where
  "package_failure_code e =
     (case e of ArtifactVerificationError code _ \<Rightarrow> code | _ \<Rightarrow> ''certificate_package_pull_error'')"

definition pull_and_cache_certificate_packages :: "setting \<Rightarrow> string list \<Rightarrow> string \<Rightarrow> unit ag" where
  "pull_and_cache_certificate_packages se package_ids package_dir =
     (if package_ids = [] then ret ()
      else bindE (pinned_anchor se) (\<lambda>(pub, fp).
        forE package_ids (\<lambda>package_id. catchE (pull_package se package_dir pub fp package_id) (\<lambda>e.
          report_event se ''critical'' ''pki_validation'' ''certificate_package_rejected''
            [(''package_id'', PStr package_id), (''failure_code'', PStr (package_failure_code e)),
             (''error'', PStr (k_exc_text (se_ext se) e)), (''sync_cycle_id'', PStr (se_cycle se))]
            ((''risk_level'', PStr ''CRITICAL'') # cycle_tags se)))))"

end
