(* ===== verification/Agent_Facts.thy ===== *)
theory Agent_Facts
  imports Agent_Cycle
begin

text \<open>
  What the operations of the agent do to one file: it stays as it was or takes one of given
  contents. With it, the cache of trust lists is related to a register that only moves forward.
\<close>

section \<open>One file\<close>

definition file_evolves :: "string \<Rightarrow> content set \<Rightarrow> agent_state \<Rightarrow> agent_state \<Rightarrow> bool" where
  "file_evolves p C w w' \<longleftrightarrow> map_of (g_files w') p = map_of (g_files w) p \<or> map_of (g_files w') p \<in> Some ` C"

interpretation file_evo: evolution "file_evolves p C" for p C
  by unfold_locales (auto simp: file_evolves_def)

lemma no_new_content: "file_evolves p {} w w' \<longleftrightarrow> map_of (g_files w') p = map_of (g_files w) p"
  by (simp add: file_evolves_def)

lemma file_evolves_mono: "file_evolves p C w w' \<Longrightarrow> C \<subseteq> D \<Longrightarrow> file_evolves p D w w'"
  by (auto simp: file_evolves_def)

lemma evolves_mono: "evolves (file_evolves p C) m \<Longrightarrow> C \<subseteq> D \<Longrightarrow> evolves (file_evolves p D) m"
  unfolding evolves_def using file_evolves_mono by blast

lemma primitives_file [evolves_rules]:
  "evolves (file_evolves p C) utc_now" "evolves (file_evolves p C) new_uuid"
  "evolves (file_evolves p C) (lift r)" "evolves (file_evolves p C) (send_request q)"
  "evolves (file_evolves p C) (make_dir d)" "evolves (file_evolves p C) draw"
  "evolves (file_evolves p C) (remember k t)"
  by (simp_all add: evolves_def file_evolves_def utc_now_def new_uuid_def lift_def send_request_def make_dir_def
      draw_def remember_def updE_def)

lemma updE_file: "(\<And>w. g_files (f w) = g_files w) \<Longrightarrow> evolves (file_evolves p C) (updE f)"
  by (simp add: evolves_def file_evolves_def updE_def)

lemma atomic_write_file: "q \<noteq> p \<or> c \<in> C \<Longrightarrow> evolves (file_evolves p C) (atomic_write q c)"
  by (auto simp: evolves_def file_evolves_def atomic_write_def Let_def update_conv')

lemma write_json_file: "q \<noteq> p \<or> Json (PDict d) \<in> C \<Longrightarrow> evolves (file_evolves p C) (write_json_artifact q d)"
  unfolding write_json_artifact_def by (intro file_evo.combinators atomic_write_file)

lemma under_join [simp]: "under d (join d q)"
  by (simp add: under_def starts_with_def join_def)

lemma under_join_under: "under d q \<Longrightarrow> under d (join q r)"
  unfolding under_def starts_with_def join_def
  by (metis append_take_drop_id append.assoc append_eq_conv_conj)

lemma not_under_join: "\<not> under d p \<Longrightarrow> join d q \<noteq> p"
  using under_join by metis

lemma reads_file [evolves_rules]:
  "evolves (file_evolves p C) iso_now_z" "evolves (file_evolves p C) (read_file q)"
  "evolves (file_evolves p C) (read_json x q)" "evolves (file_evolves p C) (load_json_if_exists x q)"
  unfolding iso_now_z_def read_file_def read_json_def load_json_if_exists_def
  by (intro file_evo.combinators evolves_rules; simp)+

lemma bindE_step: "m w = (Inr y, w1) \<Longrightarrow> bindE m f w = f y w1"
  by (simp add: bindE_def)

lemma tryE_step:
  "m w = (Inr y, w1) \<Longrightarrow> tryE m h k w = k y w1" "m w = (Inl e, w1) \<Longrightarrow> tryE m h k w = h e w1"
  by (simp_all add: tryE_def)

section \<open>Requests and events\<close>

lemma requests_file [evolves_rules]:
  "evolves (file_evolves p C) (get_gds gd u)" "evolves (file_evolves p C) (reply_ok res)"
  "evolves (file_evolves p C) (reply_json res)"
  unfolding get_gds_def reply_ok_def reply_json_def
  by (intro file_evo.combinators evolves_rules; simp)+

lemma documents_file [evolves_rules]:
  "evolves (file_evolves p C) (get_existing gd u)" "evolves (file_evolves p C) (get_document gd u)"
  "evolves (file_evolves p C) (load_trust_anchor gd)"
  unfolding get_existing_def get_document_def load_trust_anchor_def
  by (intro file_evo.combinators evolves_rules; simp)+

lemma artifacts_file [evolves_rules]:
  "evolves (file_evolves p C) (fetch_signed_artifact gd z r)"
  "evolves (file_evolves p C) (fetch_canonical_artifact_view gd z r)"
  "evolves (file_evolves p C) (debug_check se z r h n)"
  unfolding fetch_signed_artifact_def fetch_canonical_artifact_view_def debug_check_def
  by (intro file_evo.combinators evolves_rules; simp)+

lemma decision_file [evolves_rules]:
  "evolves (file_evolves p C) (accept k t s)" "evolves (file_evolves p C) (health_decision env h k t)"
  "evolves (file_evolves p C) (telemetry_decision env c s m raw tags)"
  unfolding accept_def health_decision_def telemetry_decision_def Let_def
  by (intro file_evo.combinators evolves_rules updE_file; simp)+

lemma events_file [evolves_rules]:
  "evolves (file_evolves p C) (normalize_for_ot_collector lm e)" "evolves (file_evolves p C) (deliver og d)"
  "evolves (file_evolves p C) (forward_ot_collector_event env og s c m raw tags)"
  "evolves (file_evolves p C) (report_event se s c m raw tags)"
  unfolding normalize_for_ot_collector_def deliver_def forward_ot_collector_event_def report_event_def Let_def
  by (intro file_evo.combinators evolves_rules updE_file; simp)+

section \<open>A cycle\<close>

definition apart :: "setting \<Rightarrow> string \<Rightarrow> bool" where
  \<comment> \<open>a file outside the directories of the reports, of the PKI bundle and of the telemetry\<close>
  "apart se p \<longleftrightarrow> \<not> under (se_diff_dir se) p \<and> \<not> under (se_pki_dir se) p \<and> \<not> under (se_telemetry_dir se) p"

lemma apart_paths:
  assumes "apart se p"
  shows "report_path se z r d \<noteq> p" "join (se_pki_dir se) q \<noteq> p" "join (se_telemetry_dir se) q \<noteq> p"
  using assms not_under_join under_join_under under_join unfolding apart_def report_path_def by metis+

lemma write_reported_file:
  "q \<noteq> p \<or> c \<in> C \<Longrightarrow> evolves (file_evolves p C) (write_reported se q c what raw extra tags)"
  unfolding write_reported_def by (intro file_evo.combinators evolves_rules atomic_write_file)

lemma build_diff_report_file [evolves_rules]:
  "evolves (file_evolves p C) (build_diff_report x order prev cur ca crl reasons)"
  unfolding build_diff_report_def by (intro file_evo.combinators evolves_rules)

lemma parts_file:
  assumes "apart se p"
  shows "evolves (file_evolves p C) (safe_write_pki_bundle se ca crl old_ca old_crl)"
    and "evolves (file_evolves p C) (artifact_rejected se z r previous pg e)"
  unfolding safe_write_pki_bundle_def artifact_rejected_def Let_def
  by (intro file_evo.combinators evolves_rules write_reported_file write_json_file disjI1; simp add: apart_paths [OF assms])+

lemma renew_bundle_file: "apart se p \<Longrightarrow> evolves (file_evolves p C) (renew_bundle se old_ca old_crl pg a)"
  unfolding renew_bundle_def by (intro file_evo.combinators evolves_rules parts_file)

lemma announce_file [evolves_rules]:
  "evolves (file_evolves p C) (announce_verified se fp z r a)" "evolves (file_evolves p C) (report_difference se z r prev a d)"
  unfolding announce_verified_def report_difference_def by (intro file_evo.combinators evolves_rules)+

lemma obtain_artifact_file [evolves_rules]:
  "evolves (file_evolves p C) (obtain_artifact se pub fp z r prev compatible)"
  unfolding obtain_artifact_def Let_def by (intro file_evo.combinators evolves_rules)

lemma artifact_synced_file:
  assumes "apart se p" and "trustlist_path se z r \<noteq> p \<or> Json (PDict (aa_doc a)) \<in> C"
  shows "evolves (file_evolves p C) (artifact_synced se z r prev previous pg a)"
  unfolding artifact_synced_def using assms
  by (intro file_evo.combinators evolves_rules write_reported_file write_json_file)
    (simp_all add: apart_paths)

end
