(* ===== verification/Agent_Verify_Facts.thy ===== *)
theory Agent_Verify_Facts
  imports Agent_Verify Json_Canonical
begin

text \<open>
  The agent and the service agree on canonical documents, times survive their two notations,
  and what an accepted artifact is known to satisfy.
\<close>

section \<open>Both programs sign and verify the same bytes\<close>

lemma canonical_bytes_agree: "canonical_json_bytes_agent = canonical_json_bytes"
  by (simp add: fun_eq_iff canonical_json_bytes_agent_def canonical_json_bytes_def)

lemma canonical_artifact_agree: "canonical_artifact_payload_agent = canonical_artifact_payload"
  by (simp add: fun_eq_iff canonical_artifact_payload_agent_def canonical_artifact_payload_def signed_fields_def)

lemma canonical_manifest_agree: "canonical_package_manifest_agent = canonical_package_manifest"
  by (simp add: fun_eq_iff canonical_package_manifest_agent_def canonical_package_manifest_def)

lemma manifest_digest_agree: "package_manifest_sha256 = manifest_sha256"
  by (simp add: fun_eq_iff package_manifest_sha256_def manifest_sha256_def canonical_bytes_agree canonical_manifest_agree)

lemma dget_ddel: "dget (ddel k d) k' = (if k' = k then PNone else dget d k')"
  and dget_or_ddel: "dget_or (ddel k d) k' v = (if k' = k then v else dget_or d k' v)"
  and dmem_ddel: "dmem k' (ddel k d) \<longleftrightarrow> k' \<noteq> k \<and> dmem k' d"
  by (simp_all add: dget_def dget_or_def dmem_def map_of_ddel)

lemma canonical_ignores_ttl:
  "canonical_artifact_payload (normalize_signed_artifact_for_verification a) = canonical_artifact_payload a"
  by (simp add: canonical_artifact_payload_def normalize_signed_artifact_for_verification_def signed_fields_def
      dget_ddel dget_or_ddel dmem_ddel Let_def)

section \<open>Times\<close>

lemma replace_all_absent: "c \<notin> set s \<Longrightarrow> replace_all [c] new s = s"
  by (induction s) auto

lemma replace_all_suffix: "c \<notin> set (s :: string) \<Longrightarrow> c \<notin> set r \<Longrightarrow> replace_all (c # r) new (s @ c # r) = s @ new"
  by (induction s) auto

definition iso_prefix :: "int \<Rightarrow> string" where
  "iso_prefix t = (case civil_of_days (t div day_usec) of (y, m, d) \<Rightarrow>
     let r = t mod day_usec; s = r div usec; us = r mod usec
     in pad 4 y @ ''-'' @ pad 2 m @ ''-'' @ pad 2 d @ ''T'' @
        pad 2 (s div 3600) @ '':'' @ pad 2 (s div 60 mod 60) @ '':'' @ pad 2 (s mod 60) @
        (if us = 0 then [] else ''.'' @ pad 6 us))"

lemma isoformat_prefix: "isoformat t = iso_prefix t @ ''+00:00''"
  by (simp add: iso_prefix_def isoformat_def iso_utc_sep_def Let_def split: prod.splits)

lemma pad_chars: "c \<in> set (pad n i) \<Longrightarrow> num_char c"
  using int_str_chars [of i] by (auto simp: pad_def Let_def list_all_iff num_char_def is_digit_def)

lemma iso_prefix_chars: "c \<in> set (iso_prefix t) \<Longrightarrow> num_char c \<or> c \<in> {CHR ''T'', CHR '':'', CHR ''.'', CHR ''-''}"
  by (auto simp: iso_prefix_def Let_def dest!: pad_chars split: prod.splits if_splits)

lemma iso_prefix_plain: "CHR ''+'' \<notin> set (iso_prefix t)" "CHR ''Z'' \<notin> set (iso_prefix t)"
  using iso_prefix_chars [of "CHR ''+''" t] iso_prefix_chars [of "CHR ''Z''" t]
  by (auto simp: num_char_def is_digit_def)

lemma iso_z_prefix: "iso_z t = iso_prefix t @ ''Z''"
  using replace_all_suffix [OF iso_prefix_plain(1) [of t], of "''00:00''" "''Z''"] by (simp add: iso_z_def isoformat_prefix)

lemma utc_notations:
  "replace_all ''Z'' ''+00:00'' (iso_z t) = isoformat t" "replace_all ''Z'' ''+00:00'' (isoformat t) = isoformat t"
  using replace_all_suffix [OF iso_prefix_plain(2) [of t], of "[]" "''+00:00''"] replace_all_absent [of "CHR ''Z''" "isoformat t"]
    iso_prefix_plain(2) by (auto simp: iso_z_prefix isoformat_prefix)

section \<open>Accepted artifacts\<close>

lemma head_Inr: "artifact_head_ok a zone role = Inr () \<longleftrightarrow>
    dget a ''zone'' = PStr zone \<and> dget a ''role'' = PStr role \<and> lower (get_str a ''artifact_type'') = ''opcua_trustlist''
    \<and> dget a ''artifact_revision'' \<noteq> PNone"
  by (auto simp: artifact_head_ok_def)

lemma accepted:
  assumes "verify_signed_artifact x y a s zone role pub fp = Inr (digest, n)"
  obtains bytes sig where "canonical_json_bytes (PDict (canonical_artifact_payload a)) = Inr bytes"
    "detached_signature x s = Inr sig" "v_verify y pub sig bytes" "digest = k_sha256 x bytes" "n = length bytes"
    "dget a ''zone'' = PStr zone" "dget a ''role'' = PStr role"
  using assms
  by (auto simp: verify_signed_artifact_def Let_def bindS_Inr head_Inr canonical_bytes_agree canonical_artifact_agree
      canonical_ignores_ttl sha256_hex_def normalize_signed_artifact_for_verification_def [symmetric])
    (auto simp: normalize_signed_artifact_for_verification_def dget_ddel)

lemma accepted_package:
  assumes "verify_certificate_package_manifest x y m s pub fp = Inr digest"
  obtains bytes sig where "canonical_json_bytes (PDict (canonical_package_manifest m)) = Inr bytes"
    "k_b64decode x (strip (get_str s ''signature_base64'')) = Some sig" "v_verify y pub sig bytes"
    "manifest_sha256 x m = Inr digest" "lower digest = lower (get_str m ''manifest_sha256'')"
  using assms
  by (auto simp: verify_certificate_package_manifest_def manifest_signature_ok_def Let_def bindS_Inr
      canonical_bytes_agree canonical_manifest_agree manifest_digest_agree split: option.splits)

end
