(* ===== verification/Agent_Properties.thy ===== *)
theory Agent_Properties
  imports Agent_Verify_Facts Trust_Properties
begin

text \<open>
  The properties of the pull agent against the service: what the service publishes is accepted,
  and what is accepted was published.
\<close>

section \<open>From the service to the agent\<close>

definition signing_keys :: "ext \<Rightarrow> agent_ext \<Rightarrow> signer \<Rightarrow> string \<Rightarrow> bool" where
  \<comment> \<open>what Ed25519 and Base64 promise about the service's key and its public key\<close>
  "signing_keys x y g pub \<longleftrightarrow> (\<forall>m. v_verify y pub (k_sign x (sg_key g) m) m)
     \<and> (\<forall>s. k_b64decode x (k_b64 x s) = Some s) \<and> (\<forall>m. k_b64 x (k_sign x (sg_key g) m) \<noteq> [])"

definition wire :: "(pyval \<Rightarrow> pyval) \<Rightarrow> bool" where
  \<comment> \<open>what the web framework and the JSON codec do to a document between service and agent\<close>
  "wire enc \<longleftrightarrow> (\<forall>v. json_ok v \<longrightarrow> enc v = v) \<and> (\<forall>t. enc (PTime t) = PStr (isoformat t))
     \<and> (\<forall>d. enc (PDict d) = PDict (map (\<lambda>(k, v). (k, enc v)) d))"

lemma wire_json: "wire enc \<Longrightarrow> json_ok v \<Longrightarrow> enc v = v"
  by (simp add: wire_def)

lemma document_built:
  assumes "json_ok certs" "json_ok (PDict cb)" "json_ok (PDict cm)"
  shows "\<exists>s. build_signed_artifact x g l certs chain crl nxt why cb cm gen = Inr s"
  using assms
  by (simp add: build_signed_artifact_def canonical_json_bytes_def canonical_artifact_payload_def artifact_document_def
      signed_fields_def dget_def dget_or_def dput_def dmem_def signer_identity_def Let_def)

lemma document_json:
  assumes "build_signed_artifact x g l certs chain crl nxt why cb cm gen = Inr s"
  shows "json_ok (PDict (sa_artifact s))"
proof -
  obtain bytes where "canonical_json_bytes (PDict (canonical_artifact_payload (sa_artifact s))) = Inr bytes"
    using build_signed_result(1) [OF assms] by blast
  then have "json_ok (PDict (canonical_artifact_payload (sa_artifact s)))" by (rule canonical_bytes_ok)
  then show ?thesis
    unfolding build_signed_result(2) [OF assms]
    by (simp add: canonical_artifact_payload_def artifact_document_def signed_fields_def dget_def dget_or_def dput_def
        dmem_def signer_identity_def Let_def)
qed

lemma signature_on_the_wire:
  assumes "wire enc"
  shows "enc (PDict (signature_document zone role row art)) = PDict
    [(''zone'', PStr zone), (''role'', PStr role), (''version'', PInt (ta_version row)),
     (''artifact_revision'', PInt (ta_revision row)), (''artifact_sha256'', PStr (ta_sha256 row)),
     (''signature_base64'', PStr (ta_signature row)), (''generated_at'', PStr (isoformat (ta_generated row))),
     (''expires_at'', PStr (isoformat (ta_expires row))),
     (''signer'', PDict [(''key_id'', PStr (ta_key_id row)), (''algorithm'', enc (signer_algorithm_of art)),
        (''fingerprint_sha256'', PStr (ta_fingerprint row))])]"
  using assms by (simp add: wire_def signature_document_def artifact_summary_def artifact_times_def)

lemma algorithm_texts: "lower ''opcua_trustlist'' = ''opcua_trustlist''" "lower signer_algorithm = ''ed25519''"
  "signer_algorithm \<noteq> []"
  by code_simp+

lemma document_admissible:
  fixes g l certs chain crl nxt why cb cm gen
  defines "art \<equiv> artifact_document g l certs chain crl nxt why cb cm gen"
  shows "normalize_signed_artifact_for_verification art = art"
    "artifact_head_ok art (tl_zone l) (tl_role l) = Inr ()" "artifact_signer_ok art (sg_fingerprint g) = Inr ()"
    "signer_algorithm_of art = PStr signer_algorithm"
  unfolding art_def
  by (simp_all add: normalize_signed_artifact_for_verification_def artifact_document_def ddel_def head_Inr dget_def
      get_str_def dget_or_def algorithm_texts artifact_signer_ok_def need_dict_def signer_identity_def
      signer_algorithm_of_def as_dict_def)

text \<open>C6: What the service publishes, the agent accepts. An artifact built and signed by the
  service and stored as the next revision of its target passes the agent's verification,
  together with the signature document of the artifact.sig endpoint, under the service's
  key, for its zone and role, and the digest the agent computes is the stored one.\<close>

theorem published_artifact_is_accepted:
  assumes "signing_keys x y g pub" "wire enc" "\<forall>t \<in> {gen, gen + sg_ttl g * usec}. k_parse_iso x (isoformat t) = Some t"
    and built: "build_signed_artifact x g l certs chain crl nxt why cb cm gen = Inr s"
    and stored: "insert_trust_artifact zone role (tl_version l) (sa_artifact s) (sa_sha256 s) (sa_signature s)
      (sa_key_id s) (sa_fingerprint s) (sa_generated s) (sa_expires s) why t d = (Inr row, d')"
    and nxt: "nxt = max_revision d zone role + 1"
  shows "enc (PDict (ta_json row)) = PDict (ta_json row) \<and>
    (\<exists>sig n. enc (PDict (signature_document (tl_zone l) (tl_role l) row (ta_json row))) = PDict sig \<and>
      verify_signed_artifact x y (ta_json row) sig (tl_zone l) (tl_role l) pub (sg_fingerprint g) = Inr (ta_sha256 row, n))"
proof -
  note row = insert_artifact_result [OF stored]
  note doc = build_signed_result [OF built]
  obtain bytes where bytes: "canonical_json_bytes (PDict (canonical_artifact_payload (sa_artifact s))) = Inr bytes"
    "sa_sha256 s = k_sha256 x bytes" "sa_signature s = k_b64 x (k_sign x (sg_key g) bytes)" using doc(1) by blast
  let ?art = "artifact_document g l certs chain crl nxt why cb cm gen"
  note art = document_admissible [of g l certs chain crl nxt why cb cm gen]
  have same: "enc (PDict ?art) = PDict ?art" "enc (PStr signer_algorithm) = PStr signer_algorithm"
    using wire_json [OF assms(2)] document_json [OF built] by (simp_all add: doc(2) del: json_ok.simps(5))
  let ?sig = "[(''zone'', PStr (tl_zone l)), (''role'', PStr (tl_role l)), (''version'', PInt (ta_version row)),
     (''artifact_revision'', PInt (ta_revision row)), (''artifact_sha256'', PStr (ta_sha256 row)),
     (''signature_base64'', PStr (ta_signature row)), (''generated_at'', PStr (isoformat (ta_generated row))),
     (''expires_at'', PStr (isoformat (ta_expires row))),
     (''signer'', PDict [(''key_id'', PStr (ta_key_id row)), (''algorithm'', PStr signer_algorithm),
        (''fingerprint_sha256'', PStr (ta_fingerprint row))])]"
  have sig: "enc (PDict (signature_document (tl_zone l) (tl_role l) row (ta_json row))) = PDict ?sig"
    unfolding signature_on_the_wire [OF assms(2)] row(6) doc(2) art(4) same(2) ..
  have signer: "signature_signer_ok ?sig (sg_fingerprint g) = Inr ()"
    by (simp add: signature_signer_ok_def dget_or_def need_dict_def get_str_def algorithm_texts row doc)
  have fields: "numbers_agree ?sig ?art ''version'' m = Inr ()" "numbers_agree ?sig ?art ''artifact_revision'' m = Inr ()"
    "times_agree x ?sig ?art ''generated_at'' = Inr ()" "times_agree x ?sig ?art ''expires_at'' = Inr ()" for m
    using assms(3) nxt
    by (simp_all add: numbers_agree_def times_agree_def artifact_document_def dget_def py_int_def row doc
        parse_rfc3339_utc_def utc_notations to_rfc3339_utc_def)
  have detached: "detached_signature x ?sig = Inr (k_sign x (sg_key g) bytes)"
    using assms(1) by (simp add: detached_signature_def dget_def row bytes signing_keys_def)
  have digest: "lower (get_str ?sig ''artifact_sha256'') = lower (k_sha256 x bytes)"
    by (simp add: get_str_def dget_or_def row bytes)
  have "verify_signed_artifact x y ?art ?sig (tl_zone l) (tl_role l) pub (sg_fingerprint g)
      = Inr (k_sha256 x bytes, length bytes)"
    using assms(1) bytes(1)
    by (simp add: verify_signed_artifact_def Let_def art signer fields detached digest guardS_def ensureS_def
        canonical_bytes_agree canonical_artifact_agree doc(2) sha256_hex_def signing_keys_def)
  with sig same(1) show ?thesis by (simp add: row doc(2) bytes(2))
qed

text \<open>A concrete wire, key and clock.\<close>

fun sample_wire :: "pyval \<Rightarrow> pyval" where
  "sample_wire (PTime t) = PStr (isoformat t)"
| "sample_wire (PBytes s) = PStr s"
| "sample_wire (PDate d) = PStr (take 10 (isoformat (d * day_usec)))"
| "sample_wire (PList vs) = PList (map sample_wire vs)"
| "sample_wire (PDict kvs) = PDict (map (\<lambda>(k, v). (k, sample_wire v)) kvs)"
| "sample_wire v = v"

lemma sample_wire: "wire sample_wire"
proof -
  have "json_ok v \<Longrightarrow> sample_wire v = v" for v
  proof (induction v rule: sample_wire.induct)
    case (4 vs)
    then show ?case by (auto intro: map_idI)
  next
    case (5 kvs)
    then show ?case by (fastforce intro!: map_idI)
  qed auto
  then show ?thesis by (simp add: wire_def)
qed

definition agent_side_ext :: ext where
  "agent_side_ext = sample_ext\<lparr>k_sign := (\<lambda>key m. key @ m), k_parse_iso := (\<lambda>s. if s = isoformat 0 then Some 0 else None)\<rparr>"

definition sample_keys :: agent_ext where
  "sample_keys = \<lparr>v_load_public = (\<lambda>pem. Some (pem, True)), v_public_der = (\<lambda>pub. pub),
     v_verify = (\<lambda>pub sig m. sig = pub @ m)\<rparr>"

definition anchored_signer :: signer where
  "anchored_signer = sample_signer\<lparr>sg_ttl := 0\<rparr>"

lemma sample_keys: "signing_keys agent_side_ext sample_keys anchored_signer ''k''"
  by (simp add: signing_keys_def agent_side_ext_def sample_ext_def sample_keys_def anchored_signer_def sample_signer_def)

lemma sample_published:
  "\<exists>s row d'. build_signed_artifact agent_side_ext anchored_signer sample_list (PList []) [] [] 1 ''r'' [] [] 0 = Inr s
     \<and> insert_trust_artifact ''OT'' ''server'' (tl_version sample_list) (sa_artifact s) (sa_sha256 s) (sa_signature s)
          (sa_key_id s) (sa_fingerprint s) (sa_generated s) (sa_expires s) ''r'' 0 empty_db = (Inr row, d')"
proof -
  obtain s where s: "build_signed_artifact agent_side_ext anchored_signer sample_list (PList []) [] [] 1 ''r'' [] [] 0 = Inr s"
    using document_built [of "PList []" "[]" "[]"] by fastforce
  with document_json [OF s] show ?thesis
    by (simp add: insert_trust_artifact_def json_dumps_def Let_def del: json_ok.simps(5))
qed

theorem published_artifact_is_accepted_witness:
  "\<exists>(row :: artifact_row) sig n. verify_signed_artifact agent_side_ext sample_keys (ta_json row) sig ''OT'' ''server'' ''k'' ''f''
     = Inr (ta_sha256 row, n)"
proof -
  obtain s row d' where s: "build_signed_artifact agent_side_ext anchored_signer sample_list (PList []) [] [] 1 ''r'' [] [] 0 = Inr s"
    and row: "insert_trust_artifact ''OT'' ''server'' (tl_version sample_list) (sa_artifact s) (sa_sha256 s) (sa_signature s)
          (sa_key_id s) (sa_fingerprint s) (sa_generated s) (sa_expires s) ''r'' 0 empty_db = (Inr row, d')"
    using sample_published by blast
  have "\<forall>t \<in> {0, 0 + sg_ttl anchored_signer * usec}. k_parse_iso agent_side_ext (isoformat t) = Some t"
    by (simp add: agent_side_ext_def anchored_signer_def)
  moreover have "1 = max_revision empty_db ''OT'' ''server'' + 1" by code_simp
  ultimately have "\<exists>sig n. verify_signed_artifact agent_side_ext sample_keys (ta_json row) sig (tl_zone sample_list)
      (tl_role sample_list) ''k'' (sg_fingerprint anchored_signer) = Inr (ta_sha256 row, n)"
    using published_artifact_is_accepted [OF sample_keys sample_wire _ s row] by blast
  then have "\<exists>sig n. verify_signed_artifact agent_side_ext sample_keys (ta_json row) sig ''OT'' ''server'' ''k'' ''f''
      = Inr (ta_sha256 row, n)"
    by (simp add: sample_list_def anchored_signer_def sample_signer_def)
  then show ?thesis by (rule exI [of _ row])
qed

lemma sort_keys_str: "sort_keys v = PStr s \<longleftrightarrow> v = PStr s"
  by (cases v) auto


definition sample_document :: pydict where
  "sample_document = artifact_document anchored_signer sample_list (PList []) [] [] 1 ''r'' [] [] 0"

definition strict_keys :: agent_ext where
  \<comment> \<open>a key under which one payload verifies\<close>
  "strict_keys = sample_keys\<lparr>v_verify := (\<lambda>pub sig m.
     canonical_json_bytes (PDict (canonical_artifact_payload sample_document)) = Inr m)\<rparr>"


end
