(* ===== verification/Agent_Scenario.thy ===== *)
theory Agent_Scenario
  imports Agent_Properties Agent_Cycle
begin

text \<open>
  A concrete environment of the agent: some files, a disk that accepts every write, a network
  that is down, and the settings of a cycle.
\<close>

definition sample_agent :: "(string \<times> content) list \<Rightarrow> agent_state" where
  "sample_agent files = \<lparr>g_files = files, g_dirs = [], g_writable = (\<lambda>_. True), g_writes = 0, g_clock = (\<lambda>_. 0),
     g_ticks = 0, g_uuid = (\<lambda>n. nat_str n), g_uuids = 0, g_reply = (\<lambda>_. Inl (TransportError ''down'')), g_sent = [],
     g_events = [], g_last_sent = Map.empty, g_last_health = Map.empty, g_within_rate = (\<lambda>_. True), g_draws = 0\<rparr>"

definition quiet_origin :: origin where
  "quiet_origin = \<lparr>og_enabled = False, og_url = [], og_zone = ''OT'', og_ip = [], og_host = [],
     og_limits = \<lparr>lm_message = 0, lm_raw = 0, lm_bytes = 0\<rparr>\<rparr>"

definition sample_setting :: setting where
  "sample_setting = \<lparr>se_ext = agent_side_ext, se_keys = sample_keys, se_env = (\<lambda>_. None), se_origin = quiet_origin,
     se_gds = \<lparr>gd_url = ''http://gds'', gd_headers = []\<rparr>, se_trust_dir = ''/t'', se_pki_dir = ''/p'', se_diff_dir = ''/d'',
     se_telemetry_dir = ''/m'', se_pinned = ''f'', se_debug = False, se_cycle = ''c'', se_order = (\<lambda>vs. vs)\<rparr>"

end
