(* ===== verification/Agent_Register.thy ===== *)
theory Agent_Register
  imports Agent_Facts Agent_Scenario
begin

text \<open>
  The cache of trust lists refines a register that only moves forward: whatever the service and
  the network answer, a cycle leaves the version and revision cached under the pinned key as
  they are, fills an empty place, or puts a pair in it that is not behind.
\<close>

section \<open>The register\<close>

text \<open>The abstract specification: of the pairs \<open>S\<close> that are on offer, the register takes one that is
  not behind the pair it holds, or stays as it is.\<close>

inductive register_step :: "(int \<times> int) set \<Rightarrow> (int \<times> int) option \<Rightarrow> (int \<times> int) option \<Rightarrow> bool"
  for S where
  keep: "register_step S l l"
| first: "q \<in> S \<Longrightarrow> register_step S None (Some q)"
| advance: "q' \<in> S \<Longrightarrow> q \<le> q' \<Longrightarrow> register_step S (Some q) (Some q')"

inductive_simps register_step_None: "register_step S None l"
inductive_simps register_step_Some: "register_step S (Some q) l"

lemma register_step_trans: "register_step S a b \<Longrightarrow> register_step S b c \<Longrightarrow> register_step S a c"
  by (erule register_step.cases; erule register_step.cases) (auto intro: register_step.intros order_trans)

lemma register_never_back: "register_step S (Some q) l \<Longrightarrow> \<exists>q'. l = Some q' \<and> q \<le> q'"
  by (erule register_step.cases) (auto simp del: split_paired_Ex)

section \<open>The abstraction\<close>

definition cached_level :: "ext \<Rightarrow> string \<Rightarrow> content \<Rightarrow> exn + (int \<times> int) option" where
  "cached_level x fp c = bindS (json_of_file x c) (\<lambda>v.
     if \<not> truthy v then Inr None
     else bindS (need_dict v) (\<lambda>prev. bindS (signed_under fp prev) (cached_pair prev)))"

definition trust_level :: "ext \<Rightarrow> string \<Rightarrow> string \<Rightarrow> agent_state \<Rightarrow> (int \<times> int) option" where
  \<comment> \<open>version and revision of the list cached in a file and signed under the key; \<open>None\<close> when there is none\<close>
  "trust_level x fp p w = (case map_of (g_files w) p of None \<Rightarrow> None
     | Some c \<Rightarrow> (case cached_level x fp c of Inl _ \<Rightarrow> None | Inr l \<Rightarrow> l))"

definition register_moves :: "(int \<times> int) set \<Rightarrow> ext \<Rightarrow> string \<Rightarrow> string \<Rightarrow> agent_state \<Rightarrow> agent_state \<Rightarrow> bool" where
  "register_moves S x fp p w w' \<longleftrightarrow> register_step S (trust_level x fp p w) (trust_level x fp p w')"

interpretation register: evolution "register_moves S x fp p" for S x fp p
  by unfold_locales (auto simp: register_moves_def intro: register_step.keep register_step_trans)

lemma same_file_register: "evolves (file_evolves p {}) m \<Longrightarrow> evolves (register_moves S x fp p) m"
  by (simp add: evolves_def no_new_content register_moves_def trust_level_def register_step.keep)

lemma signed_under_lower: "lower fp = lower fp' \<Longrightarrow> signed_under fp = signed_under fp'"
  by (simp add: signed_under_def fun_eq_iff)

lemma trust_level_lower: "lower fp = lower fp' \<Longrightarrow> trust_level x fp p w = trust_level x fp' p w"
proof -
  assume "lower fp = lower fp'"
  note same = signed_under_lower [OF this]
  show ?thesis unfolding trust_level_def cached_level_def same ..
qed

section \<open>What is read and what is written\<close>

lemma previous_state: "previous_trustlist se z r fp w = (res, w') \<Longrightarrow> w' = w"
  by (auto simp: previous_trustlist_def load_json_if_exists_def read_json_def read_file_def lift_def eff_defs
      split: prod.splits sum.splits option.splits if_splits)

lemma previous_level:
  assumes "previous_trustlist se z r fp w = (Inr (prev, s), w')"
  shows "trust_level (se_ext se) fp (trustlist_path se z r) w = (case cached_pair prev s of Inl _ \<Rightarrow> None | Inr l \<Rightarrow> l)"
proof (cases "map_of (g_files w) (trustlist_path se z r)")
  case None
  with assms show ?thesis
    by (auto simp: previous_trustlist_def load_json_if_exists_def read_json_def read_file_def lift_def eff_defs
        trust_level_def cached_pair_def split: prod.splits sum.splits if_splits)
next
  case (Some c)
  with assms show ?thesis
    by (auto simp: previous_trustlist_def load_json_if_exists_def read_json_def read_file_def lift_def eff_defs
        trust_level_def cached_level_def cached_pair_def path_exists_def is_file_def bindS_def
        split: prod.splits sum.splits if_splits)
qed

lemma verified_is_signed:
  assumes "verify_signed_artifact x y a s zone role pub fp = Inr res"
  shows "signed_under fp a = Inr True"
proof -
  from assms have "artifact_head_ok (ddel ''ttl_remaining_seconds'' a) zone role = Inr ()"
    and "artifact_signer_ok (ddel ''ttl_remaining_seconds'' a) fp = Inr ()"
    by (auto simp: verify_signed_artifact_def Let_def normalize_signed_artifact_for_verification_def)
  then show ?thesis
    by (auto simp: head_Inr signed_under_def artifact_signer_ok_def Let_def bindS_def dget_ddel get_str_def dget_or_def dget_def
        need_dict_def map_of_ddel split: sum.splits option.splits pyval.splits if_splits)
qed

lemma accepted_level:
  assumes "signed_under fp a = Inr True" and "not_replayed prev s a = Inr q"
  shows "cached_level x fp (Json (PDict a)) = Inr (Some q)"
    and "q \<in> S \<Longrightarrow> register_step S (case cached_pair prev s of Inl _ \<Rightarrow> None | Inr l \<Rightarrow> l) (Some q)"
proof -
  from assms(2) obtain before v r where before: "cached_pair prev s = Inr before"
    and v: "py_int (dget a ''version'') = Inr v" and r: "py_int (dget a ''artifact_revision'') = Inr r"
    and run: "(case before of None \<Rightarrow> Inr (v, r)
      | Some b \<Rightarrow> if (v, r) < b then Inl (ValueError ''replay_detected tuple_regression'') else Inr (v, r)) = Inr q"
    unfolding not_replayed_def bindS_Inr by blast
  have q: "q = (v, r)" and ge: "\<And>b. before = Some b \<Longrightarrow> b \<le> (v, r)"
    using run by (auto simp: not_less simp del: split_paired_All split: option.splits if_splits)
  from v have "dget a ''version'' \<noteq> PNone" by (auto simp: py_int_def)
  moreover from this have "a \<noteq> []" by (auto simp: dget_def)
  ultimately show "cached_level x fp (Json (PDict a)) = Inr (Some q)"
    using assms(1) v r q by (simp add: cached_level_def json_of_file_def need_dict_def cached_pair_def bindS_def)
  show "q \<in> S \<Longrightarrow> register_step S (case cached_pair prev s of Inl _ \<Rightarrow> None | Inr l \<Rightarrow> l) (Some q)"
    using before ge q by (cases before) (auto intro: register_step.intros)
qed

lemma obtained:
  assumes "obtain_artifact se pub fp z r prev s w = (Inr a, w')"
  shows "signed_under fp (aa_doc a) = Inr True" and "not_replayed prev s (aa_doc a) = Inr (aa_version a, aa_revision a)"
  using assms
  by (auto simp: obtain_artifact_def Let_def bindE_Inr lift_def ret_run raise_run verified_is_signed split: prod.splits if_splits)

text \<open>The pairs on offer: those of artifacts that verify under a key.\<close>

definition accepted_pairs :: "ext \<Rightarrow> agent_ext \<Rightarrow> string \<Rightarrow> string \<Rightarrow> (int \<times> int) set" where
  "accepted_pairs x y pub fp = {(v, r). \<exists>doc s z role res. verify_signed_artifact x y doc s z role pub fp = Inr res
     \<and> py_int (dget doc ''version'') = Inr v \<and> py_int (dget doc ''artifact_revision'') = Inr r}"

lemma obtained_pair:
  assumes "obtain_artifact se pub fp z r prev s w = (Inr a, w')"
  shows "(aa_version a, aa_revision a) \<in> accepted_pairs (se_ext se) (se_keys se) pub fp"
proof -
  from assms obtain sg res where "verify_signed_artifact (se_ext se) (se_keys se) (aa_doc a) sg z r pub fp = Inr res"
    by (auto simp: obtain_artifact_def Let_def bindE_Inr lift_def ret_run raise_run split: prod.splits if_splits)
  moreover have "py_int (dget (aa_doc a) ''version'') = Inr (aa_version a)"
    and "py_int (dget (aa_doc a) ''artifact_revision'') = Inr (aa_revision a)"
    using obtained(2) [OF assms]
    by (auto simp: not_replayed_def bindS_Inr simp del: split_paired_All split: option.splits if_splits)
  ultimately show ?thesis unfolding accepted_pairs_def by blast
qed

section \<open>The simulation\<close>

lemma sync_other_file:
  assumes "apart se p" and "trustlist_path se z r \<noteq> p"
  shows "evolves (file_evolves p {}) (sync_target se pub fp old_ca old_crl (z, r) pg)"
  unfolding sync_target_def previous_trustlist_def Let_def prod.case
  by (intro file_evo.combinators evolves_rules parts_file renew_bundle_file artifact_synced_file assms disjI1)

lemma sync_accepted_file:
  assumes "apart se p"
  shows "evolves (file_evolves p {Json (PDict (aa_doc a))})
    (tryE (renew_bundle se old_ca old_crl pg a) (artifact_rejected se z r previous pg) (\<lambda>pg'.
     tryE (announce_verified se fp z r a) (artifact_rejected se z r previous pg') (\<lambda>_.
       artifact_synced se z r prev previous pg' a)))"
  by (intro file_evo.combinators evolves_rules parts_file renew_bundle_file artifact_synced_file assms disjI2) simp

lemma sync_own_file:
  assumes offer: "accepted_pairs (se_ext se) (se_keys se) pub fp \<subseteq> S" and apart: "apart se p" and p: "p = trustlist_path se z r"
  shows "evolves (register_moves S (se_ext se) fp p) (sync_target se pub fp old_ca old_crl (z, r) pg)"
  unfolding evolves_def
proof
  fix w
  obtain res w0 where prev: "previous_trustlist se z r fp w = (res, w0)" by fastforce
  from previous_state [OF this] prev have prev: "previous_trustlist se z r fp w = (res, w)" by simp
  show "register_moves S (se_ext se) fp p w (snd (sync_target se pub fp old_ca old_crl (z, r) pg w))"
  proof (cases res)
    case (Inl e)
    with prev show ?thesis by (simp add: sync_target_def bindE_def register.evo_refl)
  next
    case (Inr ps)
    obtain prev s where ps: "ps = (prev, s)" by fastforce
    let ?previous = "if s then Some prev else None"
    obtain got w1 where got: "obtain_artifact se pub fp z r prev s w = (got, w1)" by fastforce
    have same: "map_of (g_files w1) p = map_of (g_files w) p"
      using obtain_artifact_file [of p "{}" se pub fp z r prev s] got
      by (metis evolves_def no_new_content snd_conv)
    show ?thesis
    proof (cases got)
      case (Inl e)
      have "sync_target se pub fp old_ca old_crl (z, r) pg w = artifact_rejected se z r ?previous pg e w1"
        using prev \<open>res = Inr ps\<close> ps got Inl
        by (simp add: sync_target_def bindE_step [of _ w "(prev, s)" w] tryE_step(2) [of _ w e w1] Let_def)
      moreover have "map_of (g_files (snd (artifact_rejected se z r ?previous pg e w1))) p = map_of (g_files w1) p"
        using parts_file(2) [OF apart, of "{}"] by (simp add: evolves_def no_new_content)
      ultimately show ?thesis using same
        by (simp add: register_moves_def trust_level_def register_step.keep)
    next
      case (Inr a)
      let ?c = "Json (PDict (aa_doc a))"
      let ?later = "snd (sync_target se pub fp old_ca old_crl (z, r) pg w)"
      let ?rest = "tryE (renew_bundle se old_ca old_crl pg a) (artifact_rejected se z r ?previous pg) (\<lambda>pg'.
        tryE (announce_verified se fp z r a) (artifact_rejected se z r ?previous pg') (\<lambda>_.
          artifact_synced se z r prev ?previous pg' a))"
      have "sync_target se pub fp old_ca old_crl (z, r) pg w = ?rest w1"
        using prev \<open>res = Inr ps\<close> ps got Inr
        by (simp add: sync_target_def bindE_step [of _ w "(prev, s)" w] tryE_step(1) [of _ w a w1] Let_def)
      moreover have "file_evolves p {?c} w1 (snd (?rest w1))"
        by (rule sync_accepted_file [OF apart, unfolded evolves_def, rule_format])
      ultimately have cases: "map_of (g_files ?later) p = map_of (g_files w) p \<or> map_of (g_files ?later) p = Some ?c"
        using same by (simp add: file_evolves_def)
      note level = accepted_level [OF obtained [OF got [unfolded Inr]]]
      have "trust_level (se_ext se) fp p w = (case cached_pair prev s of Inl _ \<Rightarrow> None | Inr l \<Rightarrow> l)"
        using previous_level prev \<open>res = Inr ps\<close> ps p by metis
      then have "register_step S (trust_level (se_ext se) fp p w) (Some (aa_version a, aa_revision a))"
        using level(2) obtained_pair [OF got [unfolded Inr]] offer by auto
      moreover have "map_of (g_files ?later) p = Some ?c \<Longrightarrow>
          trust_level (se_ext se) fp p ?later = Some (aa_version a, aa_revision a)"
        using level(1) [of "se_ext se"] by (simp add: trust_level_def)
      moreover have "map_of (g_files ?later) p = map_of (g_files w) p \<Longrightarrow>
          trust_level (se_ext se) fp p ?later = trust_level (se_ext se) fp p w"
        by (simp add: trust_level_def)
      ultimately show ?thesis using cases unfolding register_moves_def by (metis register_step.keep)
    qed
  qed
qed

lemma sync_target_moves:
  assumes "accepted_pairs (se_ext se) (se_keys se) pub fp \<subseteq> S" and "apart se p"
  shows "evolves (register_moves S (se_ext se) fp p) (sync_target se pub fp old_ca old_crl t pg)"
proof -
  obtain z r where t: "t = (z, r)" by fastforce
  show ?thesis
    using sync_own_file [OF assms] same_file_register [OF sync_other_file [OF assms(2)]] t by (cases "trustlist_path se z r = p") auto
qed

lemma sync_targets_moves:
  assumes "accepted_pairs (se_ext se) (se_keys se) pub fp \<subseteq> S" and "apart se p"
  shows "evolves (register_moves S (se_ext se) fp p) (sync_targets se pub fp old_ca old_crl ts pg)"
proof (induction ts arbitrary: pg)
  case Nil
  show ?case by (simp add: register.ret_evolves)
next
  case (Cons t ts)
  then show ?case by (simp add: register.bindE_evolves sync_target_moves [OF assms])
qed

section \<open>Whole cycles\<close>

lemma telemetry_file:
  assumes "apart se p"
  shows "evolves (file_evolves p C) (persist_and_forward_gds_telemetry se)"
  unfolding persist_and_forward_gds_telemetry_def pull_gds_telemetry_def forward_component_def Let_def
  by (intro file_evo.combinators evolves_rules write_json_file disjI1 apart_paths [OF assms])

lemma read_if_exists_file [evolves_rules]: "evolves (file_evolves p C) (read_if_exists q)"
  unfolding read_if_exists_def by (intro file_evo.combinators evolves_rules)

lemma pinned_anchor_file [evolves_rules]: "evolves (file_evolves p C) (pinned_anchor se)"
  unfolding pinned_anchor_def by (intro file_evo.combinators evolves_rules)

lemma anchored:
  assumes "pinned_anchor se w = (Inr (pub, fp), w')" and "se_pinned se \<noteq> []"
  shows "lower fp = lower (se_pinned se)" and "fp = sha256_hex (se_ext se) (v_public_der (se_keys se) pub)"
  using assms
  by (auto simp: pinned_anchor_def verify_trust_anchor_fingerprint_def Let_def bindE_Inr bindS_Inr lift_def
      split: option.splits prod.splits)

definition signed_pairs :: "ext \<Rightarrow> agent_ext \<Rightarrow> string \<Rightarrow> (int \<times> int) set" where
  \<comment> \<open>version and revision of the artifacts that verify under the key with the pinned fingerprint\<close>
  "signed_pairs x y pinned = (\<Union>pub \<in> {pub. lower (sha256_hex x (v_public_der y pub)) = lower pinned}.
     accepted_pairs x y pub (sha256_hex x (v_public_der y pub)))"

lemma cycle_moves:
  assumes "apart se p" and pinned: "se_pinned se \<noteq> []"
  shows "evolves (register_moves (signed_pairs (se_ext se) (se_keys se) (se_pinned se)) (se_ext se) (se_pinned se) p)
    (run_sync_cycle_signed se targets)"
    (is "evolves (register_moves ?S ?x ?fp p) _")
  unfolding evolves_def
proof
  fix w
  obtain res w1 where run: "pinned_anchor se w = (res, w1)" by fastforce
  have first: "register_moves ?S ?x ?fp p w w1"
    using same_file_register [OF pinned_anchor_file, where S = ?S and fp = ?fp and x = ?x and p = p] run by (metis evolves_def snd_conv)
  show "register_moves ?S ?x ?fp p w (snd (run_sync_cycle_signed se targets w))"
  proof (cases res)
    case (Inl e)
    with run first show ?thesis by (simp add: run_sync_cycle_signed_def bindE_def)
  next
    case (Inr a)
    obtain pub fp where a: "a = (pub, fp)" by fastforce
    note key = anchored [OF run [unfolded Inr a] pinned]
    then have offer: "accepted_pairs ?x (se_keys se) pub fp \<subseteq> ?S" by (auto simp: signed_pairs_def)
    have eq: "register_moves ?S ?x ?fp p = register_moves ?S ?x fp p"
      using trust_level_lower [OF key(1)] by (simp add: fun_eq_iff register_moves_def)
    note quiet = same_file_register
    have "evolves (register_moves ?S ?x ?fp p)
      (bindE (read_if_exists (join (se_pki_dir se) ''ca-chain.pem'')) (\<lambda>old_ca.
       bindE (read_if_exists (join (se_pki_dir se) ''crl.der'')) (\<lambda>old_crl.
       bindE (sync_targets se pub fp old_ca old_crl targets
         \<lparr>pg_ca_changed = False, pg_crl_changed = False, pg_written = False\<rparr>) (\<lambda>_.
       bindE (persist_and_forward_gds_telemetry se) (\<lambda>_. ret True)))))" (is "evolves _ ?rest")
      unfolding eq
      by (intro register.combinators sync_targets_moves [OF offer assms(1)] quiet [OF read_if_exists_file]
          quiet [OF telemetry_file [OF assms(1)]])
    from this [unfolded evolves_def, THEN spec, of w1]
    have "register_moves ?S ?x ?fp p w (snd (?rest w1))" by (rule register.evo_trans [OF first])
    moreover have "run_sync_cycle_signed se targets w = ?rest w1"
      using run Inr a by (simp add: run_sync_cycle_signed_def bindE_step [of _ w "(pub, fp)" w1])
    ultimately show ?thesis by (simp only:)
  qed
qed

definition run_cycles :: "(setting \<times> (string \<times> string) list) list \<Rightarrow> agent_state \<Rightarrow> agent_state" where
  "run_cycles cycles w = fold (\<lambda>(se, targets) t. snd (run_sync_cycle_signed se targets t)) cycles w"

text \<open>C3: The cache of trust lists refines a register that never moves back. Over any number of
  cycles, whatever the service, the network and the disk do, the version and revision cached in a
  file that lies outside the directories of the other outputs, under the pinned key, stay as they
  are or become those of an artifact that verifies under that key and is not behind the pair cached
  before: no answer of the service rolls the trust of the agent back.\<close>

theorem trust_cache_refines_register:
  assumes "\<forall>(se, targets) \<in> set cycles. apart se p \<and> se_ext se = x \<and> se_keys se = y \<and> se_pinned se = pinned"
    and "pinned \<noteq> []"
  shows "register_step (signed_pairs x y pinned) (trust_level x pinned p w) (trust_level x pinned p (run_cycles cycles w))"
proof -
  let ?run = "\<lambda>(se, targets). run_sync_cycle_signed se targets"
  have "list_all (evolves (register_moves (signed_pairs x y pinned) x pinned p)) (map ?run cycles)"
    using assms cycle_moves by (fastforce simp: list_all_iff)
  from register.run_evolves [OF this] show ?thesis
    by (simp add: register_moves_def run_cycles_def fold_map comp_def case_prod_unfold)
qed

definition cached_list :: pydict where
  "cached_list = [(''artifact_type'', PStr ''opcua_trustlist''), (''signer'', PDict [(''fingerprint_sha256'', PStr ''f'')]),
     (''version'', PInt 3), (''artifact_revision'', PInt 5)]"

theorem trust_cache_refines_register_witness:
  "\<exists>q. trust_level agent_side_ext ''f'' ''/t/OT_server.json''
     (run_cycles [(sample_setting, [(''OT'', ''server'')]), (sample_setting, [(''OT'', ''server'')])]
       (sample_agent [(''/t/OT_server.json'', Json (PDict cached_list))])) = Some q \<and> (3, 5) \<le> q"
proof -
  let ?w = "sample_agent [(''/t/OT_server.json'', Json (PDict cached_list))]"
  have setting: "apart sample_setting ''/t/OT_server.json''" "se_ext sample_setting = agent_side_ext"
    "se_keys sample_setting = sample_keys" "se_pinned sample_setting = ''f''"
    by (simp_all add: apart_def under_def starts_with_def sample_setting_def)
  have "trust_level agent_side_ext ''f'' ''/t/OT_server.json'' ?w = Some (3, 5)"
    by (simp add: trust_level_def cached_level_def json_of_file_def sample_agent_def cached_list_def need_dict_def
        signed_under_def cached_pair_def dget_def get_str_def dget_or_def py_int_def lower_def lower_char_def bindS_def)
  with trust_cache_refines_register [of "[(sample_setting, [(''OT'', ''server'')]), (sample_setting, [(''OT'', ''server'')])]"
      "''/t/OT_server.json''" agent_side_ext sample_keys "''f''" ?w] setting
  show ?thesis by (auto dest!: register_never_back simp del: split_paired_Ex)
qed

end
