(* ===== verification/Agent_Policy.thy ===== *)
theory Agent_Policy
  imports Agent_World
begin

text \<open>
  Maintenance windows, blackouts and target policies of the agent. A time of day is the
  number of minutes since midnight; the time zone database is the function \<open>zones\<close> that maps a
  known zone to its local time at a point in time.
\<close>

section \<open>Windows\<close>

definition parse_time_hhmm :: "string \<Rightarrow> int option" where
  "parse_time_hhmm raw =
     (case dropWhile (\<lambda>c. c \<noteq> CHR '':'') raw of
       [] \<Rightarrow> None
     | _ # mm \<Rightarrow> (case (parse_int (takeWhile (\<lambda>c. c \<noteq> CHR '':'') raw), parse_int mm) of
         (Some h, Some m) \<Rightarrow> if 0 \<le> h \<and> h \<le> 23 \<and> 0 \<le> m \<and> m \<le> 59 then Some (h * 60 + m) else None
       | _ \<Rightarrow> None))"

definition weekday_table :: "(string \<times> nat) list" where
  "weekday_table = [(''mon'', 0), (''monday'', 0), (''tue'', 1), (''tuesday'', 1), (''wed'', 2), (''wednesday'', 2),
     (''thu'', 3), (''thursday'', 3), (''fri'', 4), (''friday'', 4), (''sat'', 5), (''saturday'', 5), (''sun'', 6),
     (''sunday'', 6)]"

definition parse_weekday :: "string \<Rightarrow> nat option" where
  "parse_weekday raw = map_of weekday_table (lower (strip raw))"

record blackout =
  bo_name :: string
  bo_start :: string
  bo_end :: string

datatype window =
    Absolute string string string string  \<comment> \<open>start, end, identifier, reason\<close>
  | Daily int int "nat list"

definition named_or :: "string \<Rightarrow> string" where
  "named_or s = str_or (strip s) ''unnamed''"

definition parse_interval :: "ext \<Rightarrow> string \<Rightarrow> string \<Rightarrow> (string \<times> string) option" where
  \<comment> \<open>both ends normalised, unless one is malformed or the interval is empty\<close>
  "parse_interval x start_raw end_raw =
     (case (parse_rfc3339_utc x start_raw, parse_rfc3339_utc x end_raw) of
       (Inr s, Inr e) \<Rightarrow> if e \<le> s then None else Some (iso_z s, iso_z e)
     | _ \<Rightarrow> None)"

definition parse_blackout_entry :: "ext \<Rightarrow> pydict \<Rightarrow> blackout option" where
  "parse_blackout_entry x item =
     (let start_raw = strip (py_str (dget_or item ''start_at'' (dget_or item ''start'' (PStr []))));
          end_raw = strip (py_str (dget_or item ''end_at'' (dget_or item ''end'' (PStr [])))) in
      if start_raw = [] \<or> end_raw = [] then None
      else map_option (\<lambda>(s, e). \<lparr>bo_name = named_or (py_str (dget_or item ''name'' (PStr ''unnamed''))),
             bo_start = s, bo_end = e\<rparr>) (parse_interval x start_raw end_raw))"

definition parse_window_entry :: "ext \<Rightarrow> pydict \<Rightarrow> window option" where
  "parse_window_entry x item =
     (let start_raw = strip (py_str (dget_or item ''start'' (dget_or item ''start_at'' (PStr []))));
          end_raw = strip (py_str (dget_or item ''end'' (dget_or item ''end_at'' (PStr [])))) in
      if CHR ''T'' \<in> set start_raw \<and> CHR ''T'' \<in> set end_raw
      then map_option (\<lambda>(s, e). Absolute s e
             (named_or (py_str (dget_or item ''id'' (dget_or item ''name'' (PStr ''unnamed'')))))
             (strip (get_str item ''reason''))) (parse_interval x start_raw end_raw)
      else case (parse_time_hhmm start_raw, parse_time_hhmm end_raw, dget_or item ''days'' (PList [])) of
        (Some s, Some e, PList days_raw) \<Rightarrow>
          (let days = List.map_filter (\<lambda>d. parse_weekday (py_str d)) days_raw in
           if days = [] then None else Some (Daily s e (sort (remdups days))))
      | _ \<Rightarrow> None)"

section \<open>Policies\<close>

record target_policy =
  tp_window_required :: bool
  tp_level :: string
  tp_override :: bool
  tp_rollback :: bool

definition default_target_policy :: "string \<Rightarrow> target_policy" where
  "default_target_policy target =
     (let base = \<lparr>tp_window_required = True, tp_level = ''single'', tp_override = False, tp_rollback = True\<rparr> in
      if target = ''opcua-server'' then base\<lparr>tp_level := ''dual''\<rparr>
      else if target = ''fuxa'' then base\<lparr>tp_level := ''single'', tp_override := True\<rparr>
      else if starts_with target ''dmz-gateway''
      then base\<lparr>tp_window_required := False, tp_level := ''single'', tp_override := True\<rparr>
      else base)"

definition level_text :: "target_policy \<Rightarrow> pydict \<Rightarrow> string" where
  "level_text policy raw = lower (strip (py_str (dget_or raw ''approval_level'' (PStr (tp_level policy)))))"

definition override_policy :: "pydict \<Rightarrow> target_policy \<Rightarrow> target_policy" where
  "override_policy raw policy =
     \<lparr>tp_window_required = (if dmem ''maintenance_window_required'' raw then truthy (dget raw ''maintenance_window_required'')
        else tp_window_required policy),
      tp_level = (if level_text policy raw \<in> {''single'', ''dual''} then level_text policy raw else tp_level policy),
      tp_override = (if dmem ''emergency_override_allowed'' raw then truthy (dget raw ''emergency_override_allowed'')
        else tp_override policy),
      tp_rollback = (if dmem ''auto_rollback_enabled'' raw then truthy (dget raw ''auto_rollback_enabled'')
        else tp_rollback policy)\<rparr>"

record target_plan =
  pl_windows :: "window list"
  pl_blackouts :: "blackout list"
  pl_policy :: target_policy

record maintenance_policy =
  mp_timezone :: string
  mp_targets :: "(string \<times> target_plan) list"
  mp_blackouts :: "blackout list"

definition upd_target :: "string \<Rightarrow> (target_plan \<Rightarrow> target_plan) \<Rightarrow> (string \<times> target_plan) list \<Rightarrow> (string \<times> target_plan) list" where
  \<comment> \<open>\<open>targets.setdefault(target, ...)\<close>, then the change\<close>
  "upd_target target f targets =
     (let obj = (case map_of targets target of Some o' \<Rightarrow> o'
        | None \<Rightarrow> \<lparr>pl_windows = [], pl_blackouts = [], pl_policy = default_target_policy target\<rparr>)
      in AList.update target (f obj) targets)"

definition add_window_v1 :: "ext \<Rightarrow> pyval \<Rightarrow> (string \<times> target_plan) list \<Rightarrow> (string \<times> target_plan) list" where
  "add_window_v1 x v targets =
     (let item = as_dict v; target = strip (get_str item ''target'') in
      if \<not> is_dict v \<or> target = [] then targets
      else case parse_window_entry x item of None \<Rightarrow> targets
        | Some win \<Rightarrow> upd_target target (\<lambda>obj. obj\<lparr>pl_windows := pl_windows obj @ [win]\<rparr>) targets)"

definition add_target_v2 :: "ext \<Rightarrow> pyval \<Rightarrow> (string \<times> target_plan) list \<Rightarrow> (string \<times> target_plan) list" where
  "add_target_v2 x v targets =
     (let item = as_dict v; target = strip (get_str item ''target'') in
      if \<not> is_dict v \<or> target = [] then targets
      else upd_target target (\<lambda>obj.
        \<lparr>pl_windows = pl_windows obj @ List.map_filter (parse_window_entry x) (dicts_of (dget item ''windows'')),
         pl_blackouts = pl_blackouts obj @ List.map_filter (parse_blackout_entry x) (dicts_of (dget item ''blackouts'')),
         pl_policy = (case dget_or item ''policy'' (PDict []) of
            PDict raw \<Rightarrow> override_policy raw (pl_policy obj) | _ \<Rightarrow> pl_policy obj)\<rparr>) targets)"

definition add_target_policy :: "string \<times> pyval \<Rightarrow> (string \<times> target_plan) list \<Rightarrow> (string \<times> target_plan) list" where
  "add_target_policy kv targets =
     (let target = strip (fst kv) in
      case snd kv of
        PDict raw \<Rightarrow> if target = [] then targets
          else upd_target target (\<lambda>obj. obj\<lparr>pl_policy := override_policy raw (pl_policy obj)\<rparr>) targets
      | _ \<Rightarrow> targets)"

definition policy_of_document :: "ext \<Rightarrow> string \<Rightarrow> pydict \<Rightarrow> exn + maintenance_policy" where
  "policy_of_document x default_timezone raw =
     bindS (py_iter (dget_or raw ''blackouts'' (PList []))) (\<lambda>blackouts.
     bindS (py_iter (dget_or raw ''windows'' (PList []))) (\<lambda>windows.
     bindS (py_iter (dget_or raw ''targets'' (PList []))) (\<lambda>items.
       let t1 = fold (add_window_v1 x) windows [];
           t2 = fold (add_target_v2 x) items t1;
           t3 = fold add_target_policy (as_dict (dget_or raw ''target_policies'' (PDict []))) t2
       in Inr \<lparr>mp_timezone = str_or (strip (py_str (dget_or raw ''timezone'' (PStr default_timezone)))) default_timezone,
           mp_targets = t3,
           mp_blackouts = List.map_filter (parse_blackout_entry x) (dicts_of (PList blackouts))\<rparr>)))"

definition load_maintenance_policy :: "ext \<Rightarrow> string \<Rightarrow> string \<Rightarrow> maintenance_policy ag" where
  "load_maintenance_policy x p default_timezone =
     bindE (getE (path_exists p)) (\<lambda>found.
       if \<not> found then ret \<lparr>mp_timezone = default_timezone, mp_targets = [], mp_blackouts = []\<rparr>
       else bindE (read_json x p) (\<lambda>v. bindE (lift (need_dict v)) (\<lambda>raw.
         lift (policy_of_document x default_timezone raw))))"

section \<open>The status of a target\<close>

definition within_interval :: "ext \<Rightarrow> int \<Rightarrow> string \<Rightarrow> string \<Rightarrow> bool" where
  \<comment> \<open>a malformed end means not within\<close>
  "within_interval x now start_at end_at =
     (case (parse_rfc3339_utc x start_at, parse_rfc3339_utc x end_at) of
       (Inr s, Inr e) \<Rightarrow> s \<le> now \<and> now \<le> e | _ \<Rightarrow> False)"

definition local_weekday :: "int \<Rightarrow> nat" where
  \<comment> \<open>Monday is 0; the epoch was a Thursday\<close>
  "local_weekday t = nat ((t div day_usec + 3) mod 7)"

definition local_minutes :: "int \<Rightarrow> int" where
  "local_minutes t = t mod day_usec div (60 * usec)"

definition window_open :: "ext \<Rightarrow> int \<Rightarrow> int \<Rightarrow> window \<Rightarrow> bool" where
  "window_open x now now_local w = (case w of
     Absolute s e _ _ \<Rightarrow> within_interval x now s e
   | Daily s e days \<Rightarrow> local_weekday now_local \<in> set days \<and>
       (let tod = local_minutes now_local in if s \<le> e then s \<le> tod \<and> tod \<le> e else s \<le> tod \<or> tod \<le> e))"

definition policy_dict :: "target_policy \<Rightarrow> pydict" where
  "policy_dict p = [(''maintenance_window_required'', PBool (tp_window_required p)), (''approval_level'', PStr (tp_level p)),
     (''emergency_override_allowed'', PBool (tp_override p)), (''auto_rollback_enabled'', PBool (tp_rollback p))]"

definition plan_of_target :: "maintenance_policy \<Rightarrow> string \<Rightarrow> target_plan" where
  "plan_of_target policy target = (case map_of (mp_targets policy) target of Some obj \<Rightarrow> obj
     | None \<Rightarrow> \<lparr>pl_windows = [], pl_blackouts = [], pl_policy = default_target_policy target\<rparr>)"

definition window_status_at ::
  "ext \<Rightarrow> (string \<Rightarrow> (int \<Rightarrow> int) option) \<Rightarrow> string \<Rightarrow> maintenance_policy \<Rightarrow> int \<Rightarrow> pydict" where
  "window_status_at x zones target policy now =
     (let plan = plan_of_target policy target;
          tz = (case zones (mp_timezone policy) of None \<Rightarrow> ''UTC'' | Some _ \<Rightarrow> mp_timezone policy);
          now_local = (case zones (mp_timezone policy) of None \<Rightarrow> now | Some f \<Rightarrow> f now);
          active = find (\<lambda>b. within_interval x now (bo_start b) (bo_end b)) (mp_blackouts policy @ pl_blackouts plan);
          within = list_ex (window_open x now now_local) (pl_windows plan);
          status = (if active \<noteq> None then ''blackout'' else if pl_windows plan = [] then ''not_configured''
            else if within then ''open'' else ''closed'')
      in [(''status'', PStr status), (''within_window'', PBool within), (''within_blackout'', PBool (active \<noteq> None)),
          (''active_blackout_name'', (case active of None \<Rightarrow> PNone | Some b \<Rightarrow> PStr (bo_name b))), (''timezone'', PStr tz),
          (''window_required'', PBool (tp_window_required (pl_policy plan))),
          (''emergency_override_allowed'', PBool (tp_override (pl_policy plan))),
          (''policy'', PDict (policy_dict (pl_policy plan)))])"

definition maintenance_window_status ::
  "ext \<Rightarrow> (string \<Rightarrow> (int \<Rightarrow> int) option) \<Rightarrow> string \<Rightarrow> maintenance_policy \<Rightarrow> pydict ag" where
  "maintenance_window_status x zones target policy =
     bindE utc_now (\<lambda>now. ret (window_status_at x zones target policy now))"

end
