(* ===== verification/Agent_Targets.thy ===== *)
theory Agent_Targets
  imports Agent_Core
begin

text \<open>
  The runtimes the agent knows: the catalogue, the targets configured for an agent and
  whether its zone manages them, and the target a certificate package is meant for.
\<close>

section \<open>The catalogue\<close>

record target_cfg =
  rt_target :: string
  rt_uri :: string
  rt_instance :: string
  rt_profile :: string
  rt_component :: string
  rt_common_name :: string
  rt_zone :: string
  rt_role :: string
  rt_layout :: string
  rt_root :: string
  rt_trusted_certs :: string
  rt_trusted_crl :: string
  rt_issuer_certs :: string
  rt_issuer_crl :: string
  rt_rejected :: string
  rt_checked :: "string list"

definition opcua_server_cfg :: "environ \<Rightarrow> target_cfg" where
  "opcua_server_cfg env = \<lparr>rt_target = ''opcua-server'',
     rt_uri = env_agent env ''GDS_AGENT_APPLICATION_URI_OPCUA_SERVER'' ''urn:dataprotect:opcua:ot-server'',
     rt_instance = env_agent env ''GDS_AGENT_RUNTIME_INSTANCE_ID_OPCUA_SERVER'' ''urn:dataprotect:opcua:ot-server'',
     rt_profile = ''open62541-server'', rt_component = ''server'', rt_common_name = ''PowerGridOPCUA'',
     rt_zone = env_agent env ''GDS_AGENT_TARGET_ZONE_OPCUA_SERVER'' ''OT'', rt_role = ''server'',
     rt_layout = ''open62541-opcua-server'',
     rt_root = env_agent env ''GDS_AGENT_RUNTIME_PATH_OPCUA_SERVER'' ''/runtime/opcua-server/pki'',
     rt_trusted_certs = ''ApplCerts/trusted/certs'', rt_trusted_crl = ''ApplCerts/trusted/crl'',
     rt_issuer_certs = ''ApplCerts/issuer/certs'', rt_issuer_crl = ''ApplCerts/issuer/crl'',
     rt_rejected = ''ApplCerts/rejected/certs'',
     rt_checked = [env_agent env ''GDS_AGENT_RUNTIME_PATH_OPCUA_SERVER'' ''/runtime/opcua-server/pki'',
       env_agent env ''GDS_AGENT_RUNTIME_PATH_OPCUA_SERVER_OWN_CERT''
         ''/runtime/opcua-server/pki/ApplCerts/own/certs/server.der'',
       env_agent env ''GDS_AGENT_RUNTIME_PATH_OPCUA_SERVER_TRUSTED''
         ''/runtime/opcua-server/pki/ApplCerts/trusted/certs'']\<rparr>"

definition fuxa_cfg :: "environ \<Rightarrow> target_cfg" where
  "fuxa_cfg env = \<lparr>rt_target = ''fuxa'',
     rt_uri = env_agent env ''GDS_AGENT_APPLICATION_URI_FUXA'' ''urn:dataprotect:opcua:fuxa-client'',
     rt_instance = env_agent env ''GDS_AGENT_RUNTIME_INSTANCE_ID_FUXA'' ''urn:dataprotect:opcua:fuxa-client'',
     rt_profile = ''node-opcua-client'', rt_component = ''client'', rt_common_name = ''FuxaClient'',
     rt_zone = env_agent env ''GDS_AGENT_TARGET_ZONE_FUXA'' ''OT'', rt_role = ''scada-client'',
     rt_layout = ''node-opcua-fuxa'', rt_root = env_agent env ''GDS_AGENT_RUNTIME_PATH_FUXA'' ''/runtime/fuxa/PKI'',
     rt_trusted_certs = ''trusted/certs'', rt_trusted_crl = ''trusted/crl'', rt_issuer_certs = ''issuers/certs'',
     rt_issuer_crl = ''issuers/crl'', rt_rejected = ''rejected'',
     rt_checked = [env_agent env ''GDS_AGENT_RUNTIME_PATH_FUXA'' ''/runtime/fuxa/PKI'',
       env_agent env ''GDS_AGENT_RUNTIME_PATH_FUXA_TRUSTED'' ''/runtime/fuxa/PKI/trusted/certs'']\<rparr>"

definition dmz_client_cfg :: "environ \<Rightarrow> target_cfg" where
  "dmz_client_cfg env = (let root = env_agent env ''GDS_AGENT_RUNTIME_PATH_DMZ_GATEWAY_CLIENT''
       ''/runtime/opcua-dmz-gateway/pki/southbound'' in
     \<lparr>rt_target = ''dmz-gateway-client'',
     rt_uri = env_agent env ''GDS_AGENT_APPLICATION_URI_DMZ_GATEWAY_CLIENT'' ''urn:dataprotect:opcua:dmz-gateway-client'',
     rt_instance = env_agent env ''GDS_AGENT_RUNTIME_INSTANCE_ID_DMZ_GATEWAY_CLIENT''
       ''urn:dataprotect:opcua:dmz-gateway-client'',
     rt_profile = ''open62541-client'', rt_component = ''client'', rt_common_name = ''DMZGatewayClient'',
     rt_zone = ''DMZ'', rt_role = ''southbound-client'', rt_layout = ''open62541-dmz-gateway-client'', rt_root = root,
     rt_trusted_certs = ''trusted/certs'', rt_trusted_crl = ''trusted/crl'', rt_issuer_certs = ''issuer/certs'',
     rt_issuer_crl = ''issuer/crl'', rt_rejected = ''rejected/certs'', rt_checked = [root]\<rparr>)"

definition dmz_server_cfg :: "environ \<Rightarrow> target_cfg" where
  "dmz_server_cfg env = (let root = env_agent env ''GDS_AGENT_RUNTIME_PATH_DMZ_GATEWAY_SERVER''
       ''/runtime/opcua-dmz-gateway/pki/northbound'' in
     \<lparr>rt_target = ''dmz-gateway-server'',
     rt_uri = env_agent env ''GDS_AGENT_APPLICATION_URI_DMZ_GATEWAY_SERVER'' ''urn:dataprotect:opcua:dmz-gateway-server'',
     rt_instance = env_agent env ''GDS_AGENT_RUNTIME_INSTANCE_ID_DMZ_GATEWAY_SERVER''
       ''urn:dataprotect:opcua:dmz-gateway-server'',
     rt_profile = ''open62541-server'', rt_component = ''server'', rt_common_name = ''DMZGatewayServer'',
     rt_zone = ''DMZ'', rt_role = ''northbound-server'', rt_layout = ''open62541-dmz-gateway-server'', rt_root = root,
     rt_trusted_certs = ''trusted/certs'', rt_trusted_crl = ''trusted/crl'', rt_issuer_certs = ''issuer/certs'',
     rt_issuer_crl = ''issuer/crl'', rt_rejected = ''rejected/certs'', rt_checked = [root]\<rparr>)"

definition build_runtime_target_catalog :: "environ \<Rightarrow> (string \<times> target_cfg) list" where
  \<comment> \<open>the parameter \<open>agent_zone\<close> of the source is not used\<close>
  "build_runtime_target_catalog env = map (\<lambda>c. (rt_target c, c))
     [opcua_server_cfg env, fuxa_cfg env, dmz_client_cfg env, dmz_server_cfg env]"

definition resolve_runtime_targets :: "environ \<Rightarrow> string list \<Rightarrow> target_cfg list" where
  "resolve_runtime_targets env configured = List.map_filter (map_of (build_runtime_target_catalog env)) configured"

section \<open>Zones\<close>

definition target_zone :: "target_cfg \<Rightarrow> string" where
  "target_zone cfg = upper (strip (rt_zone cfg))"

definition target_managed_by_agent_zone :: "target_cfg \<Rightarrow> string \<Rightarrow> bool" where
  "target_managed_by_agent_zone cfg agent_zone \<longleftrightarrow> target_zone cfg = upper (strip agent_zone)"

definition unmanaged_configured_targets :: "environ \<Rightarrow> string \<Rightarrow> string list \<Rightarrow> pydict list" where
  "unmanaged_configured_targets env agent_zone configured =
     List.map_filter (\<lambda>t. case map_of (build_runtime_target_catalog env) t of
         None \<Rightarrow> None
       | Some cfg \<Rightarrow> if target_managed_by_agent_zone cfg agent_zone then None
           else Some [(''target'', PStr t), (''target_zone'', PStr (target_zone cfg)),
             (''agent_zone'', PStr (upper (strip agent_zone)))]) configured"

definition lookup_managed_runtime_target ::
  "environ \<Rightarrow> string \<Rightarrow> target_cfg list \<Rightarrow> string \<Rightarrow> target_cfg option \<times> string" where
  "lookup_managed_runtime_target env agent_zone targets name =
     (let t = strip name in
      if t = [] then (None, ''target_required'')
      else case find (\<lambda>cfg. rt_target cfg = t) targets of
        Some cfg \<Rightarrow> if target_managed_by_agent_zone cfg agent_zone then (Some cfg, [])
                    else (None, ''target_not_managed_by_agent_zone'')
      | None \<Rightarrow> (case map_of (build_runtime_target_catalog env) t of
            Some cfg \<Rightarrow> if target_managed_by_agent_zone cfg agent_zone then (None, ''target_not_configured'')
                        else (None, ''target_not_managed_by_agent_zone'')
          | None \<Rightarrow> (None, ''target_not_configured'')))"

section \<open>Packages\<close>

definition preferred_target :: "pydict \<Rightarrow> string" where
  "preferred_target manifest =
     (let profile = lower (get_str manifest ''profile_name''); component = lower (get_str manifest ''component_type'') in
      if profile = ''node-opcua-client'' \<or> (starts_with profile ''node-opcua'' \<and> component = ''client'') then ''fuxa''
      else if profile = ''open62541-server'' \<or> (starts_with profile ''open62541'' \<and> component = ''server'')
      then ''opcua-server''
      else [])"

definition infer_runtime_target_for_package :: "pydict \<Rightarrow> target_cfg list \<Rightarrow> target_cfg option" where
  "infer_runtime_target_for_package manifest targets =
     (let uri = strip (get_or_empty manifest ''application_uri'') in
      if uri \<noteq> [] then find (\<lambda>t. strip (rt_uri t) = uri) targets
      else find (\<lambda>t. rt_target t = preferred_target manifest) targets)"

section \<open>Facts\<close>

lemma lookup_managed:
  "lookup_managed_runtime_target env z ts name = (Some cfg, err)
     \<Longrightarrow> cfg \<in> set ts \<and> rt_target cfg = strip name \<and> target_managed_by_agent_zone cfg z \<and> err = []"
  by (auto simp: lookup_managed_runtime_target_def Let_def find_Some_iff split: if_splits option.splits)

lemma lookup_error: "lookup_managed_runtime_target env z ts name = (None, err) \<Longrightarrow> err \<noteq> []"
  by (auto simp: lookup_managed_runtime_target_def Let_def split: if_splits option.splits)

lemma inferred_mem: "infer_runtime_target_for_package m ts = Some t \<Longrightarrow> t \<in> set ts"
  by (auto simp: infer_runtime_target_for_package_def Let_def find_Some_iff split: if_splits)

lemma catalog_names: "map_of (build_runtime_target_catalog env) k = Some cfg \<Longrightarrow> rt_target cfg = k"
  unfolding build_runtime_target_catalog_def by (drule map_of_SomeD) auto

lemma resolved_names:
  assumes "t \<in> set (resolve_runtime_targets env names)"
  shows "rt_target t \<in> set names"
proof -
  obtain k where "k \<in> set names" "map_of (build_runtime_target_catalog env) k = Some t"
    using assms by (auto simp: resolve_runtime_targets_def map_filter_def)
  then show ?thesis using catalog_names by metis
qed

end
