(* ===== verification/Agent_Approval.thy ===== *)
theory Agent_Approval
  imports Agent_Policy Agent_Targets
begin

text \<open>
  Signed approvals of operators, the approvals in force for a target, and the gate that decides
  whether an activation may be staged.
\<close>

section \<open>Signed approvals\<close>

record approval_signer =
  ap_key :: string
  ap_pub :: string
  ap_key_id :: string
  ap_fpr :: string

definition approval_signer_of :: "ext \<Rightarrow> agent_ext \<Rightarrow> (string \<Rightarrow> string) \<Rightarrow> string \<Rightarrow> string \<Rightarrow> string \<Rightarrow> approval_signer ag" where
  \<comment> \<open>the key file, or the newly generated key, which is written to it; \<open>public_of\<close> is \<open>public_key\<close>\<close>
  "approval_signer_of x y public_of key_path key_id generated =
     bindE (getE (path_exists key_path)) (\<lambda>found.
     bindE (if found
            then bindE (read_file key_path) (\<lambda>f. case f of
                Json _ \<Rightarrow> raise (ParseError ''private key'')
              | Bytes raw \<Rightarrow> (case k_load_private x raw of
                    None \<Rightarrow> raise (ParseError ''private key'')
                  | Some (key, ed25519) \<Rightarrow> if ed25519 then ret key
                      else raise (ValueError ''approval signing key is not ed25519'')))
            else bindE (atomic_write key_path (Bytes (k_private_pem x generated))) (\<lambda>_. ret generated)) (\<lambda>key.
       ret \<lparr>ap_key = key, ap_pub = public_of key, ap_key_id = key_id,
         ap_fpr = k_sha256 x (v_public_der y (public_of key))\<rparr>))"

definition approval_fields :: "string list" where
  "approval_fields = [''schema'', ''schema_version'', ''approval_id'', ''created_at'', ''expires_at'', ''target'', ''plan_id'',
     ''operator'', ''decision'', ''reason'', ''approval_level'', ''emergency_override'', ''policy_snapshot'']"

definition canonical_approval_payload :: "pydict \<Rightarrow> pydict" where
  "canonical_approval_payload payload = map (\<lambda>k. (k, dget payload k)) approval_fields"

definition sign_approval :: "ext \<Rightarrow> approval_signer \<Rightarrow> pydict \<Rightarrow> exn + pydict" where
  "sign_approval x g payload =
     bindS (canonical_json_bytes_agent (PDict (canonical_approval_payload payload))) (\<lambda>canonical.
       Inr (dput ''signature'' (PDict [(''algorithm'', PStr ''ed25519''), (''key_id'', PStr (ap_key_id g)),
         (''fingerprint_sha256'', PStr (ap_fpr g)),
         (''signature_base64'', PStr (k_b64 x (k_sign x (ap_key g) canonical)))]) payload))"

definition approval_bytes_verified :: "ext \<Rightarrow> agent_ext \<Rightarrow> approval_signer \<Rightarrow> pydict \<Rightarrow> string \<Rightarrow> bool \<times> string" where
  "approval_bytes_verified x y g rec b64 =
     (case (k_b64decode x b64, canonical_json_bytes_agent (PDict (canonical_approval_payload rec))) of
       (Some sig, Inr canonical) \<Rightarrow>
         if v_verify y (ap_pub g) sig canonical then (True, []) else (False, ''approval_signature_invalid'')
     | _ \<Rightarrow> (False, ''approval_signature_malformed''))"

definition verify_approval :: "ext \<Rightarrow> agent_ext \<Rightarrow> approval_signer \<Rightarrow> pydict \<Rightarrow> bool \<times> string" where
  "verify_approval x y g rec = (case dget rec ''signature'' of
     PDict meta \<Rightarrow>
       (let b64 = strip (get_str meta ''signature_base64'') in
        if lower (get_str meta ''algorithm'') \<noteq> ''ed25519'' then (False, ''approval_signature_unsupported'')
        else if strip (get_str meta ''key_id'') \<noteq> ap_key_id g then (False, ''approval_signature_key_id_mismatch'')
        else if lower (strip (get_str meta ''fingerprint_sha256'')) \<noteq> lower (ap_fpr g)
        then (False, ''approval_signature_fingerprint_mismatch'')
        else if b64 = [] then (False, ''approval_signature_missing_bytes'')
        else approval_bytes_verified x y g rec b64)
   | _ \<Rightarrow> (False, ''approval_signature_missing''))"

definition create_signed_approval_file ::
  "ext \<Rightarrow> approval_signer \<Rightarrow> string \<Rightarrow> string \<Rightarrow> string \<Rightarrow> string \<Rightarrow> string \<Rightarrow> int \<Rightarrow> string \<Rightarrow> bool \<Rightarrow> pyval \<Rightarrow> string \<Rightarrow>
   pydict ag" where
  "create_signed_approval_file x g approvals_dir target operator decision reason expires_in_minutes level override
     policy_snapshot plan_id =
     bindE new_uuid (\<lambda>approval_id.
     bindE iso_now_z (\<lambda>created_at.
     bindE utc_now (\<lambda>now.
       let payload = [(''schema'', PStr ''labshock_approval_v1''), (''schema_version'', PInt 1),
         (''approval_id'', PStr approval_id), (''created_at'', PStr created_at),
         (''expires_at'', PStr (iso_z (now + max 1 expires_in_minutes * 60 * usec))), (''target'', PStr target),
         (''plan_id'', PStr plan_id), (''operator'', PStr operator), (''decision'', PStr decision),
         (''reason'', PStr reason), (''approval_level'', PStr level), (''emergency_override'', PBool override),
         (''policy_snapshot'', policy_snapshot)] in
       bindE (lift (sign_approval x g payload)) (\<lambda>signed.
       bindE (write_json_artifact (join approvals_dir (dated_name created_at approval_id)) signed) (\<lambda>_.
         ret signed)))))"

section \<open>Approvals in force\<close>

definition unexpired :: "ext \<Rightarrow> pydict \<Rightarrow> bool ag" where
  "unexpired x payload =
     (let expires_at = strip (get_str payload ''expires_at'') in
      if expires_at = [] then ret False
      else case parse_rfc3339_utc x expires_at of
        Inl _ \<Rightarrow> ret False
      | Inr t \<Rightarrow> bindE utc_now (\<lambda>now. ret (now < t)))"

definition approval_in_force :: "ext \<Rightarrow> agent_ext \<Rightarrow> approval_signer \<Rightarrow> string \<Rightarrow> pydict \<Rightarrow> bool ag" where
  "approval_in_force x y g target payload =
     (if get_str payload ''target'' \<noteq> target \<or> lower (get_str payload ''decision'') \<noteq> ''approve''
         \<or> \<not> fst (verify_approval x y g payload) then ret False
      else unexpired x payload)"

text \<open>Newest file first; a file that is not JSON is skipped, a document that is not an object
  raises an \<open>AttributeError\<close>.\<close>

definition consider_approval :: "ext \<Rightarrow> agent_ext \<Rightarrow> approval_signer \<Rightarrow> string \<Rightarrow> string \<Rightarrow> pydict option ag" where
  "consider_approval x y g target p =
     tryE (read_json x p) (\<lambda>_. ret None) (\<lambda>v.
       bindE (lift (need_dict v)) (\<lambda>payload.
       bindE (approval_in_force x y g target payload) (\<lambda>ok. ret (if ok then Some payload else None))))"

definition load_valid_approvals_for_target ::
  "ext \<Rightarrow> agent_ext \<Rightarrow> string \<Rightarrow> string \<Rightarrow> approval_signer \<Rightarrow> pydict list ag" where
  "load_valid_approvals_for_target x y approvals_dir target g =
     bindE (getE (json_files_in approvals_dir)) (\<lambda>files.
     bindE (mapE (consider_approval x y g target) (rev files)) (\<lambda>found. ret (List.map_filter id found)))"

definition operators_of :: "pydict list \<Rightarrow> string list" where
  "operators_of approvals = sort (remdups (filter (\<lambda>s. s \<noteq> []) (map (\<lambda>a. strip (get_str a ''operator'')) approvals)))"

definition load_active_approval_for_target ::
  "ext \<Rightarrow> agent_ext \<Rightarrow> string \<Rightarrow> string \<Rightarrow> approval_signer \<Rightarrow> string \<Rightarrow> (pydict option \<times> string) ag" where
  "load_active_approval_for_target x y approvals_dir target g required_level =
     bindE (load_valid_approvals_for_target x y approvals_dir target g) (\<lambda>approvals.
       ret (if required_level = ''dual''
         then (let ops = operators_of approvals in
           if 2 \<le> length ops
           then (Some [(''approval_id'', PStr (str_join '','' (map (\<lambda>a. get_str a ''approval_id'') (take 2 approvals)))),
                  (''operators'', PList (map PStr (take 2 ops))),
                  (''emergency_override'', PBool (list_ex (\<lambda>a. truthy (dget a ''emergency_override'')) approvals)),
                  (''count'', PInt (int (length ops)))], ''approved_dual'')
           else (None, ''required_missing_dual''))
         else (case approvals of
             [] \<Rightarrow> (None, ''required_missing_single'')
           | a # _ \<Rightarrow> (Some [(''approval_id'', dget a ''approval_id''), (''operators'', PList [dget a ''operator'']),
                  (''emergency_override'', PBool (truthy (dget a ''emergency_override''))), (''count'', PInt 1)],
                  ''approved_single''))))"

section \<open>Compatibility\<close>

definition compat_dict :: "target_cfg \<Rightarrow> pydict \<Rightarrow> (string \<times> bool) list \<Rightarrow> pydict" where
  "compat_dict cfg artifact checked =
     (let issues =
        (if dget artifact ''zone'' \<noteq> PStr (rt_zone cfg) then [''artifact_zone_mismatch''] else []) @
        (if dget artifact ''role'' \<noteq> PStr (rt_role cfg) then [''artifact_role_mismatch''] else []) @
        (if \<not> str_contains ''BEGIN CERTIFICATE'' (get_str artifact ''ca_chain_pem'') then [''ca_chain_missing''] else []) @
        (case dget artifact ''certificates'' of PList _ \<Rightarrow> [] | _ \<Rightarrow> [''certificates_malformed''])
      in [(''status'', PStr (if issues \<noteq> [] then ''INCOMPATIBLE'' else if list_ex snd checked then ''COMPATIBLE''
             else ''PREVIEW_ONLY'')),
          (''issues'', PList (map PStr issues)),
          (''runtime_paths_checked'', PList (map (\<lambda>(p, e). PDict [(''path'', PStr p), (''exists'', PBool e)]) checked))])"

definition evaluate_runtime_compatibility :: "target_cfg \<Rightarrow> pydict \<Rightarrow> pydict ag" where
  "evaluate_runtime_compatibility cfg artifact =
     bindE (getE (\<lambda>w. map (\<lambda>p. (p, path_exists p w)) (rt_checked cfg))) (\<lambda>checked.
       ret (compat_dict cfg artifact checked))"

section \<open>The gate\<close>

definition flag :: "pydict \<Rightarrow> string \<Rightarrow> bool \<Rightarrow> bool" where
  "flag d k dflt = truthy (dget_or d k (PBool dflt))"

definition gate_decision ::
  "pydict \<Rightarrow> pydict \<Rightarrow> bool \<Rightarrow> pydict \<Rightarrow> string \<Rightarrow> bool \<Rightarrow> string \<times> string" where
  \<comment> \<open>the status and the reason of the block; \<open>mw\<close> is the state of the maintenance window\<close>
  "gate_decision mw preview approval_required approval approval_status override_mode =
     (let override = override_mode \<and> flag mw ''emergency_override_allowed'' False \<and> flag approval ''emergency_override'' False in
      if py_str (dget_or preview ''compatibility_status'' (PStr ''INCOMPATIBLE'')) = ''INCOMPATIBLE''
         \<or> py_str (dget_or preview ''risk_level'' (PStr ''CRITICAL'')) = ''CRITICAL''
      then (''blocked_incompatible'', ''runtime_compatibility_failed'')
      else if approval_required \<and> approval = [] then (''blocked_approval_missing'', approval_status)
      else if truthy (dget mw ''within_blackout'')
      then (if override then (''emergency_override_ready'', ''emergency_override_blackout'')
            else (''blocked_blackout'', ''blackout_period_active''))
      else if flag mw ''window_required'' True \<and> \<not> truthy (dget mw ''within_window'')
      then (if override then (''emergency_override_ready'', ''emergency_override_window_closed'')
            else (''blocked_window_closed'', ''maintenance_window_closed''))
      else (''ready_for_staging'', []))"

definition evaluate_activation_gate ::
  "target_cfg \<Rightarrow> pydict \<Rightarrow> bool \<Rightarrow> pydict \<Rightarrow> string \<Rightarrow> bool \<Rightarrow> pydict" where
  \<comment> \<open>\<open>approval\<close> is empty when there is none\<close>
  "evaluate_activation_gate cfg preview approval_required approval approval_status override_mode =
     (let mw = as_dict (dget preview ''maintenance_window_status'');
          (status, reason) = gate_decision mw preview approval_required approval approval_status override_mode
      in [(''target'', PStr (rt_target cfg)), (''status'', PStr status), (''blocked_reason'', PStr reason),
          (''window_required'', PBool (flag mw ''window_required'' True)),
          (''approval_required'', PBool approval_required), (''approval_status'', PStr approval_status),
          (''emergency_override_mode'', PBool override_mode),
          (''emergency_override_allowed'', PBool (flag mw ''emergency_override_allowed'' False)),
          (''emergency_override_requested'', PBool (flag approval ''emergency_override'' False)),
          (''within_window'', PBool (truthy (dget mw ''within_window''))),
          (''within_blackout'', PBool (truthy (dget mw ''within_blackout''))),
          (''policy'', dget_or mw ''policy'' (PDict [])), (''artifact_version'', dget preview ''artifact_version''),
          (''artifact_revision'', dget preview ''artifact_revision''), (''preview_id'', dget preview ''preview_id''),
          (''risk_level'', PStr (py_str (dget_or preview ''risk_level'' (PStr ''CRITICAL''))))])"

definition persist_activation_gate :: "string \<Rightarrow> pydict \<Rightarrow> string ag" where
  "persist_activation_gate gate_dir gate =
     (let target = py_str (dget_or gate ''target'' (PStr ''unknown'')); out_dir = join gate_dir target in
      bindE (make_dir out_dir) (\<lambda>_.
      bindE new_uuid (\<lambda>event_id.
      bindE iso_now_z (\<lambda>at.
        let payload = dput ''runtime_write_enabled'' (PBool False)
              (dmerge [(''gate_id'', PStr event_id), (''generated_at'', PStr at)] gate);
            out = join out_dir (dated_name (py_str (dget payload ''generated_at'')) event_id)
        in bindE (write_json_artifact out payload) (\<lambda>_. ret out)))))"

end
