(* ===== verification/Agent_Preview.thy ===== *)
theory Agent_Preview
  imports Agent_Approval Agent_Cycle
begin

text \<open>
  What an operator sees before anything is activated: the preview of a target, built from its
  signed artifact, the gate that a preview passes or not, and the activation plan. None of
  these writes to a runtime.
\<close>

section \<open>The preview\<close>

record review =
  rv_setting :: setting
  rv_public_of :: "string \<Rightarrow> string"
  rv_zones :: "string \<Rightarrow> (int \<Rightarrow> int) option"
  rv_preview_dir :: string
  rv_compat_dir :: string
  rv_approvals_dir :: string
  rv_policy :: maintenance_policy
  rv_signer :: approval_signer
  rv_approval_required :: bool

definition load_previous_preview_payload :: "ext \<Rightarrow> string \<Rightarrow> string \<Rightarrow> pydict option ag" where
  "load_previous_preview_payload x preview_dir target =
     bindE (find_latest_json_for_target x preview_dir target) (\<lambda>found. case found of
       None \<Rightarrow> ret None
     | Some (_, v) \<Rightarrow> if \<not> truthy v then ret None
         else bindE (lift (need_dict v)) (\<lambda>latest. ret (case dget latest ''artifact_snapshot'' of
           PDict snapshot \<Rightarrow> Some snapshot | _ \<Rightarrow> None)))"

definition preview_risk :: "string \<Rightarrow> string \<Rightarrow> string" where
  "preview_risk compat_status risk =
     (if compat_status = ''INCOMPATIBLE'' then ''CRITICAL''
      else if risk = ''LOW'' \<and> compat_status = ''PREVIEW_ONLY'' then ''MEDIUM'' else risk)"

definition preview_advice :: "string \<Rightarrow> bool \<Rightarrow> bool \<Rightarrow> string \<Rightarrow> string" where
  "preview_advice compat_status approval_required approved window_status =
     (if compat_status = ''INCOMPATIBLE'' then ''Resolve compatibility issues before any staged activation.''
      else if approval_required \<and> \<not> approved
      then ''Collect operator approval before maintenance-window enforcement.''
      else if window_status = ''blackout'' then ''Activation denied due to blackout period.''
      else if window_status \<noteq> ''open'' then ''Schedule maintenance window before activation.''
      else ''Preview generated. Activation remains blocked in Phase 5.1.'')"

definition artifact_fields :: "pydict \<Rightarrow> pydict" where
  "artifact_fields artifact = [(''artifact_zone'', dget artifact ''zone''), (''artifact_role'', dget artifact ''role''),
     (''artifact_version'', dget artifact ''version''), (''artifact_revision'', dget artifact ''artifact_revision'')]"

definition record_compatibility :: "string \<Rightarrow> target_cfg \<Rightarrow> pydict \<Rightarrow> pydict \<Rightarrow> unit ag" where
  "record_compatibility compat_dir cfg artifact compat_doc =
     (let dir = join compat_dir (rt_target cfg) in
      bindE (make_dir dir) (\<lambda>_. bindE new_uuid (\<lambda>i. bindE iso_now_z (\<lambda>at.
        write_json_artifact (join dir (dated_name at i))
          ([(''compat_id'', PStr i), (''generated_at'', PStr at), (''target'', PStr (rt_target cfg))] @
           artifact_fields artifact @ compat_doc)))))"

definition preview_dict ::
  "string \<Rightarrow> string \<Rightarrow> target_cfg \<Rightarrow> pydict \<Rightarrow> pydict \<Rightarrow> pydict option \<Rightarrow> string \<Rightarrow> bool \<Rightarrow> pydict \<Rightarrow> diff \<Rightarrow>
   pydict list \<Rightarrow> pydict" where
  "preview_dict i at cfg artifact mw approval approval_status approval_required compat_doc d keep =
     (let status = get_str compat_doc ''status''; risk = preview_risk status (df_risk d) in
      [(''preview_id'', PStr i), (''generated_at'', PStr at), (''target'', PStr (rt_target cfg))] @ artifact_fields artifact @
      [(''maintenance_window_status'', PDict mw), (''approval_status'', PStr approval_status),
       (''approval_summary'', PDict (case approval of None \<Rightarrow> [] | Some a \<Rightarrow> a)),
       (''compatibility_status'', PStr status), (''compatibility_issues'', dget compat_doc ''issues''),
       (''would_add'', PList (map PDict (df_added d))), (''would_remove'', PList (map PDict (df_removed d))),
       (''would_keep'', PList (map PDict keep)), (''would_change'', PList (map PDict (df_changed d))),
       (''runtime_paths_checked'', dget compat_doc ''runtime_paths_checked''), (''risk_level'', PStr risk),
       (''recommendation'', PStr (preview_advice status approval_required (approval \<noteq> None) (get_str mw ''status''))),
       (''safe_to_stage'', PBool (status \<in> {''COMPATIBLE'', ''PREVIEW_ONLY''} \<and> risk \<noteq> ''CRITICAL'')),
       (''safe_to_activate'', PBool False), (''artifact_snapshot'', PDict artifact)])"

definition build_runtime_preview_for_target :: "review \<Rightarrow> target_cfg \<Rightarrow> pydict \<Rightarrow> pydict ag" where
  "build_runtime_preview_for_target rv cfg artifact =
     (let se = rv_setting rv; x = se_ext se; target = rt_target cfg; dir = join (rv_preview_dir rv) target in
      bindE (load_previous_preview_payload x (rv_preview_dir rv) target) (\<lambda>previous.
      bindE (build_diff_report x (se_order se) previous (Some artifact) False False []) (\<lambda>d.
      bindE (lift (compute_would_keep x previous artifact)) (\<lambda>keep.
      bindE (evaluate_runtime_compatibility cfg artifact) (\<lambda>compat_doc.
      bindE (record_compatibility (rv_compat_dir rv) cfg artifact compat_doc) (\<lambda>_.
      bindE (maintenance_window_status x (rv_zones rv) target (rv_policy rv)) (\<lambda>mw.
      bindE (load_active_approval_for_target x (se_keys se) (rv_approvals_dir rv) target (rv_signer rv)
        (lower (get_str (as_dict (dget mw ''policy'')) ''approval_level''))) (\<lambda>(approval, found).
      let approval_status = (if rv_approval_required rv then found else ''not_required'') in
      bindE new_uuid (\<lambda>i. bindE iso_now_z (\<lambda>at.
      let preview = preview_dict i at cfg artifact mw approval approval_status (rv_approval_required rv) compat_doc d keep in
      bindE (make_dir dir) (\<lambda>_. bindE (write_json_artifact (join dir (dated_name at i)) preview) (\<lambda>_.
        ret preview))))))))))))"

definition run_runtime_preview_once :: "review \<Rightarrow> bool \<Rightarrow> target_cfg list \<Rightarrow> pydict list ag" where
  "run_runtime_preview_once rv signed_mode targets =
     (let se = rv_setting rv in
      if \<not> signed_mode then raise (ValueError ''runtime preview simulation requires signed artifact mode'')
      else if se_pinned se = [] then raise (ValueError ''runtime preview simulation requires GDS_AGENT_TRUST_ANCHOR_FINGERPRINT'')
      else bindE (pinned_anchor se) (\<lambda>(pub, fp).
        mapE (\<lambda>cfg. bindE (fetch_verified_signed_artifact se pub fp (rt_zone cfg) (rt_role cfg))
          (build_runtime_preview_for_target rv cfg)) targets))"

section \<open>Gate and plan\<close>

definition gate_of_preview :: "target_cfg \<Rightarrow> bool \<Rightarrow> bool \<Rightarrow> pydict \<Rightarrow> pydict" where
  "gate_of_preview cfg approval_required override_mode preview =
     evaluate_activation_gate cfg preview approval_required (as_dict (dget preview ''approval_summary''))
       (get_str preview ''approval_status'') override_mode"

definition run_activation_gate_cycle :: "review \<Rightarrow> bool \<Rightarrow> string \<Rightarrow> bool \<Rightarrow> target_cfg list \<Rightarrow> pydict list ag" where
  "run_activation_gate_cycle rv signed_mode gate_dir override_mode targets =
     bindE (run_runtime_preview_once rv signed_mode targets) (\<lambda>previews.
       mapE (\<lambda>(cfg, preview).
         let gate = gate_of_preview cfg (rv_approval_required rv) override_mode preview in
         bindE (persist_activation_gate gate_dir gate) (\<lambda>p. ret (dput ''gate_report_path'' (PStr p) gate)))
       (zip targets previews))"

definition build_rollback_bundle_metadata :: "target_cfg \<Rightarrow> string \<Rightarrow> pydict ag" where
  "build_rollback_bundle_metadata cfg rollback_dir =
     bindE (make_dir rollback_dir) (\<lambda>_. bindE new_uuid (\<lambda>i. bindE iso_now_z (\<lambda>at.
     bindE (getE (\<lambda>w. map (\<lambda>p. (p, path_exists p w)) (rt_checked cfg))) (\<lambda>checked.
     let doc = [(''bundle_id'', PStr i), (''created_at'', PStr at), (''target'', PStr (rt_target cfg)),
       (''mode'', PStr ''metadata_only''),
       (''runtime_paths'', PList (map (\<lambda>(p, e). PDict [(''path'', PStr p), (''exists'', PBool e),
          (''snapshot_mode'', PStr ''metadata_only'')]) checked)),
       (''has_live_runtime_mount'', PBool (list_ex snd checked))] in
     bindE (write_json_artifact (join rollback_dir (dated_name at i)) doc) (\<lambda>_. ret doc)))))"

definition plan_status :: "string \<Rightarrow> string" where
  "plan_status gate_status =
     (if gate_status \<in> {''ready_for_staging'', ''emergency_override_ready'', ''blocked_blackout''} then gate_status
      else if gate_status = ''blocked_approval_missing'' then ''pending_approval''
      else if gate_status = ''blocked_window_closed'' then ''pending_window''
      else ''blocked_incompatible'')"

definition plan_steps :: "string list" where
  "plan_steps = [''verify_signed_artifact_and_runtime_compatibility'', ''confirm_operator_approval'',
     ''enforce_maintenance_window_and_blackout_policy'', ''optional_emergency_override_validation'',
     ''prepare_atomic_swap_bundle_phase5_3'', ''activate_runtime_changes_phase5_3_manual_only'']"

definition plan_dict :: "string \<Rightarrow> string \<Rightarrow> target_cfg \<Rightarrow> pydict \<Rightarrow> pydict \<Rightarrow> pydict \<Rightarrow> pydict" where
  "plan_dict i at cfg preview rollback gate =
     [(''plan_id'', PStr i), (''created_at'', PStr at), (''target'', PStr (rt_target cfg)),
      (''preview_id'', dget preview ''preview_id''), (''artifact_version'', dget preview ''artifact_version''),
      (''artifact_revision'', dget preview ''artifact_revision''),
      (''required_approval_id'', dget (as_dict (dget preview ''approval_summary'')) ''approval_id''),
      (''required_maintenance_window'', PBool True), (''rollback_bundle_id'', dget rollback ''bundle_id''),
      (''steps'', PList (map PStr plan_steps)), (''status'', PStr (plan_status (get_str gate ''status''))),
      (''activation_blocked_reason'', PStr (get_str gate ''blocked_reason'')), (''runtime_write_enabled'', PBool False),
      (''gate'', PDict gate)]"

definition create_activation_plan_once ::
  "review \<Rightarrow> bool \<Rightarrow> string \<Rightarrow> string \<Rightarrow> bool \<Rightarrow> target_cfg \<Rightarrow> pydict ag" where
  "create_activation_plan_once rv signed_mode plan_dir rollback_dir override_mode cfg =
     bindE (run_runtime_preview_once rv signed_mode [cfg]) (\<lambda>previews.
     let preview = hd previews; dir = join plan_dir (rt_target cfg) in
     bindE (build_rollback_bundle_metadata cfg rollback_dir) (\<lambda>rollback.
     bindE new_uuid (\<lambda>i.
     let gate = gate_of_preview cfg (rv_approval_required rv) override_mode preview in
     bindE iso_now_z (\<lambda>at.
     let plan = plan_dict i at cfg preview rollback gate in
     bindE (make_dir dir) (\<lambda>_. bindE (write_json_artifact (join dir (dated_name at i)) plan) (\<lambda>_. ret plan))))))"

end
