(* ===== verification/Agent_Activation.thy ===== *)
theory Agent_Activation
  imports Agent_Preview
begin

text \<open>
  The activation of a staged certificate package in a runtime: the staged bundle and its
  checksums, the private keys that are preserved, the snapshot for a rollback, the copy of the
  staged files and the receipt. Paths are absolute and free of symbolic links, so that
  resolving one is a matter of its text.
\<close>

section \<open>Paths and files\<close>

definition comps :: "string \<Rightarrow> string list" where
  "comps p = filter (\<lambda>c. c \<noteq> []) (split_on (CHR ''/'') p)"

definition path_name :: "string \<Rightarrow> string" where
  \<comment> \<open>\<open>Path(p).name\<close>\<close>
  "path_name p = (case rev (filter (\<lambda>c. c \<noteq> ''.'') (comps p)) of [] \<Rightarrow> [] | c # _ \<Rightarrow> c)"

definition resolve_step :: "string list \<Rightarrow> string \<Rightarrow> string list" where
  "resolve_step s c = (if c = ''.'' then s else if c = ''..'' then butlast s else s @ [c])"

definition resolved :: "string \<Rightarrow> string list" where
  "resolved p = foldl resolve_step [] (comps p)"

definition place :: "string \<Rightarrow> string" where
  \<comment> \<open>the file that a path leads to\<close>
  "place p = concat (map (\<lambda>c. CHR ''/'' # c) (resolved p))"

definition assert_path_inside :: "string \<Rightarrow> string \<Rightarrow> exn + unit" where
  "assert_path_inside base candidate =
     ensureS (take (length (resolved base)) (resolved candidate) = resolved base)
       (ValueError (''path escapes runtime root: '' @ candidate))"

definition unix_path :: "string \<Rightarrow> string" where
  \<comment> \<open>\<open>replace("\\", "/").lower()\<close>\<close>
  "unix_path p = lower (replace_all [CHR 0x5C] ''/'' p)"

definition ends_with :: "string \<Rightarrow> string \<Rightarrow> bool" where
  "ends_with s e \<longleftrightarrow> length e \<le> length s \<and> drop (length s - length e) s = e"

definition is_private_key_path :: "string \<Rightarrow> string \<Rightarrow> bool" where
  "is_private_key_path p relative_path =
     (let rel = unix_path (str_or relative_path p); parts = comps rel; name = lower (path_name p) in
      ''private'' \<in> set parts \<or> ''keys'' \<in> set parts \<or> str_contains ''.key'' name \<or> str_contains ''private'' name
      \<or> ends_with name ''.key.der'' \<or> ends_with name ''.key.pem'')"

definition private_runtime_preserve_paths :: "string list" where
  "private_runtime_preserve_paths = [''mutex.lock'', ''own/openssl.cnf'', ''own/private/private_key.pem'',
     ''applcerts/own/private/server.key.der'', ''private/private.key.der'', ''private/private.pem'']"

definition is_preserved_runtime_path :: "string \<Rightarrow> bool" where
  "is_preserved_runtime_path relative_path =
     (let rel = unix_path relative_path in is_private_key_path rel rel \<or> rel \<in> set private_runtime_preserve_paths)"

definition spaces :: "nat \<Rightarrow> string" where
  "spaces n = replicate n (CHR '' '')"

fun json_pretty :: "nat \<Rightarrow> pyval \<Rightarrow> string" where
  \<comment> \<open>the text of a document that was written with \<open>indent=2\<close>\<close>
  "json_pretty n (PList vs) = (if vs = [] then ''[]''
     else CHR ''['' # CHR 0x0A # str_join (CHR '','' # [CHR 0x0A]) (map (\<lambda>v. spaces (n + 2) @ json_pretty (n + 2) v) vs)
       @ CHR 0x0A # spaces n @ '']'')"
| "json_pretty n (PDict kvs) = (if kvs = [] then ''{}''
     else CHR ''{'' # CHR 0x0A # str_join (CHR '','' # [CHR 0x0A])
         (map (\<lambda>(k, v). spaces (n + 2) @ json_str k @ '': '' @ json_pretty (n + 2) v) kvs)
       @ CHR 0x0A # spaces n @ ''}'')"
| "json_pretty n v = json_enc v"

definition content_bytes :: "content \<Rightarrow> string" where
  "content_bytes f = (case f of Bytes s \<Rightarrow> s | Json v \<Rightarrow> json_pretty 0 v)"

definition file_at :: "string \<Rightarrow> agent_state \<Rightarrow> content option" where
  "file_at p w = map_of (g_files w) (place p)"

definition file_sha256 :: "ext \<Rightarrow> string \<Rightarrow> string ag" where
  "file_sha256 x p = bindE (read_file (place p)) (\<lambda>f. ret (sha256_hex x (content_bytes f)))"

definition files_below :: "string \<Rightarrow> agent_state \<Rightarrow> string list" where
  \<comment> \<open>the files below a directory, relative to it: \<open>sorted(root.rglob("*"))\<close> without the directories\<close>
  "files_below root w = map (drop (length (place root) + 1))
     (sort_key comps (filter (under (place root)) (map fst (g_files w))))"

definition copy_file_bytes_only :: "string \<Rightarrow> string \<Rightarrow> unit ag" where
  "copy_file_bytes_only src dst = bindE (read_file (place src)) (atomic_write (place dst))"

text \<open>Removing a file is an operation that the disk can refuse, as a write is.\<close>

definition unlink :: "string \<Rightarrow> unit ag" where
  "unlink p w =
     (let w1 = w\<lparr>g_writes := Suc (g_writes w)\<rparr> in
      if g_writable w (g_writes w) \<and> map_of (g_files w) p \<noteq> None
      then (Inr (), w1\<lparr>g_files := AList.delete p (g_files w)\<rparr>)
      else (Inl (OSError ''unlink''), w1))"

definition collect_stage_checksums :: "ext \<Rightarrow> string \<Rightarrow> (string \<times> string) list ag" where
  "collect_stage_checksums x root =
     bindE (getE (files_below root)) (\<lambda>files.
     mapE (\<lambda>rel. bindE (file_sha256 x (path_join root rel)) (\<lambda>h. ret (replace_all [CHR 0x5C] ''/'' rel, h))) files)"

section \<open>The staged bundle\<close>

definition subdirs :: "string \<Rightarrow> agent_state \<Rightarrow> string list" where
  \<comment> \<open>the directories in a directory, sorted\<close>
  "subdirs dir w = sort (remdups (map (\<lambda>p. join dir (takeWhile (\<lambda>c. c \<noteq> CHR ''/'') (drop (length dir + 1) p)))
     (filter (\<lambda>p. under dir p) (g_dirs w) @
      filter (\<lambda>p. under dir p \<and> CHR ''/'' \<in> set (drop (length dir + 1) p)) (map fst (g_files w)))))"

fun find_bundle :: "ext \<Rightarrow> string \<Rightarrow> string list \<Rightarrow> (string \<times> pydict \<times> pyval) ag" where
  "find_bundle x package_id [] = raise (OSError ''matching package stage bundle not found'')"
| "find_bundle x package_id (dir # dirs) =
     bindE (getE (\<lambda>w. path_exists (join dir ''validation-report.json'') w \<and> path_exists (join dir ''checksums.json'') w)) (\<lambda>found.
     if \<not> found then find_bundle x package_id dirs
     else bindE (read_json x (join dir ''validation-report.json'')) (\<lambda>v. bindE (lift (need_dict v)) (\<lambda>validation.
          if get_str validation ''package_id'' \<noteq> package_id then find_bundle x package_id dirs
          else bindE (read_json x (join dir ''checksums.json'')) (\<lambda>checksums. ret (dir, validation, checksums)))))"

definition find_package_stage_bundle ::
  "ext \<Rightarrow> string \<Rightarrow> string \<Rightarrow> string \<Rightarrow> string \<Rightarrow> (string \<times> pydict \<times> pyval) ag" where
  "find_package_stage_bundle x stage_root target package_id plan_id =
     (let dir = join stage_root target in
      bindE (getE (path_exists dir)) (\<lambda>found.
      if \<not> found then raise (OSError ''package stage directory not found'')
      else bindE (getE (subdirs dir)) (\<lambda>dirs.
        find_bundle x package_id (if plan_id \<noteq> [] then [path_join dir plan_id] else rev dirs))))"

definition shadow_of :: "string \<Rightarrow> string" where
  "shadow_of stage_dir = join stage_dir ''shadow-trust-store''"

definition bundle_flags_ok :: "pydict \<Rightarrow> string \<Rightarrow> exn + unit" where
  "bundle_flags_ok validation package_id =
     guardS (ensureS (dget validation ''dry_run_only'' = PBool True) (ValueError ''stage bundle is not marked dry_run_only''))
     (guardS (ensureS (get_str validation ''package_id'' = package_id) (ValueError ''stage bundle package_id mismatch''))
     (guardS (ensureS (dget validation ''checksum_verified'' = PBool True) (ValueError ''stage bundle checksum was not verified''))
     (ensureS (\<not> truthy (dget validation ''blocking_reasons'')) (ValueError ''stage bundle has blocking reasons''))))"

definition expected_checksums :: "pydict \<Rightarrow> exn + pydict" where
  "expected_checksums checksums =
     (case dget (as_dict (dget checksums ''files'')) ''shadow-trust-store'' of
       PDict d \<Rightarrow> if d \<noteq> [] then Inr d else Inl (ValueError ''stage bundle missing shadow-trust-store checksums'')
     | _ \<Rightarrow> Inl (ValueError ''stage bundle missing shadow-trust-store checksums''))"

definition validate_stage_bundle :: "ext \<Rightarrow> string \<Rightarrow> pydict \<Rightarrow> pyval \<Rightarrow> string \<Rightarrow> (string \<times> string) list ag" where
  "validate_stage_bundle x stage_dir validation cv package_id =
     bindE (lift (bundle_flags_ok validation package_id)) (\<lambda>_.
     bindE (getE (is_dir (shadow_of stage_dir))) (\<lambda>found.
     if \<not> found then raise (OSError ''stage shadow-trust-store missing'')
     else bindE (lift (need_dict cv)) (\<lambda>checksums.
     bindE (lift (expected_checksums checksums)) (\<lambda>expected.
     bindE (collect_stage_checksums x (shadow_of stage_dir)) (\<lambda>actual.
     if set (map (\<lambda>(k, h). (k, PStr h)) actual) \<noteq> set expected
     then raise (ValueError ''stage shadow-trust-store checksum mismatch'')
     else ret actual)))))"

section \<open>The runtime\<close>

record key_ext =
  kx_cert_public :: "string \<Rightarrow> string option"
  kx_key_public :: "string \<Rightarrow> string option"

text \<open>The public key (DER) of a PEM certificate and of a private key file, \<open>None\<close> when it cannot be
  loaded.\<close>

definition probe_name :: "string \<Rightarrow> string" where
  "probe_name i = ''.labshock-write-probe-'' @ i"

definition ensure_runtime_writable :: "string \<Rightarrow> unit ag" where
  "ensure_runtime_writable root =
     bindE (getE (is_dir (place root))) (\<lambda>found.
     if \<not> found then raise (OSError ''runtime root is not available'')
     else bindE new_uuid (\<lambda>i. let probe = place (join root (probe_name i)) in
       catchE (bindE (atomic_write probe (Bytes ''probe'')) (\<lambda>_. unlink probe))
         (\<lambda>_. bindE (catchE (unlink probe) (\<lambda>_. ret ())) (\<lambda>_. raise (OSError ''runtime_mount_not_writable'')))))"

definition target_private_key_candidates :: "string \<Rightarrow> string list" where
  \<comment> \<open>relative to the root of the runtime\<close>
  "target_private_key_candidates target =
     (if target = ''fuxa'' then [''own/private/private_key.pem'']
      else if target = ''dmz-gateway-client''
      then [''own/private/client.key.der'', ''private/private.key.der'', ''private/private.pem'']
      else if target \<in> {''opcua-server'', ''dmz-gateway-server''}
      then [''ApplCerts/own/private/server.key.der'', ''own/private/server.key.der'', ''private/private.key.der'',
            ''private/private.pem'']
      else [])"

definition runtime_private_key_path :: "string \<Rightarrow> string \<Rightarrow> string ag" where
  "runtime_private_key_path target root =
     bindE (getE (\<lambda>w. find (\<lambda>p. file_at p w \<noteq> None) (map (join root) (target_private_key_candidates target)))) (\<lambda>found.
     case found of None \<Rightarrow> raise (OSError ''runtime private key is missing'') | Some p \<Rightarrow> ret p)"

definition private_key_sha256 :: "ext \<Rightarrow> string \<Rightarrow> string \<Rightarrow> string ag" where
  "private_key_sha256 x root target = bindE (runtime_private_key_path target root) (file_sha256 x)"

definition verify_certificate_matches_runtime_key :: "ext \<Rightarrow> key_ext \<Rightarrow> string \<Rightarrow> pydict \<Rightarrow> string \<Rightarrow> unit ag" where
  "verify_certificate_matches_runtime_key x kx target manifest root =
     (let pem = get_str manifest ''certificate_pem'' in
      if pem = [] then raise (ValueError ''package certificate is missing'')
      else bindE (runtime_private_key_path target root) (\<lambda>p.
        case kx_cert_public kx pem of None \<Rightarrow> raise (ParseError ''certificate'')
        | Some cert_pub \<Rightarrow> bindE (read_file (place p)) (\<lambda>f.
            case kx_key_public kx (content_bytes f) of None \<Rightarrow> raise (ParseError ''private key'')
            | Some key_pub \<Rightarrow> lift (ensureS (sha256_hex x cert_pub = sha256_hex x key_pub)
                (ValueError ''certificate_private_key_mismatch'')))))"

definition mismatch_at :: "ext \<Rightarrow> string \<Rightarrow> string \<times> string \<Rightarrow> pydict option ag" where
  "mismatch_at x root e = (case e of (rel, expected) \<Rightarrow>
     if is_preserved_runtime_path rel then ret None
     else bindE (lift (assert_path_inside root (path_join root rel))) (\<lambda>_.
       bindE (getE (file_at (path_join root rel))) (\<lambda>f. ret (case f of
         None \<Rightarrow> Some [(''relative_path'', PStr rel), (''reason'', PStr ''missing_runtime_file'')]
       | Some c \<Rightarrow> if sha256_hex x (content_bytes c) \<noteq> expected
           then Some [(''relative_path'', PStr rel), (''reason'', PStr ''sha256_mismatch'')] else None))))"

definition runtime_stage_mismatches :: "ext \<Rightarrow> string \<Rightarrow> (string \<times> string) list \<Rightarrow> pydict list ag" where
  "runtime_stage_mismatches x root stage_checksums =
     bindE (mapE (mismatch_at x root) (sort stage_checksums)) (\<lambda>found. ret (List.map_filter id found))"

definition snapshot_file :: "ext \<Rightarrow> string \<Rightarrow> string \<Rightarrow> string \<Rightarrow> (pydict + pydict) ag" where
  \<comment> \<open>a skipped file or a copied one\<close>
  "snapshot_file x root snapshot_dir rel =
     (let name = replace_all [CHR 0x5C] ''/'' rel; dst = path_join snapshot_dir name in
      if is_private_key_path (path_join root rel) name
      then ret (Inl [(''relative_path'', PStr name), (''reason'', PStr ''private_key_not_copied'')])
      else bindE (copy_file_bytes_only (path_join root rel) dst) (\<lambda>_. bindE (file_sha256 x dst) (\<lambda>h.
        ret (Inr [(''relative_path'', PStr name), (''sha256'', PStr h)]))))"

definition lefts :: "('a + 'b) list \<Rightarrow> 'a list" where
  "lefts xs = List.map_filter (\<lambda>v. case v of Inl a \<Rightarrow> Some a | Inr _ \<Rightarrow> None) xs"

definition rights :: "('a + 'b) list \<Rightarrow> 'b list" where
  "rights xs = List.map_filter (\<lambda>v. case v of Inl _ \<Rightarrow> None | Inr b \<Rightarrow> Some b) xs"

definition snapshot_runtime_non_private :: "ext \<Rightarrow> string \<Rightarrow> string \<Rightarrow> string \<Rightarrow> string \<Rightarrow> pydict ag" where
  "snapshot_runtime_non_private x root rollback_root target plan_id =
     (let base = path_join (join rollback_root target) plan_id; snapshot_dir = join base ''PKI'' in
      bindE (make_dir snapshot_dir) (\<lambda>_.
      bindE (getE (files_below root)) (\<lambda>files.
      bindE (mapE (snapshot_file x root snapshot_dir) files) (\<lambda>results.
      bindE iso_now_z (\<lambda>now.
      let manifest = [(''target'', PStr target), (''plan_id'', PStr plan_id), (''created_at'', PStr now),
        (''snapshot_dir'', PStr snapshot_dir), (''private_key_material_copied'', PBool False),
        (''copied_files'', PList (map PDict (rights results))), (''skipped_files'', PList (map PDict (lefts results)))] in
      bindE (write_json_artifact (place (join base ''rollback-manifest.json'')) manifest) (\<lambda>_. ret manifest))))))"

section \<open>Activation\<close>

definition activate_file :: "ext \<Rightarrow> string \<Rightarrow> string \<Rightarrow> string \<times> string \<Rightarrow> (pydict + pydict) ag" where
  \<comment> \<open>a preserved file or a changed one\<close>
  "activate_file x shadow_dir root e = (case e of (rel, expected) \<Rightarrow>
     if is_preserved_runtime_path rel
     then ret (Inl [(''relative_path'', PStr rel), (''reason'', PStr ''private_or_runtime_local_preserved'')])
     else (let src = path_join shadow_dir rel; dst = path_join root rel in
       bindE (lift (assert_path_inside shadow_dir src)) (\<lambda>_.
       bindE (lift (assert_path_inside root dst)) (\<lambda>_.
       bindE (getE (file_at src)) (\<lambda>staged. if staged = None then raise (OSError (''staged file missing: '' @ rel)) else
       bindE (getE (\<lambda>w. map_option (\<lambda>c. sha256_hex x (content_bytes c)) (file_at dst w))) (\<lambda>before.
       bindE (copy_file_bytes_only src dst) (\<lambda>_.
       bindE (file_sha256 x dst) (\<lambda>after.
       if after \<noteq> expected then raise (ValueError (''post_copy_checksum_mismatch:'' @ rel))
       else ret (Inr [(''relative_path'', PStr rel), (''action'', PStr (if before \<noteq> None then ''updated'' else ''added'')),
         (''before_sha256'', opt_str before), (''after_sha256'', PStr after)])))))))))"

record activation =
  av_cfg :: target_cfg
  av_manifest :: pydict
  av_stage_dir :: string
  av_checksums :: "(string \<times> string) list"
  av_validation :: pydict
  av_rollback_root :: string
  av_receipts_root :: string
  av_gate :: pydict

definition activation_plan_id :: "activation \<Rightarrow> string" where
  "activation_plan_id av = py_str (py_or (dget (av_validation av) ''plan_id'') (PStr (path_name (av_stage_dir av))))"

definition receipt_head :: "activation \<Rightarrow> pydict" where
  "receipt_head av = [(''target'', PStr (rt_target (av_cfg av))), (''package_id'', PStr (get_str (av_manifest av) ''package_id'')),
     (''generation'', dget (av_manifest av) ''generation''), (''plan_id'', PStr (activation_plan_id av)),
     (''runtime_root'', PStr (rt_root (av_cfg av)))]"

definition key_evidence :: "string \<Rightarrow> string \<Rightarrow> pydict" where
  "key_evidence before after = [(''runtime_write_enabled'', PBool True), (''runtime_restart_automatic'', PBool False),
     (''private_key_overwritten'', PBool False), (''private_key_sha256_before'', PStr before),
     (''private_key_sha256_after'', PStr after), (''private_key_sha256_unchanged'', PBool (before = after))]"

definition already_activated :: "activation \<Rightarrow> string \<Rightarrow> string \<Rightarrow> pydict" where
  "already_activated av now key = [(''status'', PStr ''already_activated''), (''receipt_written'', PBool False),
     (''created_at'', PStr now)] @ receipt_head av @ [(''changed_files'', PList []), (''preserved_files'', PList [])] @
     key_evidence key key"

definition receipt_dict :: "activation \<Rightarrow> string \<Rightarrow> string \<Rightarrow> pydict \<Rightarrow> (pydict + pydict) list \<Rightarrow> string \<Rightarrow> string \<Rightarrow> pydict" where
  "receipt_dict av i now rollback results before after =
     [(''receipt_id'', PStr i), (''created_at'', PStr now), (''status'', PStr ''activated'')] @ receipt_head av @
     [(''rollback_manifest'', dget rollback ''snapshot_dir''), (''changed_files'', PList (map PDict (rights results))),
      (''preserved_files'', PList (map PDict (lefts results))),
      (''gate'', PDict (map (\<lambda>k. (k, dget (av_gate av) k)) [''status'', ''blocked_reason'', ''emergency_override_requested''])),
      (''stage_validation'', PDict (map (\<lambda>k. (k, dget (av_validation av) k))
         [''checksum_verified'', ''maintenance_window_status'', ''blackout_status'', ''approvals_valid'']))] @
     key_evidence before after"

definition live_targets :: "string list" where
  "live_targets = [''fuxa'', ''opcua-server'', ''dmz-gateway-client'', ''dmz-gateway-server'']"

definition install_stage :: "ext \<Rightarrow> activation \<Rightarrow> string \<Rightarrow> pydict ag" where
  \<comment> \<open>the part after the comparison: snapshot, copies, receipt\<close>
  "install_stage x av before = (let root = rt_root (av_cfg av); target = rt_target (av_cfg av) in
     bindE (snapshot_runtime_non_private x root (av_rollback_root av) target (activation_plan_id av)) (\<lambda>rollback.
     bindE (mapE (activate_file x (shadow_of (av_stage_dir av)) root) (sort (av_checksums av))) (\<lambda>results.
     bindE (private_key_sha256 x root target) (\<lambda>after.
     bindE new_uuid (\<lambda>i. bindE iso_now_z (\<lambda>now.
     let receipt = receipt_dict av i now rollback results before after; dir = join (av_receipts_root av) target in
     bindE (make_dir dir) (\<lambda>_. bindE (write_json_artifact (place (join dir (dated_name now i))) receipt) (\<lambda>_.
       ret receipt))))))))"

definition activate_package_runtime :: "ext \<Rightarrow> key_ext \<Rightarrow> activation \<Rightarrow> pydict ag" where
  "activate_package_runtime x kx av = (let root = rt_root (av_cfg av); target = rt_target (av_cfg av) in
     if target \<notin> set live_targets then raise (ValueError ''target_not_enabled_for_live_activation'')
     else bindE (ensure_runtime_writable root) (\<lambda>_.
     bindE (verify_certificate_matches_runtime_key x kx target (av_manifest av) root) (\<lambda>_.
     bindE (private_key_sha256 x root target) (\<lambda>before.
     bindE (runtime_stage_mismatches x root (av_checksums av)) (\<lambda>mismatches.
     if mismatches = [] then bindE iso_now_z (\<lambda>now. ret (already_activated av now before))
     else install_stage x av before)))))"

definition write_activation_failure_receipt ::
  "string \<Rightarrow> string \<Rightarrow> string \<Rightarrow> string \<Rightarrow> string \<Rightarrow> string \<Rightarrow> bool \<Rightarrow> pydict ag" where
  "write_activation_failure_receipt receipts_root target package_id plan_id failure_code error mutation_started =
     bindE new_uuid (\<lambda>i. bindE iso_now_z (\<lambda>now.
     let receipt = [(''receipt_id'', PStr i), (''created_at'', PStr now), (''target'', PStr target),
           (''package_id'', PStr package_id), (''plan_id'', PStr plan_id), (''status'', PStr ''failed''),
           (''failure_code'', PStr failure_code), (''error'', PStr (truncate_text_agent error 500)),
           (''mutation_started'', PBool mutation_started), (''activated'', PBool False),
           (''auto_rollback_performed'', PBool False)];
         dir = join receipts_root (str_or target ''unknown'') in
     bindE (make_dir dir) (\<lambda>_. bindE (write_json_artifact (join dir (dated_name now (i @ ''_failure''))) receipt) (\<lambda>_.
       ret receipt))))"

end
