(* ===== verification/Agent_Activation_Facts.thy ===== *)
theory Agent_Activation_Facts
  imports Agent_Activation Agent_Facts
begin

text \<open>
  An activation never touches the private key of the runtime: every place where the key of a
  target can lie is preserved by name, and no file that is written is one of these places.
\<close>

section \<open>Where a path leads\<close>

lemma split_on_join: "split_on c (a @ c # b) = split_on c a @ split_on c b"
proof (induction a)
  case Nil
  show ?case by simp
next
  case (Cons d a)
  have "split_on c a \<noteq> []" by (cases a) (auto split: list.splits)
  with Cons show ?case by (auto split: list.splits)
qed

lemma comps_join [simp]: "comps (join a b) = comps a @ comps b"
  by (simp add: comps_def join_def split_on_join)

lemma resolved_join: "resolved (join a b) = foldl resolve_step (resolved a) (comps b)"
  by (simp add: resolved_def)

lemma resolved_append: "\<not> starts_with b ''/'' \<Longrightarrow> resolved (path_join a b) = foldl resolve_step (resolved a) (comps b)"
  by (simp add: path_join_def resolved_join)

text \<open>What stands beyond the first \<open>n\<close> steps was put there by the path that is followed.\<close>

lemma resolve_beyond: "set (drop n (foldl resolve_step s cs)) \<subseteq> set (drop n s) \<union> set cs"
proof (induction cs arbitrary: s)
  case Nil
  show ?case by simp
next
  case (Cons c cs)
  have "set (drop n (resolve_step s c)) \<subseteq> set (drop n s) \<union> {c}"
    using set_drop_subset [of "n - length s" "[c]"]
    by (auto simp: resolve_step_def drop_butlast dest: in_set_butlastD)
  with Cons [of "resolve_step s c"] show ?case by auto
qed

lemma resolved_parts: "set (drop n (resolved (path_join a b))) \<subseteq> set (drop n (resolved a)) \<union> set (comps b)"
proof (cases "starts_with b ''/''")
  case True
  then have "set (drop n (resolved (path_join a b))) \<subseteq> set (comps b)"
    using resolve_beyond [of n "[]" "comps b"] by (simp add: path_join_def resolved_def)
  then show ?thesis by blast
next
  case False
  then show ?thesis using resolve_beyond [of n "resolved a" "comps b"] by (simp add: resolved_append)
qed

lemma split_on_plain: "c \<notin> set a \<Longrightarrow> split_on c a = [a]"
  by (induction a) auto

lemma split_on_parts: "w \<in> set (split_on c a) \<Longrightarrow> c \<notin> set w"
proof (induction a arbitrary: w)
  case Nil
  then show ?case by simp
next
  case (Cons d a)
  then show ?case by (auto split: list.splits if_splits)
qed

lemma comps_parts: "c \<in> set (comps p) \<Longrightarrow> c \<noteq> [] \<and> CHR ''/'' \<notin> set c"
  by (auto simp: comps_def dest: split_on_parts)

lemma comps_plain: "CHR ''/'' \<notin> set q \<Longrightarrow> comps q = (if q = [] then [] else [q])"
  by (simp add: comps_def split_on_plain)

lemma comps_path:
  assumes "\<And>c. c \<in> set cs \<Longrightarrow> c \<noteq> [] \<and> CHR ''/'' \<notin> set c" and "CHR ''/'' \<notin> set q"
  shows "comps (q @ concat (map (\<lambda>c. CHR ''/'' # c) cs)) = comps q @ cs"
  using assms
proof (induction cs arbitrary: q)
  case Nil
  then show ?case by simp
next
  case (Cons c cs)
  have "comps (q @ concat (map (\<lambda>c. CHR ''/'' # c) (c # cs))) = comps (join q (c @ concat (map (\<lambda>c. CHR ''/'' # c) cs)))"
    by (simp add: join_def)
  also have "\<dots> = comps q @ comps c @ cs" using Cons by simp
  finally show ?case using Cons.prems(1) [of c] by (simp add: comps_plain)
qed

lemma comps_place: "comps (place p) = resolved p"
proof -
  have "set (resolved p) \<subseteq> set (comps p)" using resolve_beyond [of 0 "[]" "comps p"] by (simp add: resolved_def)
  then show ?thesis using comps_path [of "resolved p" "[]"] comps_parts by (auto simp: place_def comps_plain)
qed

lemma place_eq: "place p = place q \<longleftrightarrow> resolved p = resolved q"
  using comps_place place_def by metis

lemma resolve_plain: "list_all (\<lambda>c. c \<noteq> ''.'' \<and> c \<noteq> ''..'') cs \<Longrightarrow> foldl resolve_step s cs = s @ cs"
  by (induction cs arbitrary: s) (simp_all add: resolve_step_def)

section \<open>Names of keys\<close>

lemma replace_char: "replace_all [a] [b] s = map (\<lambda>c. if c = a then b else c) s"
  by (induction s) auto

definition unix_char :: "char \<Rightarrow> char" where
  "unix_char c = lower_char (if c = CHR 0x5C then CHR ''/'' else c)"

lemma unix_path_map: "unix_path p = map unix_char p"
  by (simp add: unix_path_def replace_char lower_def unix_char_def)

lemma split_on_map:
  assumes "f d = d"
  shows "d \<notin> f ` set (hd (split_on d p)) \<Longrightarrow> hd (split_on d (map f p)) = map f (hd (split_on d p))"
    and "c \<in> set (tl (split_on d p)) \<Longrightarrow> d \<notin> f ` set c \<Longrightarrow> map f c \<in> set (tl (split_on d (map f p)))"
proof (induction p)
  case Nil
  { case 1 show ?case by simp }
  { case 2 then show ?case by simp }
next
  case (Cons x p)
  have ne: "split_on d q \<noteq> []" for q by (cases q) (auto split: list.splits)
  obtain u us where u: "split_on d p = u # us" using ne [of p] by (cases "split_on d p") auto
  obtain v vs where v: "split_on d (map f p) = v # vs" using ne [of "map f p"] by (cases "split_on d (map f p)") auto
  { case 1 with Cons(1) u v assms show ?case by auto }
  { case 2 with Cons(1,2) u v assms show ?case by (cases "x = d"; cases "f x = d") auto }
qed

lemma comps_unix:
  assumes "c \<in> set (comps p)" and "CHR ''/'' \<notin> unix_char ` set c"
  shows "map unix_char c \<in> set (comps (unix_path p))"
proof -
  have "unix_char (CHR ''/'') = CHR ''/''" by (simp add: unix_char_def lower_char_def)
  note rule = split_on_map [of unix_char, OF this]
  have ne: "split_on (CHR ''/'') q \<noteq> []" for q by (cases q) (auto split: list.splits)
  from assms(1) have "c \<noteq> []" "c = hd (split_on (CHR ''/'') p) \<or> c \<in> set (tl (split_on (CHR ''/'') p))"
    using ne [of p] by (auto simp: comps_def) (metis list.set_cases list.sel(1) list.sel(3) list.collapse set_ConsD)
  with assms(2) rule(1) [of p] rule(2) [of c p] ne [of "map unix_char p"]
  have "map unix_char c \<in> set (split_on (CHR ''/'') (map unix_char p))"
    by (metis hd_in_set list.set_sel(2))
  with \<open>c \<noteq> []\<close> show ?thesis by (simp add: comps_def unix_path_map)
qed

lemma private_part: "''private'' \<in> set (comps p) \<Longrightarrow> ''private'' \<in> set (comps (unix_path p))"
  using comps_unix [of "''private''" p] by (simp add: unix_char_def lower_char_def)

lemma private_is_preserved:
  assumes "''private'' \<in> set (comps rel)"
  shows "is_preserved_runtime_path rel" and "is_private_key_path q rel"
  using private_part [OF assms] private_part [OF private_part [OF assms]] assms
  by (auto simp: is_preserved_runtime_path_def is_private_key_path_def Let_def str_or_def comps_def)

text \<open>Where a key of a target can lie.\<close>

definition key_place :: "string \<Rightarrow> bool" where
  "key_place k \<longleftrightarrow> ''private'' \<in> set (comps k) \<and> list_all (\<lambda>c. c \<noteq> ''.'' \<and> c \<noteq> ''..'') (comps k)
     \<and> \<not> ends_with (last (comps k)) ''.json'' \<and> 2 \<le> length (comps k)"

lemma key_places:
  "list_all key_place (target_private_key_candidates ''fuxa'')"
  "list_all key_place (target_private_key_candidates ''dmz-gateway-client'')"
  "list_all key_place (target_private_key_candidates ''opcua-server'')"
  "list_all key_place (target_private_key_candidates ''dmz-gateway-server'')"
  by code_simp+

lemma candidate_key_place: "k \<in> set (target_private_key_candidates target) \<Longrightarrow> key_place k"
  using key_places unfolding list_all_iff
  by (metis empty_iff insertE list.set(1) target_private_key_candidates_def)

lemma key_long:
  assumes "key_place k"
  shows "comps k \<noteq> []" and "[n] \<noteq> comps k"
proof -
  have len: "2 \<le> length (comps k)" using assms unfolding key_place_def by blast
  then show "comps k \<noteq> []" by auto
  show "[n] \<noteq> comps k"
  proof
    assume "[n] = comps k"
    from arg_cong [OF this, of length] len show False by simp
  qed
qed

lemma key_resolved: "key_place k \<Longrightarrow> resolved (join root k) = resolved root @ comps k"
  by (simp add: key_place_def resolved_join resolve_plain)

text \<open>No file that an activation writes is such a place.\<close>

lemma installed_elsewhere:
  assumes "key_place k" and "\<not> is_preserved_runtime_path rel"
  shows "place (path_join root rel) \<noteq> place (join root k)"
proof
  assume "place (path_join root rel) = place (join root k)"
  then have "drop (length (resolved root)) (resolved (path_join root rel)) = comps k"
    by (simp add: place_eq key_resolved [OF assms(1)])
  with assms(1) resolved_parts [of "length (resolved root)" root rel] have "''private'' \<in> set (comps rel)"
    by (auto simp: key_place_def)
  with assms(2) private_is_preserved(1) show False by blast
qed

lemma copied_elsewhere:
  assumes "key_place k" and "''private'' \<notin> set (comps dir)" and "\<not> is_private_key_path q name"
  shows "place (path_join dir name) \<noteq> place (join root k)"
proof
  assume "place (path_join dir name) = place (join root k)"
  then have "resolved (path_join dir name) = resolved root @ comps k"
    by (simp add: place_eq key_resolved [OF assms(1)])
  moreover have "set (resolved dir) \<subseteq> set (comps dir)"
    using resolve_beyond [of 0 "[]" "comps dir"] by (simp add: resolved_def)
  ultimately have "''private'' \<in> set (comps dir) \<union> set (comps name)"
    using assms(1) resolved_parts [of 0 dir name] by (auto simp: key_place_def)
  with assms(2,3) private_is_preserved(2) show False by blast
qed

lemma split_on_suffix: "c \<notin> set s \<Longrightarrow> split_on c (m @ s) = butlast (split_on c m) @ [last (split_on c m) @ s]"
proof (induction m)
  case Nil
  then show ?case by (simp add: split_on_plain)
next
  case (Cons d m)
  have "split_on c m \<noteq> []" by (cases m) (auto split: list.splits)
  with Cons show ?case by (cases "split_on c m") (auto split: list.splits)
qed

lemma json_name:
  assumes "ends_with n ''.json''"
  shows "comps n \<noteq> []" and "ends_with (last (comps n)) ''.json''"
proof -
  obtain m where n: "n = m @ ''.json''" using assms by (metis append_take_drop_id ends_with_def)
  have "comps n = filter (\<lambda>c. c \<noteq> []) (butlast (split_on (CHR ''/'') m)) @ [last (split_on (CHR ''/'') m) @ ''.json'']"
    by (simp add: n comps_def split_on_suffix)
  then show "comps n \<noteq> []" and "ends_with (last (comps n)) ''.json''" by (auto simp: ends_with_def)
qed

lemma documents_elsewhere:
  assumes "key_place k" and "ends_with n ''.json''"
  shows "place (join dir n) \<noteq> place (join root k)"
proof
  assume "place (join dir n) = place (join root k)"
  then have eq: "foldl resolve_step (resolved dir) (comps n) = resolved root @ comps k"
    unfolding place_eq key_resolved [OF assms(1)] resolved_join [symmetric] .
  note json = json_name [OF assms(2)]
  then obtain cs c where n: "comps n = cs @ [c]" "ends_with c ''.json''" by (metis append_butlast_last_id)
  then have "c \<noteq> ''.''" "c \<noteq> ''..''" by (auto simp: ends_with_def)
  with eq n have "last (resolved root @ comps k) = c" by (simp add: resolve_step_def) (metis last_snoc)
  with assms(1) n(2) key_long(1) [OF assms(1)] show False by (simp add: key_place_def)
qed

lemma dated_name_json: "ends_with (dated_name at i) ''.json''"
  by (simp add: ends_with_def dated_name_def)

lemma name_elsewhere:
  assumes "key_place k" and "comps n = [n]" and "n \<noteq> ''.''" and "n \<noteq> ''..''"
  shows "place (join root n) \<noteq> place (join root k)"
  using assms(1) unfolding place_eq key_resolved [OF assms(1)]
  using key_long(2) [OF assms(1), of n] by (simp add: resolved_join assms(2) resolve_step_def assms(3,4))

lemma probe_elsewhere:
  assumes "key_place k" and "CHR ''/'' \<notin> set i"
  shows "place (join root (''.labshock-write-probe-'' @ i)) \<noteq> place (join root k)"
  using assms(2) by (intro name_elsewhere [OF assms(1)] trans [OF comps_plain]) auto

section \<open>Runs\<close>

lemma file_sha256_file [evolves_rules]: "evolves (file_evolves p C) (file_sha256 x q)"
  unfolding file_sha256_def by (intro file_evo.combinators evolves_rules)

lemma key_reading_file [evolves_rules]:
  "evolves (file_evolves p C) (runtime_private_key_path target root)"
  "evolves (file_evolves p C) (private_key_sha256 x root target)"
  unfolding private_key_sha256_def runtime_private_key_path_def by (intro file_evo.combinators evolves_rules)+

lemma comparison_file [evolves_rules]:
  "evolves (file_evolves p C) (runtime_stage_mismatches x root checksums)"
  "evolves (file_evolves p C) (verify_certificate_matches_runtime_key x kx target m root)"
  unfolding runtime_stage_mismatches_def mismatch_at_def verify_certificate_matches_runtime_key_def Let_def
  by (intro file_evo.combinators evolves_rules)+

lemma copy_file: "place dst \<noteq> p \<Longrightarrow> evolves (file_evolves p C) (copy_file_bytes_only src dst)"
  unfolding copy_file_bytes_only_def by (intro file_evo.combinators evolves_rules atomic_write_file) simp

lemma activate_file_keeps:
  assumes "key_place k"
  shows "evolves (file_evolves (place (join root k)) {}) (activate_file x shadow root e)"
proof -
  obtain rel h where e: "e = (rel, h)" by fastforce
  show ?thesis
  proof (cases "is_preserved_runtime_path rel")
    case True
    then show ?thesis by (simp add: activate_file_def e file_evo.ret_evolves)
  next
    case False
    then show ?thesis unfolding activate_file_def e prod.case Let_def if_not_P [OF False]
      by (intro file_evo.combinators evolves_rules copy_file installed_elsewhere [OF assms])
  qed
qed

lemma snapshot_file_keeps:
  assumes "key_place k" and "''private'' \<notin> set (comps dir)"
  shows "evolves (file_evolves (place (join root k)) {}) (snapshot_file x root dir rel)"
proof (cases "is_private_key_path (path_join root rel) (replace_all [CHR 0x5C] ''/'' rel)")
  case True
  then show ?thesis by (simp add: snapshot_file_def Let_def file_evo.ret_evolves)
next
  case False
  then show ?thesis unfolding snapshot_file_def Let_def if_not_P [OF False]
    by (intro file_evo.combinators evolves_rules copy_file copied_elsewhere [OF assms])
qed

lemma snapshot_keeps:
  assumes key: "key_place k" and "''private'' \<notin> set (comps rollback_root)" "''private'' \<notin> set (comps target)"
    "''private'' \<notin> set (comps plan_id)"
  shows "evolves (file_evolves (place (join root k)) {}) (snapshot_runtime_non_private x root rollback_root target plan_id)"
proof -
  have "comps ''PKI'' = [''PKI'']" by (simp add: comps_plain)
  then have "''private'' \<notin> set (comps (join (path_join (join rollback_root target) plan_id) ''PKI''))"
    using assms by (simp add: path_join_def)
  moreover have "ends_with ''rollback-manifest.json'' ''.json''" by code_simp
  ultimately show ?thesis unfolding snapshot_runtime_non_private_def Let_def
    by (intro file_evo.combinators evolves_rules snapshot_file_keeps [OF key] write_json_file disjI1 documents_elsewhere [OF key])
qed

lemma unlink_file: "q \<noteq> p \<Longrightarrow> evolves (file_evolves p C) (unlink q)"
  by (simp add: evolves_def file_evolves_def unlink_def Let_def delete_conv')

text \<open>The probe of a runtime is the file of a random identifier; no other file changes.\<close>

lemma ensure_writable_file:
  assumes "\<And>n. place (join root (probe_name (g_uuid w n))) \<noteq> p"
  shows "file_evolves p C w (snd (ensure_runtime_writable root w))"
proof (cases "is_dir (place root) w")
  case False
  then show ?thesis
    by (simp add: ensure_runtime_writable_def eff_defs file_evo.evo_refl)
next
  case True
  define i w1 where "i = g_uuid w (g_uuids w)" and "w1 = w\<lparr>g_uuids := Suc (g_uuids w)\<rparr>"
  let ?probe = "place (join root (probe_name i))"
  let ?attempt = "catchE (bindE (atomic_write ?probe (Bytes ''probe'')) (\<lambda>_. unlink ?probe))
         (\<lambda>_. bindE (catchE (unlink ?probe) (\<lambda>_. ret ())) (\<lambda>_. raise (OSError ''runtime_mount_not_writable'')))"
  have "ensure_runtime_writable root w = ?attempt w1"
    using True by (simp add: ensure_runtime_writable_def bindE_def getE_def new_uuid_def i_def w1_def Let_def)
  moreover have "evolves (file_evolves p C) ?attempt"
    using assms by (intro file_evo.combinators unlink_file atomic_write_file) (simp_all add: i_def)
  moreover have "file_evolves p C w w1" by (simp add: file_evolves_def w1_def)
  ultimately show ?thesis unfolding evolves_def by (simp add: file_evo.evo_trans [of p C w w1])
qed

lemma ensure_writable_keeps:
  assumes "key_place k" and "\<And>n. CHR ''/'' \<notin> set (g_uuid w n)"
  shows "file_evolves (place (join root k)) {} w (snd (ensure_runtime_writable root w))"
  using probe_elsewhere [OF assms] by (intro ensure_writable_file) (simp add: probe_name_def)

text \<open>What the check of the key reports depends on these files only.\<close>

lemma same_key_sha256:
  assumes "\<And>k. k \<in> set (target_private_key_candidates target) \<Longrightarrow> file_at (join root k) w = file_at (join root k) w'"
  shows "fst (private_key_sha256 x root target w) = fst (private_key_sha256 x root target w')"
proof -
  let ?ks = "target_private_key_candidates target"
  have "find (\<lambda>k. file_at (join root k) w \<noteq> None) ?ks = find (\<lambda>k. file_at (join root k) w' \<noteq> None) ?ks"
    using assms by (intro find_cong) auto
  moreover have "find P (map f xs) = map_option f (find (P \<circ> f) xs)" for P and f :: "string \<Rightarrow> string" and xs
    by (induction xs) auto
  moreover have "find (\<lambda>k. file_at (join root k) w' \<noteq> None) ?ks = Some k \<Longrightarrow> k \<in> set ?ks" for k
    by (auto simp: find_Some_iff)
  ultimately show ?thesis using assms
    by (auto simp: private_key_sha256_def runtime_private_key_path_def file_sha256_def read_file_def eff_defs comp_def file_at_def
        split: option.splits)
qed

lemma key_sha256_state: "private_key_sha256 x root target w = (r, w') \<Longrightarrow> w' = w"
  by (auto simp: private_key_sha256_def runtime_private_key_path_def file_sha256_def read_file_def eff_defs
      split: option.splits prod.splits sum.splits)

end
