(* ===== verification/Activation_Properties.thy ===== *)
theory Activation_Properties
  imports Agent_Activation_Facts Agent_Scenario
begin

text \<open>
  What an activation promises: whatever happens, the private key of the runtime is as it was.
\<close>

lemma live_target_names:
  "target \<in> set live_targets \<Longrightarrow> ''private'' \<notin> set (comps target)"
proof -
  have "list_all (\<lambda>t. ''private'' \<notin> set (comps t)) live_targets" by code_simp
  then show "target \<in> set live_targets \<Longrightarrow> ?thesis" by (auto simp: list_all_iff)
qed

lemma install_keeps:
  assumes key: "key_place k" and dirs: "''private'' \<notin> set (comps (av_rollback_root av)) \<union> set (comps (activation_plan_id av))"
    and "rt_target (av_cfg av) \<in> set live_targets"
  shows "evolves (file_evolves (place (join (rt_root (av_cfg av)) k)) {}) (install_stage x av before)"
  unfolding install_stage_def Let_def using dirs live_target_names [OF assms(3)]
  by (intro file_evo.combinators evolves_rules snapshot_keeps [OF key] activate_file_keeps [OF key] write_json_file disjI1
      documents_elsewhere [OF key] dated_name_json) auto

lemma install_evidence:
  assumes dirs: "''private'' \<notin> set (comps (av_rollback_root av)) \<union> set (comps (activation_plan_id av))"
    and live: "rt_target (av_cfg av) \<in> set live_targets"
    and before: "private_key_sha256 x (rt_root (av_cfg av)) (rt_target (av_cfg av)) w = (Inr before, w)"
    and run: "install_stage x av before w = (Inr receipt, w')"
  shows "dget receipt ''private_key_sha256_unchanged'' = PBool True"
proof -
  let ?root = "rt_root (av_cfg av)" and ?target = "rt_target (av_cfg av)"
  obtain rollback w1 results w2 after w3 i now where
    snapshot: "snapshot_runtime_non_private x ?root (av_rollback_root av) ?target (activation_plan_id av) w = (Inr rollback, w1)"
    and copies: "mapE (activate_file x (shadow_of (av_stage_dir av)) ?root) (sort (av_checksums av)) w1 = (Inr results, w2)"
    and after: "private_key_sha256 x ?root ?target w2 = (Inr after, w3)"
    and receipt: "receipt = receipt_dict av i now rollback results before after"
    using run by (auto simp: install_stage_def Let_def bindE_Inr ret_run)
  have same: "file_at (join ?root k) w2 = file_at (join ?root k) w"
    if "k \<in> set (target_private_key_candidates ?target)" for k
  proof -
    note key = candidate_key_place [OF that]
    have "file_evolves (place (join ?root k)) {} w w1"
      using snapshot_keeps [OF key, of "av_rollback_root av" ?target "activation_plan_id av" ?root x] dirs
        live_target_names [OF live] snapshot by (auto simp: evolves_def) (metis snd_conv)
    moreover have "evolves (file_evolves (place (join ?root k)) {})
        (mapE (activate_file x (shadow_of (av_stage_dir av)) ?root) (sort (av_checksums av)))"
      by (intro file_evo.combinators activate_file_keeps [OF key])
    then have "file_evolves (place (join ?root k)) {} w1 w2"
      using copies unfolding evolves_def by (metis snd_conv)
    ultimately show ?thesis by (simp add: no_new_content file_at_def)
  qed
  have "fst (private_key_sha256 x ?root ?target w2) = fst (private_key_sha256 x ?root ?target w)"
    by (rule same_key_sha256) (rule same)
  with after before have "after = before" by simp
  then show ?thesis
    by (simp add: receipt receipt_dict_def receipt_head_def key_evidence_def dget_def)
qed

text \<open>What follows the check that the runtime can be written.\<close>

definition judge_and_install :: "ext \<Rightarrow> key_ext \<Rightarrow> activation \<Rightarrow> pydict ag" where
  "judge_and_install x kx av =
     bindE (verify_certificate_matches_runtime_key x kx (rt_target (av_cfg av)) (av_manifest av) (rt_root (av_cfg av))) (\<lambda>_.
     bindE (private_key_sha256 x (rt_root (av_cfg av)) (rt_target (av_cfg av))) (\<lambda>before.
     bindE (runtime_stage_mismatches x (rt_root (av_cfg av)) (av_checksums av)) (\<lambda>mismatches.
     if mismatches = [] then bindE iso_now_z (\<lambda>now. ret (already_activated av now before))
     else install_stage x av before)))"

lemma activation_unfolded:
  assumes "rt_target (av_cfg av) \<in> set live_targets"
  shows "activate_package_runtime x kx av = bindE (ensure_runtime_writable (rt_root (av_cfg av))) (\<lambda>_. judge_and_install x kx av)"
  using assms by (simp add: activate_package_runtime_def judge_and_install_def Let_def)

lemma key_kept:
  assumes dirs: "''private'' \<notin> set (comps (av_rollback_root av)) \<union> set (comps (activation_plan_id av))"
    and fresh: "\<And>n. CHR ''/'' \<notin> set (g_uuid w n)"
    and live: "rt_target (av_cfg av) \<in> set live_targets"
    and run: "activate_package_runtime x kx av w = (res, w')"
    and k: "k \<in> set (target_private_key_candidates (rt_target (av_cfg av)))"
  shows "file_at (join (rt_root (av_cfg av)) k) w' = file_at (join (rt_root (av_cfg av)) k) w"
proof -
  let ?root = "rt_root (av_cfg av)"
  note key = candidate_key_place [OF k] and run' = run [unfolded activation_unfolded [OF live]]
  have rest: "evolves (file_evolves (place (join ?root k)) {}) (judge_and_install x kx av)"
    unfolding judge_and_install_def by (intro file_evo.combinators evolves_rules install_keeps [OF key dirs live])
  obtain r w1 where w1: "ensure_runtime_writable ?root w = (r, w1)" by fastforce
  then have "file_evolves (place (join ?root k)) {} w w1" using ensure_writable_keeps [OF key fresh, of ?root] by simp
  moreover have "file_evolves (place (join ?root k)) {} w1 w'"
  proof (cases r)
    case (Inl e)
    with run' w1 have "w' = w1" by (simp add: bindE_def)
    then show ?thesis by (simp add: file_evo.evo_refl)
  next
    case (Inr u)
    have "bindE (ensure_runtime_writable ?root) (\<lambda>_. judge_and_install x kx av) w = judge_and_install x kx av w1"
      by (rule bindE_step [where y = u]) (rule w1 [unfolded Inr])
    from trans [OF sym [OF this] run'] have "judge_and_install x kx av w1 = (res, w')" .
    with rest [unfolded evolves_def, THEN spec, of w1] show ?thesis by (simp only: snd_conv)
  qed
  ultimately show ?thesis by (simp add: no_new_content file_at_def)
qed

lemma key_evidence_true:
  assumes dirs: "''private'' \<notin> set (comps (av_rollback_root av)) \<union> set (comps (activation_plan_id av))"
    and live: "rt_target (av_cfg av) \<in> set live_targets"
    and run: "activate_package_runtime x kx av w = (Inr receipt, w')"
  shows "dget receipt ''private_key_sha256_unchanged'' = PBool True"
proof -
  let ?root = "rt_root (av_cfg av)" and ?target = "rt_target (av_cfg av)"
  obtain w2 before w3 mismatches w4 where
    before: "private_key_sha256 x ?root ?target w2 = (Inr before, w3)"
    and mism: "runtime_stage_mismatches x ?root (av_checksums av) w3 = (Inr mismatches, w4)"
    and fin: "(if mismatches = [] then bindE iso_now_z (\<lambda>now. ret (already_activated av now before))
       else install_stage x av before) w4 = (Inr receipt, w')"
    using run [unfolded activation_unfolded [OF live] judge_and_install_def]
    by (elim bindE_Inr [THEN iffD1, elim_format] exE conjE) blast
  show ?thesis
  proof (cases "mismatches = []")
    case True
    with fin show ?thesis
      by (auto simp: bindE_Inr ret_run already_activated_def receipt_head_def key_evidence_def dget_def)
  next
    case False
    have "file_at (join ?root k) w4 = file_at (join ?root k) w2" for k
      using mism key_sha256_state [OF before] comparison_file(1) [of "place (join ?root k)" "{}" x ?root "av_checksums av"]
      unfolding evolves_def no_new_content file_at_def by (metis snd_conv)
    then have "fst (private_key_sha256 x ?root ?target w4) = fst (private_key_sha256 x ?root ?target w2)"
      by (rule same_key_sha256)
    then have "fst (private_key_sha256 x ?root ?target w4) = Inr before" by (simp add: before)
    then have "private_key_sha256 x ?root ?target w4 = (Inr before, w4)"
      using key_sha256_state by (metis prod.collapse)
    from install_evidence [OF dirs live this] fin False show ?thesis by simp
  qed
qed

text \<open>C4: An activation never touches the private key of the runtime. Whether it succeeds, finds nothing
  to do, or fails at any point, every file in which the key of the target can lie is as it was;
  and the evidence of a receipt, that the key is unchanged, is true. The directories of the
  rollback area must not be called private, and random identifiers have no slash.\<close>

theorem activation_preserves_keys:
  assumes dirs: "''private'' \<notin> set (comps (av_rollback_root av)) \<union> set (comps (activation_plan_id av))"
    and fresh: "\<And>n. CHR ''/'' \<notin> set (g_uuid w n)"
    and run: "activate_package_runtime x kx av w = (res, w')"
  shows "(\<forall>k \<in> set (target_private_key_candidates (rt_target (av_cfg av))).
        file_at (join (rt_root (av_cfg av)) k) w' = file_at (join (rt_root (av_cfg av)) k) w)
    \<and> (\<forall>receipt. res = Inr receipt \<longrightarrow> dget receipt ''private_key_sha256_unchanged'' = PBool True)"
proof (cases "rt_target (av_cfg av) \<in> set live_targets")
  case False
  with run show ?thesis by (auto simp: activate_package_runtime_def Let_def raise_def)
next
  case True
  from key_kept [OF dirs fresh True run] key_evidence_true [OF dirs True] run show ?thesis by blast
qed

definition plain_ext :: ext where
  "plain_ext = sample_ext\<lparr>k_sha256 := (\<lambda>s. s)\<rparr>"

definition plain_keys :: key_ext where
  "plain_keys = \<lparr>kx_cert_public = Some, kx_key_public = Some\<rparr>"

definition staged_runtime :: agent_state where
  "staged_runtime = sample_agent [(''/r/own/private/private_key.pem'', Bytes ''k''), (''/r/trusted/certs/a.pem'', Bytes ''old''),
     (''/s/1/shadow-trust-store/trusted/certs/a.pem'', Bytes ''new''),
     (''/s/1/shadow-trust-store/own/private/private_key.pem'', Bytes ''foreign'')]"

definition sample_activation :: activation where
  "sample_activation = \<lparr>av_cfg = (fuxa_cfg (\<lambda>_. None))\<lparr>rt_root := ''/r''\<rparr>,
     av_manifest = [(''package_id'', PStr ''p''), (''certificate_pem'', PStr ''k'')], av_stage_dir = ''/s/1'',
     av_checksums = [(''trusted/certs/a.pem'', ''new''), (''own/private/private_key.pem'', ''foreign'')],
     av_validation = [], av_rollback_root = ''/b'', av_receipts_root = ''/q'', av_gate = []\<rparr>"

theorem activation_preserves_keys_witness:
  "\<exists>res w'. activate_package_runtime plain_ext plain_keys sample_activation staged_runtime = (res, w')
     \<and> file_at ''/r/own/private/private_key.pem'' w' = Some (Bytes ''k'')"
proof -
  obtain res w' where run: "activate_package_runtime plain_ext plain_keys sample_activation staged_runtime = (res, w')"
    by fastforce
  have "''private'' \<notin> set (comps (av_rollback_root sample_activation)) \<union> set (comps (activation_plan_id sample_activation))"
    "CHR ''/'' \<notin> set (g_uuid staged_runtime n)" for n
    using nat_str_digits [of n] by (code_simp, auto simp: staged_runtime_def sample_agent_def is_digit_def list_all_iff)
  note kept = activation_preserves_keys [OF this run, THEN conjunct1]
  have "''own/private/private_key.pem'' \<in> set (target_private_key_candidates (rt_target (av_cfg sample_activation)))"
    and path: "join (rt_root (av_cfg sample_activation)) ''own/private/private_key.pem'' = ''/r/own/private/private_key.pem''"
    and before: "file_at ''/r/own/private/private_key.pem'' staged_runtime = Some (Bytes ''k'')"
    by code_simp+
  from bspec [OF kept this(1)] run before show ?thesis unfolding path by auto
qed

end
