(* ===== verification/Agent_Inspection.thy ===== *)
theory Agent_Inspection
  imports Agent_Activation
begin

text \<open>
  The inspection of a runtime, which reads and never writes: its files with their checksums and
  the certificates among them, private keys left unread, and the comparison of what is found
  with the certificates of the cached trust list (inventory drift).
\<close>

section \<open>The files of a runtime\<close>

datatype access = Readable | Stat_denied | Read_denied | Read_failed string

text \<open>How the operating system answers for a file: its status and bytes, a \<open>PermissionError\<close> for
  either, or another \<open>OSError\<close>, by the name of its class, for its bytes.\<close>

record runtime_ext =
  rx_load_der :: "string \<Rightarrow> x509_cert option"
  rx_crl_serials :: "string \<Rightarrow> nat list option"
  rx_access :: "string \<Rightarrow> access"

definition pem_begin :: string where
  "pem_begin = ''-----BEGIN CERTIFICATE-----''"

definition parse_cert_file_metadata :: "ext \<Rightarrow> runtime_ext \<Rightarrow> string \<Rightarrow> pydict option" where
  "parse_cert_file_metadata x rx raw =
     map_option (\<lambda>cert. [(''fingerprint_sha256'', PStr (sha256_hex x (x_der cert))), (''subject'', PStr (x_subject cert)),
         (''issuer'', PStr (x_issuer cert)), (''serial_number'', PStr (nat_str (x_serial cert))),
         (''not_before'', PStr (isoformat (x_not_before cert))), (''not_after'', PStr (isoformat (x_not_after cert)))])
       (if str_contains pem_begin raw then k_load_cert x raw else rx_load_der rx raw)"

definition private_key_skip_item :: "string \<Rightarrow> pydict" where
  "private_key_skip_item relative_path = [(''relative_path'', PStr relative_path), (''exists'', PBool True),
     (''type'', PStr ''private_key''), (''readable'', PBool False), (''skipped_reason'', PStr ''private_key_material'')]"

definition unreadable_item :: "string \<Rightarrow> pydict" where
  "unreadable_item rel = [(''relative_path'', PStr rel), (''exists'', PBool True), (''readable'', PBool False),
     (''skipped_reason'', PStr ''permission_denied'')]"

definition read_item :: "ext \<Rightarrow> runtime_ext \<Rightarrow> access \<Rightarrow> string \<Rightarrow> string \<Rightarrow> pydict \<times> string list" where
  "read_item x rx a rel raw =
     (let item = [(''relative_path'', PStr rel), (''exists'', PBool True), (''readable'', PBool True),
        (''size_bytes'', PInt (int (length raw)))];
          failed = (\<lambda>why. dput ''readable'' (PBool False) item @ [(''skipped_reason'', PStr why)]) in
      case a of
        Read_denied \<Rightarrow> (failed ''permission_denied'', [''runtime_file_permission_denied''])
      | Read_failed c \<Rightarrow> (failed (''os_error:'' @ c), [''runtime_file_inspection_error''])
      | _ \<Rightarrow> (item @ [(''sha256'', PStr (sha256_hex x raw))] @
           (case parse_cert_file_metadata x rx raw of None \<Rightarrow> [] | Some m \<Rightarrow> [(''certificate'', PDict m)]), []))"

definition inspect_file :: "ext \<Rightarrow> runtime_ext \<Rightarrow> string \<Rightarrow> string \<Rightarrow> (pydict \<times> string list) ag" where
  \<comment> \<open>the entry of a file and the warnings it gives\<close>
  "inspect_file x rx root name =
     (let p = path_join root name; rel = replace_all [CHR 0x5C] ''/'' name; a = rx_access rx (place p) in
      if a = Stat_denied
      then ret (if is_private_key_path p rel
             then (private_key_skip_item rel, [''private_key_material_skipped_permission_denied''])
             else (unreadable_item rel, [''runtime_file_permission_denied'']))
      else if is_private_key_path p rel then ret (private_key_skip_item rel, [''private_key_material_skipped''])
      else bindE (read_file (place p)) (\<lambda>f. ret (read_item x rx a rel (content_bytes f))))"

record inspection =
  in_status :: string
  in_files :: "pydict list"
  in_warnings :: "string list"

definition inspect_current_runtime_readonly :: "ext \<Rightarrow> runtime_ext \<Rightarrow> target_cfg \<Rightarrow> inspection ag" where
  "inspect_current_runtime_readonly x rx cfg =
     bindE (getE (is_dir (place (rt_root cfg)))) (\<lambda>found.
     if \<not> found then ret \<lparr>in_status = ''unavailable'', in_files = [], in_warnings = [''runtime_root_unavailable'']\<rparr>
     else bindE (getE (files_below (rt_root cfg))) (\<lambda>names.
       bindE (mapE (inspect_file x rx (rt_root cfg)) names) (\<lambda>items.
         ret \<lparr>in_status = ''available'', in_files = map fst items,
           in_warnings = concat (map snd items) @ (if items = [] then [''runtime_root_empty''] else [])\<rparr>)))"

definition entry_certificate :: "pydict \<Rightarrow> pydict" where
  \<comment> \<open>the certificate of an entry, empty when there is none\<close>
  "entry_certificate entry = as_dict (dget entry ''certificate'')"

definition classify_runtime_entry :: "pydict \<Rightarrow> string" where
  "classify_runtime_entry entry =
     (let haystack = lower (get_str entry ''relative_path'') @ '' '' @ lower (get_str (entry_certificate entry) ''subject'') in
      if str_contains ''uaexpert'' haystack then ''engineering_tool''
      else if str_contains ''fuxa'' haystack then ''runtime_local''
      else if str_contains ''gateway_client'' haystack \<or> str_contains ''gateway'' haystack \<or> str_contains ''dmz'' haystack
      then ''transitional_gateway''
      else if dget entry ''type'' = PStr ''private_key'' then ''runtime_local''
      else ''unknown_manual'')"

section \<open>Inventory drift\<close>

definition fp_index :: "(pydict \<Rightarrow> string) \<Rightarrow> pydict list \<Rightarrow> (string \<times> pydict) list" where
  \<comment> \<open>\<open>{f(d): d for d in ds}\<close>\<close>
  "fp_index f ds = foldl (\<lambda>m d. AList.update (f d) d m) [] ds"

definition with_fingerprint :: "pydict list \<Rightarrow> pydict list" where
  "with_fingerprint = filter (\<lambda>d. truthy (dget d ''fingerprint_sha256''))"

definition drift_items :: "target_cfg \<Rightarrow> pydict \<Rightarrow> pydict list \<Rightarrow> pydict list" where
  \<comment> \<open>the items of a target, from its cached trust list and the entries of its runtime\<close>
  "drift_items cfg artifact entries =
     (let fpr = (\<lambda>d. lower (get_str d ''fingerprint_sha256''));
          gds_certs = fp_index fpr (with_fingerprint (dicts_of (dget artifact ''certificates'')));
          runtime = fp_index (\<lambda>e. fpr (entry_certificate e))
            (filter (\<lambda>e. truthy (dget (entry_certificate e) ''fingerprint_sha256'')) entries);
          at = [(''target'', PStr (rt_target cfg)), (''zone'', PStr (rt_zone cfg)), (''role'', PStr (rt_role cfg))] in
      map (\<lambda>(fp, cert). (''type'', PStr ''gds_cert_missing_runtime'') # at @
          [(''application_uri'', dget cert ''application_uri''), (''common_name'', dget cert ''common_name''),
           (''fingerprint_sha256'', PStr fp), (''artifact_revision'', dget artifact ''artifact_revision'')])
        (filter (\<lambda>(fp, _). fp \<notin> set (map fst runtime)) gds_certs) @
      map (\<lambda>(fp, entry). (''type'', PStr ''runtime_cert_unknown'') # at @
          [(''relative_path'', dget entry ''relative_path''), (''fingerprint_sha256'', PStr fp),
           (''subject'', dget (entry_certificate entry) ''subject'')])
        (filter (\<lambda>(fp, _). fp \<notin> set (map fst gds_certs)) runtime))"

definition drift_of_target :: "ext \<Rightarrow> runtime_ext \<Rightarrow> string \<Rightarrow> target_cfg \<Rightarrow> pydict list ag" where
  "drift_of_target x rx trust_dir cfg =
     bindE (load_json_if_exists x (join trust_dir (rt_zone cfg @ ''_'' @ rt_role cfg @ ''.json''))) (\<lambda>v.
     if \<not> truthy v
     then ret [[(''type'', PStr ''gds_artifact_missing_cache''), (''target'', PStr (rt_target cfg)),
       (''zone'', PStr (rt_zone cfg)), (''role'', PStr (rt_role cfg))]]
     else bindE (lift (need_dict v)) (\<lambda>artifact.
       bindE (inspect_current_runtime_readonly x rx cfg) (\<lambda>runtime. ret (drift_items cfg artifact (in_files runtime)))))"

record drift_report =
  dr_id :: string
  dr_at :: string
  dr_items :: "pydict list"

definition build_inventory_drift_report :: "ext \<Rightarrow> runtime_ext \<Rightarrow> string \<Rightarrow> target_cfg list \<Rightarrow> drift_report ag" where
  "build_inventory_drift_report x rx trust_dir targets =
     bindE (mapE (drift_of_target x rx trust_dir) targets) (\<lambda>items.
     bindE new_uuid (\<lambda>i. bindE iso_now_z (\<lambda>now. ret \<lparr>dr_id = i, dr_at = now, dr_items = concat items\<rparr>)))"

definition inventory_drift_dict :: "string \<Rightarrow> drift_report \<Rightarrow> pydict" where
  "inventory_drift_dict cycle r = [(''drift_id'', PStr (dr_id r)), (''generated_at'', PStr (dr_at r)), (''sync_cycle_id'', PStr cycle),
     (''status'', PStr (if dr_items r \<noteq> [] then ''drift_detected'' else ''ok'')),
     (''drift_count'', PInt (int (length (dr_items r)))), (''items'', PList (map PDict (dr_items r)))]"

definition drift_tags :: "setting \<Rightarrow> drift_report \<Rightarrow> pydict" where
  "drift_tags se r = cycle_tags se @ [(''diff_id'', PStr (dr_id r)), (''risk_level'', PStr ''MEDIUM'')]"

definition forward_drift_item :: "setting \<Rightarrow> drift_report \<Rightarrow> pydict \<Rightarrow> unit ag" where
  "forward_drift_item se r item =
     report_event se ''warning'' ''pki_validation''
       (py_str (dget_or item ''type'' (PStr ''certificate_inventory_drift_detected'')))
       (dmerge [(''sync_cycle_id'', PStr (se_cycle se))] item)
       (drift_tags se r @ map (\<lambda>(tag, field). (tag, PStr (get_str item field)))
         [(''application_uri'', ''application_uri''), (''mtls_fingerprint_sha256'', ''fingerprint_sha256''),
          (''trustlist_zone'', ''zone''), (''trustlist_role'', ''role''), (''artifact_revision'', ''artifact_revision'')])"

definition persist_and_forward_inventory_drift :: "setting \<Rightarrow> runtime_ext \<Rightarrow> string \<Rightarrow> target_cfg list \<Rightarrow> drift_report ag" where
  "persist_and_forward_inventory_drift se rx drift_dir targets =
     bindE (build_inventory_drift_report (se_ext se) rx (se_trust_dir se) targets) (\<lambda>r.
     let out = join drift_dir (dated_name (dr_at r) (dr_id r)) in
     bindE (write_json_artifact out (inventory_drift_dict (se_cycle se) r)) (\<lambda>_.
     bindE (if dr_items r = [] then ret ()
       else bindE (report_event se ''warning'' ''pki_validation'' ''certificate_inventory_drift_detected''
              [(''sync_cycle_id'', PStr (se_cycle se)), (''drift_count'', PInt (int (length (dr_items r)))),
               (''report_path'', PStr out)] (drift_tags se r)) (\<lambda>_.
            forE (take 25 (dr_items r)) (forward_drift_item se r))) (\<lambda>_. ret r)))"

end
