(* ===== verification/Agent_Plain_Cycle.thy ===== *)
theory Agent_Plain_Cycle
  imports Agent_Cycle
begin

text \<open>
  The cycle without signatures, which the agent runs when signed artifacts are not required:
  the PKI bundle from its own endpoints, then every trust list, checked for its form only. No
  credentials are sent, and a list is not compared with the version that is cached.
\<close>

section \<open>The PKI bundle\<close>

definition plain_gds :: "setting \<Rightarrow> gds" where
  "plain_gds se = (se_gds se)\<lparr>gd_headers := []\<rparr>"

definition write_text_reported :: "setting \<Rightarrow> string \<Rightarrow> pyval \<Rightarrow> string \<Rightarrow> unit ag" where
  \<comment> \<open>a value that is not a text fails in the write\<close>
  "write_text_reported se p v what = (let raw = [(''path'', PStr p)] in
     case v of
       PStr s \<Rightarrow> write_reported se p (Bytes s) what raw [] []
     | _ \<Rightarrow> (let e = TypeError ''write'' in
         bindE (report_event se ''warning'' ''gds_agent_error'' (''cache_write_failure '' @ what)
           (raw @ [(''error'', PStr (k_exc_text (se_ext se) e))]) []) (\<lambda>_. raise e)))"

definition renew_ca_chain :: "setting \<Rightarrow> content option \<Rightarrow> bool ag" where
  \<comment> \<open>whether the chain has changed\<close>
  "renew_ca_chain se old =
     bindE (get_document (plain_gds se) ''/api/v1/pki/ca-chain'') (\<lambda>v. bindE (lift (need_dict v)) (\<lambda>doc.
     let pem = dget_or doc ''ca_chain_pem'' (PStr []) in
     bindE (lift (py_in ''BEGIN CERTIFICATE'' pem)) (\<lambda>found.
     if \<not> found then raise (ValueError ''invalid ca-chain response'')
     else bindE (write_text_reported se (join (se_pki_dir se) ''ca-chain.pem'') pem ''ca-chain.pem'') (\<lambda>_.
       ret (old \<noteq> None \<and> old \<noteq> Some (Bytes (text_of pem)))))))"

definition renew_crl :: "setting \<Rightarrow> content option \<Rightarrow> bool ag" where
  "renew_crl se old =
     bindE (get_document (plain_gds se) ''/api/v1/pki/crl'') (\<lambda>v. bindE (lift (need_dict v)) (\<lambda>doc.
     bindE (lift (decode_crl (se_ext se) (dget_or doc ''crl_base64'' (PStr [])))) (\<lambda>der.
     let p = join (se_pki_dir se) ''crl.der'' in
     bindE (write_reported se p (Bytes der) ''crl.der'' [(''path'', PStr p)] [] []) (\<lambda>_.
       ret (old \<noteq> None \<and> old \<noteq> Some (Bytes der))))))"

definition announce_change :: "setting \<Rightarrow> bool \<Rightarrow> string \<Rightarrow> unit ag" where
  "announce_change se changed what = (if changed
     then report_event se ''warning'' ''pki_validation'' what [(what, PBool True)] [(''risk_level'', PStr ''HIGH'')]
     else ret ())"

section \<open>One target\<close>

definition obtain_trustlist :: "setting \<Rightarrow> string \<Rightarrow> string \<Rightarrow> pydict option ag" where
  \<comment> \<open>\<open>None\<close> when the service has no such list yet\<close>
  "obtain_trustlist se zone role =
     bindE (get_gds (plain_gds se) (''/api/v1/trustlists/'' @ zone @ ''/'' @ role)) (\<lambda>res.
     if r_status res = 404 then ret None
     else bindE (reply_ok res) (\<lambda>_. bindE (reply_json res) (\<lambda>v. bindE (lift (need_dict v)) (\<lambda>doc.
       bindE (lift (validate_trustlist_payload (se_ext se) doc zone role)) (\<lambda>_. ret (Some doc))))))"

definition report_trustlist ::
  "setting \<Rightarrow> string \<Rightarrow> string \<Rightarrow> pyval \<Rightarrow> pydict option \<Rightarrow> bool \<Rightarrow> bool \<Rightarrow> string list \<Rightarrow> diff ag" where
  \<comment> \<open>the comparison with the cached document, written to its file\<close>
  "report_trustlist se zone role cached current ca_changed crl_changed reasons =
     bindE (if truthy cached then bindE (lift (need_dict cached)) (\<lambda>d. ret (Some d)) else ret None) (\<lambda>previous.
     bindE (build_diff_report (se_ext se) (se_order se) previous current ca_changed crl_changed reasons) (\<lambda>d.
     bindE (write_json_artifact (report_path se zone role d) (diff_dict zone role d)) (\<lambda>_. ret d)))"

definition trustlist_rejected :: "setting \<Rightarrow> string \<Rightarrow> string \<Rightarrow> pyval \<Rightarrow> bool \<Rightarrow> bool \<Rightarrow> exn \<Rightarrow> unit ag" where
  "trustlist_rejected se zone role cached ca_changed crl_changed e =
     bindE (report_trustlist se zone role cached None ca_changed crl_changed
       [''malformed_or_unavailable_trustlist:'' @ k_exc_text (se_ext se) e]) (\<lambda>d.
     report_event se ''critical'' ''pki_validation'' ''malformed_trustlist_or_certificate''
       [(''zone'', PStr zone), (''role'', PStr role), (''critical_reasons'', PList (map PStr (df_reasons d)))]
       (risk_tags zone role ''CRITICAL'' d))"

definition announce_difference :: "setting \<Rightarrow> string \<Rightarrow> string \<Rightarrow> diff \<Rightarrow> unit ag" where
  "announce_difference se zone role d =
     bindE (report_event se (normalize_severity_for_diff (df_risk d)) ''trustlist_diff'' ''trustlist_diff_detected''
       [(''zone'', PStr zone), (''role'', PStr role), (''previous_version'', df_previous d), (''new_version'', df_new d),
        (''added_count'', PInt (int (length (df_added d)))), (''removed_count'', PInt (int (length (df_removed d)))),
        (''changed_count'', PInt (int (length (df_changed d)))), (''ca_chain_changed'', PBool (df_ca_changed d)),
        (''crl_changed'', PBool (df_crl_changed d))] (risk_tags zone role (df_risk d) d)) (\<lambda>_.
     if df_risk d = ''CRITICAL''
     then report_event se ''critical'' ''gds_agent_error'' ''critical_diff_detected''
       [(''zone'', PStr zone), (''role'', PStr role), (''critical_reasons'', PList (map PStr (df_reasons d)))]
       (risk_tags zone role (df_risk d) d)
     else ret ())"

definition trustlist_synced :: "setting \<Rightarrow> string \<Rightarrow> string \<Rightarrow> pyval \<Rightarrow> bool \<Rightarrow> bool \<Rightarrow> pydict \<Rightarrow> unit ag" where
  "trustlist_synced se zone role cached ca_changed crl_changed doc =
     bindE (report_trustlist se zone role cached (Some doc) ca_changed crl_changed []) (\<lambda>d.
     bindE (announce_difference se zone role d) (\<lambda>_.
     write_reported se (trustlist_path se zone role) (Json (PDict doc)) ''trustlist''
       [(''path'', PStr (trustlist_path se zone role)), (''zone'', PStr zone), (''role'', PStr role)]
       [(''version'', dget doc ''version'')] (target_tags zone role)))"

definition plain_sync_target :: "setting \<Rightarrow> bool \<Rightarrow> bool \<Rightarrow> string \<times> string \<Rightarrow> unit ag" where
  "plain_sync_target se ca_changed crl_changed target = (case target of (zone, role) \<Rightarrow>
     bindE (load_json_if_exists (se_ext se) (trustlist_path se zone role)) (\<lambda>cached.
     tryE (obtain_trustlist se zone role) (trustlist_rejected se zone role cached ca_changed crl_changed) (\<lambda>found.
       case found of None \<Rightarrow> ret () | Some doc \<Rightarrow> trustlist_synced se zone role cached ca_changed crl_changed doc)))"

section \<open>The cycle\<close>

definition run_sync_cycle :: "setting \<Rightarrow> (string \<times> string) list \<Rightarrow> bool ag" where
  "run_sync_cycle se targets =
     bindE (read_if_exists (join (se_pki_dir se) ''ca-chain.pem'')) (\<lambda>old_ca.
     bindE (read_if_exists (join (se_pki_dir se) ''crl.der'')) (\<lambda>old_crl.
     bindE (renew_ca_chain se old_ca) (\<lambda>ca_changed.
     bindE (renew_crl se old_crl) (\<lambda>crl_changed.
     bindE (announce_change se ca_changed ''ca_chain_changed'') (\<lambda>_.
     bindE (announce_change se crl_changed ''crl_changed'') (\<lambda>_.
     bindE (forE targets (plain_sync_target se ca_changed crl_changed)) (\<lambda>_. ret True)))))))"

end
