(* ===== verification/Agent_Revocation.thy ===== *)
theory Agent_Revocation
  imports Agent_Inspection Agent_Plain_Cycle
begin

text \<open>
  The revocation update of the agent: a synchronisation cycle, the service's inventory of
  certificates, and for every runtime a report of the entries that belong to revoked
  certificates. Nothing in a runtime is changed.
\<close>

section \<open>The inventory\<close>

definition inventory_item :: "pydict \<Rightarrow> pydict" where
  "inventory_item item = (''certificate_id'', dget item ''id'') # map (\<lambda>k. (k, dget item k))
     [''application_uri'', ''runtime_instance_id'', ''common_name'', ''zone'', ''role'', ''fingerprint_sha256'',
      ''serial_number'', ''status'', ''revoked_at'']"

definition fetch_certificate_inventory :: "gds \<Rightarrow> pydict list ag" where
  "fetch_certificate_inventory gd =
     bindE (get_document gd ''/api/v1/certificates'') (\<lambda>v. case v of
       PList _ \<Rightarrow> ret (map inventory_item (dicts_of v))
     | _ \<Rightarrow> raise (ValueError ''certificate_inventory_malformed''))"

definition crl_serials :: "runtime_ext \<Rightarrow> string option \<Rightarrow> string list" where
  \<comment> \<open>every serial of a list in decimal and in hexadecimal; nothing when there is no list or it cannot be read\<close>
  "crl_serials rx crl = (case crl of None \<Rightarrow> [] | Some der \<Rightarrow> if der = [] then [] else
     (case rx_crl_serials rx der of None \<Rightarrow> [] | Some ns \<Rightarrow> concat (map (\<lambda>n. [nat_str n, nat_hex n]) ns)))"

section \<open>The report\<close>

definition clean_fp :: "pydict \<Rightarrow> string" where
  \<comment> \<open>\<open>str(d.get("fingerprint_sha256", "")).strip().lower()\<close>\<close>
  "clean_fp d = lower (strip (get_str d ''fingerprint_sha256''))"

definition affected_entry :: "pydict list \<Rightarrow> (string \<times> pydict) list \<Rightarrow> pydict \<Rightarrow> pydict option" where
  "affected_entry active revoked entry =
     (let cert = entry_certificate entry; fp = clean_fp cert in
      if cert = [] \<or> fp = [] then None
      else map_option (\<lambda>meta. [(''relative_path'', dget entry ''relative_path''), (''fingerprint_sha256'', PStr fp),
          (''subject'', dget cert ''subject''), (''serial_number'', dget cert ''serial_number''),
          (''application_uri'', dget meta ''application_uri''),
          (''classification'', PStr (classify_runtime_entry entry)),
          (''present_in_active_signed_artifact'', PBool (fp \<in> set (map clean_fp active))),
          (''review_reason'', PStr ''runtime entry matches revoked certificate metadata'')])
        (map_of revoked fp))"

definition revoked_view :: "string list \<Rightarrow> pydict \<Rightarrow> pydict" where
  "revoked_view serials cert = map (\<lambda>k. (k, dget cert k))
     [''certificate_id'', ''application_uri'', ''common_name'', ''fingerprint_sha256'', ''serial_number'', ''revoked_at''] @
     [(''crl_contains_serial'', PBool (get_str cert ''serial_number'' \<in> set serials))]"

definition digest_of :: "ext \<Rightarrow> string option \<Rightarrow> pyval" where
  "digest_of x bytes = (case bytes of None \<Rightarrow> PNone | Some b \<Rightarrow> if b = [] then PNone else PStr (sha256_hex x b))"

record revocation_run =
  rc_se :: setting
  rc_rx :: runtime_ext
  rc_dir :: string
  rc_signed :: bool
  rc_sync :: "(string \<times> string) list"
  rc_runtimes :: "target_cfg list"
  rc_write_enabled :: bool
  rc_fuxa_mode :: string
  rc_opcua_mode :: string
  rc_merge :: string

definition mount_mode_for_component_target :: "environ \<Rightarrow> string \<Rightarrow> string \<Rightarrow> string \<Rightarrow> string" where
  "mount_mode_for_component_target env target fuxa_mode opcua_mode =
     (if target = ''opcua-server'' then opcua_mode
      else if target = ''fuxa'' then fuxa_mode
      else if target \<in> {''dmz-gateway-client'', ''dmz-gateway-server''}
      then lower (strip (env_agent env ''GDS_AGENT_RUNTIME_DMZ_GATEWAY_MOUNT_MODE'' ''ro''))
      else ''ro'')"

definition revocation_dict ::
  "revocation_run \<Rightarrow> target_cfg \<Rightarrow> string \<Rightarrow> string \<Rightarrow> pydict \<Rightarrow> inspection \<Rightarrow> pydict list \<Rightarrow> string option \<Rightarrow> string option \<Rightarrow> pydict" where
  "revocation_dict rc cfg i now artifact runtime revoked old_crl new_crl =
     (let x = se_ext (rc_se rc);
          before = crl_serials (rc_rx rc) old_crl; after = crl_serials (rc_rx rc) new_crl;
          newly = sort (remdups (filter (\<lambda>s. s \<notin> set before) after));
          active = with_fingerprint (dicts_of (dget artifact ''certificates''));
          by_fp = fp_index clean_fp (with_fingerprint revoked);
          affected = PList (map PDict (List.map_filter (affected_entry active by_fp) (in_files runtime))) in
      [(''schema'', PStr ''labshock_phase_8_4_revocation_dry_run_v1''),
       (''snapshot_reference'', PStr ''SNAPSHOT_P8_4_REVOCATION_RECONCILED_SAFE_20260512''),
       (''report_id'', PStr i), (''generated_at'', PStr now), (''sync_cycle_id'', PStr (se_cycle (rc_se rc))),
       (''target'', PStr (rt_target cfg)), (''runtime_root'', PStr (rt_root cfg)), (''artifact_zone'', PStr (rt_zone cfg)),
       (''artifact_role'', PStr (rt_role cfg)), (''artifact_revision'', dget artifact ''artifact_revision''),
       (''runtime_write_enabled'', PBool (rc_write_enabled rc)),
       (''runtime_mount_mode'', PStr (mount_mode_for_component_target (se_env (rc_se rc)) (rt_target cfg)
          (rc_fuxa_mode rc) (rc_opcua_mode rc))),
       (''runtime_mutation_performed'', PBool False), (''runtime_restart_automatic'', PBool False),
       (''merge_policy'', PStr (rc_merge rc)), (''crl_changed'', PBool (old_crl \<noteq> new_crl)),
       (''crl_sha256_before'', digest_of x old_crl), (''crl_sha256_after'', digest_of x new_crl),
       (''newly_revoked_crl_serials'', PList (map PStr newly)),
       (''certificates_revoked_total'', PInt (int (length revoked))),
       (''certificates_revoked_known'', PList (map (PDict \<circ> revoked_view after) revoked)),
       (''certificates_newly_revoked'', PList (map (PDict \<circ> revoked_view after)
          (filter (\<lambda>c. get_str c ''serial_number'' \<in> set newly) revoked))),
       (''runtime_trust_entries_affected'', affected), (''deletion_candidates'', affected),
       (''files_to_remove'', PList []), (''files_to_remove_count'', PInt 0),
       (''conservative_merge_blocks_deletion'', PBool (rc_merge rc = ''conservative_merge'')),
       (''warnings'', PList (map PStr (sort (remdups (in_warnings runtime))))),
       (''recommended_operator_action'', PStr (''Review affected runtime entries. Phase 8.4 performs no deletion, '' @
          ''no trust-store replacement, and no service restart.''))])"

definition build_revocation_dry_run_report ::
  "revocation_run \<Rightarrow> pydict list \<Rightarrow> string option \<Rightarrow> string option \<Rightarrow> target_cfg \<Rightarrow> pydict ag" where
  "build_revocation_dry_run_report rc revoked old_crl new_crl cfg = (let x = se_ext (rc_se rc) in
     bindE (load_json_if_exists x (join (se_trust_dir (rc_se rc)) (rt_zone cfg @ ''_'' @ rt_role cfg @ ''.json''))) (\<lambda>v.
     bindE (lift (need_dict (py_or v (PDict [])))) (\<lambda>artifact.
     bindE (inspect_current_runtime_readonly x (rc_rx rc) cfg) (\<lambda>runtime.
     bindE new_uuid (\<lambda>i. bindE iso_now_z (\<lambda>now.
     let p = join (join (rc_dir rc) (rt_target cfg)) (dated_name now i);
         report = revocation_dict rc cfg i now artifact runtime revoked old_crl new_crl in
     bindE (write_json_artifact p report) (\<lambda>_. ret (report @ [(''report_path'', PStr p)]))))))))"

section \<open>The update\<close>

definition crl_bytes :: "setting \<Rightarrow> string option ag" where
  "crl_bytes se = bindE (read_if_exists (join (se_pki_dir se) ''crl.der'')) (\<lambda>f. ret (map_option content_bytes f))"

definition selected_targets :: "target_cfg list \<Rightarrow> string \<Rightarrow> exn + target_cfg list" where
  "selected_targets runtimes requested =
     (let by_name = foldl (\<lambda>m t. AList.update (rt_target t) t m) [] runtimes in
      mapS (\<lambda>name. case map_of by_name name of
          None \<Rightarrow> Inl (ValueError (''target_config_missing:'' @ name)) | Some t \<Rightarrow> Inr t)
        (if requested \<noteq> [] then [requested] else sort (map fst by_name)))"

definition report_summary :: "pydict \<Rightarrow> pydict" where
  "report_summary r = [(''target'', dget r ''target''), (''report_path'', dget r ''report_path''),
     (''runtime_trust_entries_affected_count'', PInt (list_len (dget r ''runtime_trust_entries_affected''))),
     (''deletion_candidates_count'', PInt (list_len (dget r ''deletion_candidates''))),
     (''files_to_remove_count'', dget r ''files_to_remove_count''), (''runtime_mount_mode'', dget r ''runtime_mount_mode'')]"

definition revocation_result :: "revocation_run \<Rightarrow> string \<Rightarrow> bool \<Rightarrow> pydict list \<Rightarrow> pydict list \<Rightarrow> pydict" where
  "revocation_result rc now changed revoked reports =
     [(''schema'', PStr ''labshock_phase_8_4_revocation_update_result_v1''), (''generated_at'', PStr now),
      (''snapshot_reference'', PStr ''SNAPSHOT_P8_4_REVOCATION_RECONCILED_SAFE_20260512''),
      (''sync_cycle_id'', PStr (se_cycle (rc_se rc))), (''runtime_write_enabled'', PBool (rc_write_enabled rc)),
      (''runtime_mutation_performed'', PBool False), (''runtime_restart_automatic'', PBool False),
      (''crl_changed'', PBool changed), (''revoked_certificates_count'', PInt (int (length revoked))),
      (''affected_runtime_entries_count'', PInt (sum_list (map (\<lambda>r. list_len (dget r ''runtime_trust_entries_affected'')) reports))),
      (''deletion_candidates_count'', PInt (sum_list (map (\<lambda>r. list_len (dget r ''deletion_candidates'')) reports))),
      (''files_to_remove_count'', PInt 0), (''reports'', PList (map (PDict \<circ> report_summary) reports))]"

definition pull_revocation_update_once :: "revocation_run \<Rightarrow> string \<Rightarrow> pydict ag" where
  "pull_revocation_update_once rc requested = (let se = rc_se rc in
     bindE (crl_bytes se) (\<lambda>old_crl.
     bindE (if rc_signed rc then run_sync_cycle_signed se (rc_sync rc) else run_sync_cycle se (rc_sync rc)) (\<lambda>_.
     bindE (crl_bytes se) (\<lambda>new_crl.
     bindE (fetch_certificate_inventory (se_gds se)) (\<lambda>inventory.
     let revoked = filter (\<lambda>c. lower (strip (get_str c ''status'')) = ''revoked'') inventory in
     bindE (lift (selected_targets (rc_runtimes rc) requested)) (\<lambda>targets.
     bindE (mapE (build_revocation_dry_run_report rc revoked old_crl new_crl) targets) (\<lambda>reports.
     bindE iso_now_z (\<lambda>now.
     let result = revocation_result rc now (old_crl \<noteq> new_crl) revoked reports;
         quiet = (dget result ''affected_runtime_entries_count'' = PInt 0) in
     bindE (report_event se (if quiet then ''info'' else ''warning'') ''pki_validation'' ''revocation_dry_run_created''
       ((''sync_cycle_id'', PStr (se_cycle se)) # map (\<lambda>k. (k, dget result k))
         [''crl_changed'', ''revoked_certificates_count'', ''affected_runtime_entries_count'', ''deletion_candidates_count'',
          ''files_to_remove_count'', ''runtime_mutation_performed''])
       (cycle_tags se @ [(''risk_level'', PStr (if quiet then ''LOW'' else ''MEDIUM''))])) (\<lambda>_.
     ret result)))))))))"

end
