(* ===== verification/Agent_Quarantine.thy ===== *)
theory Agent_Quarantine
  imports Agent_Revocation
begin

text \<open>
  The quarantine of revoked certificates: a plan made from a revocation report and from what is
  in the runtime, its execution, which moves files out of the runtime into a quarantine
  directory, and the validation of what was moved. A file moves only when its path is one of a
  trusted or rejected certificate; private keys and the runtime's own certificates stay.
\<close>

section \<open>Documents\<close>

fun find_json :: "ext \<Rightarrow> (string \<Rightarrow> pydict \<Rightarrow> bool) \<Rightarrow> string list \<Rightarrow> (string \<times> pydict) option ag" where
  \<comment> \<open>the first document that fits; a file that cannot be read is skipped\<close>
  "find_json x fits [] = ret None"
| "find_json x fits (p # ps) = tryE (read_json x p) (\<lambda>_. find_json x fits ps)
     (\<lambda>v. bindE (lift (need_dict v)) (\<lambda>d. if fits p d then ret (Some (p, d)) else find_json x fits ps))"

definition newest_json :: "ext \<Rightarrow> string \<Rightarrow> (string \<Rightarrow> pydict \<Rightarrow> bool) \<Rightarrow> (string \<times> pydict) option ag" where
  "newest_json x dir fits = bindE (getE (json_files_in dir)) (\<lambda>files. find_json x fits (rev files))"

definition load_revocation_report :: "ext \<Rightarrow> string \<Rightarrow> string \<Rightarrow> string \<Rightarrow> (string \<times> pyval) option ag" where
  "load_revocation_report x revocation_dir target report_id =
     (if report_id \<noteq> []
      then bindE (newest_json x (join revocation_dir target)
             (\<lambda>p d. get_str d ''report_id'' = report_id \<or> str_contains report_id (path_name p)))
           (\<lambda>found. ret (map_option (\<lambda>(p, d). (p, PDict d)) found))
      else find_latest_json_for_target x revocation_dir target)"

definition load_quarantine_plan :: "ext \<Rightarrow> string \<Rightarrow> string \<Rightarrow> string \<Rightarrow> (string \<times> pydict) option ag" where
  "load_quarantine_plan x plan_dir target plan_id =
     newest_json x (join plan_dir target) (\<lambda>_ d. get_str d ''plan_id'' = plan_id)"

definition latest_quarantine_receipt_for_plan :: "ext \<Rightarrow> string \<Rightarrow> string \<Rightarrow> string \<Rightarrow> (string \<times> pydict) option ag" where
  "latest_quarantine_receipt_for_plan x receipt_dir target plan_id =
     newest_json x (join receipt_dir target) (\<lambda>_ d. get_str d ''plan_id'' = plan_id)"

definition path_of :: "(string \<times> 'a) option \<Rightarrow> string" where
  \<comment> \<open>\<open>str(path) if path else ""\<close>\<close>
  "path_of found = (case found of None \<Rightarrow> [] | Some (p, _) \<Rightarrow> p)"

section \<open>What may move\<close>

definition normalize_relative_path :: "string \<Rightarrow> string" where
  "normalize_relative_path p = dropWhile (\<lambda>c. c = CHR ''/'') (strip (replace_all [CHR 0x5C] ''/'' p))"

definition is_quarantine_eligible_runtime_path :: "string \<Rightarrow> bool" where
  "is_quarantine_eligible_runtime_path relative_path =
     (let rel = lower (normalize_relative_path relative_path) in
      rel \<noteq> [] \<and> \<not> is_private_key_path rel rel \<and> \<not> str_contains ''/own/'' rel \<and> \<not> starts_with rel ''own/''
      \<and> list_ex (starts_with rel) [''applcerts/trusted/certs/'', ''trusted/certs/'', ''applcerts/rejected/'', ''rejected/''])"

definition item_rel :: "pydict \<Rightarrow> string" where
  "item_rel d = normalize_relative_path (get_str d ''relative_path'')"

definition runtime_cert_entry_map :: "pydict list \<Rightarrow> ((string \<times> string) \<times> pydict) list" where
  "runtime_cert_entry_map entries = foldl (\<lambda>m e. AList.update (item_rel e, clean_fp (entry_certificate e)) e m) []
     (filter (\<lambda>e. item_rel e \<noteq> [] \<and> clean_fp (entry_certificate e) \<noteq> []) entries)"

definition candidate_from_runtime_entry :: "pydict \<Rightarrow> pydict \<Rightarrow> pydict" where
  "candidate_from_runtime_entry entry meta = (let cert = entry_certificate entry in
     [(''relative_path'', PStr (item_rel entry)), (''fingerprint_sha256'', PStr (clean_fp cert)),
      (''subject'', dget cert ''subject''), (''serial_number'', dget cert ''serial_number''),
      (''application_uri'', dget meta ''application_uri''), (''certificate_id'', dget meta ''certificate_id''),
      (''revoked_at'', dget meta ''revoked_at''), (''classification'', PStr (classify_runtime_entry entry)),
      (''review_reason'', PStr ''runtime entry matches revoked certificate metadata'')])"

record quarantine =
  qs_ext :: ext
  qs_keys :: agent_ext
  qs_rx :: runtime_ext
  qs_zones :: "string \<Rightarrow> (int \<Rightarrow> int) option"
  qs_cfg :: target_cfg
  qs_revocation_dir :: string
  qs_plan_dir :: string
  qs_receipt_dir :: string
  qs_quarantine_dir :: string
  qs_validation_dir :: string
  qs_preflight_dir :: string
  qs_approvals_dir :: string
  qs_policy :: maintenance_policy
  qs_signer :: approval_signer
  qs_write_enabled :: bool
  qs_targets :: "string list"
  qs_fuxa_mode :: string
  qs_opcua_mode :: string

definition qs_target :: "quarantine \<Rightarrow> string" where
  "qs_target qs = rt_target (qs_cfg qs)"

definition qs_mode :: "quarantine \<Rightarrow> string" where
  "qs_mode qs = (if qs_target qs = ''opcua-server'' then qs_opcua_mode qs else qs_fuxa_mode qs)"

definition latest_rollback_preflight_for_target :: "quarantine \<Rightarrow> ((string \<times> pyval) option \<times> pydict) ag" where
  \<comment> \<open>with the document, empty when there is none\<close>
  "latest_rollback_preflight_for_target qs =
     bindE (find_latest_json_for_target (qs_ext qs) (qs_preflight_dir qs) (qs_target qs)) (\<lambda>found.
     bindE (lift (need_dict (py_or (case found of None \<Rightarrow> PNone | Some (_, v) \<Rightarrow> v) (PDict [])))) (\<lambda>d. ret (found, d)))"

section \<open>The plan\<close>

record findings =
  fd_active :: "pydict list"
  fd_candidates :: "pydict list"
  fd_warnings :: "string list"

definition match_affected ::
  "((string \<times> string) \<times> pydict) list \<Rightarrow> (string \<times> pydict) list \<Rightarrow> pydict \<Rightarrow> pydict option" where
  "match_affected runtime revoked entry = (let rel = item_rel entry; fp = clean_fp entry in
     if rel = [] \<or> fp = [] then None
     else map_option (\<lambda>e. candidate_from_runtime_entry e (case map_of revoked fp of None \<Rightarrow> [] | Some m \<Rightarrow> m))
       (map_of runtime (rel, fp)))"

definition quarantine_findings :: "pydict \<Rightarrow> inspection \<Rightarrow> exn + findings" where
  "quarantine_findings report runtime =
     bindS (py_iter (dget_or report ''certificates_revoked_known'' (PList []))) (\<lambda>known.
     let revoked = fp_index clean_fp (with_fingerprint (dicts_of (PList known)));
         active = List.map_filter (match_affected (runtime_cert_entry_map (in_files runtime)) revoked)
           (dicts_of (dget report ''runtime_trust_entries_affected''));
         rel = (\<lambda>c. get_str c ''relative_path'');
         eligible = (\<lambda>c. is_quarantine_eligible_runtime_path (rel c)) in
     Inr \<lparr>fd_active = active, fd_candidates = filter eligible active,
       fd_warnings = sort (remdups (in_warnings runtime @
         map (\<lambda>c. ''quarantine_ineligible_path_preserved:'' @ rel c) (filter (\<lambda>c. \<not> eligible c) active)))\<rparr>)"

definition plan_decision :: "findings \<Rightarrow> string \<times> string" where
  "plan_decision fd = (if fd_active fd = [] then (''not_applicable'', ''no_revoked_runtime_entries_found'')
     else if fd_candidates fd = [] then (''not_applicable'', ''no_quarantine_eligible_revoked_entries_found'')
     else (''ready_for_quarantine'', ''quarantine_candidates_ready''))"

definition quarantine_plan_dict ::
  "quarantine \<Rightarrow> string \<Rightarrow> string \<Rightarrow> string \<Rightarrow> string \<Rightarrow> (string \<times> pyval) option \<times> pydict \<Rightarrow> findings option \<Rightarrow> pydict" where
  "quarantine_plan_dict qs now i report_id source_path preflight found =
     (let fd = (case found of None \<Rightarrow> \<lparr>fd_active = [], fd_candidates = [], fd_warnings = []\<rparr> | Some f \<Rightarrow> f);
          (decision, reason) = (case found of None \<Rightarrow> (''blocked'', ''revocation_report_missing'') | Some f \<Rightarrow> plan_decision f);
          d = snd preflight in
      [(''schema'', PStr ''labshock_phase_8_7_quarantine_dry_run_v1''), (''generated_at'', PStr now),
       (''target'', PStr (qs_target qs)), (''plan_id'', PStr i), (''runtime_root'', PStr (rt_root (qs_cfg qs))),
       (''runtime_write_enabled'', PBool (qs_write_enabled qs)), (''runtime_mount_mode'', PStr (qs_mode qs)),
       (''runtime_mutation_performed'', PBool False), (''runtime_restart_automatic'', PBool False),
       (''revocation_report_id'', PStr report_id), (''revocation_report_path'', PStr source_path),
       (''rollback_preflight_required'', PBool True), (''rollback_preflight_found'', PBool (d \<noteq> [])),
       (''rollback_preflight_path'', PStr (path_of (fst preflight))),
       (''rollback_target_revoked'', PBool (truthy (dget d ''rollback_target_certificate_revoked''))),
       (''rollback_execution_allowed'', PBool (get_str d ''decision'' = ''eligible'')),
       (''revoked_runtime_entries'', PList (map PDict (fd_active fd))),
       (''quarantine_candidates'', PList (map PDict (fd_candidates fd))),
       (''files_to_move'', PList (map (\<lambda>c. dget c ''relative_path'') (fd_candidates fd))), (''files_to_delete'', PList []),
       (''decision'', PStr decision), (''reason'', PStr reason),
       (''blocking_reasons'', PList (if found = None then [PStr reason] else [])),
       (''warnings'', PList (map PStr (fd_warnings fd)))])"

definition quarantine_revoked_dry_run_once :: "quarantine \<Rightarrow> string \<Rightarrow> pydict ag" where
  "quarantine_revoked_dry_run_once qs report_id = (let x = qs_ext qs; target = qs_target qs in
     bindE iso_now_z (\<lambda>now. bindE new_uuid (\<lambda>i.
     bindE (load_revocation_report x (qs_revocation_dir qs) target report_id) (\<lambda>report.
     bindE (latest_rollback_preflight_for_target qs) (\<lambda>preflight.
     bindE (case report of
         Some (_, PDict d) \<Rightarrow> bindE (inspect_current_runtime_readonly x (qs_rx qs) (qs_cfg qs)) (\<lambda>runtime.
           bindE (lift (quarantine_findings d runtime)) (\<lambda>fd. ret (Some fd)))
       | _ \<Rightarrow> ret None) (\<lambda>found.
     let plan = quarantine_plan_dict qs now i report_id (path_of report) preflight found;
         dir = join (qs_plan_dir qs) target; p = join dir (dated_name now i) in
     bindE (make_dir dir) (\<lambda>_. bindE (write_json_artifact p plan) (\<lambda>_.
       ret (plan @ [(''plan_path'', PStr p)])))))))))"

section \<open>Execution\<close>

definition window_blocks :: "pydict \<Rightarrow> string list" where
  "window_blocks mw = (if truthy (dget mw ''within_blackout'') then [''blackout_period_active'']
     else if truthy (dget mw ''window_required'') \<and> \<not> truthy (dget mw ''within_window'')
     then [''maintenance_window_closed''] else [])"

definition approval_blocks :: "pydict option \<times> string \<Rightarrow> string list" where
  "approval_blocks a = (case a of (approval, status) \<Rightarrow>
     if approval = None \<or> approval = Some [] then [str_or status ''approval_missing''] else [])"

definition preflight_blocks :: "pydict \<Rightarrow> string list" where
  "preflight_blocks d = (if d = [] then [''rollback_preflight_missing'']
     else if get_str d ''decision'' = ''not_applicable'' then [''rollback_preflight_not_applicable''] else [])"

definition report_blocks :: "pydict \<Rightarrow> agent_state \<Rightarrow> string list" where
  "report_blocks plan w = (if truthy (dget plan ''revocation_report_path'')
       \<and> path_exists (place (get_str plan ''revocation_report_path'')) w then [] else [''revocation_report_missing''])"

definition setting_blocks :: "quarantine \<Rightarrow> string list" where
  "setting_blocks qs = (if qs_write_enabled qs then [] else [''runtime_write_disabled'']) @
     (if qs_mode qs = ''rw'' then [] else [''runtime_mount_not_writable'']) @
     (if qs_target qs \<in> set (qs_targets qs) then [] else [''target_not_enabled_for_phase_8_7''])"

definition revoked_area :: "quarantine \<Rightarrow> string \<Rightarrow> string" where
  "revoked_area qs plan_id = join (path_join (join (qs_quarantine_dir qs) (qs_target qs)) plan_id) ''revoked''"

definition move_file :: "ext \<Rightarrow> string \<Rightarrow> string \<Rightarrow> string \<Rightarrow> string ag" where
  \<comment> \<open>copied, compared and only then removed; the checksum\<close>
  "move_file x src dst rel =
     bindE (file_sha256 x src) (\<lambda>before.
     bindE (copy_file_bytes_only src dst) (\<lambda>_.
     bindE (file_sha256 x dst) (\<lambda>after.
     if before \<noteq> after then raise (ValueError (''quarantine_copy_checksum_mismatch:'' @ rel))
     else bindE (unlink (place src)) (\<lambda>_. ret after))))"

definition move_candidate :: "ext \<Rightarrow> string \<Rightarrow> string \<Rightarrow> pydict \<Rightarrow> pydict option ag" where
  "move_candidate x root area item = (let rel = item_rel item; src = path_join root rel; dst = path_join area rel in
     if rel = [] \<or> \<not> is_quarantine_eligible_runtime_path rel then ret None
     else bindE (lift (assert_path_inside root src)) (\<lambda>_.
       bindE (getE (file_at src)) (\<lambda>f. if f = None then ret None
       else bindE (lift (assert_path_inside area dst)) (\<lambda>_.
         bindE (move_file x src dst rel) (\<lambda>h. ret (Some ([(''from'', PStr rel), (''to'', PStr dst), (''sha256'', PStr h)] @
           map (\<lambda>k. (k, dget item k)) [''certificate_id'', ''serial_number'', ''fingerprint_sha256'', ''revoked_at''])))))))"

definition tombstones :: "string \<Rightarrow> string \<Rightarrow> string \<Rightarrow> pydict list \<Rightarrow> pydict" where
  "tombstones now target plan_id gone = [(''schema'', PStr ''labshock_phase_8_7_quarantine_tombstones_v1''),
     (''created_at'', PStr now), (''target'', PStr target), (''plan_id'', PStr plan_id),
     (''moved_files'', PList (map PDict gone))]"

definition carry_out_quarantine :: "quarantine \<Rightarrow> string \<Rightarrow> string \<Rightarrow> pydict list \<Rightarrow> pydict list ag" where
  \<comment> \<open>the files that were moved\<close>
  "carry_out_quarantine qs plan_id now candidates =
     (let root = rt_root (qs_cfg qs); area = revoked_area qs plan_id;
          metadata = join (path_join (join (qs_quarantine_dir qs) (qs_target qs)) plan_id) ''metadata'' in
      bindE (ensure_runtime_writable root) (\<lambda>_.
      bindE (make_dir area) (\<lambda>_. bindE (make_dir metadata) (\<lambda>_.
      bindE (mapE (move_candidate (qs_ext qs) root area) candidates) (\<lambda>results.
      let gone = List.map_filter id results in
      bindE (write_json_artifact (place (join metadata ''tombstones.json'')) (tombstones now (qs_target qs) plan_id gone))
        (\<lambda>_. ret gone))))))"

record quarantine_outcome =
  qo_status :: string
  qo_moved :: "pydict list"
  qo_reasons :: "string list"
  qo_warnings :: "string list"
  qo_pointer :: string

definition quarantine_receipt :: "quarantine \<Rightarrow> string \<Rightarrow> string \<Rightarrow> string \<Rightarrow> quarantine_outcome \<Rightarrow> pydict" where
  "quarantine_receipt qs plan_id now plan_path out = (let done = (qo_status out = ''quarantined'') in
     [(''schema'', PStr ''labshock_phase_8_7_quarantine_receipt_v1''), (''target'', PStr (qs_target qs)),
      (''plan_id'', PStr plan_id), (''created_at'', PStr now), (''runtime_write_enabled'', PBool (qs_write_enabled qs)),
      (''runtime_mount_mode'', PStr (qs_mode qs)), (''runtime_mutation_performed'', PBool done),
      (''runtime_restart_automatic'', PBool False), (''status'', PStr (qo_status out)),
      (''moved_files'', PList (map PDict (qo_moved out))), (''files_deleted'', PList []),
      (''private_key_material_touched'', PBool False),
      (''safe_mode_restored'', PBool (\<not> qs_write_enabled qs \<and> qs_mode qs = ''ro'' \<and> \<not> done)),
      (''rollback_pointer'', PStr (qo_pointer out)), (''plan_path'', PStr plan_path),
      (''blocking_reasons'', PList (map PStr (qo_reasons out))), (''warnings'', PList (map PStr (qo_warnings out)))])"

definition quarantine_blocks :: "quarantine \<Rightarrow> pydict \<Rightarrow> (string list \<times> (string \<times> pyval) option \<times> pydict) ag" where
  \<comment> \<open>the reasons against, in the order they are found, and the rollback preflight\<close>
  "quarantine_blocks qs plan = (let x = qs_ext qs; target = qs_target qs in
     bindE (maintenance_window_status x (qs_zones qs) target (qs_policy qs)) (\<lambda>mw.
     let level = lower (py_str (dget_or (as_dict (dget mw ''policy'')) ''approval_level'' (PStr ''single''))) in
     bindE (load_active_approval_for_target x (qs_keys qs) (qs_approvals_dir qs) target (qs_signer qs) level) (\<lambda>approval.
     bindE (latest_rollback_preflight_for_target qs) (\<lambda>(found, d).
     bindE (getE (report_blocks plan)) (\<lambda>report.
     ret (setting_blocks qs @ window_blocks mw @ approval_blocks approval @ preflight_blocks d @ report, found, d))))))"

definition execute_plan :: "quarantine \<Rightarrow> string \<Rightarrow> string \<Rightarrow> pydict \<Rightarrow> quarantine_outcome ag" where
  "execute_plan qs plan_id now plan =
     (let pointer = get_str plan ''rollback_preflight_path'';
          stop = (\<lambda>status reasons warnings. \<lparr>qo_status = status, qo_moved = [], qo_reasons = reasons,
            qo_warnings = warnings, qo_pointer = pointer\<rparr>) in
      if get_str plan ''decision'' \<noteq> ''ready_for_quarantine''
      then ret (stop ''not_applicable'' [py_str (dget_or plan ''reason'' (PStr ''quarantine_plan_not_ready''))] [])
      else bindE (quarantine_blocks qs plan) (\<lambda>(reasons, found, d).
        let candidates = dget plan ''quarantine_candidates'';
            warnings = (if truthy (dget d ''rollback_target_certificate_revoked'') then [''rollback_target_certificate_revoked'']
              else []) in
        if list_len candidates = 0 then ret (stop ''not_applicable'' [''no_quarantine_candidates''] warnings)
        else if reasons \<noteq> [] then ret (stop ''blocked'' reasons warnings)
        else bindE (carry_out_quarantine qs plan_id now (dicts_of candidates)) (\<lambda>gone.
          ret \<lparr>qo_status = (if gone \<noteq> [] then ''quarantined'' else ''not_applicable''), qo_moved = gone,
            qo_reasons = (if gone \<noteq> [] then [] else [''no_quarantine_candidates_present_in_runtime'']),
            qo_warnings = warnings, qo_pointer = str_or (path_of found) pointer\<rparr>)))"

definition quarantine_targets :: "string list" where
  "quarantine_targets = [''fuxa'', ''opcua-server'']"

definition file_document :: "string \<Rightarrow> string \<Rightarrow> string \<Rightarrow> pydict \<Rightarrow> pydict ag" where
  \<comment> \<open>the document under a fresh name; its path is added to what is returned\<close>
  "file_document dir now key d = bindE (make_dir dir) (\<lambda>_. bindE new_uuid (\<lambda>i.
     let p = place (join dir (dated_name now i)) in
     bindE (write_json_artifact p d) (\<lambda>_. ret (d @ [(key, PStr p)]))))"

definition activate_revocation_quarantine_once :: "quarantine \<Rightarrow> string \<Rightarrow> pydict ag" where
  "activate_revocation_quarantine_once qs plan_id = (let target = qs_target qs in
     if target \<notin> set quarantine_targets then raise (ValueError ''target_not_enabled_for_quarantine'')
     else if plan_id = [] then raise (ValueError ''quarantine_activation_requires_plan_id'')
     else bindE iso_now_z (\<lambda>now.
       bindE (load_quarantine_plan (qs_ext qs) (qs_plan_dir qs) target plan_id) (\<lambda>found. case found of
         None \<Rightarrow> raise (OSError ''quarantine_plan_missing'')
       | Some (plan_path, plan) \<Rightarrow>
           bindE (execute_plan qs plan_id now plan) (\<lambda>out.
           file_document (join (qs_receipt_dir qs) target) now ''receipt_path'' (quarantine_receipt qs plan_id now plan_path out)))))"

section \<open>Validation\<close>

record moved_check =
  mc_missing :: "string list"
  mc_present :: "string list"
  mc_mismatches :: "pydict list"
  mc_checked :: nat

definition path_text :: "string \<Rightarrow> string" where
  \<comment> \<open>\<open>str(Path(s))\<close> of a path in normal form\<close>
  "path_text s = (if s = [] then ''.'' else s)"

definition check_moved :: "ext \<Rightarrow> string \<Rightarrow> pydict \<Rightarrow> moved_check ag" where
  "check_moved x root gone =
     (let rel = normalize_relative_path (get_str gone ''from''); dst = get_str gone ''to'' in
      if rel = [] then ret \<lparr>mc_missing = [], mc_present = [], mc_mismatches = [], mc_checked = 0\<rparr>
      else bindE (getE (path_exists (place (path_join root rel)))) (\<lambda>there.
        let present = (if there then [rel] else []) in
        bindE (getE (file_at dst)) (\<lambda>f. if f = None
        then ret \<lparr>mc_missing = [path_text dst], mc_present = present, mc_mismatches = [], mc_checked = 0\<rparr>
        else bindE (file_sha256 x dst) (\<lambda>actual. let expected = lower (strip (get_str gone ''sha256'')) in
          ret \<lparr>mc_missing = [], mc_present = present, mc_mismatches = (if expected \<noteq> [] \<and> expected \<noteq> actual
            then [[(''path'', PStr (path_text dst)), (''expected_sha256'', PStr expected), (''actual_sha256'', PStr actual)]] else []),
            mc_checked = 1\<rparr>))))"

definition no_check :: moved_check where
  "no_check = \<lparr>mc_missing = [], mc_present = [], mc_mismatches = [], mc_checked = 0\<rparr>"

definition all_checks :: "moved_check list \<Rightarrow> moved_check" where
  "all_checks cs = \<lparr>mc_missing = concat (map mc_missing cs), mc_present = concat (map mc_present cs),
     mc_mismatches = concat (map mc_mismatches cs), mc_checked = sum_list (map mc_checked cs)\<rparr>"

definition check_reasons :: "moved_check \<Rightarrow> string list" where
  "check_reasons c = (if mc_missing c \<noteq> [] then [''quarantine_files_missing''] else []) @
     (if mc_present c \<noteq> [] then [''runtime_files_not_moved''] else []) @
     (if mc_mismatches c \<noteq> [] then [''quarantine_file_checksum_mismatch''] else [])"

definition validation_verdict :: "string \<Rightarrow> moved_check \<Rightarrow> string \<times> string list" where
  "validation_verdict status c =
     (if status = ''quarantined'' \<and> check_reasons c = [] then (''validated'', [])
      else if status = ''not_applicable'' then (''not_applicable'', [])
      else (''failed'', check_reasons c))"

definition judge_receipt :: "quarantine \<Rightarrow> pydict \<Rightarrow> (string \<times> string list \<times> moved_check \<times> bool) ag" where
  \<comment> \<open>the verdict, its reasons, what was checked, and whether files were checked at all\<close>
  "judge_receipt qs receipt =
     (let gone = dget receipt ''moved_files''; status = get_str receipt ''status'' in
      if list_len gone = 0 \<and> status = ''not_applicable'' then ret (''not_applicable'', [], no_check, False)
      else bindE (mapE (check_moved (qs_ext qs) (rt_root (qs_cfg qs))) (dicts_of gone)) (\<lambda>cs.
        let c = all_checks cs; (verdict, reasons) = validation_verdict status c in ret (verdict, reasons, c, True)))"

definition validation_dict ::
  "quarantine \<Rightarrow> string \<Rightarrow> string \<Rightarrow> (string \<times> pydict) option \<Rightarrow> (string \<times> pydict) option \<Rightarrow>
   string \<times> string list \<times> moved_check \<times> bool \<Rightarrow> pydict" where
  "validation_dict qs plan_id now plan receipt judged = (case judged of (verdict, reasons, c, examined) \<Rightarrow>
     let r = (case receipt of None \<Rightarrow> [] | Some (_, d) \<Rightarrow> d); flag_of = (\<lambda>k. PBool (examined \<and> truthy (dget r k))) in
     [(''schema'', PStr ''labshock_phase_8_7_quarantine_validation_v1''), (''generated_at'', PStr now),
      (''target'', PStr (qs_target qs)), (''plan_id'', PStr plan_id), (''runtime_root'', PStr (rt_root (qs_cfg qs))),
      (''runtime_write_enabled'', PBool (qs_write_enabled qs)), (''runtime_mount_mode'', PStr (qs_mode qs)),
      (''safe_mode_restored'', PBool (\<not> qs_write_enabled qs \<and> qs_mode qs = ''ro'')),
      (''plan_found'', PBool (plan \<noteq> None)), (''plan_path'', PStr (path_of plan)),
      (''receipt_found'', PBool (receipt \<noteq> None)), (''receipt_path'', PStr (path_of receipt)), (''status'', PStr verdict),
      (''runtime_mutation_performed'', flag_of ''runtime_mutation_performed''),
      (''runtime_restart_automatic'', flag_of ''runtime_restart_automatic''),
      (''moved_files_validated_count'', PInt (int (mc_checked c))),
      (''moved_files_missing_in_quarantine'', PList (map PStr (mc_missing c))),
      (''moved_files_still_present_in_runtime'', PList (map PStr (mc_present c))),
      (''sha256_mismatches'', PList (map PDict (mc_mismatches c))),
      (''private_key_material_touched'', PBool (truthy (dget r ''private_key_material_touched''))),
      (''blocking_reasons'', PList (map PStr reasons))])"

definition validate_revocation_quarantine_once :: "quarantine \<Rightarrow> string \<Rightarrow> pydict ag" where
  "validate_revocation_quarantine_once qs plan_id = (let x = qs_ext qs; target = qs_target qs in
     if target \<notin> set quarantine_targets then raise (ValueError ''target_not_enabled_for_quarantine'')
     else if plan_id = [] then raise (ValueError ''quarantine_validation_requires_plan_id'')
     else bindE iso_now_z (\<lambda>now.
       bindE (load_quarantine_plan x (qs_plan_dir qs) target plan_id) (\<lambda>plan.
       bindE (latest_quarantine_receipt_for_plan x (qs_receipt_dir qs) target plan_id) (\<lambda>receipt.
       bindE (case plan of
           None \<Rightarrow> ret (''failed'', [''quarantine_plan_missing''], no_check, False)
         | Some _ \<Rightarrow> (case receipt of
             None \<Rightarrow> ret (''failed'', [''quarantine_receipt_missing''], no_check, False)
           | Some (_, d) \<Rightarrow> judge_receipt qs d)) (\<lambda>judged.
       file_document (join (qs_validation_dir qs) target) now ''validation_path''
         (validation_dict qs plan_id now plan receipt judged))))))"

end
