(* ===== verification/Agent_Reads.thy ===== *)
theory Agent_Reads
  imports Agent_Approval
begin

text \<open>
  The operations of the agent that only look: they read files and the clock, and leave every
  file as it is.
\<close>

definition only_ticks :: "agent_state \<Rightarrow> agent_state \<Rightarrow> bool" where
  "only_ticks w w' \<longleftrightarrow> g_files w' = g_files w \<and> g_clock w' = g_clock w \<and> g_uuid w' = g_uuid w \<and> g_ticks w \<le> g_ticks w'"

interpretation ticking: evolution only_ticks
  by unfold_locales (auto simp: only_ticks_def)

lemma ticks_primitives [evolves_rules]: "evolves only_ticks utc_now" "evolves only_ticks (lift r)"
  by (simp_all add: evolves_def only_ticks_def utc_now_def lift_def)

lemma ticks_reads [evolves_rules]: "evolves only_ticks (read_file p)" "evolves only_ticks (read_json x p)"
  unfolding read_file_def read_json_def by (intro ticking.combinators evolves_rules)+

lemma consider_ticks [evolves_rules]: "evolves only_ticks (consider_approval x y g target p)"
  unfolding consider_approval_def approval_in_force_def unexpired_def Let_def
  by (intro ticking.combinators evolves_rules)

lemma window_ticks [evolves_rules]: "evolves only_ticks (maintenance_window_status x zones target policy)"
  unfolding maintenance_window_status_def by (intro ticking.combinators evolves_rules)

lemma approvals_ticks [evolves_rules]:
  "evolves only_ticks (load_active_approval_for_target x y dir target g level)"
  unfolding load_active_approval_for_target_def load_valid_approvals_for_target_def
  by (intro ticking.combinators evolves_rules)

lemma latest_ticks [evolves_rules]: "evolves only_ticks (find_latest_json_for_target x base target)"
  unfolding find_latest_json_for_target_def by (intro ticking.combinators evolves_rules)

lemma now_ticks [evolves_rules]: "evolves only_ticks iso_now_z"
  unfolding iso_now_z_def by (intro ticking.combinators evolves_rules)

lemma ticks_files: "evolves only_ticks m \<Longrightarrow> m w = (r, w') \<Longrightarrow> g_files w' = g_files w \<and> g_uuid w' = g_uuid w"
  unfolding evolves_def only_ticks_def by (metis snd_conv)

end
