(* ===== verification/Agent_Quarantine_Facts.thy ===== *)
theory Agent_Quarantine_Facts
  imports Agent_Quarantine Agent_Activation_Facts Agent_Reads
begin

text \<open>
  A quarantine loses nothing: a file of the runtime stays as it is, or it is gone from the
  runtime and lies, with its content, at its place in the quarantine area.
\<close>

section \<open>Places\<close>

definition beside :: "string \<Rightarrow> string \<Rightarrow> bool" where
  \<comment> \<open>neither directory lies in the other\<close>
  "beside a b \<longleftrightarrow> take (length (resolved a)) (resolved b) \<noteq> resolved a
     \<and> take (length (resolved b)) (resolved a) \<noteq> resolved b"

lemma inside: "assert_path_inside base p = Inr u \<longleftrightarrow> take (length (resolved base)) (resolved p) = resolved base"
  by (cases u) (simp add: assert_path_inside_def)

lemma beside_places:
  assumes "beside a b" and "assert_path_inside a p = Inr ()" and "assert_path_inside b q = Inr ()"
  shows "place p \<noteq> place q"
proof
  assume "place p = place q"
  then have "resolved p = resolved q" by (simp add: place_eq)
  with assms have "take (length (resolved a)) (resolved q) = resolved a" "take (length (resolved b)) (resolved q) = resolved b"
    by (simp_all add: inside)
  moreover have "take m (take n xs) = take m xs \<or> take n (take m xs) = take n xs" for m n and xs :: "string list"
    by (cases "m \<le> n") (simp_all add: min_def)
  ultimately show False using assms(1) unfolding beside_def by metis
qed

lemma resolve_forward: "''..'' \<notin> set cs \<Longrightarrow> foldl resolve_step s cs = s @ filter (\<lambda>c. c \<noteq> ''.'') cs"
  by (induction cs arbitrary: s) (auto simp: resolve_step_def)

lemma relative_rel: "\<not> starts_with (normalize_relative_path p) ''/''"
proof -
  have "\<not> starts_with (dropWhile (\<lambda>c. c = CHR ''/'') s) ''/''" for s
    by (induction s) (simp_all add: starts_with_def)
  then show ?thesis by (simp add: normalize_relative_path_def)
qed

lemma forward_place:
  assumes "''..'' \<notin> set (comps (item_rel d))"
  shows "resolved (path_join base (item_rel d)) = resolved base @ filter (\<lambda>c. c \<noteq> ''.'') (comps (item_rel d))"
  using assms relative_rel by (simp add: resolved_append item_rel_def resolve_forward)

lemma same_place:
  assumes "''..'' \<notin> set (comps (item_rel d))" and "''..'' \<notin> set (comps (item_rel e))"
    and "place (path_join area (item_rel d)) = place (path_join area (item_rel e))"
  shows "place (path_join root (item_rel d)) = place (path_join root (item_rel e))"
  using assms by (simp add: place_eq forward_place)

text \<open>A component of a path, as a part of its text.\<close>

definition part_of :: "string \<Rightarrow> string \<Rightarrow> bool" where
  "part_of c s \<longleftrightarrow> (\<exists>a b. s = a @ c @ b \<and> (a = [] \<or> last a = CHR ''/'') \<and> (b = [] \<or> hd b = CHR ''/''))"

lemma comps_part:
  assumes "c \<noteq> []" and "CHR ''/'' \<notin> set c"
  shows "c \<in> set (comps s) \<longleftrightarrow> part_of c s"
proof
  assume "part_of c s"
  then obtain a b where s: "s = a @ c @ b" "a = [] \<or> last a = CHR ''/''" "b = [] \<or> hd b = CHR ''/''"
    by (auto simp: part_of_def)
  have "comps (c @ b) = c # comps b"
    using assms s(3) comps_join [of c "tl b", unfolded join_def] comps_join [of "[]" "tl b", unfolded join_def]
    by (cases b) (simp_all add: comps_plain)
  moreover have "comps s = comps a @ comps (c @ b)"
    using s(1,2) comps_join [of "butlast a" "c @ b", unfolded join_def] comps_join [of "butlast a" "[]", unfolded join_def]
    by (cases a rule: rev_cases) (simp_all add: comps_plain)
  ultimately show "c \<in> set (comps s)" by simp
next
  assume "c \<in> set (comps s)"
  then obtain us vs where "split_on (CHR ''/'') s = us @ c # vs" by (auto simp: comps_def dest: split_list)
  then have "s = str_join ''/'' (us @ c # vs)" by (metis join_split_on)
  also have "str_join ''/'' (d # vs) = d @ concat (map (\<lambda>v. ''/'' @ v) vs)" for d
    by (induction vs arbitrary: d) (simp_all add: str_join_Cons)
  then have "str_join ''/'' (us @ c # vs) = concat (map (\<lambda>u. u @ ''/'') us) @ c @ concat (map (\<lambda>v. ''/'' @ v) vs)"
    by (induction us) (simp_all add: str_join_Cons)
  finally have s: "s = concat (map (\<lambda>u. u @ ''/'') us) @ c @ concat (map (\<lambda>v. ''/'' @ v) vs)" .
  have "concat (map (\<lambda>u. u @ ''/'') us) = [] \<or> last (concat (map (\<lambda>u. u @ ''/'') us)) = CHR ''/''"
    by (cases us rule: rev_cases) simp_all
  moreover have "concat (map (\<lambda>v. ''/'' @ v) vs) = [] \<or> hd (concat (map (\<lambda>v. ''/'' @ v) vs)) = CHR ''/''"
    by (cases vs) simp_all
  ultimately show "part_of c s" unfolding part_of_def using s by blast
qed

lemma part_of_dropWhile:
  assumes "part_of c s" and "\<not> P (hd c)" and "c \<noteq> []" and "P = (\<lambda>x. x = CHR ''/'') \<or> \<not> P (CHR ''/'')"
  shows "part_of c (dropWhile P s)"
proof -
  obtain a b where s: "s = a @ c @ b" "a = [] \<or> last a = CHR ''/''" "b = [] \<or> hd b = CHR ''/''"
    using assms(1) by (auto simp: part_of_def)
  have "dropWhile P (c @ b) = c @ b" using assms(2,3) by (cases c) auto
  then have "dropWhile P (a @ c @ b) = dropWhile P a @ c @ b" by (induction a) auto
  moreover have "dropWhile P a = [] \<or> last (dropWhile P a) = last a"
    using last_append [of "takeWhile P a" "dropWhile P a"] by auto
  then have "dropWhile P a = [] \<or> last (dropWhile P a) = CHR ''/''" using s(2) by auto
  ultimately show ?thesis using s(1,3) unfolding part_of_def by blast
qed

lemma part_of_rev:
  assumes "part_of c s"
  shows "part_of (rev c) (rev s)"
proof -
  obtain a b where s: "s = a @ c @ b" "a = [] \<or> last a = CHR ''/''" "b = [] \<or> hd b = CHR ''/''"
    using assms by (auto simp: part_of_def)
  then have "rev s = rev b @ rev c @ rev a" by simp
  then show ?thesis unfolding part_of_def using s(2,3)
    by (rule_tac x = "rev b" in exI, rule_tac x = "rev a" in exI) (auto simp: hd_rev last_rev)
qed

lemma part_of_map:
  assumes "part_of c s" and "f (CHR ''/'') = CHR ''/''"
  shows "part_of (map f c) (map f s)"
proof -
  obtain a b where s: "s = a @ c @ b" "a = [] \<or> last a = CHR ''/''" "b = [] \<or> hd b = CHR ''/''"
    using assms(1) by (auto simp: part_of_def)
  then show ?thesis unfolding part_of_def using assms(2)
    by (rule_tac x = "map f a" in exI, rule_tac x = "map f b" in exI) (use s in \<open>cases "a = []"; cases "b = []"; simp add: hd_map last_map\<close>)
qed

text \<open>What is eligible has no component called private, in any spelling.\<close>

lemma eligible_not_private:
  assumes "is_quarantine_eligible_runtime_path rel"
  shows "''private'' \<notin> set (comps rel)"
proof
  let ?c = "''private''"
  assume "?c \<in> set (comps rel)"
  then have "part_of ?c rel" by (simp add: comps_part)
  from part_of_map [OF this, of "\<lambda>x. if x = CHR 0x5C then CHR ''/'' else x"]
  have "part_of ?c (replace_all [CHR 0x5C] ''/'' rel)" by (simp add: replace_char)
  from part_of_dropWhile [OF this, of is_space]
  have "part_of ?c (lstrip (replace_all [CHR 0x5C] ''/'' rel))" by (simp add: lstrip_def is_space_def)
  from part_of_rev [OF part_of_dropWhile [OF part_of_rev [OF this], of is_space]]
  have "part_of ?c (strip (replace_all [CHR 0x5C] ''/'' rel))" by (simp add: strip_def rstrip_def is_space_def)
  from part_of_dropWhile [OF this, of "\<lambda>x. x = CHR ''/''"]
  have "part_of ?c (normalize_relative_path rel)" by (simp add: normalize_relative_path_def)
  from part_of_map [OF this, of lower_char]
  have "part_of ?c (lower (normalize_relative_path rel))" by (simp add: lower_def lower_char_def)
  then have "?c \<in> set (comps (lower (normalize_relative_path rel)))" by (simp add: comps_part)
  from private_is_preserved(2) [OF this] assms show False
    by (simp add: is_quarantine_eligible_runtime_path_def Let_def)
qed

lemma eligible_no_key:
  assumes "is_quarantine_eligible_runtime_path rel" and "k \<in> set (target_private_key_candidates target)"
  shows "place (path_join root rel) \<noteq> place (join root k)"
proof
  assume "place (path_join root rel) = place (join root k)"
  then have "drop (length (resolved root)) (resolved (path_join root rel)) = comps k"
    by (simp add: place_eq key_resolved [OF candidate_key_place [OF assms(2)]])
  with candidate_key_place [OF assms(2)] resolved_parts [of "length (resolved root)" root rel]
  have "''private'' \<in> set (comps rel)" by (auto simp: key_place_def)
  with eligible_not_private [OF assms(1)] show False by simp
qed

text \<open>A document is a file whose name ends in \<open>.json\<close>.\<close>

definition document :: "string \<Rightarrow> bool" where
  "document p \<longleftrightarrow> resolved p \<noteq> [] \<and> ends_with (last (resolved p)) ''.json''"

lemma document_place: "document p \<Longrightarrow> \<not> document q \<Longrightarrow> place p \<noteq> place q"
  by (auto simp: document_def place_eq)

lemma document_join: "ends_with n ''.json'' \<Longrightarrow> document (join dir n)"
proof -
  assume "ends_with n ''.json''"
  note json = json_name [OF this]
  then obtain cs c where n: "comps n = cs @ [c]" "ends_with c ''.json''" by (metis append_butlast_last_id)
  then have "c \<noteq> ''.''" "c \<noteq> ''..''" by (auto simp: ends_with_def)
  with n show ?thesis by (simp add: document_def resolved_join resolve_step_def)
qed

lemma moved_document:
  assumes "''..'' \<notin> set (comps (item_rel d))" and "\<not> document (path_join root (item_rel d))"
    and "resolved area \<noteq> []" and "\<not> ends_with (last (resolved area)) ''.json''"
  shows "\<not> document (path_join area (item_rel d))"
  using assms unfolding document_def forward_place [OF assms(1)]
  by (cases "filter (\<lambda>c. c \<noteq> ''.'') (comps (item_rel d))") auto

lemma probe_apart:
  assumes "CHR ''/'' \<notin> set i" and "length (resolved q) \<noteq> Suc (length (resolved root))"
  shows "place (join root (probe_name i)) \<noteq> place q"
proof
  assume "place (join root (probe_name i)) = place q"
  moreover have "comps (probe_name i) = [probe_name i]" using assms(1) by (simp add: comps_plain probe_name_def)
  ultimately have "resolved q = resolved root @ [probe_name i]"
    by (simp add: place_eq resolved_join resolve_step_def probe_name_def)
  with assms(2) show False by simp
qed

section \<open>One file\<close>

definition sheltered :: "string \<Rightarrow> string \<Rightarrow> pydict set \<Rightarrow> string \<Rightarrow> content option \<Rightarrow> agent_state \<Rightarrow> bool" where
  \<comment> \<open>the file \<open>q\<close> of the runtime has content \<open>c\<close>, or it is gone and its copy in the area has\<close>
  "sheltered root area items q c w \<longleftrightarrow> file_at q w = c \<or> file_at q w = None \<and>
     (\<exists>d \<in> items. is_quarantine_eligible_runtime_path (item_rel d) \<and> place (path_join root (item_rel d)) = place q
        \<and> file_at (path_join area (item_rel d)) w = c)"

definition shelters :: "string \<Rightarrow> string \<Rightarrow> pydict set \<Rightarrow> string \<Rightarrow> content option \<Rightarrow> agent_state \<Rightarrow> agent_state \<Rightarrow> bool" where
  "shelters root area items q c w w' \<longleftrightarrow> (sheltered root area items q c w \<longrightarrow> sheltered root area items q c w')"

interpretation shelter: evolution "shelters root area items q c" for root area items q c
  by unfold_locales (auto simp: shelters_def)

lemma same_files_shelter: "g_files w' = g_files w \<Longrightarrow> shelters root area items q c w w'"
  by (simp add: shelters_def sheltered_def file_at_def)

lemma quiet_shelter: "evolves only_ticks m \<Longrightarrow> evolves (shelters root area items q c) m"
  unfolding evolves_def only_ticks_def by (simp add: same_files_shelter)

lemma lift_shelter [evolves_rules]:
  "evolves (shelters root area items q c) (lift r)" "evolves (shelters root area items q c) (make_dir d)"
  "evolves (shelters root area items q c) new_uuid"
  by (simp_all add: evolves_def lift_def make_dir_def updE_def new_uuid_def same_files_shelter)

text \<open>What moving one file does to the files.\<close>

lemma move_file_effect:
  assumes "place src \<noteq> place dst" and "move_file x src dst rel w = (r, w')"
  shows "map_of (g_files w') = map_of (g_files w)
    \<or> (\<exists>c. map_of (g_files w) (place src) = Some c \<and>
         (map_of (g_files w') = (map_of (g_files w))(place dst \<mapsto> c)
          \<or> map_of (g_files w') = (map_of (g_files w))(place dst \<mapsto> c, place src := None)))"
  using assms
  by (auto simp: move_file_def file_sha256_def copy_file_bytes_only_def read_file_def atomic_write_def unlink_def eff_defs
      Let_def update_conv' delete_conv' split: option.splits prod.splits sum.splits if_splits)

lemma move_candidate_shelters:
  assumes beside: "beside root area" and q: "assert_path_inside root q = Inr ()"
    and forward: "\<And>e. e \<in> items \<Longrightarrow> ''..'' \<notin> set (comps (item_rel e))" and item: "d \<in> items"
  shows "evolves (shelters root area items q c) (move_candidate x root area d)"
proof -
  let ?src = "path_join root (item_rel d)" and ?dst = "path_join area (item_rel d)"
  have "shelters root area items q c w (snd (move_candidate x root area d w))" for w
  proof (cases "item_rel d \<noteq> [] \<and> is_quarantine_eligible_runtime_path (item_rel d) \<and> assert_path_inside root ?src = Inr ()
      \<and> file_at ?src w \<noteq> None \<and> assert_path_inside area ?dst = Inr ()")
    case False
    then have "g_files (snd (move_candidate x root area d w)) = g_files w"
      by (auto simp: move_candidate_def Let_def eff_defs lift_def split: sum.splits)
    then show ?thesis by (rule same_files_shelter)
  next
    case True
    obtain r w' where run: "move_file x ?src ?dst (item_rel d) w = (r, w')" by fastforce
    have same: "snd (move_candidate x root area d w) = w'"
      using True by (cases r) (auto simp: move_candidate_def Let_def eff_defs lift_def run)
    have apart: "place ?src \<noteq> place ?dst" "place q \<noteq> place ?dst"
      using beside_places [OF beside] True q by blast+
    have eligible: "is_quarantine_eligible_runtime_path (item_rel d)" using True by blast
    note effect = move_file_effect [OF apart(1) run]
    show ?thesis unfolding shelters_def same
    proof
      assume before: "sheltered root area items q c w"
      show "sheltered root area items q c w'"
      proof (cases "file_at q w = c")
        case True
        with effect apart eligible item show ?thesis
          by (cases "place ?src = place q") (auto simp: sheltered_def file_at_def)
      next
        case False
        with before obtain e where q_gone: "file_at q w = None" and e: "e \<in> items"
          "is_quarantine_eligible_runtime_path (item_rel e)" "place (path_join root (item_rel e)) = place q"
          "file_at (path_join area (item_rel e)) w = c"
          by (auto simp: sheltered_def)
        have elsewhere: "place ?src \<noteq> place q" using True q_gone by (auto simp: file_at_def)
        have "place (path_join area (item_rel e)) \<noteq> place ?dst"
          using same_place [OF forward [OF e(1)] forward [OF item]] e(3) elsewhere by metis
        moreover have "assert_path_inside area (path_join area (item_rel e)) = Inr ()"
          by (simp add: inside forward_place [OF forward [OF e(1)]])
        then have "place (path_join area (item_rel e)) \<noteq> place ?src"
          using beside_places [OF beside] True by metis
        ultimately have "file_at (path_join area (item_rel e)) w' = c" "file_at q w' = None"
          using effect apart(2) elsewhere q_gone e(4) by (auto simp: file_at_def)
        with e show ?thesis unfolding sheltered_def by blast
      qed
    qed
  qed
  then show ?thesis by (simp add: evolves_def)
qed

section \<open>Plans\<close>

lemma find_json_ticks [evolves_rules]: "evolves only_ticks (find_json x fits ps)"
  by (induction ps) (auto intro!: ticking.combinators evolves_rules)

lemma newest_ticks [evolves_rules]:
  "evolves only_ticks (newest_json x dir fits)" "evolves only_ticks (load_quarantine_plan x plan_dir target plan_id)"
  "evolves only_ticks (latest_rollback_preflight_for_target qs)" "evolves only_ticks (quarantine_blocks qs plan)"
  unfolding load_quarantine_plan_def newest_json_def latest_rollback_preflight_for_target_def quarantine_blocks_def Let_def
  by (intro ticking.combinators evolves_rules)+

lemma read_json_result:
  "read_json x p w = (Inr v, w') \<Longrightarrow> w' = w \<and> (\<exists>c. map_of (g_files w) p = Some c \<and> json_of_file x c = Inr v)"
  by (auto simp: read_json_def read_file_def eff_defs lift_def split: option.splits sum.splits prod.splits)

lemma found_json:
  "find_json x fits ps w = (Inr (Some (p, d)), w') \<Longrightarrow>
   fits p d \<and> (\<exists>c. map_of (g_files w) p = Some c \<and> json_of_file x c = Inr (PDict d))"
proof (induction ps arbitrary: w)
  case Nil
  then show ?case by (simp add: ret_run)
next
  case (Cons p' ps)
  obtain r w1 where read: "read_json x p' w = (r, w1)" by fastforce
  have "g_files w1 = g_files w"
    using ticks_files [OF ticks_reads(2) read] by blast
  with Cons read show ?case
  proof (cases r)
    case (Inl e)
    with Cons.prems read have "find_json x fits ps w1 = (Inr (Some (p, d)), w')" by (simp add: tryE_step)
    from Cons.IH [OF this] show ?thesis unfolding \<open>g_files w1 = g_files w\<close> .
  next
    case (Inr v)
    with Cons.prems read obtain d' where v: "v = PDict d'"
      by (auto simp: tryE_step bindE_def lift_def need_dict_def split: pyval.splits)
    show ?thesis
    proof (cases "fits p' d'")
      case True
      with Cons.prems read Inr v read_json_result [of x p' w v w1] show ?thesis
        by (auto simp: tryE_step bindE_def lift_def need_dict_def ret_def)
    next
      case False
      with Cons.prems read Inr v have "find_json x fits ps w1 = (Inr (Some (p, d)), w')"
        by (simp add: tryE_step bindE_def lift_def need_dict_def)
      from Cons.IH [OF this] show ?thesis unfolding \<open>g_files w1 = g_files w\<close> .
    qed
  qed
qed

definition plan_on_disk :: "ext \<Rightarrow> string \<Rightarrow> agent_state \<Rightarrow> pydict \<Rightarrow> bool" where
  "plan_on_disk x plan_id w plan \<longleftrightarrow> get_str plan ''plan_id'' = plan_id
     \<and> (\<exists>p c. map_of (g_files w) p = Some c \<and> json_of_file x c = Inr (PDict plan))"

lemma loaded_plan:
  "load_quarantine_plan x plan_dir target plan_id w = (Inr (Some (p, plan)), w') \<Longrightarrow> plan_on_disk x plan_id w plan"
  by (auto simp: load_quarantine_plan_def newest_json_def plan_on_disk_def bindE_def getE_def dest!: found_json)

definition plan_items :: "pydict \<Rightarrow> pydict list" where
  "plan_items plan = dicts_of (dget plan ''quarantine_candidates'')"

definition goes_forward :: "pydict \<Rightarrow> bool" where
  \<comment> \<open>no path of the plan climbs to a parent directory\<close>
  "goes_forward plan \<longleftrightarrow> (\<forall>d \<in> set (plan_items plan). ''..'' \<notin> set (comps (item_rel d)))"

section \<open>Execution\<close>

lemma revoked_area_name:
  "resolved (revoked_area qs plan_id) \<noteq> []" "\<not> ends_with (last (resolved (revoked_area qs plan_id))) ''.json''"
  by (simp_all add: revoked_area_def resolved_join comps_plain resolve_step_def) code_simp

lemma mapE_members: "(\<And>d. d \<in> set ds \<Longrightarrow> evolves (shelters root area items q c) (f d)) \<Longrightarrow>
    evolves (shelters root area items q c) (mapE f ds)"
  by (induction ds) (auto intro!: shelter.combinators)

lemma write_document_shelters:
  assumes forward: "\<And>e. e \<in> items \<Longrightarrow> ''..'' \<notin> set (comps (item_rel e))" and "\<not> document q" and "document p"
  shows "evolves (shelters root (revoked_area qs plan_id) items q c) (write_json_artifact (place p) d)"
proof -
  let ?area = "revoked_area qs plan_id"
  have q: "place p \<noteq> place q" using document_place assms by blast
  have "place p \<noteq> place (path_join ?area (item_rel e))" if "e \<in> items" "place (path_join root (item_rel e)) = place q" for e
  proof -
    have "\<not> document (path_join root (item_rel e))" using that assms(2) by (simp add: document_def place_eq)
    from moved_document [OF forward [OF that(1)] this revoked_area_name] assms(3) show ?thesis
      by (rule document_place [rotated])
  qed
  moreover have "file_at r (snd (atomic_write (place p) f w)) = file_at r w" if "place p \<noteq> place r" for r w f
    using that by (simp add: file_at_def atomic_write_def Let_def update_conv')
  ultimately have "shelters root ?area items q c w (snd (atomic_write (place p) f w))" for w f
    unfolding shelters_def sheltered_def using q by metis
  then show ?thesis unfolding write_json_artifact_def
    by (intro shelter.combinators) (simp add: evolves_def)
qed

lemma sheltered_start: "sheltered root area items q (file_at q w) w"
  by (simp add: sheltered_def)

lemma carried_out:
  assumes beside: "beside (rt_root (qs_cfg qs)) (revoked_area qs plan_id)"
    and q: "assert_path_inside (rt_root (qs_cfg qs)) q = Inr ()" "\<not> document q"
    and forward: "\<And>e. e \<in> set candidates \<Longrightarrow> ''..'' \<notin> set (comps (item_rel e))"
    and probe: "\<And>n. place (join (rt_root (qs_cfg qs)) (probe_name (g_uuid w n))) \<noteq> place q"
    and run: "carry_out_quarantine qs plan_id now candidates w = (r, w')"
  shows "sheltered (rt_root (qs_cfg qs)) (revoked_area qs plan_id) (set candidates) q (file_at q w) w'"
proof -
  let ?R = "shelters (rt_root (qs_cfg qs)) (revoked_area qs plan_id) (set candidates) q (file_at q w)"
  obtain r1 w1 where w1: "ensure_runtime_writable (rt_root (qs_cfg qs)) w = (r1, w1)" by fastforce
  then have "map_of (g_files w1) (place q) = map_of (g_files w) (place q)"
    using ensure_writable_file [OF probe, of "{}"] by (simp add: no_new_content)
  then have start: "sheltered (rt_root (qs_cfg qs)) (revoked_area qs plan_id) (set candidates) q (file_at q w) w1"
    by (simp add: sheltered_def file_at_def)
  have doc: "document (join dir ''tombstones.json'')" for dir
    by (rule document_join) code_simp
  let ?metadata = "join (path_join (join (qs_quarantine_dir qs) (qs_target qs)) plan_id) ''metadata''"
  let ?rest = "bindE (make_dir (revoked_area qs plan_id)) (\<lambda>_. bindE (make_dir ?metadata) (\<lambda>_.
      bindE (mapE (move_candidate (qs_ext qs) (rt_root (qs_cfg qs)) (revoked_area qs plan_id)) candidates) (\<lambda>results.
      bindE (write_json_artifact (place (join ?metadata ''tombstones.json''))
          (tombstones now (qs_target qs) plan_id (List.map_filter id results)))
        (\<lambda>_. ret (List.map_filter id results)))))"
  have "evolves ?R ?rest"
    by (intro shelter.combinators evolves_rules mapE_members move_candidate_shelters [OF beside q(1) forward]
        write_document_shelters [OF forward q(2) doc])
  then have rest: "?R w1 (snd (?rest w1))" by (simp only: evolves_def)
  show ?thesis
  proof (cases r1)
    case (Inl e)
    with run w1 have "w' = w1" by (simp add: carry_out_quarantine_def Let_def bindE_def)
    with start show ?thesis by simp
  next
    case (Inr u)
    have "carry_out_quarantine qs plan_id now candidates w = ?rest w1"
      unfolding carry_out_quarantine_def Let_def by (rule bindE_step [where y = u]) (rule w1 [unfolded Inr])
    with run have "?rest w1 = (r, w')" by simp
    from rest [unfolded this snd_conv shelters_def] start show ?thesis by (rule mp)
  qed
qed

end
