(* ===== verification/Gate_Properties.thy ===== *)
theory Gate_Properties
  imports Agent_Preview Agent_Reads Agent_Scenario
begin

text \<open>
  What stands between a trust list and its activation: the report that says what changed, the
  approvals that count, and the gate.
\<close>

section \<open>The gate\<close>

definition blackout_now :: "ext \<Rightarrow> maintenance_policy \<Rightarrow> string \<Rightarrow> int \<Rightarrow> bool" where
  "blackout_now x policy target now \<longleftrightarrow> list_ex (\<lambda>b. within_interval x now (bo_start b) (bo_end b))
     (mp_blackouts policy @ pl_blackouts (plan_of_target policy target))"

definition window_shut ::
  "ext \<Rightarrow> (string \<Rightarrow> (int \<Rightarrow> int) option) \<Rightarrow> maintenance_policy \<Rightarrow> string \<Rightarrow> int \<Rightarrow> bool" where
  \<comment> \<open>a window is required and none is open\<close>
  "window_shut x zones policy target now \<longleftrightarrow> tp_window_required (pl_policy (plan_of_target policy target)) \<and>
     \<not> list_ex (window_open x now (case zones (mp_timezone policy) of None \<Rightarrow> now | Some f \<Rightarrow> f now))
       (pl_windows (plan_of_target policy target))"

definition fit :: "pydict \<Rightarrow> diff \<Rightarrow> bool \<Rightarrow> pydict option \<Rightarrow> bool" where
  \<comment> \<open>compatible, not critical, and approved when approval is required\<close>
  "fit compat_doc d approval_required approval \<longleftrightarrow> get_str compat_doc ''status'' \<noteq> ''INCOMPATIBLE'' \<and> df_risk d \<noteq> ''CRITICAL''
     \<and> \<not> (approval_required \<and> (approval = None \<or> approval = Some []))"

lemma find_any: "find P xs \<noteq> None \<longleftrightarrow> list_ex P xs"
  by (induction xs) auto

lemma status_fields:
  "truthy (dget (window_status_at x zones target policy now) ''within_blackout'') = blackout_now x policy target now"
  "flag (window_status_at x zones target policy now) ''window_required'' True \<and>
     \<not> truthy (dget (window_status_at x zones target policy now) ''within_window'') \<longleftrightarrow> window_shut x zones policy target now"
  "flag (window_status_at x zones target policy now) ''emergency_override_allowed'' False =
     tp_override (pl_policy (plan_of_target policy target))"
  by (simp_all add: window_status_at_def Let_def dget_def flag_def dget_or_def blackout_now_def window_shut_def find_any
      del: find_None_iff not_None_eq)

lemma preview_risk_critical:
  "preview_risk c r = ''CRITICAL'' \<longleftrightarrow> c = ''INCOMPATIBLE'' \<or> r = ''CRITICAL''"
  by (auto simp: preview_risk_def)


section \<open>Approvals\<close>

definition approves ::
  "ext \<Rightarrow> agent_ext \<Rightarrow> approval_signer \<Rightarrow> string \<Rightarrow> agent_state \<Rightarrow> agent_state \<Rightarrow> string \<Rightarrow> pydict \<Rightarrow> bool" where
  \<comment> \<open>the document of a file is an approval of the target, verifies under the key, and had not expired at
    a reading of the clock between the two states\<close>
  "approves x y g target w w' p a \<longleftrightarrow> (\<exists>c. map_of (g_files w) p = Some c \<and> json_of_file x c = Inr (PDict a))
     \<and> get_str a ''target'' = target \<and> lower (get_str a ''decision'') = ''approve'' \<and> fst (verify_approval x y g a)
     \<and> (\<exists>n t. g_ticks w \<le> n \<and> n < g_ticks w' \<and> parse_rfc3339_utc x (strip (get_str a ''expires_at'')) = Inr t \<and> g_clock w n < t)"

lemma approves_later:
  "approves x y g target w w' p a \<Longrightarrow> only_ticks w0 w \<Longrightarrow> only_ticks w' w1 \<Longrightarrow> approves x y g target w0 w1 p a"
  unfolding approves_def only_ticks_def by (metis le_trans less_le_trans)

lemma considered:
  assumes "consider_approval x y g target p w = (Inr (Some a), w')"
  shows "approves x y g target w w' p a"
  using assms
  by (auto simp: consider_approval_def approval_in_force_def unexpired_def Let_def approves_def read_json_def read_file_def
      lift_def utc_now_def need_dict_def eff_defs split: prod.splits sum.splits option.splits pyval.splits if_splits)

lemma considered_all:
  assumes "mapE (consider_approval x y g target) ps w = (Inr found, w')" and "Some a \<in> set found"
  shows "\<exists>p \<in> set ps. approves x y g target w w' p a"
  using assms
proof (induction ps arbitrary: w found)
  case Nil
  then show ?case by (simp add: ret_run)
next
  case (Cons p ps)
  then obtain r w1 rest where first: "consider_approval x y g target p w = (Inr r, w1)"
    and more_runs: "mapE (consider_approval x y g target) ps w1 = (Inr rest, w')" and found: "found = r # rest"
    by (auto simp: bindE_Inr ret_run)
  have "evolves only_ticks (mapE (consider_approval x y g target) ps)"
    by (intro ticking.combinators evolves_rules)
  then have ticks: "only_ticks w w1" "only_ticks w1 w'"
    using consider_ticks [of x y g target p] first more_runs unfolding evolves_def by (metis snd_conv)+
  show ?case
  proof (cases "Some a = r")
    case True
    with first have "approves x y g target w w' p a"
      using considered approves_later [OF _ ticking.evo_refl ticks(2)] by blast
    then show ?thesis by simp
  next
    case False
    with Cons.prems(2) found have "Some a \<in> set rest" by simp
    from Cons.IH [OF more_runs this] show ?thesis using approves_later [OF _ ticks(1) ticking.evo_refl] by fastforce
  qed
qed

lemma valid_approvals:
  assumes "load_valid_approvals_for_target x y dir target g w = (Inr approvals, w')" and "a \<in> set approvals"
  shows "\<exists>p \<in> set (json_files_in dir w). approves x y g target w w' p a"
  using assms considered_all [of x y g target "rev (json_files_in dir w)" w _ w' a]
  by (auto simp: load_valid_approvals_for_target_def bindE_Inr getE_run ret_run map_filter_def)

lemma two_different: "2 \<le> length xs \<Longrightarrow> distinct xs \<Longrightarrow> \<exists>a b. a \<in> set xs \<and> b \<in> set xs \<and> a \<noteq> b"
  by (cases xs rule: list.exhaust; cases "tl xs") auto

text \<open>C9: A dual approval takes two people. When the agent finds the dual approval of a target given, two
  files of the approvals directory hold approvals of that target which verify under the approval
  key, had not expired when they were read, and name two different operators, neither of them
  empty.\<close>

theorem dual_approval_needs_two_operators:
  assumes "load_active_approval_for_target x y dir target g ''dual'' w = (Inr (Some summary, st), w')"
  shows "\<exists>p q a b. p \<in> set (json_files_in dir w) \<and> q \<in> set (json_files_in dir w)
    \<and> approves x y g target w w' p a \<and> approves x y g target w w' q b
    \<and> strip (get_str a ''operator'') \<noteq> strip (get_str b ''operator'')
    \<and> strip (get_str a ''operator'') \<noteq> [] \<and> strip (get_str b ''operator'') \<noteq> []"
proof -
  from assms obtain approvals where run: "load_valid_approvals_for_target x y dir target g w = (Inr approvals, w')"
    and two: "2 \<le> length (operators_of approvals)"
    by (auto simp: load_active_approval_for_target_def bindE_Inr ret_run Let_def split: if_splits)
  obtain m n where "m \<in> set (operators_of approvals)" "n \<in> set (operators_of approvals)" "m \<noteq> n"
    using two_different [OF two] by (auto simp: operators_of_def)
  then obtain a b where ab: "a \<in> set approvals" "b \<in> set approvals" "strip (get_str a ''operator'') = m" "m \<noteq> []"
      "strip (get_str b ''operator'') = n" "n \<noteq> []"
    by (auto simp: operators_of_def)
  from valid_approvals [OF run ab(1)] valid_approvals [OF run ab(2)] ab \<open>m \<noteq> n\<close> show ?thesis by blast
qed

definition patient_ext :: ext where
  "patient_ext = sample_ext\<lparr>k_parse_iso := (\<lambda>_. Some 10)\<rparr>"

definition lenient_keys :: agent_ext where
  "lenient_keys = sample_keys\<lparr>v_verify := (\<lambda>_ _ _. True)\<rparr>"

definition approval_key :: approval_signer where
  "approval_key = \<lparr>ap_key = ''k'', ap_pub = ''k'', ap_key_id = ''id'', ap_fpr = ''h''\<rparr>"

definition approval_by :: "string \<Rightarrow> pydict" where
  "approval_by name = [(''target'', PStr ''fuxa''), (''operator'', PStr name), (''decision'', PStr ''approve''),
     (''expires_at'', PStr ''later''), (''signature'', PDict [(''algorithm'', PStr ''ed25519''), (''key_id'', PStr ''id''),
        (''fingerprint_sha256'', PStr ''h''), (''signature_base64'', PStr ''s'')])]"

definition two_approvals :: agent_state where
  "two_approvals = sample_agent [(''/a/1.json'', Json (PDict (approval_by ''ann''))), (''/a/2.json'', Json (PDict (approval_by ''bob'')))]"

lemma sample_verifies: "fst (verify_approval patient_ext lenient_keys approval_key (approval_by name))"
proof -
  have "json_ok (PDict (canonical_approval_payload (approval_by name)))"
    by (simp add: canonical_approval_payload_def approval_fields_def approval_by_def dget_def)
  then have bytes: "fst (approval_bytes_verified patient_ext lenient_keys approval_key (approval_by name) ''s'')"
    by (simp add: approval_bytes_verified_def canonical_json_bytes_agent_def lenient_keys_def patient_ext_def sample_ext_def
        del: json_ok.simps)
  have texts: "lower ''ed25519'' = ''ed25519''" "strip ''id'' = ''id''" "lower (strip ''h'') = ''h''" "lower ''h'' = ''h''"
    "strip ''s'' = ''s''"
    by code_simp+
  show ?thesis using bytes
    by (simp add: verify_approval_def approval_by_def dget_def get_str_def dget_or_def texts approval_key_def Let_def)
qed

lemma sample_considered:
  assumes "map_of (g_files w) p = Some (Json (PDict (approval_by name)))" and "g_clock w (g_ticks w) < 10"
  shows "consider_approval patient_ext lenient_keys approval_key ''fuxa'' p w
    = (Inr (Some (approval_by name)), w\<lparr>g_ticks := Suc (g_ticks w)\<rparr>)"
proof -
  have fields: "get_str (approval_by name) ''target'' = ''fuxa''" "lower (get_str (approval_by name) ''decision'') = ''approve''"
    "strip (get_str (approval_by name) ''expires_at'') = ''later''"
    by (simp_all add: approval_by_def get_str_def dget_or_def) (code_simp)+
  have "parse_rfc3339_utc patient_ext ''later'' = Inr 10" by (simp add: parse_rfc3339_utc_def patient_ext_def)
  with fields assms show ?thesis
    by (simp add: consider_approval_def approval_in_force_def unexpired_def sample_verifies read_json_def read_file_def
        json_of_file_def need_dict_def lift_def utc_now_def eff_defs)
qed

theorem dual_approval_needs_two_operators_witness:
  "\<exists>summary w' p q a b. load_active_approval_for_target patient_ext lenient_keys ''/a'' ''fuxa'' approval_key ''dual'' two_approvals
       = (Inr (Some summary, ''approved_dual''), w')
     \<and> approves patient_ext lenient_keys approval_key ''fuxa'' two_approvals w' p a
     \<and> approves patient_ext lenient_keys approval_key ''fuxa'' two_approvals w' q b
     \<and> strip (get_str a ''operator'') \<noteq> strip (get_str b ''operator'')"
proof -
  have files: "json_files_in ''/a'' two_approvals = [''/a/1.json'', ''/a/2.json'']" by code_simp
  have ops: "operators_of [approval_by ''bob'', approval_by ''ann''] = [''ann'', ''bob'']" by code_simp
  have map_of: "map_of (g_files two_approvals) ''/a/1.json'' = Some (Json (PDict (approval_by ''ann'')))"
    "map_of (g_files two_approvals) ''/a/2.json'' = Some (Json (PDict (approval_by ''bob'')))"
    "g_clock two_approvals n < 10" for n
    by (simp_all add: two_approvals_def sample_agent_def)
  have "load_valid_approvals_for_target patient_ext lenient_keys ''/a'' ''fuxa'' approval_key two_approvals
      = (Inr [approval_by ''bob'', approval_by ''ann''],
         two_approvals\<lparr>g_ticks := Suc (Suc (g_ticks two_approvals))\<rparr>)"
    by (simp add: load_valid_approvals_for_target_def files map_of sample_considered eff_defs map_filter_simps)
  then obtain summary w' where run: "load_active_approval_for_target patient_ext lenient_keys ''/a'' ''fuxa'' approval_key ''dual''
      two_approvals = (Inr (Some summary, ''approved_dual''), w')"
    by (simp add: load_active_approval_for_target_def ops eff_defs)
  from dual_approval_needs_two_operators [OF this] run show ?thesis by blast
qed

end

