(* ===== verification/Quarantine_Properties.thy ===== *)
theory Quarantine_Properties
  imports Agent_Quarantine_Facts Gate_Properties
begin

text \<open>
  The quarantine of revoked certificates: what it can do to the files of a runtime, and when it
  does anything at all.
\<close>

lemma executed:
  assumes beside: "beside (rt_root (qs_cfg qs)) (revoked_area qs plan_id)"
    and q: "assert_path_inside (rt_root (qs_cfg qs)) q = Inr ()" "\<not> document q"
    and forward: "goes_forward plan"
    and probe: "\<And>n. place (join (rt_root (qs_cfg qs)) (probe_name (g_uuid w n))) \<noteq> place q"
    and run: "execute_plan qs plan_id now plan w = (r, w')"
  shows "g_files w' = g_files w \<or>
    setting_blocks qs = [] \<and> get_str plan ''decision'' = ''ready_for_quarantine'' \<and>
    sheltered (rt_root (qs_cfg qs)) (revoked_area qs plan_id) (set (plan_items plan)) q (file_at q w) w'"
proof (cases "get_str plan ''decision'' = ''ready_for_quarantine''")
  case False
  with run show ?thesis by (simp add: execute_plan_def Let_def ret_def)
next
  case True
  obtain b w1 where b: "quarantine_blocks qs plan w = (b, w1)" by fastforce
  note same = ticks_files [OF newest_ticks(4) b]
  show ?thesis
  proof (cases b)
    case (Inl e)
    with run b True same show ?thesis by (simp add: execute_plan_def Let_def bindE_def)
  next
    case (Inr v)
    obtain reasons found d where v: "v = (reasons, found, d)" by (metis prod.exhaust)
    have "take (length (setting_blocks qs)) reasons = setting_blocks qs"
      using b Inr v by (auto simp: quarantine_blocks_def Let_def bindE_Inr ret_run)
    then have ok: "reasons = [] \<Longrightarrow> setting_blocks qs = []" by simp
    obtain o1 w2 where carried: "carry_out_quarantine qs plan_id now (plan_items plan) w1 = (o1, w2)" by fastforce
    have "sheltered (rt_root (qs_cfg qs)) (revoked_area qs plan_id) (set (plan_items plan)) q (file_at q w1) w2"
      by (rule carried_out [OF beside q _ _ carried]) (use forward probe same in \<open>auto simp: goes_forward_def\<close>)
    with run b Inr v True same ok carried show ?thesis
      by (auto simp: execute_plan_def Let_def bindE_def ret_def plan_items_def file_at_def split: if_splits sum.splits)
  qed
qed

lemma receipt_shelters:
  assumes "\<And>e. e \<in> items \<Longrightarrow> ''..'' \<notin> set (comps (item_rel e))" and "\<not> document q"
  shows "evolves (shelters root (revoked_area qs plan_id) items q c) (file_document dir now key d)"
  unfolding file_document_def
  by (intro shelter.combinators evolves_rules write_document_shelters assms document_join dated_name_json)

lemma activated:
  assumes run: "activate_revocation_quarantine_once qs plan_id w = (res, w')"
  shows "g_files w' = g_files w \<or> (\<exists>w1 now plan r w2 dir key receipt.
     g_files w1 = g_files w \<and> g_uuid w1 = g_uuid w \<and> plan_on_disk (qs_ext qs) plan_id w plan
     \<and> execute_plan qs plan_id now plan w1 = (r, w2)
     \<and> (w' = w2 \<or> w' = snd (file_document dir now key receipt w2)))"
proof (cases "qs_target qs \<in> set quarantine_targets \<and> plan_id \<noteq> []")
  case False
  with run show ?thesis by (auto simp: activate_revocation_quarantine_once_def Let_def raise_def split: if_splits)
next
  case True
  obtain r0 w0 where now: "iso_now_z w = (r0, w0)" by fastforce
  have "\<exists>t. r0 = Inr t" using now by (auto simp: iso_now_z_def utc_now_def bindE_def ret_def)
  then obtain now where r0: "r0 = Inr now" ..
  obtain found w1 where load: "load_quarantine_plan (qs_ext qs) (qs_plan_dir qs) (qs_target qs) plan_id w0 = (found, w1)"
    by fastforce
  note same = ticks_files [OF now_ticks now] ticks_files [OF newest_ticks(2) load]
  show ?thesis
  proof (cases "\<exists>p plan. found = Inr (Some (p, plan))")
    case False
    with run now r0 load True same show ?thesis
      by (auto simp: activate_revocation_quarantine_once_def Let_def bindE_def raise_def split: sum.splits option.splits)
  next
    case found: True
    then obtain p plan where plan: "found = Inr (Some (p, plan))" by blast
    obtain r w2 where exec: "execute_plan qs plan_id now plan w1 = (r, w2)" by fastforce
    have disk: "plan_on_disk (qs_ext qs) plan_id w plan"
      using loaded_plan [OF load [unfolded plan]] same by (simp add: plan_on_disk_def)
    let ?fin = "\<lambda>out. file_document (join (qs_receipt_dir qs) (qs_target qs)) now ''receipt_path''
      (quarantine_receipt qs plan_id now p out)"
    have eq: "activate_revocation_quarantine_once qs plan_id w = bindE (execute_plan qs plan_id now plan) ?fin w1"
      using now r0 load plan True
      by (simp add: activate_revocation_quarantine_once_def Let_def bindE_def [of iso_now_z]
          bindE_def [of "load_quarantine_plan (qs_ext qs) (qs_plan_dir qs) (qs_target qs) plan_id"])
    have "w' = w2 \<or> (\<exists>dir key receipt. w' = snd (file_document dir now key receipt w2))"
    proof (cases r)
      case (Inl e)
      with run exec eq show ?thesis by (simp add: bindE_def [of "execute_plan qs plan_id now plan"])
    next
      case (Inr out)
      have "bindE (execute_plan qs plan_id now plan) ?fin w1 = ?fin out w2"
        by (rule bindE_step [where y = out]) (rule exec [unfolded Inr])
      with run eq have "?fin out w2 = (res, w')" by (simp only:)
      then have "w' = snd (?fin out w2)" by (simp only: snd_conv)
      then show ?thesis by blast
    qed
    with exec disk same show ?thesis by metis
  qed
qed

text \<open>C5: A quarantine loses nothing and moves only what it may. Whether it succeeds or fails at any
  point, a file of the runtime that is not a JSON document is as it was, or it is gone and its
  content lies at its place in the quarantine area of the plan; the latter only for a path that
  is eligible and is no place of the private key of the target, under a plan on disk that is
  ready, with writing enabled, the runtime mounted for writing and the target enabled. The
  quarantine area and the runtime must lie apart, the paths of the plan must not climb to parent
  directories, and the file must not be called like the probe for writing.\<close>

theorem quarantine_loses_nothing:
  assumes beside: "beside (rt_root (qs_cfg qs)) (revoked_area qs plan_id)"
    and forward: "\<And>plan. plan_on_disk (qs_ext qs) plan_id w plan \<Longrightarrow> goes_forward plan"
    and q: "assert_path_inside (rt_root (qs_cfg qs)) q = Inr ()" "\<not> document q"
    and probe: "\<And>n. place (join (rt_root (qs_cfg qs)) (probe_name (g_uuid w n))) \<noteq> place q"
    and run: "activate_revocation_quarantine_once qs plan_id w = (res, w')"
  shows "file_at q w' = file_at q w \<or> file_at q w' = None \<and>
    (\<forall>k \<in> set (target_private_key_candidates (qs_target qs)). place q \<noteq> place (join (rt_root (qs_cfg qs)) k)) \<and>
    (\<exists>plan d. plan_on_disk (qs_ext qs) plan_id w plan \<and> get_str plan ''decision'' = ''ready_for_quarantine''
      \<and> qs_write_enabled qs \<and> qs_mode qs = ''rw'' \<and> qs_target qs \<in> set (qs_targets qs)
      \<and> d \<in> set (plan_items plan) \<and> is_quarantine_eligible_runtime_path (item_rel d)
      \<and> place (path_join (rt_root (qs_cfg qs)) (item_rel d)) = place q
      \<and> file_at (path_join (revoked_area qs plan_id) (item_rel d)) w' = file_at q w)"
proof (cases "g_files w' = g_files w")
  case True
  then show ?thesis by (simp add: file_at_def)
next
  case False
  let ?root = "rt_root (qs_cfg qs)" and ?area = "revoked_area qs plan_id"
  from activated [OF run] False obtain w1 now plan r w2 dir key receipt where
    same: "g_files w1 = g_files w" "g_uuid w1 = g_uuid w" and plan: "plan_on_disk (qs_ext qs) plan_id w plan"
    and exec: "execute_plan qs plan_id now plan w1 = (r, w2)"
    and fin: "w' = w2 \<or> w' = snd (file_document dir now key receipt w2)"
    by blast
  note forward = forward [OF plan]
  have later: "shelters ?root ?area items q c w2 w'" if "items \<subseteq> set (plan_items plan)" for items c
    using fin receipt_shelters [of items q ?root qs plan_id c dir now key receipt] that forward q(2)
    by (auto simp: evolves_def goes_forward_def shelter.evo_refl subset_iff)
  have start: "file_at q w1 = file_at q w" using same by (simp add: file_at_def)
  from executed [OF beside q forward _ exec] probe same consider "g_files w2 = g_files w1"
    | "setting_blocks qs = []" "get_str plan ''decision'' = ''ready_for_quarantine''"
      "sheltered ?root ?area (set (plan_items plan)) q (file_at q w) w2"
    unfolding start by auto
  then show ?thesis
  proof cases
    case 1
    with start have "sheltered ?root ?area {} q (file_at q w) w2" by (simp add: sheltered_def file_at_def)
    with later [of "{}"] show ?thesis by (simp add: shelters_def sheltered_def)
  next
    case 2
    then have "qs_write_enabled qs" "qs_mode qs = ''rw''" "qs_target qs \<in> set (qs_targets qs)"
      by (auto simp: setting_blocks_def split: if_splits)
    moreover have "place (path_join ?root (item_rel d)) = place q \<Longrightarrow> is_quarantine_eligible_runtime_path (item_rel d) \<Longrightarrow>
        \<forall>k \<in> set (target_private_key_candidates (qs_target qs)). place q \<noteq> place (join ?root k)" for d
      using eligible_no_key by metis
    ultimately show ?thesis using 2 later [of "set (plan_items plan)"] plan
      unfolding shelters_def sheltered_def by blast
  qed
qed

text \<open>The restriction to paths that do not climb is needed: eligibility is decided on the text of a path,
  and one that climbs can lead to a certificate of an issuer.\<close>

lemma climbing_path_is_eligible:
  "is_quarantine_eligible_runtime_path ''trusted/certs/../../issuers/certs/ca.der''
    \<and> assert_path_inside ''/r'' (path_join ''/r'' ''trusted/certs/../../issuers/certs/ca.der'') = Inr ()
    \<and> place (path_join ''/r'' ''trusted/certs/../../issuers/certs/ca.der'') = ''/r/issuers/certs/ca.der''"
  by code_simp

text \<open>A runtime with a revoked certificate among the trusted ones and one of its own.\<close>

definition no_crypto :: runtime_ext where
  "no_crypto = \<lparr>rx_load_der = (\<lambda>_. None), rx_crl_serials = (\<lambda>_. None), rx_access = (\<lambda>_. Readable)\<rparr>"

definition open_policy :: maintenance_policy where
  "open_policy = \<lparr>mp_timezone = ''UTC'', mp_targets = [(''fuxa'', \<lparr>pl_windows = [], pl_blackouts = [],
     pl_policy = \<lparr>tp_window_required = False, tp_level = ''single'', tp_override = False, tp_rollback = True\<rparr>\<rparr>)],
     mp_blackouts = []\<rparr>"

definition sample_quarantine :: quarantine where
  "sample_quarantine = \<lparr>qs_ext = patient_ext, qs_keys = lenient_keys, qs_rx = no_crypto, qs_zones = (\<lambda>_. None),
     qs_cfg = (fuxa_cfg (\<lambda>_. None))\<lparr>rt_root := ''/r''\<rparr>, qs_revocation_dir = ''/v'', qs_plan_dir = ''/p'',
     qs_receipt_dir = ''/e'', qs_quarantine_dir = ''/q'', qs_validation_dir = ''/z'', qs_preflight_dir = ''/f'',
     qs_approvals_dir = ''/a'', qs_policy = open_policy, qs_signer = approval_key, qs_write_enabled = True,
     qs_targets = [''fuxa''], qs_fuxa_mode = ''rw'', qs_opcua_mode = ''ro''\<rparr>"

definition sample_plan :: pydict where
  "sample_plan = [(''plan_id'', PStr ''7''), (''decision'', PStr ''ready_for_quarantine''),
     (''revocation_report_path'', PStr ''/v/fuxa/1.json''),
     (''quarantine_candidates'', PList [PDict [(''relative_path'', PStr ''trusted/certs/a.der'')],
       PDict [(''relative_path'', PStr ''own/certs/a.der'')]])]"

definition revoked_runtime :: agent_state where
  "revoked_runtime = sample_agent [(''/r/trusted/certs/a.der'', Bytes ''c''), (''/r/own/certs/a.der'', Bytes ''o''),
     (''/a/1.json'', Json (PDict (approval_by ''ann''))), (''/f/fuxa/1.json'', Json (PDict [(''decision'', PStr ''eligible'')])),
     (''/p/fuxa/1.json'', Json (PDict sample_plan)), (''/v/fuxa/1.json'', Json (PDict []))]"

lemma sample_forward:
  assumes "plan_on_disk (qs_ext sample_quarantine) ''7'' revoked_runtime plan"
  shows "goes_forward plan"
proof -
  from assms obtain p c where c: "map_of (g_files revoked_runtime) p = Some c"
      "json_of_file (qs_ext sample_quarantine) c = Inr (PDict plan)" and id: "get_str plan ''plan_id'' = ''7''"
    by (auto simp: plan_on_disk_def)
  have no_json: "k_json_loads (qs_ext sample_quarantine) t = None" for t
    by (simp add: sample_quarantine_def patient_ext_def sample_ext_def)
  from map_of_SomeD [OF c(1)] c(2) no_json have "plan \<in> {approval_by ''ann'', [(''decision'', PStr ''eligible'')], sample_plan, []}"
    by (auto simp: revoked_runtime_def sample_agent_def json_of_file_def)
  moreover have "get_str (approval_by ''ann'') ''plan_id'' = []" "get_str [(''decision'', PStr ''eligible'')] ''plan_id'' = []"
    "get_str [] ''plan_id'' = []"
    by code_simp+
  ultimately have "plan = sample_plan" using id by auto
  moreover have "goes_forward sample_plan" by code_simp
  ultimately show ?thesis by simp
qed

theorem quarantine_loses_nothing_witness:
  "\<exists>res w' plan d. activate_revocation_quarantine_once sample_quarantine ''7'' revoked_runtime = (res, w')
     \<and> file_at ''/r/trusted/certs/a.der'' w' = None \<and> d \<in> set (plan_items plan)
     \<and> file_at (path_join (revoked_area sample_quarantine ''7'') (item_rel d)) w' = Some (Bytes ''c'')"
proof -
  obtain res w' where run: "activate_revocation_quarantine_once sample_quarantine ''7'' revoked_runtime = (res, w')" by fastforce
  let ?q = "''/r/trusted/certs/a.der''"
  have "file_at ?q (snd (activate_revocation_quarantine_once sample_quarantine ''7'' revoked_runtime)) = None"
    by code_simp
  then have away: "file_at ?q w' = None" by (simp only: run snd_conv)
  have "beside (rt_root (qs_cfg sample_quarantine)) (revoked_area sample_quarantine ''7'')"
    "assert_path_inside (rt_root (qs_cfg sample_quarantine)) ?q = Inr ()" "\<not> document ?q"
    and before: "file_at ?q revoked_runtime = Some (Bytes ''c'')"
    by code_simp+
  note conds = this(1-3)
  have "place (join (rt_root (qs_cfg sample_quarantine)) (probe_name (g_uuid revoked_runtime n))) \<noteq> place ?q" for n
  proof (rule probe_apart)
    show "CHR ''/'' \<notin> set (g_uuid revoked_runtime n)"
      using nat_str_digits [of n] by (auto simp: revoked_runtime_def sample_agent_def list_all_iff is_digit_def)
    show "length (resolved ?q) \<noteq> Suc (length (resolved (rt_root (qs_cfg sample_quarantine))))" by code_simp
  qed
  from quarantine_loses_nothing [OF conds(1) sample_forward conds(2,3) this run] away before run show ?thesis by auto
qed

end
