(* ===== verification/Report_Properties.thy ===== *)
theory Report_Properties
  imports Agent_Scenario
begin

text \<open>
  What a report of risk \<open>LOW\<close> promises: the two lists name the same applications, with the same
  fingerprints and common names, and no end of validity has moved.
\<close>

definition entries_agree :: "cert_entry \<Rightarrow> cert_entry \<Rightarrow> bool" where
  \<comment> \<open>an end of validity that is unknown on one side counts as no change\<close>
  "entries_agree before after \<longleftrightarrow> lower_or_empty (ce_fpr before) = lower_or_empty (ce_fpr after) \<and> ce_name before = ce_name after
     \<and> (ce_not_after before = ce_not_after after \<or> ce_not_after before \<in> {None, Some []} \<or> ce_not_after after \<in> {None, Some []})"

lemma risk_low:
  assumes "fst (risk_of reasons added removed changed ca) = ''LOW''"
  shows "reasons = []" "added = []" "removed = []" "\<not> ca" "change_types changed \<inter> alarming = {}"
    "PStr ''not_after_extended'' \<notin> change_types changed"
  using assms by (auto simp: risk_of_def split: if_splits)

lemma sorted_keys_Inr: "sorted_keys ks = Inr ls \<Longrightarrow> set ls = set ks"
  by (auto simp: sorted_keys_def split: if_splits)

lemma quiet_entry:
  assumes "entry_changes uri before after = Inr cs" and "change_types cs \<inter> alarming = {}"
    and "PStr ''not_after_extended'' \<notin> change_types cs"
  shows "entries_agree before after"
proof -
  obtain f1 f2 where f: "lower_or_empty (ce_fpr before) = Inr f1" "lower_or_empty (ce_fpr after) = Inr f2"
    using assms(1) by (auto simp: entry_changes_def bindS_Inr)
  have "f1 = f2" and "ce_name before = ce_name after"
    using assms(1,2) f
    by (auto simp: entry_changes_def bindS_def change_types_def alarming_def dget_def split: if_splits)
  moreover have "ce_not_after before = ce_not_after after \<or> ce_not_after before \<in> {None, Some []} \<or> ce_not_after after \<in> {None, Some []}"
  proof (rule ccontr)
    assume moved: "\<not> ?thesis"
    then have "not_after_kind (ce_not_after before) (ce_not_after after) \<in> {''not_after_extended'', ''not_after_reduced''}"
      by (auto simp: not_after_kind_def split: option.splits)
    moreover have "PStr (not_after_kind (ce_not_after before) (ce_not_after after)) \<in> change_types cs"
      using assms(1) f moved by (auto simp: entry_changes_def bindS_def change_types_def dget_def)
    ultimately show False using assms(2,3) by (auto simp: alarming_def)
  qed
  ultimately show ?thesis using f by (simp add: entries_agree_def)
qed

lemma change_types_append [simp]: "change_types (a @ b) = change_types a \<union> change_types b"
  by (auto simp: change_types_def)

lemma moved_is_alarming: "change_types (map moved_dict m) \<inter> alarming = {} \<Longrightarrow> m = []"
  by (cases m) (auto simp: change_types_def moved_dict_def dget_def alarming_def split: prod.splits)

lemma mapS_member: "mapS f xs = Inr ys \<Longrightarrow> x \<in> set xs \<Longrightarrow> \<exists>y \<in> set ys. f x = Inr y"
  by (induction xs arbitrary: ys) (auto simp: bindS_Inr)

lemma diff_low:
  assumes run: "diff_of x order (pi, pe) (ni, ne) ca crl reasons = Inr d" and low: "df_risk d = ''LOW''"
  shows "reasons = []" "pe = []" "ne = []" "\<not> ca" "set (map fst pi) = set (map fst ni)"
    and "\<And>k. k \<in> set (map fst pi) \<Longrightarrow> entries_agree (entry_at pi k) (entry_at ni k)"
proof -
  let ?m = "moved order pi ni"
  let ?both = "filter (\<lambda>k. k \<in> set (map fst ni)) (map fst pi)"
  let ?gained = "filter (\<lambda>k. k \<notin> set (map fst pi) \<and> k \<notin> set (map (snd \<circ> snd) ?m)) (map fst ni)"
  let ?lost = "filter (\<lambda>k. k \<notin> set (map fst ni) \<and> k \<notin> set (map (fst \<circ> snd) ?m)) (map fst pi)"
  obtain common per g l where common: "sorted_keys ?both = Inr common"
    and per: "mapS (\<lambda>k. entry_changes k (entry_at pi k) (entry_at ni k)) common = Inr per"
    and g: "sorted_keys ?gained = Inr g" and l: "sorted_keys ?lost = Inr l"
    and risk: "df_risk d = fst (risk_of (reasons @ pe @ ne) (map (\<lambda>k. cert_view_agent k (entry_at ni k)) g)
      (map (\<lambda>k. cert_view_agent k (entry_at pi k)) l) (map moved_dict ?m @ concat per) ca)"
    using run by (auto simp: diff_of_def Let_def bindS_Inr case_prod_unfold)
  note facts = risk_low [OF risk [symmetric, unfolded low]]
  from facts(1) show "reasons = []" "pe = []" "ne = []" by auto
  from facts(4) show "\<not> ca" .
  have m: "?m = []" using facts(5) by (intro moved_is_alarming) auto
  from facts(2,3) have "g = []" "l = []" by auto
  with sorted_keys_Inr [OF g] sorted_keys_Inr [OF l] m show same: "set (map fst pi) = set (map fst ni)" by auto
  fix k assume "k \<in> set (map fst pi)"
  with same sorted_keys_Inr [OF common] have "k \<in> set common" by auto
  then obtain cs where "cs \<in> set per" and cs: "entry_changes k (entry_at pi k) (entry_at ni k) = Inr cs"
    using mapS_member [OF per] by blast
  then have "change_types cs \<subseteq> change_types (map moved_dict ?m @ concat per)"
    by (auto simp: change_types_def)
  with facts(5,6) show "entries_agree (entry_at pi k) (entry_at ni k)" by (intro quiet_entry [OF cs]) auto
qed


definition one_entry :: pydict where
  "one_entry = [(''version'', PInt 1), (''ca_chain_pem'', PStr ''BEGIN CERTIFICATE''), (''certificates'', PList [PDict
     [(''application_uri'', PStr ''urn:a''), (''common_name'', PStr ''a''), (''fingerprint_sha256'', PStr ''f'')]])]"

lemma report_made:
  assumes "certs_of prev = Inr pc" "certs_of cur = Inr nc" "build_cert_index x pc = Inr pi" "build_cert_index x nc = Inr ni"
    "content_reasons cur = Inr extra" "diff_of x order pi ni ca crl (reasons @ extra) = Inr d0"
  shows "\<exists>d w'. build_diff_report x order prev cur ca crl reasons w = (Inr d, w') \<and> df_risk d = df_risk d0"
  using assms by (simp add: build_diff_report_def lift_def bindS_def new_uuid_def utc_now_def eff_defs)

definition one_index :: cert_index where
  "one_index = [(PStr ''urn:a'', \<lparr>ce_name = PStr ''a'', ce_fpr = PStr ''f'', ce_pem = PNone, ce_not_after = None\<rparr>)]"


end
