(* ===== verification/Spec2Isabelle.thy ===== *)
theory Spec2Isabelle
  imports Service Inventory_Properties Trust_Properties Vault_Properties Lifecycle_Properties Api_Properties
    Agent_Register Activation_Properties Quarantine_Properties Gate_Properties Report_Properties
begin

text \<open>
  A model of the OPC UA Global Discovery Service of this repository, \<open>gds/app\<close>, and of the agent
  that pulls its trust material for the runtimes of a zone, \<open>gds-agent/app/main.py\<close>, and proofs
  of what they promise. The service keeps an inventory of OPC UA applications and their
  certificates in PostgreSQL, has certificates issued by Vault, publishes signed trust
  artifacts and certificate packages for pull agents, and offers an OPC UA facade.

  The parts, in the order of their imports. \<open>GDS_Prelude\<close>, \<open>Py_Text\<close>: Python values, strings,
  exceptions and the state-and-exception monad. \<open>Db_Schema\<close>, \<open>Db_Inventory\<close>, \<open>Db_Trust\<close>,
  \<open>Db_Packages\<close> (facts: \<open>Db_Facts\<close>): \<open>db.py\<close>, one record per table, one definition per function,
  the constraints of the schema as the invariant \<open>db_inv\<close>, and \<open>db_forward\<close>, what no function
  undoes. \<open>Settings\<close>: \<open>config.py\<close>. \<open>Agent_Auth\<close>: \<open>agent_auth.py\<close>. \<open>World\<close>: the state of the API
  process and its environment, clock, random identifiers, connection and Vault's answers, as
  streams, so that a theorem holds for every behaviour of the environment. \<open>Signing\<close>,
  \<open>Json_Canonical\<close>: \<open>artifact_signing.py\<close>, \<open>package_signing.py\<close>, \<open>cert_utils.py\<close> and the injectivity
  of canonical JSON. \<open>Runtime_Adapters\<close>: \<open>runtime_adapters.py\<close>. \<open>Vault\<close>, \<open>Vault_Facts\<close>:
  \<open>vault_client.py\<close>. \<open>Lifecycle\<close>, \<open>Lifecycle_Facts\<close>: \<open>lifecycle.py\<close>. \<open>Checks\<close>: \<open>checks.py\<close>,
  \<open>preflight.py\<close>, \<open>inventory.py\<close>. \<open>Collector\<close>, \<open>Collector_Facts\<close>: \<open>dmz_collector_sender.py\<close>. \<open>Facade\<close>,
  \<open>Facade_Facts\<close>: \<open>opcua_boundary_adapter.py\<close>. \<open>Boundary\<close>, \<open>Boundary_Facts\<close>, \<open>Artifacts\<close>,
  \<open>Artifacts_Facts\<close>: of \<open>main.py\<close> the request boundary, the authorisation of agents, the trust
  artifacts and their endpoints. \<open>Api_Core\<close>, \<open>Api_Inventory\<close>, \<open>Api_Revocation\<close>, \<open>Api_Components\<close>,
  \<open>Api_Packages\<close> (facts: \<open>Api_Facts\<close>): the other endpoints of \<open>main.py\<close>. \<open>Rest\<close>: its routes, each
  handler behind the boundary (\<open>Rest_Facts\<close>: who gets to a handler; \<open>Revocation_Facts\<close>: what a
  revocation does). \<open>Service\<close>: all of it as one transition system.

  The agent, all of it from \<open>gds-agent/app/main.py\<close>. \<open>Agent_Core\<close>: environment, untyped JSON values,
  canonical documents. \<open>Agent_Targets\<close>: the catalogue of runtimes. \<open>Agent_Verify\<close>: what is checked of
  a trust anchor, a signed artifact, a package manifest and the content of a trust list
  (\<open>Agent_Verify_Facts\<close>: its canonical documents are those of the service). \<open>Agent_World\<close>: the
  agent's state, a store of files with the requests sent and the events forwarded; clock,
  identifiers, answers and the success of writes are streams. \<open>Agent_Policy\<close>, \<open>Agent_Approval\<close>:
  maintenance windows and blackouts, signed approvals of operators, the gate. \<open>Agent_Report\<close>: the
  comparison of two trust lists. \<open>Agent_Telemetry\<close>: events for the collector. \<open>Agent_Sync\<close>,
  \<open>Agent_Cycle\<close>: the signed synchronisation cycle, target by target, the service's telemetry, and
  the pulling of packages. \<open>Agent_Preview\<close>: previews, gates and activation plans.
  \<open>Agent_Activation\<close>: a staged package is put into a runtime. \<open>Agent_Inspection\<close>: the reading of a
  runtime and inventory drift. \<open>Agent_Plain_Cycle\<close>: the cycle without signatures.
  \<open>Agent_Revocation\<close>: the revocation update. \<open>Agent_Quarantine\<close>: revoked certificates are moved out
  of a runtime. The agent meets the service in its
  signed documents: \<open>signature_document\<close> and \<open>build_signed_artifact\<close> make what
  \<open>verify_signed_artifact\<close> checks. \<open>Agent_Facts\<close> holds what an operation does to one file, with the
  locale \<open>evolution\<close> interpreted on it, and \<open>Agent_Reads\<close> the operations that change none.

  The interfaces are locales: \<open>evolution\<close> (a reflexive and transitive relation that the
  combinators push through an operation), \<open>versioned_log\<close> (the numbered logs of the database)
  and \<open>vault_neutral\<close> (a relation that the primitives of the Vault client respect), each
  interpreted on the model. \<open>Outcomes\<close> holds the rules for postconditions, totality, requests
  sent and frames.

  The properties. \<open>Inventory_Properties\<close>: applications, certificates, trust lists, package
  lineages, configuration. \<open>Trust_Properties\<close>: canonical JSON, signatures, regeneration of
  artifacts. \<open>Vault_Properties\<close>: throttling, token, seal, revocation lists.
  \<open>Lifecycle_Properties\<close>: issuing and the facade. \<open>Edge_Properties\<close>: the boundary, agents, the
  collector's events. \<open>Api_Properties\<close>: access to the endpoints of agents, revocation.
  \<open>Agent_Properties\<close>: the agent accepts what the service publishes, and nothing else under an
  unforgeable key. \<open>Agent_Register\<close>: the cache of trust lists refines the abstract register
  \<open>register_step\<close>, which never moves back. \<open>Gate_Properties\<close>: gate and dual approvals.
  \<open>Report_Properties\<close>: reports of low risk. \<open>Activation_Properties\<close> (facts:
  \<open>Agent_Activation_Facts\<close>): private keys survive an activation. \<open>Quarantine_Properties\<close>
  (facts: \<open>Agent_Quarantine_Facts\<close>): a quarantine loses no file. This theory: what every reachable
  state of the service satisfies. \<open>Scenarios\<close>, \<open>Revocation_Scenario\<close> and \<open>Agent_Scenario\<close> hold the
  concrete environments of the witnesses.

  Bounds. The loops of the sources are over lists and are structural recursions; the waiting
  loops of \<open>preflight.py\<close> and of the event sender are functions of the number of their turns,
  a theorem about them holds for every number. Integers of Python are unbounded; the
  threshold of regeneration uses double arithmetic, which is written out.

  Code that is not under \<open>src/\<close> (hashes, signatures, X.509 and JSON parsing, the OPC UA server,
  the HTTP framework) is a parameter (\<open>ext\<close>) or an oracle of the environment.

  Not modelled: the JSON log formatter, the ASGI wiring and the rendering of responses of
  \<open>main.py\<close>, the C gateway and the scripts. Concurrency inside the API process is not modelled: a
  call is one step. Of the agent: the staging of bundles, renewal, rollback runs,
  component enrolment, the HTTP client's set-up, argument parsing and \<open>main\<close>; its files are whole documents (a write replaces a file or leaves it),
  paths of the runtime are resolved by their text, without symbolic links, and logging is left out.
\<close>

section \<open>Reachable states\<close>

inductive reachable :: "ext \<Rightarrow> signer \<Rightarrow> settings \<Rightarrow> world \<Rightarrow> world \<Rightarrow> bool"
  for x g st w0 where
  start: "reachable x g st w0 w0"
| call: "reachable x g st w0 w \<Longrightarrow> reachable x g st w0 (serve x g st c w)"

inductive_cases reachable_step: "reachable x g st w0 w"

lemma reachable_sound: "reachable x g st w0 w \<Longrightarrow> world_sound w0 w"
proof (induction rule: reachable.induct)
  case start
  show ?case by (rule wsound.evo_refl)
next
  case (call w c)
  from call.IH call_sound show ?case by (rule wsound.evo_trans)
qed

lemma reachable_call_sample:
  "reachable sample_ext sample_signer default_settings (sample_world d)
     (serve sample_ext sample_signer default_settings c (sample_world d))"
  by (intro reachable.intros)

text \<open>C1: Every reachable state of the service satisfies the constraints of the schema, its
  cache agrees with the stored artifacts, and the audit log has only grown at its end since
  the start, whatever calls were made and however Vault, the clock and the connection behaved.\<close>

theorem reachable_states_are_consistent:
  assumes "db_inv (w_db w0)" "cache_ok w0" "reachable x g st w0 w"
  shows "db_inv (w_db w) \<and> cache_ok w \<and> (\<exists>added. d_audit (w_db w) = d_audit (w_db w0) @ added)"
  using reachable_sound [OF assms(3)] assms(1,2)
  by (simp add: world_sound_def db_forward_def audit_forward_def)

theorem reachable_states_are_consistent_witness:
  "db_inv (w_db (serve sample_ext sample_signer default_settings SeedProfiles (sample_world artifact_db)))"
proof -
  have "db_inv (w_db (sample_world artifact_db))" unfolding sample_world_db by (rule artifact_db_inv)
  from conjunct1 [OF reachable_states_are_consistent [OF this sample_cache_ok reachable_call_sample]] show ?thesis .
qed

text \<open>C2: A revocation is final. A certificate revoked in some state keeps its status and its
  time of revocation in every state reached from it, and no trust list built there contains it.\<close>

theorem revocation_is_final:
  assumes "db_inv (w_db w0)" "reachable x g st w0 w"
    and "c \<in> set (d_certs (w_db w0))" "c_status c = ''revoked''" "c_revoked c \<noteq> None"
  shows "(\<exists>c' \<in> set (d_certs (w_db w)). c_id c' = c_id c \<and> c_status c' = ''revoked'' \<and> c_revoked c' = c_revoked c)
    \<and> (\<forall>zone role t l d'. build_trust_list zone role t (w_db w) = (Inr l, d') \<longrightarrow> c_id c \<notin> set (members_of d' (tl_id l)))"
proof -
  have fwd: "db_inv (w_db w)" "db_forward (w_db w0) (w_db w)"
    using reachable_sound [OF assms(2)] assms(1) by (simp_all add: world_sound_def)
  obtain c' where "c' \<in> set (d_certs (w_db w))" "cert_kept c c'"
    using fwd(2) assms(3) by (auto simp: db_forward_defs)
  then have "\<exists>c' \<in> set (d_certs (w_db w)). c_id c' = c_id c \<and> c_status c' = ''revoked'' \<and> c_revoked c' = c_revoked c"
    using assms(4,5) by (auto simp: cert_kept_def)
  moreover have "c_id c \<notin> set (members_of d' (tl_id l))"
    if "build_trust_list zone role t (w_db w) = (Inr l, d')" for zone role t l d'
    using revoked_not_member [OF assms(1,3-5) fwd that] .
  ultimately show ?thesis by blast
qed

definition revoked_db :: db where
  "revoked_db = demo_db [demo_cert 1 ''revoked'']"

theorem revocation_is_final_witness:
  "\<exists>c' \<in> set (d_certs (w_db (serve sample_ext sample_signer default_settings SeedInventory (sample_world revoked_db)))).
     c_id c' = 1 \<and> c_status c' = ''revoked''"
proof -
  have c: "demo_cert 1 ''revoked'' \<in> set (d_certs (w_db (sample_world revoked_db)))"
    by (simp add: sample_world_def revoked_db_def demo_db_def)
  have "db_inv (w_db (sample_world revoked_db))" by (simp add: sample_world_db revoked_db_def demo_db_inv)
  from conjunct1 [OF revocation_is_final [OF this reachable_call_sample [where c = SeedInventory] c]] show ?thesis
    by (auto simp: demo_cert_def simp del: serve.simps)
qed


definition pulled_again :: call where
  "pulled_again = Http (ReportPackageEvent ''k'' \<lparr>pb_state = ''PULLED'', pb_type = None, pb_details = None\<rparr>) (agent_req ''t'')"


end
